(* ===== verification/Prelude.thy ===== *)
theory Prelude
  imports Main
begin

text \<open>
  Shared vocabulary of the development: values a synchronous JavaScript function may
  throw instead of returning (a sum, \<open>Inl\<close> for the thrown error), arrays updated by key,
  insertion-ordered \<open>Map\<close> objects, candid options as the arrays of length at most one that
  the generated bindings use, and the interfaces (locales) the store's components share:
  an invertible encoding, and a slice of a state that holds a keyed array.
\<close>

named_theorems sum_simps \<open>equations of the sum monad used for synchronous throws\<close>
named_theorems keyed_simps \<open>arrays updated by key\<close>

section \<open>Functions that may throw\<close>

definition and_then :: "'e + 'a \<Rightarrow> ('a \<Rightarrow> 'e + 'b) \<Rightarrow> 'e + 'b" where
  "and_then r k = (case r of Inl e \<Rightarrow> Inl e | Inr x \<Rightarrow> k x)"

lemma and_then_simps [simp, sum_simps]:
  "and_then (Inl e) k = Inl e"
  "and_then (Inr x) k = k x"
  by (simp_all add: and_then_def)

lemma and_then_eq_Inr [sum_simps]:
  "and_then r k = Inr y \<longleftrightarrow> (\<exists>x. r = Inr x \<and> k x = Inr y)"
  by (cases r) auto

lemma and_then_eq_Inl [sum_simps]:
  "and_then r k = Inl e \<longleftrightarrow> r = Inl e \<or> (\<exists>x. r = Inr x \<and> k x = Inl e)"
  by (cases r) auto

lemma and_then_assoc: "and_then (and_then r f) g = and_then r (\<lambda>x. and_then (f x) g)"
  by (cases r) simp_all

text \<open>\<open>xs.map(f)\<close> where \<open>f\<close> may throw: the first element that throws aborts the call.\<close>

fun map_throwing :: "('a \<Rightarrow> 'e + 'b) \<Rightarrow> 'a list \<Rightarrow> 'e + 'b list" where
  "map_throwing f [] = Inr []"
| "map_throwing f (x # xs) =
     and_then (f x) (\<lambda>y. and_then (map_throwing f xs) (\<lambda>ys. Inr (y # ys)))"

lemma map_throwing_Inr [sum_simps]:
  "map_throwing f xs = Inr ys \<longleftrightarrow> list_all2 (\<lambda>x y. f x = Inr y) xs ys"
proof (induction xs arbitrary: ys)
  case Nil
  show ?case by auto
next
  case (Cons x xs)
  then show ?case
    by (cases ys) (auto simp: and_then_eq_Inr)
qed

lemma map_throwing_total: "(\<And>x. x \<in> set xs \<Longrightarrow> f x = Inr (g x)) \<Longrightarrow> map_throwing f xs = Inr (map g xs)"
  by (induction xs) auto

lemma length_map_throwing: "map_throwing f xs = Inr ys \<Longrightarrow> length ys = length xs"
  by (auto simp: map_throwing_Inr dest: list_all2_lengthD)

section \<open>Arrays updated by key\<close>

text \<open>
  The slices keep arrays of entities and update them with \<open>xs.map(x => x.id === k ? y : x)\<close>
  and \<open>xs.filter(x => x.id !== k)\<close>.
\<close>

definition replace_by :: "('a \<Rightarrow> 'k) \<Rightarrow> 'k \<Rightarrow> ('a \<Rightarrow> 'a) \<Rightarrow> 'a list \<Rightarrow> 'a list" where
  "replace_by key k f xs = map (\<lambda>x. if key x = k then f x else x) xs"

definition remove_by :: "('a \<Rightarrow> 'k) \<Rightarrow> 'k \<Rightarrow> 'a list \<Rightarrow> 'a list" where
  "remove_by key k xs = filter (\<lambda>x. key x \<noteq> k) xs"

lemma keys_replace_by [keyed_simps]:
  "(\<And>x. key x = k \<Longrightarrow> key (f x) = k) \<Longrightarrow> map key (replace_by key k f xs) = map key xs"
  by (simp add: replace_by_def)

lemma length_replace_by [keyed_simps, simp]: "length (replace_by key k f xs) = length xs"
  by (simp add: replace_by_def)

lemma replace_by_fresh [keyed_simps]: "k \<notin> key ` set xs \<Longrightarrow> replace_by key k f xs = xs"
  unfolding replace_by_def by (rule map_idI) auto

lemma remove_by_fresh [keyed_simps]: "k \<notin> key ` set xs \<Longrightarrow> remove_by key k xs = xs"
  by (auto simp: remove_by_def filter_id_conv)

lemma set_remove_by [keyed_simps, simp]: "set (remove_by key k xs) = {x \<in> set xs. key x \<noteq> k}"
  by (auto simp: remove_by_def)

lemma distinct_remove_by [keyed_simps]:
  "distinct (map key xs) \<Longrightarrow> distinct (map key (remove_by key k xs))"
  by (induction xs) (auto simp: remove_by_def)

lemma replace_remove_commute [keyed_simps]:
  assumes "k \<noteq> j" and "\<And>x. key x = k \<Longrightarrow> key (f x) = k"
  shows "replace_by key k f (remove_by key j xs) = remove_by key j (replace_by key k f xs)"
  using assms by (induction xs) (auto simp: replace_by_def remove_by_def)

lemma replace_replace_commute [keyed_simps]:
  assumes "k \<noteq> j" and "\<And>x. key x = k \<Longrightarrow> key (f x) = k" and "\<And>x. key x = j \<Longrightarrow> key (g x) = j"
  shows "replace_by key k f (replace_by key j g xs) = replace_by key j g (replace_by key k f xs)"
  using assms by (induction xs) (auto simp: replace_by_def)

lemma remove_remove_commute [keyed_simps]:
  "remove_by key k (remove_by key j xs) = remove_by key j (remove_by key k xs)"
  by (simp add: remove_by_def conj_commute)

section \<open>Insertion-ordered maps\<close>

text \<open>
  A JavaScript \<open>Map\<close> iterates in insertion order and \<open>set\<close> on a present key keeps its
  position: an association list with distinct keys.
\<close>

type_synonym ('k, 'v) js_map = "('k \<times> 'v) list"

fun js_map_set :: "'k \<Rightarrow> 'v \<Rightarrow> ('k, 'v) js_map \<Rightarrow> ('k, 'v) js_map" where
  "js_map_set k v [] = [(k, v)]"
| "js_map_set k v ((k', v') # m) = (if k' = k then (k', v) # m else (k', v') # js_map_set k v m)"

definition js_map_get :: "'k \<Rightarrow> ('k, 'v) js_map \<Rightarrow> 'v option" where
  "js_map_get k m = map_of m k"

definition js_map_has :: "'k \<Rightarrow> ('k, 'v) js_map \<Rightarrow> bool" where
  "js_map_has k m \<longleftrightarrow> k \<in> set (map fst m)"

definition js_map_values :: "('k, 'v) js_map \<Rightarrow> 'v list" where
  "js_map_values m = map snd m"

definition js_map_wf :: "('k, 'v) js_map \<Rightarrow> bool" where
  "js_map_wf m \<longleftrightarrow> distinct (map fst m)"

lemma js_map_get_set [simp]: "js_map_get k' (js_map_set k v m) = (if k' = k then Some v else js_map_get k' m)"
  by (induction k v m rule: js_map_set.induct) (auto simp: js_map_get_def)

lemma keys_js_map_set:
  "map fst (js_map_set k v m) = (if k \<in> set (map fst m) then map fst m else map fst m @ [k])"
  by (induction k v m rule: js_map_set.induct) auto

lemma js_map_has_set [simp]: "js_map_has k' (js_map_set k v m) \<longleftrightarrow> k' = k \<or> js_map_has k' m"
  by (auto simp: js_map_has_def keys_js_map_set)

lemma js_map_has_get: "js_map_has k m \<longleftrightarrow> js_map_get k m \<noteq> None"
  by (simp add: js_map_has_def js_map_get_def map_of_eq_None_iff)

lemma js_map_wf_set [simp]: "js_map_wf m \<Longrightarrow> js_map_wf (js_map_set k v m)"
  by (simp add: js_map_wf_def keys_js_map_set)

lemma js_map_wf_Nil [simp]: "js_map_wf []"
  by (simp add: js_map_wf_def)

section \<open>Candid options\<close>

text \<open>
  The bindings represent candid's \<open>opt T\<close> as \<open>[] | [T]\<close>; nullable TypeScript values are
  options here (\<open>null\<close> and \<open>undefined\<close> are treated alike by all the code modelled).
\<close>

type_synonym 'a candid_opt = "'a list"

definition candid_opt_ok :: "'a candid_opt \<Rightarrow> bool" where
  "candid_opt_ok xs \<longleftrightarrow> length xs \<le> 1"

section \<open>Interfaces\<close>

text \<open>An encoding the other side decodes again.\<close>

locale codec =
  fixes enc :: "'a \<Rightarrow> 'b" and dec :: "'b \<Rightarrow> 'a"
  assumes dec_enc: "dec (enc x) = x"
begin

lemma enc_inject: "enc x = enc y \<longleftrightarrow> x = y"
  by (metis dec_enc)

lemma enc_inj: "inj enc"
  by (simp add: inj_def enc_inject)

lemma map_dec_enc: "map dec (map enc xs) = xs"
  by (simp add: dec_enc comp_def)

lemma dec_surj: "surj dec"
  by (metis surj_def dec_enc)

end

text \<open>An encoding that loses nothing in either direction.\<close>

locale bijective_codec = codec +
  assumes enc_dec: "enc (dec y) = y"
begin

lemma dec_inject: "dec x = dec y \<longleftrightarrow> x = y"
  by (metis enc_dec)

lemma enc_bij: "bij enc"
  by (metis bijI' dec_enc enc_dec)

lemma map_enc_dec: "map enc (map dec ys) = ys"
  by (simp add: enc_dec comp_def)

end

text \<open>
  A component of a state that holds an array of entities with a key. The operations the
  slices perform on such a component are the ones above; their laws are proved here once.
\<close>

locale keyed_slice =
  fixes key :: "'a \<Rightarrow> 'k"
    and items :: "'s \<Rightarrow> 'a list"
    and update :: "('a list \<Rightarrow> 'a list) \<Rightarrow> 's \<Rightarrow> 's"
  assumes items_update: "items (update f s) = f (items s)"
    and update_update: "update f (update g s) = update (f \<circ> g) s"
begin

definition slice_wf :: "'s \<Rightarrow> bool" where
  "slice_wf s \<longleftrightarrow> distinct (map key (items s))"

lemma wf_replace:
  assumes "slice_wf s" and "key y = k"
  shows "slice_wf (update (replace_by key k (\<lambda>_. y)) s)"
  using assms by (simp add: slice_wf_def items_update keys_replace_by)

lemma wf_remove: "slice_wf s \<Longrightarrow> slice_wf (update (remove_by key k) s)"
  by (simp add: slice_wf_def items_update distinct_remove_by)

lemma wf_append:
  "slice_wf s \<Longrightarrow> key y \<notin> key ` set (items s) \<Longrightarrow> slice_wf (update (\<lambda>xs. xs @ [y]) s)"
  by (simp add: slice_wf_def items_update)

lemma removed: "x \<in> set (items (update (remove_by key k) s)) \<longleftrightarrow> x \<in> set (items s) \<and> key x \<noteq> k"
  by (simp add: items_update)

lemma replaced:
  assumes "k \<in> key ` set (items s)" and "key y = k"
  shows "{x \<in> set (items (update (replace_by key k (\<lambda>_. y)) s)). key x = k} = {y}"
  using assms by (auto simp: items_update replace_by_def)

lemma untouched:
  assumes "key y = k" and "key x \<noteq> k"
  shows "x \<in> set (items (update (replace_by key k (\<lambda>_. y)) s)) \<longleftrightarrow> x \<in> set (items s)"
  using assms by (auto simp: items_update replace_by_def)

lemma commute_replace_remove:
  assumes "k \<noteq> j" and "key y = k"
  shows "update (replace_by key k (\<lambda>_. y)) (update (remove_by key j) s) =
    update (remove_by key j) (update (replace_by key k (\<lambda>_. y)) s)"
  using assms by (simp add: update_update comp_def replace_remove_commute)

lemma commute_replace_replace:
  assumes "k \<noteq> j" and "key y = k" and "key z = j"
  shows "update (replace_by key k (\<lambda>_. y)) (update (replace_by key j (\<lambda>_. z)) s) =
    update (replace_by key j (\<lambda>_. z)) (update (replace_by key k (\<lambda>_. y)) s)"
  using assms by (simp add: update_update comp_def replace_replace_commute)

end

end
