(* ===== verification/Task.thy ===== *)
theory Task
  imports Prelude
begin

text \<open>
  The semantics of the asynchronous JavaScript the store and the API clients are written in.
  A \<open>task\<close> is the rest of an \<open>async\<close> function: done (returned \<open>Inr\<close>, or threw \<open>Inl\<close>), a step on
  the browser-side state, or a request to the outside world (a canister, the identity
  provider, an HTTP service) followed by the rest. JavaScript runs to completion between two
  awaits, so the segments between two requests are atomic: \<open>locals\<close> executes one segment. The
  theory gives the sequential meaning (\<open>run\<close>), the interleaving of several tasks under an
  explicit schedule (\<open>par\<close>, \<open>promise_all\<close>), and a rely-guarantee calculus (\<open>rg\<close>) whose rules
  the stores' proofs use.

  Two simplifications: an \<open>await\<close> of a promise that needed no request is not a point where
  other tasks run, and \<open>Promise.all\<close> settles when all its children have settled, so its
  caller resumes after the slowest child even when an earlier one was rejected.
\<close>

named_theorems run_simps \<open>the sequential meaning of tasks\<close>
named_theorems rg_simps \<open>the rely-guarantee meaning of tasks\<close>

section \<open>Tasks\<close>

datatype (dead 'e, dead 's, dead 'w, 'a) task =
    Done "'e + 'a"
  | Local "'s \<Rightarrow> 's" "'s \<Rightarrow> ('e, 's, 'w, 'a) task"
  | Remote "'w \<Rightarrow> 'w" "'w \<Rightarrow> ('e, 's, 'w, 'a) task"

primrec bind_task :: "('e, 's, 'w, 'a) task \<Rightarrow> ('e + 'a \<Rightarrow> ('e, 's, 'w, 'b) task) \<Rightarrow> ('e, 's, 'w, 'b) task" where
  "bind_task (Done r) h = h r"
| "bind_task (Local m k) h = Local m (\<lambda>s. bind_task (k s) h)"
| "bind_task (Remote m k) h = Remote m (\<lambda>w. bind_task (k w) h)"

definition ret :: "'a \<Rightarrow> ('e, 's, 'w, 'a) task" where
  "ret x = Done (Inr x)"

definition throw :: "'e \<Rightarrow> ('e, 's, 'w, 'a) task" where
  "throw e = Done (Inl e)"

text \<open>\<open>const x = await t; k(x)\<close>: a throw of \<open>t\<close> skips the rest.\<close>

definition await :: "('e, 's, 'w, 'a) task \<Rightarrow> ('a \<Rightarrow> ('e, 's, 'w, 'b) task) \<Rightarrow> ('e, 's, 'w, 'b) task" where
  "await t k = bind_task t (\<lambda>r. case r of Inl e \<Rightarrow> throw e | Inr x \<Rightarrow> k x)"

definition get_state :: "('s \<Rightarrow> ('e, 's, 'w, 'a) task) \<Rightarrow> ('e, 's, 'w, 'a) task" where
  "get_state k = Local (\<lambda>s. s) k"

definition set_state :: "('s \<Rightarrow> 's) \<Rightarrow> ('e, 's, 'w, unit) task" where
  "set_state f = Local f (\<lambda>_. ret ())"

definition try_finally :: "('e, 's, 'w, 'a) task \<Rightarrow> ('e, 's, 'w, unit) task \<Rightarrow> ('e, 's, 'w, 'a) task" where
  "try_finally t c = bind_task t (\<lambda>r. bind_task c (\<lambda>rc. case rc of Inl e \<Rightarrow> Done (Inl e) | Inr _ \<Rightarrow> Done r))"

definition try_catch :: "('e, 's, 'w, 'a) task \<Rightarrow> ('e \<Rightarrow> ('e, 's, 'w, 'a) task) \<Rightarrow> ('e, 's, 'w, 'a) task" where
  "try_catch t h = bind_task t (\<lambda>r. case r of Inl e \<Rightarrow> h e | Inr x \<Rightarrow> ret x)"

text \<open>A request: the world moves to \<open>fst (f w)\<close> and answers \<open>snd (f w)\<close>.\<close>

definition remote :: "('w \<Rightarrow> 'w \<times> ('e + 'a)) \<Rightarrow> ('e, 's, 'w, 'a) task" where
  "remote f = Remote (\<lambda>w. fst (f w)) (\<lambda>w. Done (snd (f w)))"

section \<open>Sequential meaning\<close>

primrec run :: "('e, 's, 'w, 'a) task \<Rightarrow> 's \<Rightarrow> 'w \<Rightarrow> ('e + 'a) \<times> 's \<times> 'w" where
  "run (Done r) s w = (r, s, w)"
| "run (Local m k) s w = run (k s) (m s) w"
| "run (Remote m k) s w = run (k w) s (m w)"

lemma run_bind_task [run_simps]:
  "run (bind_task t h) s w = (case run t s w of (r, s', w') \<Rightarrow> run (h r) s' w')"
  by (induction t arbitrary: s w) auto

lemma run_ret [run_simps]: "run (ret x) s w = (Inr x, s, w)"
  by (simp add: ret_def)

lemma run_throw [run_simps]: "run (throw e) s w = (Inl e, s, w)"
  by (simp add: throw_def)

lemma run_await [run_simps]:
  "run (await t k) s w =
     (case run t s w of (Inl e, s', w') \<Rightarrow> (Inl e, s', w') | (Inr x, s', w') \<Rightarrow> run (k x) s' w')"
  by (auto simp: await_def run_bind_task run_throw split: prod.splits sum.splits)

lemma run_get_state [run_simps]: "run (get_state k) s w = run (k s) s w"
  by (simp add: get_state_def)

lemma run_set_state [run_simps]: "run (set_state f) s w = (Inr (), f s, w)"
  by (simp add: set_state_def run_ret)

lemma run_try_finally [run_simps]:
  "run (try_finally t c) s w =
     (case run t s w of (r, s', w') \<Rightarrow>
       (case run c s' w' of (Inl e, s'', w'') \<Rightarrow> (Inl e, s'', w'') | (Inr _, s'', w'') \<Rightarrow> (r, s'', w'')))"
  by (auto simp: try_finally_def run_bind_task split: prod.splits sum.splits)

lemma run_try_catch [run_simps]:
  "run (try_catch t h) s w =
     (case run t s w of (Inl e, s', w') \<Rightarrow> run (h e) s' w' | (Inr x, s', w') \<Rightarrow> (Inr x, s', w'))"
  by (auto simp: try_catch_def run_bind_task run_ret split: prod.splits sum.splits)

lemma run_remote [run_simps]: "run (remote f) s w = (snd (f w), s, fst (f w))"
  by (simp add: remote_def)

section \<open>Interleaving\<close>

text \<open>
  \<open>locals t k\<close> runs \<open>t\<close>'s segment up to its next request or its end and continues with what is
  left. A schedule is a list of events: \<open>Serve i\<close>, the outside world serves the pending request
  of task \<open>i\<close>; \<open>Resume i\<close>, task \<open>i\<close> runs its next segment. Events that do not apply are skipped,
  and a schedule that ends early is completed by running the tasks left over in order, so every
  list of events is a schedule. \<open>fin\<close> folds the outcome of each task, in the order the tasks end,
  into an accumulator.
\<close>

primrec locals :: "('e, 's, 'w, 'a) task \<Rightarrow> (('e, 's, 'w, 'a) task \<Rightarrow> ('e, 's, 'w, 'b) task) \<Rightarrow> ('e, 's, 'w, 'b) task" where
  "locals (Done r) h = h (Done r)"
| "locals (Local m k) h = Local m (\<lambda>s. locals (k s) h)"
| "locals (Remote m k) h = h (Remote m k)"

datatype event = Serve nat | Resume nat

type_synonym ('e, 's, 'w, 'a) threads = "('e, 's, 'w, 'a) task option list"

primrec drain :: "('e + 'a \<Rightarrow> 'c \<Rightarrow> 'c) \<Rightarrow> ('e, 's, 'w, 'a) threads \<Rightarrow> 'c \<Rightarrow> ('e, 's, 'w, 'c) task" where
  "drain fin [] c = ret c"
| "drain fin (t # ts) c =
     (case t of None \<Rightarrow> drain fin ts c | Some t \<Rightarrow> bind_task t (\<lambda>r. drain fin ts (fin r c)))"

definition settle :: "('e + 'a \<Rightarrow> 'c \<Rightarrow> 'c) \<Rightarrow> nat \<Rightarrow> ('e, 's, 'w, 'a) task \<Rightarrow>
    ('e, 's, 'w, 'a) threads \<Rightarrow> 'c \<Rightarrow> ('e, 's, 'w, 'a) threads \<times> 'c" where
  "settle fin i t ts c = (case t of Done r \<Rightarrow> (ts[i := None], fin r c) | _ \<Rightarrow> (ts[i := Some t], c))"

primrec par :: "('e + 'a \<Rightarrow> 'c \<Rightarrow> 'c) \<Rightarrow> event list \<Rightarrow> ('e, 's, 'w, 'a) threads \<Rightarrow> 'c \<Rightarrow> ('e, 's, 'w, 'c) task" where
  "par fin [] ts c = drain fin ts c"
| "par fin (ev # es) ts c =
     (case ev of
       Serve i \<Rightarrow>
         (if i < length ts then
            (case ts ! i of
               Some (Remote m k) \<Rightarrow> Remote m (\<lambda>w. par fin es (ts[i := Some (k w)]) c)
             | _ \<Rightarrow> par fin es ts c)
          else par fin es ts c)
     | Resume i \<Rightarrow>
         (if i < length ts then
            (case ts ! i of
               Some t \<Rightarrow> locals t (\<lambda>t'. case settle fin i t' ts c of (ts', c') \<Rightarrow> par fin es ts' c')
             | None \<Rightarrow> par fin es ts c)
          else par fin es ts c))"

text \<open>
  Concurrent calls \<open>f(), g(), \<dots>\<close> each run their first segment when called, in order.
\<close>

definition start_all :: "nat \<Rightarrow> event list" where
  "start_all n = map Resume [0..<n]"

definition concurrently :: "('e + 'a \<Rightarrow> 'c \<Rightarrow> 'c) \<Rightarrow> event list \<Rightarrow> ('e, 's, 'w, 'a) task list \<Rightarrow> 'c \<Rightarrow> ('e, 's, 'w, 'c) task" where
  "concurrently fin es ts c = par fin (start_all (length ts) @ es) (map Some ts) c"

text \<open>\<open>Promise.all\<close> of calls without a result: the first rejection in time, if any.\<close>

definition first_error :: "'e + 'a \<Rightarrow> 'e option \<Rightarrow> 'e option" where
  "first_error r c = (case c of Some e \<Rightarrow> Some e | None \<Rightarrow> (case r of Inl e \<Rightarrow> Some e | Inr _ \<Rightarrow> None))"

definition promise_all :: "event list \<Rightarrow> ('e, 's, 'w, unit) task list \<Rightarrow> ('e, 's, 'w, unit) task" where
  "promise_all es ts =
     await (concurrently first_error es ts None)
       (\<lambda>err. case err of None \<Rightarrow> ret () | Some e \<Rightarrow> throw e)"

text \<open>
  \<open>Promise.all\<close> of two or three calls whose results are used: all requests are issued in the
  first segment, then served in the order written.
\<close>

definition promise_all2 :: "('e, 's, 'w, 'a) task \<Rightarrow> ('e, 's, 'w, 'b) task \<Rightarrow> ('e, 's, 'w, 'a \<times> 'b) task" where
  "promise_all2 t u =
     locals t (\<lambda>t. locals u (\<lambda>u.
       bind_task t (\<lambda>r. bind_task u (\<lambda>q.
         Done (and_then r (\<lambda>x. and_then q (\<lambda>y. Inr (x, y))))))))"

definition promise_all3 :: "('e, 's, 'w, 'a) task \<Rightarrow> ('e, 's, 'w, 'b) task \<Rightarrow> ('e, 's, 'w, 'c) task \<Rightarrow>
    ('e, 's, 'w, 'a \<times> 'b \<times> 'c) task" where
  "promise_all3 t u v =
     locals t (\<lambda>t. locals u (\<lambda>u. locals v (\<lambda>v.
       bind_task t (\<lambda>r. bind_task u (\<lambda>q. bind_task v (\<lambda>p.
         Done (and_then r (\<lambda>x. and_then q (\<lambda>y. and_then p (\<lambda>z. Inr (x, y, z))))))))))) "

section \<open>Rely and guarantee\<close>

text \<open>
  \<open>C s s'\<close> is a change of the state that every task may make in a segment and must tolerate
  while it waits. \<open>rg C t Q s0 s\<close>: from \<open>s\<close>, in a segment that began in \<open>s0\<close>, every segment \<open>t\<close>
  completes before a request is a change in \<open>C\<close>, whatever changes in \<open>C\<close> happen while it waits,
  and it ends with \<open>Q outcome s0' s'\<close>, where \<open>s0'\<close> began the last segment.
\<close>

primrec rg :: "('s \<Rightarrow> 's \<Rightarrow> bool) \<Rightarrow> ('e, 's, 'w, 'a) task \<Rightarrow> ('e + 'a \<Rightarrow> 's \<Rightarrow> 's \<Rightarrow> bool) \<Rightarrow> 's \<Rightarrow> 's \<Rightarrow> bool" where
  "rg C (Done r) Q s0 s = Q r s0 s"
| "rg C (Local m k) Q s0 s = rg C (k s) Q s0 (m s)"
| "rg C (Remote m k) Q s0 s = (C s0 s \<and> (\<forall>w s'. C s s' \<longrightarrow> rg C (k w) Q s' s'))"

lemma rg_mono: "rg C t Q s0 s \<Longrightarrow> (\<And>r s0 s. Q r s0 s \<Longrightarrow> Q' r s0 s) \<Longrightarrow> rg C t Q' s0 s"
  by (induction t arbitrary: s0 s) auto

lemma rg_bind_task [rg_simps]: "rg C (bind_task t h) Q s0 s \<longleftrightarrow> rg C t (\<lambda>r. rg C (h r) Q) s0 s"
  by (induction t arbitrary: s0 s) auto

lemma rg_ret [rg_simps]: "rg C (ret x) Q s0 s \<longleftrightarrow> Q (Inr x) s0 s"
  by (simp add: ret_def)

lemma rg_throw [rg_simps]: "rg C (throw e) Q s0 s \<longleftrightarrow> Q (Inl e) s0 s"
  by (simp add: throw_def)

lemma rg_await [rg_simps]:
  "rg C (await t k) Q s0 s \<longleftrightarrow> rg C t (\<lambda>r. case r of Inl e \<Rightarrow> Q (Inl e) | Inr x \<Rightarrow> rg C (k x) Q) s0 s"
proof -
  have "(\<lambda>r. rg C (case r of Inl e \<Rightarrow> throw e | Inr x \<Rightarrow> k x) Q) =
      (\<lambda>r. case r of Inl e \<Rightarrow> Q (Inl e) | Inr x \<Rightarrow> rg C (k x) Q)"
    by (auto simp: fun_eq_iff throw_def split: sum.splits)
  then show ?thesis
    by (simp only: await_def rg_bind_task)
qed

lemma rg_get_state [rg_simps]: "rg C (get_state k) Q s0 s \<longleftrightarrow> rg C (k s) Q s0 s"
  by (simp add: get_state_def)

lemma rg_set_state [rg_simps]: "rg C (set_state f) Q s0 s \<longleftrightarrow> Q (Inr ()) s0 (f s)"
  by (simp add: set_state_def ret_def)

lemma rg_try_finally [rg_simps]:
  "rg C (try_finally t c) Q s0 s \<longleftrightarrow>
     rg C t (\<lambda>r. rg C c (\<lambda>rc. case rc of Inl e \<Rightarrow> Q (Inl e) | Inr _ \<Rightarrow> Q r)) s0 s"
proof -
  have eq: "rg C (case rc of Inl e \<Rightarrow> Done (Inl e) | Inr _ \<Rightarrow> Done r) Q =
      (case rc of Inl e \<Rightarrow> Q (Inl e) | Inr _ \<Rightarrow> Q r)" for rc r
    by (auto simp: fun_eq_iff split: sum.splits)
  show ?thesis
    unfolding try_finally_def rg_bind_task eq ..
qed

lemma rg_remote [rg_simps]:
  "rg C (remote f) Q s0 s \<longleftrightarrow> C s0 s \<and> (\<forall>w s'. C s s' \<longrightarrow> Q (snd (f w)) s' s')"
  by (simp add: remote_def)

lemma rg_locals:
  assumes "\<And>t' s'. (\<And>m k. t' \<noteq> Local m k) \<Longrightarrow> rg C t' Q a s' \<Longrightarrow> rg C (h t') Q' b s'"
  shows "rg C t Q a s \<Longrightarrow> rg C (locals t h) Q' b s"
proof (induction t arbitrary: s)
  case (Local m k)
  then show ?case by simp
qed (use assms in auto)

text \<open>A task that obeys \<open>C\<close> and, whenever it ends, has established \<open>Q\<close>.\<close>

definition obeys :: "('s \<Rightarrow> 's \<Rightarrow> bool) \<Rightarrow> ('e, 's, 'w, 'a) task \<Rightarrow> ('e + 'a \<Rightarrow> 's \<Rightarrow> bool) \<Rightarrow> bool" where
  "obeys C t Q \<longleftrightarrow> (\<forall>s. rg C t (\<lambda>r s0 s. C s0 s \<and> Q r s) s s)"

lemma obeysI: "(\<And>s. rg C t (\<lambda>r s0 s. C s0 s \<and> Q r s) s s) \<Longrightarrow> obeys C t Q"
  by (simp add: obeys_def)

lemma obeysD: "obeys C t Q \<Longrightarrow> rg C t (\<lambda>r s0 s. C s0 s \<and> Q r s) s s"
  by (simp add: obeys_def)

lemma rg_run:
  assumes "reflp C" and "transp C"
  shows "rg C t (\<lambda>r s0 s. C s0 s \<and> Q r s) s0 s \<Longrightarrow> run t s w = (r, s', w') \<Longrightarrow> C s0 s' \<and> Q r s'"
proof (induction t arbitrary: s0 s w)
  case (Local m k)
  show ?case
    using Local.prems by (intro Local.IH [of "k s" s0 "m s" w]) simp_all
next
  case (Remote m k)
  from Remote.prems assms(1) have "C s0 s" and "rg C (k w) (\<lambda>r s0 s. C s0 s \<and> Q r s) s s"
    by (auto dest: reflpD)
  moreover from Remote.prems(2) have "run (k w) s (m w) = (r, s', w')"
    by simp
  ultimately have "C s s' \<and> Q r s'"
    by (intro Remote.IH [of "k w" s s "m w"]) simp_all
  with \<open>C s0 s\<close> assms(2) show ?case
    by (blast dest: transpD)
qed auto

lemma obeys_run:
  assumes "obeys C t Q" and "reflp C" and "transp C" and "run t s w = (r, s', w')"
  shows "C s s' \<and> Q r s'"
  using rg_run [OF assms(2,3) obeysD [OF assms(1)] assms(4)] .

text \<open>Tasks that obey \<open>C\<close> do so together, and what each establishes holds at the end.\<close>

fun thread_ok :: "('s \<Rightarrow> 's \<Rightarrow> bool) \<Rightarrow> ('e + 'a \<Rightarrow> 's \<Rightarrow> bool) \<Rightarrow> ('e, 's, 'w, 'a) task option \<Rightarrow> 's \<Rightarrow> bool" where
  "thread_ok C Q None s = (\<exists>r. Q r s)"
| "thread_ok C Q (Some t) s = (\<forall>s'. C s s' \<longrightarrow> rg C t (\<lambda>r s0 s. C s0 s \<and> Q r s) s' s')"

definition pool :: "('s \<Rightarrow> 's \<Rightarrow> bool) \<Rightarrow> ('e + 'a \<Rightarrow> 's \<Rightarrow> bool) list \<Rightarrow> ('e, 's, 'w, 'a) threads \<Rightarrow> 's \<Rightarrow> bool" where
  "pool C Qs ts s \<longleftrightarrow> list_all2 (\<lambda>Q t. thread_ok C Q t s) Qs ts"

definition stable :: "('s \<Rightarrow> 's \<Rightarrow> bool) \<Rightarrow> ('r \<Rightarrow> 's \<Rightarrow> bool) \<Rightarrow> bool" where
  "stable C Q \<longleftrightarrow> (\<forall>r s s'. Q r s \<longrightarrow> C s s' \<longrightarrow> Q r s')"

lemma thread_ok_step:
  "thread_ok C Q t s \<Longrightarrow> C s s' \<Longrightarrow> transp C \<Longrightarrow> stable C Q \<Longrightarrow> thread_ok C Q t s'"
  unfolding stable_def by (cases t) (simp, blast, simp, metis transpD)

lemma pool_step:
  assumes "pool C Qs ts s" and "C s s'" and "transp C" and "\<forall>Q \<in> set Qs. stable C Q"
  shows "pool C Qs ts s'"
  using assms unfolding pool_def
  by (auto elim!: list.rel_mono_strong intro: thread_ok_step)

lemma pool_update:
  assumes "pool C Qs ts s" and "i < length ts" and "thread_ok C (Qs ! i) t s"
  shows "pool C Qs (ts[i := t]) s"
  using assms by (auto simp: pool_def list_all2_conv_all_nth nth_list_update)

lemma pool_length: "pool C Qs ts s \<Longrightarrow> length Qs = length ts"
  by (auto simp: pool_def dest: list_all2_lengthD)

lemma pool_nth: "pool C Qs ts s \<Longrightarrow> i < length ts \<Longrightarrow> thread_ok C (Qs ! i) (ts ! i) s"
  by (auto simp: pool_def list_all2_conv_all_nth)

text \<open>
  What was true when a segment began and survives every change in \<open>C\<close> is true at the end; the
  change of the whole run is one of them.
\<close>

lemma rg_keep:
  assumes keep: "\<And>s s'. R s \<Longrightarrow> C s s' \<Longrightarrow> R s'"
  shows "rg C t (\<lambda>r s0 s. C s0 s \<and> P r s) s0 s \<Longrightarrow> R s0 \<Longrightarrow>
    rg C t (\<lambda>r s0 s. C s0 s \<and> P r s \<and> R s) s0 s"
proof (induction t arbitrary: s0 s)
  case (Remote m k)
  from Remote.prems have "R s" by (auto intro: keep [of s0 s])
  then have "R s'" if "C s s'" for s' by (rule keep) (rule that)
  with Remote show ?case by simp
qed (auto intro: keep)

lemma rg_start:
  assumes "transp C"
  shows "rg C t (\<lambda>r s0 s. C s0 s \<and> P r s) b s \<Longrightarrow> C a b \<Longrightarrow> rg C t (\<lambda>r s0 s. C s0 s \<and> P r s) a s"
  by (induction t arbitrary: a b s) (auto dest: transpD [OF assms])

lemma rg_reach:
  assumes "reflp C" and "transp C" and "rg C t (\<lambda>r s0 s. C s0 s \<and> P r s) s s" and "C s0 s"
  shows "rg C t (\<lambda>r a s'. C a s' \<and> P r s' \<and> C s s') s0 s"
proof -
  have "rg C t (\<lambda>r a s'. C a s' \<and> P r s' \<and> C s s') s s"
    by (rule rg_keep [OF _ assms(3)]) (use assms(1,2) in \<open>blast dest: transpD reflpD\<close>)+
  then show ?thesis
    using rg_start [OF assms(2), of t "\<lambda>r s'. P r s' \<and> C s s'"] assms(4) by blast
qed

lemma rg_drain:
  assumes C: "reflp C" "transp C"
  shows "pool C Qs ts s \<Longrightarrow> \<forall>Q \<in> set Qs. stable C Q \<Longrightarrow> C s0 s \<Longrightarrow> R s \<Longrightarrow>
    (\<And>s s'. R s \<Longrightarrow> C s s' \<Longrightarrow> R s') \<Longrightarrow>
    rg C (drain fin ts c) (\<lambda>_ s0 s. C s0 s \<and> R s \<and> (\<forall>Q \<in> set Qs. \<exists>r. Q r s)) s0 s"
proof (induction ts arbitrary: Qs s0 s c R)
  case Nil
  then show ?case by (auto simp: rg_ret pool_def)
next
  case (Cons t ts)
  from Cons.prems(1) obtain Q Qs' where Qs: "Qs = Q # Qs'" and t: "thread_ok C Q t s" and ts: "pool C Qs' ts s"
    by (auto simp: pool_def list_all2_Cons2)
  from Cons.prems(2) Qs have st: "\<forall>Q \<in> set Qs'. stable C Q" and stQ: "stable C Q"
    by auto
  have rest: "rg C (drain fin ts c') (\<lambda>_ s0 s. C s0 s \<and> R s \<and> (\<forall>Q \<in> set Qs. \<exists>r. Q r s)) a s'"
    if "Q r s'" and "C s s'" and "C a s'" for r c' a s'
  proof -
    have "rg C (drain fin ts c') (\<lambda>_ s0 s. C s0 s \<and> (R s \<and> (\<exists>r. Q r s)) \<and> (\<forall>Q \<in> set Qs'. \<exists>r. Q r s)) a s'"
    proof (rule Cons.IH [OF pool_step [OF ts that(2) C(2) st] st that(3)])
      from that Cons.prems(4,5) show "R s' \<and> (\<exists>r. Q r s')" by blast
      fix x y
      assume "R x \<and> (\<exists>r. Q r x)" and "C x y"
      with Cons.prems(5) stQ show "R y \<and> (\<exists>r. Q r y)" unfolding stable_def by blast
    qed
    then show ?thesis
      by (rule rg_mono) (auto simp: Qs)
  qed
  show ?case
  proof (cases t)
    case None
    with t rest [of _ s s0] Cons.prems(3) C(1) show ?thesis by (auto dest: reflpD)
  next
    case (Some u)
    with t C(1) have "rg C u (\<lambda>r s0 s. C s0 s \<and> Q r s) s s" by (auto dest: reflpD)
    then have "rg C u (\<lambda>r a s'. C a s' \<and> Q r s' \<and> C s s') s0 s"
      by (rule rg_reach [OF C _ Cons.prems(3)])
    then have "rg C u (\<lambda>r. rg C (drain fin ts (fin r c))
        (\<lambda>_ s0 s. C s0 s \<and> R s \<and> (\<forall>Q \<in> set Qs. \<exists>r. Q r s))) s0 s"
      by (rule rg_mono) (auto intro: rest)
    with Some show ?thesis by (simp add: rg_bind_task)
  qed
qed

lemma rg_par:
  fixes ts :: "('e, 's, 'w, 'a) threads"
  assumes C: "reflp C" "transp C" and st: "\<forall>Q \<in> set Qs. stable C Q"
  shows "pool C Qs ts s \<Longrightarrow> C s0 s \<Longrightarrow>
    rg C (par fin es ts c) (\<lambda>_ s0 s. C s0 s \<and> (\<forall>Q \<in> set Qs. \<exists>r. Q r s)) s0 s"
proof (induction es arbitrary: ts c s0 s)
  case Nil
  from rg_drain [OF C Nil.prems(1) st Nil.prems(2), of "\<lambda>_. True" fin c] show ?case by simp
next
  case (Cons ev es)
  note skip = Cons.IH [OF Cons.prems]
  show ?case
  proof (cases ev)
    case (Serve i)
    show ?thesis
    proof (cases "\<exists>m k. i < length ts \<and> ts ! i = Some (Remote m k)")
      case True
      then obtain m k where i: "i < length ts" and t: "ts ! i = Some (Remote m k)" by blast
      have next_ok: "pool C Qs (ts[i := Some (k w)]) s'" if "C s s'" for w s'
      proof (rule pool_update [OF pool_step [OF Cons.prems(1) that C(2) st] i])
        from pool_nth [OF Cons.prems(1) i] t C(1)
        have "rg C (Remote m k) (\<lambda>r s0 s. C s0 s \<and> (Qs ! i) r s) s s" by (auto dest: reflpD)
        with that C(2) show "thread_ok C (Qs ! i) (Some (k w)) s'" by (auto dest: transpD)
      qed
      with C(1) have "rg C (par fin es (ts[i := Some (k w)]) c)
          (\<lambda>_ s0 s. C s0 s \<and> (\<forall>Q \<in> set Qs. \<exists>r. Q r s)) s' s'" if "C s s'" for w s'
        using that by (intro Cons.IH) (auto dest: reflpD)
      with Serve i t Cons.prems(2) show ?thesis by simp
    next
      case False
      with skip Serve show ?thesis by (auto split: option.splits task.splits)
    qed
  next
    case (Resume i)
    show ?thesis
    proof (cases "i < length ts \<and> ts ! i \<noteq> None")
      case True
      then obtain t where i: "i < length ts" and t: "ts ! i = Some t" by auto
      let ?Q = "Qs ! i"
      from pool_nth [OF Cons.prems(1) i] t C(1) have "rg C t (\<lambda>r s0 s. C s0 s \<and> ?Q r s) s s"
        by (auto dest: reflpD)
      then have "rg C (locals t (\<lambda>t'. case settle fin i t' ts c of (ts', c') \<Rightarrow> par fin es ts' c'))
          (\<lambda>_ s0 s. C s0 s \<and> (\<forall>Q \<in> set Qs. \<exists>r. Q r s)) s0 s"
      proof (rule rg_locals [rotated])
        fix t' :: "('e, 's, 'w, 'a) task" and s'
        assume nl: "\<And>m k. t' \<noteq> Local m k" and seg: "rg C t' (\<lambda>r s0 s. C s0 s \<and> ?Q r s) s s'"
        have s': "C s s'" and here: "thread_ok C ?Q (case t' of Done r \<Rightarrow> None | _ \<Rightarrow> Some t') s'"
          using nl seg C by (cases t'; auto dest: reflpD transpD)+
        from Cons.prems(2) s' C(2) have s0: "C s0 s'" by (auto dest: transpD)
        note ok = pool_update [OF pool_step [OF Cons.prems(1) s' C(2) st] _ here]
        show "rg C (case settle fin i t' ts c of (ts', c') \<Rightarrow> par fin es ts' c')
            (\<lambda>_ s0 s. C s0 s \<and> (\<forall>Q \<in> set Qs. \<exists>r. Q r s)) s0 s'"
          using nl ok i s0 by (cases t') (auto simp: settle_def intro!: Cons.IH)
      qed
      with Resume i t show ?thesis by simp
    next
      case False
      with skip Resume show ?thesis by (auto split: option.splits)
    qed
  qed
qed

lemma obeys_concurrently:
  assumes "reflp C" and "transp C" and "\<forall>Q \<in> set Qs. stable C Q" and "list_all2 (\<lambda>Q t. obeys C t Q) Qs ts"
  shows "obeys C (concurrently fin es ts c) (\<lambda>_ s. \<forall>Q \<in> set Qs. \<exists>r. Q r s)"
proof (rule obeysI)
  fix s
  have "pool C Qs (map Some ts) s"
    unfolding pool_def list_all2_map2
    by (rule list.rel_mono_strong [OF assms(4)]) (simp add: obeys_def)
  then show "rg C (concurrently fin es ts c) (\<lambda>_ s0 s. C s0 s \<and> (\<forall>Q \<in> set Qs. \<exists>r. Q r s)) s s"
    unfolding concurrently_def using assms(1) by (intro rg_par [OF assms(1-3)]) (auto dest: reflpD)
qed

lemma obeys_promise_all:
  assumes "reflp C" and "transp C" and "\<forall>Q \<in> set Qs. stable C Q" and "list_all2 (\<lambda>Q t. obeys C t Q) Qs ts"
  shows "obeys C (promise_all es ts) (\<lambda>_ s. \<forall>Q \<in> set Qs. \<exists>r. Q r s)"
proof (rule obeysI)
  fix s
  show "rg C (promise_all es ts) (\<lambda>_ s0 s. C s0 s \<and> (\<forall>Q \<in> set Qs. \<exists>r. Q r s)) s s"
    unfolding promise_all_def rg_await
    by (rule rg_mono [OF obeysD [OF obeys_concurrently [OF assms]]])
      (auto simp: rg_ret rg_throw split: sum.splits option.splits)
qed

lemma obeys_mono: "obeys C t Q \<Longrightarrow> (\<And>r s. Q r s \<Longrightarrow> Q' r s) \<Longrightarrow> obeys C t Q'"
  unfolding obeys_def by (blast intro: rg_mono)

end
