(* ===== verification/Schedules.thy ===== *)
theory Schedules
  imports Task
begin

text \<open>
  When does the order in which requests are served not matter? \<open>steps v t r hs\<close> says of a task
  that, whatever the states it meets and the answers' timing, it ends with \<open>r\<close> and changes the
  part \<open>v\<close> of the state by the functions \<open>hs\<close>, one after the other. Concurrent tasks whose changes
  commute pairwise then leave, under every schedule, what running them in order leaves.
\<close>

named_theorems steps_intros \<open>what a task does to a part of the state\<close>

section \<open>Atomic changes that commute\<close>

definition commute :: "('x \<Rightarrow> 'x) \<Rightarrow> ('x \<Rightarrow> 'x) \<Rightarrow> bool" where
  "commute f g \<longleftrightarrow> (\<forall>x. f (g x) = g (f x))"

definition apply_all :: "('x \<Rightarrow> 'x) list \<Rightarrow> 'x \<Rightarrow> 'x" where
  "apply_all fs = fold (\<lambda>f. f) fs"

lemma apply_all_simps [simp]:
  "apply_all [] x = x"
  "apply_all (f # fs) x = apply_all fs (f x)"
  "apply_all (fs @ gs) x = apply_all gs (apply_all fs x)"
  by (simp_all add: apply_all_def)

definition apart :: "('x \<Rightarrow> 'x) list list \<Rightarrow> bool" where
  "apart fss \<longleftrightarrow> (\<forall>i < length fss. \<forall>j < length fss. i \<noteq> j \<longrightarrow>
     (\<forall>f \<in> set (fss ! i). \<forall>g \<in> set (fss ! j). commute f g))"

lemma commute_sym: "commute f g \<Longrightarrow> commute g f"
  by (simp add: commute_def)

lemma apply_all_shift:
  "\<forall>g \<in> set gs. commute f g \<Longrightarrow> apply_all gs (f x) = f (apply_all gs x)"
proof (induction gs arbitrary: x)
  case (Cons g gs)
  then have "g (f x) = f (g x)" by (simp add: commute_def)
  with Cons show ?case by simp
qed simp

lemma apply_all_shifts:
  "\<forall>f \<in> set fs. \<forall>g \<in> set gs. commute f g \<Longrightarrow> apply_all gs (apply_all fs x) = apply_all fs (apply_all gs x)"
proof (induction fs arbitrary: x)
  case (Cons f fs)
  from Cons.prems have "\<forall>g \<in> set gs. commute f g" by simp
  from apply_all_shift [OF this] Cons show ?case by simp
qed simp

lemma apart_move:
  assumes "apart fss" and "i < length fss" and "fss ! i = fs @ gs"
  shows "apply_all (concat fss) x = apply_all (concat (fss[i := gs])) (apply_all fs x)"
proof -
  let ?A = "concat (take i fss)"
  from assms(2,3) have "fss = take i fss @ (fs @ gs) # drop (Suc i) fss"
    by (metis id_take_nth_drop)
  then have c: "concat fss = ?A @ fs @ gs @ concat (drop (Suc i) fss)"
    by (metis append.assoc concat.simps(2) concat_append)
  have u: "concat (fss[i := gs]) = ?A @ gs @ concat (drop (Suc i) fss)"
    by (simp add: upd_conv_take_nth_drop assms(2))
  have "\<forall>f \<in> set fs. \<forall>g \<in> set ?A. commute f g"
  proof (intro ballI)
    fix f g
    assume "f \<in> set fs" and "g \<in> set ?A"
    then obtain j where j: "j < i" and g: "g \<in> set (fss ! j)"
      using assms(2) by (auto simp: in_set_conv_nth [of _ "take i fss"])
    with assms(2) have "j < length fss" and "i \<noteq> j" by auto
    moreover from \<open>f \<in> set fs\<close> assms(3) have "f \<in> set (fss ! i)" by simp
    ultimately show "commute f g"
      using assms(1,2) g unfolding apart_def by blast
  qed
  from apply_all_shifts [OF this] show ?thesis
    unfolding c u by simp
qed

lemma apart_update:
  "apart fss \<Longrightarrow> i < length fss \<Longrightarrow> set gs \<subseteq> set (fss ! i) \<Longrightarrow> apart (fss[i := gs])"
  unfolding apart_def by (auto simp: nth_list_update subset_iff)

section \<open>What a task does to a part of the state\<close>

primrec steps :: "('s \<Rightarrow> 'x) \<Rightarrow> ('e, 's, 'w, 'a) task \<Rightarrow> 'e + 'a \<Rightarrow> ('x \<Rightarrow> 'x) list \<Rightarrow> bool" where
  "steps v (Done r') = (\<lambda>r hs. r' = r \<and> hs = [])"
| "steps v (Local m k) = (\<lambda>r hs.
     ((\<forall>s. v (m s) = v s) \<and> (\<forall>s. steps v (k s) r hs)) \<or>
     (\<exists>h gs. hs = h # gs \<and> (\<forall>s. v (m s) = h (v s)) \<and> (\<forall>s. steps v (k s) r gs)))"
| "steps v (Remote m k) = (\<lambda>r hs. \<forall>w. steps v (k w) r hs)"

lemma steps_bind [steps_intros]:
  "steps v t r hs \<Longrightarrow> steps v (h r) q gs \<Longrightarrow> steps v (bind_task t h) q (hs @ gs)"
proof (induction t arbitrary: hs)
  case (Local m k)
  from Local.prems(1) show ?case
  proof (simp only: steps.simps, elim disjE conjE exE)
    assume "\<forall>s. v (m s) = v s" and "\<forall>s. steps v (k s) r hs"
    with Local show "steps v (bind_task (Local m k) h) q (hs @ gs)" by simp
  next
    fix f fs
    assume "hs = f # fs" and "\<forall>s. v (m s) = f (v s)" and "\<forall>s. steps v (k s) r fs"
    with Local show "steps v (bind_task (Local m k) h) q (hs @ gs)" by auto
  qed
qed auto

lemma steps_ret [steps_intros]: "steps v (ret x) (Inr x) []"
  by (simp add: ret_def)

lemma steps_throw [steps_intros]: "steps v (throw e) (Inl e) []"
  by (simp add: throw_def)

lemma steps_await [steps_intros]:
  "steps v t (Inr x) hs \<Longrightarrow> steps v (k x) q gs \<Longrightarrow> steps v (await t k) q (hs @ gs)"
  unfolding await_def by (rule steps_bind [where r = "Inr x"]) simp_all

lemma steps_await_error [steps_intros]: "steps v t (Inl e) hs \<Longrightarrow> steps v (await t k) (Inl e) hs"
  unfolding await_def using steps_bind [of v t "Inl e" hs "case_sum throw k" "Inl e" "[]"]
  by (simp add: steps_throw)

lemma steps_get_state [steps_intros]: "(\<And>s. steps v (k s) r hs) \<Longrightarrow> steps v (get_state k) r hs"
  by (simp add: get_state_def)

lemma steps_set_state [steps_intros]: "(\<And>s. v (f s) = h (v s)) \<Longrightarrow> steps v (set_state f) (Inr ()) [h]"
  by (simp add: set_state_def ret_def)

lemma steps_set_other [steps_intros]: "(\<And>s. v (f s) = v s) \<Longrightarrow> steps v (set_state f) (Inr ()) []"
  by (simp add: set_state_def ret_def)

lemma steps_remote [steps_intros]: "(\<And>w. snd (f w) = r) \<Longrightarrow> steps v (remote f) r []"
  by (simp add: remote_def)

lemma steps_try_finally [steps_intros]:
  "steps v t r hs \<Longrightarrow> steps v c (Inr u) gs \<Longrightarrow> steps v (try_finally t c) r (hs @ gs)"
  unfolding try_finally_def
  by (rule steps_bind [where r = r], assumption)
    (use steps_bind [of v c "Inr u" gs "\<lambda>rc. case rc of Inl e \<Rightarrow> Done (Inl e) | Inr _ \<Rightarrow> Done r" r "[]"] in simp)

lemma steps_try_catch [steps_intros]:
  "steps v t (Inr x) hs \<Longrightarrow> steps v (try_catch t h) (Inr x) hs"
  unfolding try_catch_def using steps_bind [of v t "Inr x" hs "case_sum h ret" "Inr x" "[]"]
  by (simp add: steps_ret)

lemma steps_try_catch_error [steps_intros]:
  "steps v t (Inl e) hs \<Longrightarrow> steps v (h e) r gs \<Longrightarrow> steps v (try_catch t h) r (hs @ gs)"
  unfolding try_catch_def by (rule steps_bind [where r = "Inl e"]) simp_all

lemma run_steps: "steps v t r hs \<Longrightarrow> run t s w = (r', s', w') \<Longrightarrow> r' = r \<and> v s' = apply_all hs (v s)"
proof (induction t arbitrary: hs s w)
  case (Local m k)
  have IH: "steps v (k s) r gs \<Longrightarrow> r' = r \<and> v s' = apply_all gs (v (m s))" for gs
    using Local.IH [of "k s" gs "m s" w] Local.prems(2) by simp
  from Local.prems(1) show ?case
  proof (simp only: steps.simps, elim disjE conjE exE)
    assume q: "\<forall>s. v (m s) = v s" and k: "\<forall>s. steps v (k s) r hs"
    from IH [OF k [rule_format]] q show ?thesis by simp
  next
    fix f fs
    assume q: "\<forall>s. v (m s) = f (v s)" and hs: "hs = f # fs" and k: "\<forall>s. steps v (k s) r fs"
    from IH [OF k [rule_format]] q hs show ?thesis by simp
  qed
next
  case (Remote m k)
  from Remote.prems(1) have "steps v (k w) r hs" by simp
  from Remote.IH [OF _ this, of s "m w"] Remote.prems(2) show ?case by simp
qed auto

text \<open>One segment performs a first part of the changes and leaves the rest.\<close>

lemma run_locals_steps:
  assumes "steps v t r hs"
  obtains t' s' fs gs where "run (locals t H) s w = run (H t') s' w"
    and "\<And>m k. t' \<noteq> Local m k" and "hs = fs @ gs" and "steps v t' r gs" and "v s' = apply_all fs (v s)"
proof -
  have "\<exists>t' s' fs gs. run (locals t H) s w = run (H t') s' w \<and> (\<forall>m k. t' \<noteq> Local m k) \<and> hs = fs @ gs \<and>
      steps v t' r gs \<and> v s' = apply_all fs (v s)"
    using assms
  proof (induction t arbitrary: s hs)
    case (Local m k)
    have IH: "\<exists>t' s' fs gs. run (locals (Local m k) H) s w = run (H t') s' w \<and> (\<forall>m k. t' \<noteq> Local m k) \<and>
        as = fs @ gs \<and> steps v t' r gs \<and> v s' = apply_all fs (v (m s))" if "steps v (k s) r as" for as
      using Local.IH [of "k s" as "m s"] that by simp
    from Local.prems show ?case
    proof (simp only: steps.simps, elim disjE conjE exE)
      assume q: "\<forall>s. v (m s) = v s" and k: "\<forall>s. steps v (k s) r hs"
      from IH [OF k [rule_format]] q show ?thesis by simp
    next
      fix f fs
      assume q: "\<forall>s. v (m s) = f (v s)" and hs: "hs = f # fs" and k: "\<forall>s. steps v (k s) r fs"
      from IH [OF k [rule_format]] obtain t' s' as bs where
        "run (locals (Local m k) H) s w = run (H t') s' w" "\<forall>m k. t' \<noteq> Local m k" "fs = as @ bs"
        "steps v t' r bs" "v s' = apply_all as (v (m s))" by blast
      with q hs show ?thesis by (intro exI [of _ t'] exI [of _ s'] exI [of _ "f # as"] exI [of _ bs]) simp
    qed
  next
    case (Done x)
    then show ?case by (intro exI [of _ "Done x"] exI [of _ s] exI [of _ "[]"]) auto
  next
    case (Remote m k)
    then show ?case by (intro exI [of _ "Remote m k"] exI [of _ s] exI [of _ "[]"] exI [of _ hs]) simp
  qed
  then show thesis using that by blast
qed

section \<open>Concurrent tasks\<close>

text \<open>What is left to do of a thread: its outcome to be folded in, and its changes of the state.\<close>

fun thread_does :: "('e + 'a \<Rightarrow> 'c \<Rightarrow> 'c) \<Rightarrow> ('s \<Rightarrow> 'x) \<Rightarrow> ('e, 's, 'w, 'a) task option \<Rightarrow>
    ('c \<Rightarrow> 'c) list \<times> ('x \<Rightarrow> 'x) list \<Rightarrow> bool" where
  "thread_does fin v None p \<longleftrightarrow> p = ([], [])"
| "thread_does fin v (Some t) p \<longleftrightarrow> (\<exists>r hs. p = ([fin r], hs) \<and> steps v t r hs)"

definition threads_do :: "('e + 'a \<Rightarrow> 'c \<Rightarrow> 'c) \<Rightarrow> ('s \<Rightarrow> 'x) \<Rightarrow> ('e, 's, 'w, 'a) threads \<Rightarrow>
    (('c \<Rightarrow> 'c) list \<times> ('x \<Rightarrow> 'x) list) list \<Rightarrow> bool" where
  "threads_do fin v ts ps \<longleftrightarrow> list_all2 (thread_does fin v) ts ps"

definition all_of :: "(('c \<Rightarrow> 'c) list \<times> ('x \<Rightarrow> 'x) list) list \<Rightarrow> 'c \<Rightarrow> 'x \<Rightarrow> 'c \<times> 'x" where
  "all_of ps c x = (apply_all (concat (map fst ps)) c, apply_all (concat (map snd ps)) x)"

definition plan_apart :: "(('c \<Rightarrow> 'c) list \<times> ('x \<Rightarrow> 'x) list) list \<Rightarrow> bool" where
  "plan_apart ps \<longleftrightarrow> apart (map fst ps) \<and> apart (map snd ps)"

lemma run_drain_steps:
  "threads_do fin v ts ps \<Longrightarrow> run (drain fin ts c) s w = (out, s', w') \<Longrightarrow>
     \<exists>c'. out = Inr c' \<and> (c', v s') = all_of ps c (v s)"
proof (induction ts arbitrary: ps c s w)
  case Nil
  then show ?case by (auto simp: threads_do_def run_ret all_of_def)
next
  case (Cons t ts)
  from Cons.prems(1) obtain p qs where ps: "ps = p # qs" and t: "thread_does fin v t p"
    and qs: "threads_do fin v ts qs"
    by (auto simp: threads_do_def list_all2_Cons1)
  show ?case
  proof (cases t)
    case None
    with t Cons.IH [OF qs] Cons.prems(2) ps show ?thesis by (auto simp: all_of_def)
  next
    case (Some u)
    with t obtain r hs where p: "p = ([fin r], hs)" and u: "steps v u r hs" by auto
    obtain r1 s1 w1 where run1: "run u s w = (r1, s1, w1)" by (cases "run u s w")
    from run_steps [OF u run1] have 1: "r1 = r" "v s1 = apply_all hs (v s)" by auto
    with Cons.prems(2) Some run1 have "run (drain fin ts (fin r c)) s1 w1 = (out, s', w')"
      by (simp add: run_bind_task)
    from Cons.IH [OF qs this] 1 ps p show ?thesis by (auto simp: all_of_def)
  qed
qed

lemma all_of_move:
  assumes "plan_apart ps" and "i < length ps" and "ps ! i = (cs @ cs', hs @ hs')"
  shows "all_of ps c x = all_of (ps[i := (cs', hs')]) (apply_all cs c) (apply_all hs x)"
    and "plan_apart (ps[i := (cs', hs')])"
  using assms apart_move [of "map fst ps" i cs cs'] apart_move [of "map snd ps" i hs hs']
    apart_update [of "map fst ps" i cs'] apart_update [of "map snd ps" i hs']
  by (simp_all add: plan_apart_def all_of_def map_update)

lemma threads_do_update:
  "threads_do fin v ts ps \<Longrightarrow> i < length ts \<Longrightarrow> thread_does fin v t p \<Longrightarrow> threads_do fin v (ts[i := t]) (ps[i := p])"
  by (auto simp: threads_do_def list_all2_update_cong)

lemma threads_do_nth:
  "threads_do fin v ts ps \<Longrightarrow> i < length ts \<Longrightarrow> i < length ps \<and> thread_does fin v (ts ! i) (ps ! i)"
  by (auto simp: threads_do_def list_all2_conv_all_nth)

lemma run_par_steps:
  fixes ts :: "('e, 's, 'w, 'a) threads"
  shows "threads_do fin v ts ps \<Longrightarrow> plan_apart ps \<Longrightarrow> run (par fin es ts c) s w = (out, s', w') \<Longrightarrow>
     \<exists>c'. out = Inr c' \<and> (c', v s') = all_of ps c (v s)"
proof (induction es arbitrary: ts ps c s w)
  case Nil
  then show ?case using run_drain_steps by auto
next
  case (Cons ev es)
  note skip = Cons.IH [OF Cons.prems(1,2)]
  show ?case
  proof (cases ev)
    case (Serve i)
    show ?thesis
    proof (cases "\<exists>m k. i < length ts \<and> ts ! i = Some (Remote m k)")
      case True
      then obtain m k where i: "i < length ts" and t: "ts ! i = Some (Remote m k)" by blast
      from threads_do_nth [OF Cons.prems(1) i] t obtain r hs where
        p: "i < length ps" "ps ! i = ([fin r], hs)" "steps v (k w) r hs" by auto
      have "threads_do fin v (ts[i := Some (k w)]) (ps[i := ps ! i])"
        by (rule threads_do_update [OF Cons.prems(1) i]) (use p in auto)
      then have "threads_do fin v (ts[i := Some (k w)]) ps" by simp
      from Cons.IH [OF this Cons.prems(2)] Cons.prems(3) Serve i t show ?thesis by simp
    next
      case False
      with skip Serve Cons.prems(3) show ?thesis by (auto split: option.splits task.splits if_splits)
    qed
  next
    case (Resume i)
    show ?thesis
    proof (cases "i < length ts \<and> ts ! i \<noteq> None")
      case True
      then obtain t where i: "i < length ts" and t: "ts ! i = Some t" by auto
      let ?H = "\<lambda>t'. case settle fin i t' ts c of (ts', c') \<Rightarrow> par fin es ts' c'"
      from threads_do_nth [OF Cons.prems(1) i] t obtain r hs where
        p: "i < length ps" "ps ! i = ([fin r], hs)" and st: "steps v t r hs" by auto
      from run_locals_steps [OF st, where H = ?H and s = s and w = w]
      obtain t' s1 fs gs where run1: "run (locals t ?H) s w = run (?H t') s1 w"
        and nl: "\<And>m k. t' \<noteq> Local m k" and hs: "hs = fs @ gs" and t': "steps v t' r gs"
        and s1: "v s1 = apply_all fs (v s)" by metis
      show ?thesis
      proof (cases t')
        case (Done x)
        with t' have x: "x = r" "gs = []" by auto
        have td: "threads_do fin v (ts[i := None]) (ps[i := ([], [])])"
          by (rule threads_do_update [OF Cons.prems(1) i]) simp
        from p(2) hs x have "ps ! i = ([fin r] @ [], fs @ [])" by simp
        note move = all_of_move [OF Cons.prems(2) p(1) this]
        from Cons.prems(3) Resume i t run1 Done x
        have "run (par fin es (ts[i := None]) (fin r c)) s1 w = (out, s', w')" by (simp add: settle_def)
        from Cons.IH [OF td move(2) this] s1 move(1) [of c "v s"] show ?thesis by simp
      next
        case (Remote m k)
        have td: "threads_do fin v (ts[i := Some t']) (ps[i := ([fin r], gs)])"
          by (rule threads_do_update [OF Cons.prems(1) i]) (use t' in auto)
        from p(2) hs have "ps ! i = ([] @ [fin r], fs @ gs)" by simp
        note move = all_of_move [OF Cons.prems(2) p(1) this]
        from Cons.prems(3) Resume i t run1 Remote
        have "run (par fin es (ts[i := Some t']) c) s1 w = (out, s', w')" by (simp add: settle_def)
        from Cons.IH [OF td move(2) this] s1 move(1) [of c "v s"] show ?thesis by simp
      qed (use nl in blast)
    next
      case False
      with skip Resume Cons.prems(3) show ?thesis by (auto split: option.splits if_splits)
    qed
  qed
qed

text \<open>
  The result: under every schedule, the outcomes are folded in and the changes made as if the
  tasks had run one after the other.
\<close>

theorem run_concurrently_steps:
  assumes "list_all2 (\<lambda>t (r, hs). steps v t r hs) ts plan"
    and "\<And>r q. r \<in> fst ` set plan \<Longrightarrow> q \<in> fst ` set plan \<Longrightarrow> commute (fin r) (fin q)"
    and "apart (map snd plan)"
    and "run (concurrently fin es ts c) s w = (out, s', w')"
  shows "out = Inr (fold fin (map fst plan) c) \<and> v s' = apply_all (concat (map snd plan)) (v s)"
proof -
  let ?ps = "map (\<lambda>(r, hs). ([fin r], hs)) plan"
  have td: "threads_do fin v (map Some ts) ?ps"
    unfolding threads_do_def list_all2_map1 list_all2_map2
    by (rule list.rel_mono_strong [OF assms(1)]) auto
  have "apart (map fst ?ps)"
    using assms(2) by (auto simp: apart_def split: prod.splits) (metis fst_conv image_eqI nth_mem)+
  moreover have snds: "map snd ?ps = map snd plan" by auto
  ultimately have "plan_apart ?ps" using assms(3) unfolding plan_apart_def snds by blast
  from run_par_steps [OF td this] assms(4) obtain c' where
    "out = Inr c'" "(c', v s') = all_of ?ps c (v s)" unfolding concurrently_def by blast
  moreover have "apply_all (concat (map fst ?ps)) c = fold fin (map fst plan) c"
    by (induction plan arbitrary: c) auto
  ultimately show ?thesis
    unfolding all_of_def snds by simp
qed

section \<open>Tasks that end in their first segment\<close>

primrec instant :: "('e, 's, 'w, 'a) task \<Rightarrow> 's \<Rightarrow> (('e + 'a) \<times> 's) option" where
  "instant (Done r) = (\<lambda>s. Some (r, s))"
| "instant (Local m k) = (\<lambda>s. instant (k s) (m s))"
| "instant (Remote m k) = (\<lambda>s. None)"

fun instants :: "('e + 'a \<Rightarrow> 'c \<Rightarrow> 'c) \<Rightarrow> ('e, 's, 'w, 'a) task list \<Rightarrow> 'c \<times> 's \<Rightarrow> ('c \<times> 's) option" where
  "instants fin [] cs = Some cs"
| "instants fin (t # ts) (c, s) =
     (case instant t s of None \<Rightarrow> None | Some (r, s') \<Rightarrow> instants fin ts (fin r c, s'))"

lemma instant_get_state [simp]: "instant (get_state k) s = instant (k s) s"
  by (simp add: get_state_def)

lemma instant_set_state [simp]: "instant (set_state f) s = Some (Inr (), f s)"
  by (simp add: set_state_def ret_def)

lemma instant_throw [simp]: "instant (throw e) s = Some (Inl e, s)"
  by (simp add: throw_def)

lemma instant_ret [simp]: "instant (ret x) s = Some (Inr x, s)"
  by (simp add: ret_def)

lemma run_locals_instant:
  "instant t s = Some (r, s') \<Longrightarrow> run (locals t H) s w = run (H (Done r)) s' w"
  by (induction t arbitrary: s) auto

lemma run_drain_none: "\<forall>t \<in> set ts. t = None \<Longrightarrow> run (drain fin ts c) s w = (Inr c, s, w)"
  by (induction ts) (auto simp: run_ret)

lemma run_par_none: "\<forall>t \<in> set ts. t = None \<Longrightarrow> run (par fin es ts c) s w = (Inr c, s, w)"
proof (induction es)
  case Nil
  then show ?case by (simp add: run_drain_none)
next
  case (Cons ev es)
  have none: "i < length ts \<Longrightarrow> ts ! i = None" for i
    using Cons.prems nth_mem by blast
  from Cons show ?case by (cases ev) (simp_all add: none)
qed

lemma run_start_instants:
  "instants fin ts (c, s) = Some (c', s') \<Longrightarrow>
     run (par fin (map Resume [i..<i + length ts] @ es) (replicate i None @ map Some ts) c) s w = (Inr c', s', w)"
proof (induction ts arbitrary: i c s)
  case Nil
  then show ?case by (simp add: run_par_none)
next
  case (Cons t ts)
  from Cons.prems obtain r s1 where t: "instant t s = Some (r, s1)" and ts: "instants fin ts (fin r c, s1) = Some (c', s')"
    by (auto split: option.splits)
  define rest where "rest = map Resume [Suc i..<Suc i + length ts] @ es"
  define ts' where "ts' = replicate i None @ map Some (t # ts)"
  have es: "map Resume [i..<i + length (t # ts)] @ es = Resume i # rest"
    by (simp add: rest_def upt_conv_Cons del: upt_Suc)
  have upd: "ts'[i := None] = replicate (Suc i) None @ map Some ts"
    by (simp add: ts'_def list_update_append replicate_append_same)
  have "i < length ts'" and "ts' ! i = Some t"
    by (simp_all add: ts'_def nth_append)
  then have "par fin (Resume i # rest) ts' c =
      locals t (\<lambda>u. case settle fin i u ts' c of (us, d) \<Rightarrow> par fin rest us d)"
    by simp
  moreover have "run (par fin rest (ts'[i := None]) (fin r c)) s1 w = (Inr c', s', w)"
    unfolding upd rest_def by (rule Cons.IH [OF ts])
  ultimately show ?case
    unfolding es ts'_def [symmetric] by (simp add: run_locals_instant [OF t] settle_def)
qed

lemma run_concurrently_instants:
  assumes "instants fin ts (c, s) = Some (c', s')"
  shows "run (concurrently fin es ts c) s w = (Inr c', s', w)"
  using run_start_instants [OF assms, of 0] by (simp add: concurrently_def start_all_def)

section \<open>Tasks that leave a part of the state alone\<close>

primrec leaves :: "('s \<Rightarrow> 'x) \<Rightarrow> ('e, 's, 'w, 'a) task \<Rightarrow> bool" where
  "leaves v (Done r) \<longleftrightarrow> True"
| "leaves v (Local m k) \<longleftrightarrow> (\<forall>s. v (m s) = v s) \<and> (\<forall>s. leaves v (k s))"
| "leaves v (Remote m k) \<longleftrightarrow> (\<forall>w. leaves v (k w))"

named_theorems leaves_intros \<open>tasks that leave a part of the state alone\<close>

lemma leaves_bind [leaves_intros]: "leaves v t \<Longrightarrow> (\<And>r. leaves v (h r)) \<Longrightarrow> leaves v (bind_task t h)"
  by (induction t) auto

lemma leaves_ret [leaves_intros]: "leaves v (ret x)"
  by (simp add: ret_def)

lemma leaves_throw [leaves_intros]: "leaves v (throw e)"
  by (simp add: throw_def)

lemma leaves_await [leaves_intros]: "leaves v t \<Longrightarrow> (\<And>x. leaves v (k x)) \<Longrightarrow> leaves v (await t k)"
  unfolding await_def by (rule leaves_bind) (auto simp: leaves_throw split: sum.split)

lemma leaves_get_state [leaves_intros]: "(\<And>s. leaves v (k s)) \<Longrightarrow> leaves v (get_state k)"
  by (simp add: get_state_def)

lemma leaves_set_state [leaves_intros]: "(\<And>s. v (f s) = v s) \<Longrightarrow> leaves v (set_state f)"
  by (simp add: set_state_def leaves_ret)

lemma leaves_remote [leaves_intros]: "leaves v (remote f)"
  by (simp add: remote_def)

lemma leaves_try_finally [leaves_intros]: "leaves v t \<Longrightarrow> leaves v c \<Longrightarrow> leaves v (try_finally t c)"
  unfolding try_finally_def by (intro leaves_bind) (auto split: sum.split)

lemma leaves_try_catch [leaves_intros]: "leaves v t \<Longrightarrow> (\<And>e. leaves v (h e)) \<Longrightarrow> leaves v (try_catch t h)"
  unfolding try_catch_def by (rule leaves_bind) (auto simp: leaves_ret split: sum.split)

lemma leaves_locals [leaves_intros]:
  "leaves v t \<Longrightarrow> (\<And>t'. leaves v t' \<Longrightarrow> leaves v (H t')) \<Longrightarrow> leaves v (locals t H)"
  by (induction t) auto

lemma leaves_if [leaves_intros]: "leaves v t \<Longrightarrow> leaves v u \<Longrightarrow> leaves v (if b then t else u)"
  by simp

lemma leaves_drain: "\<forall>t. Some t \<in> set ts \<longrightarrow> leaves v t \<Longrightarrow> leaves v (drain fin ts c)"
  by (induction ts arbitrary: c) (auto simp: leaves_ret intro: leaves_bind split: option.split)

lemma leaves_par:
  fixes ts :: "('e, 's, 'w, 'a) threads"
  shows "\<forall>t. Some t \<in> set ts \<longrightarrow> leaves v t \<Longrightarrow> leaves v (par fin es ts c)"
proof (induction es arbitrary: ts c)
  case Nil
  then show ?case by (simp add: leaves_drain)
next
  case (Cons ev es)
  have keep: "\<forall>t. Some t \<in> set (ts[i := u]) \<longrightarrow> leaves v t" if "\<forall>t. u = Some t \<longrightarrow> leaves v t" for i u
    using Cons.prems that by (auto dest!: subsetD [OF set_update_subset_insert])
  have at: "i < length ts \<Longrightarrow> ts ! i = Some t \<Longrightarrow> leaves v t" for i t
    using Cons.prems nth_mem by metis
  note skip = Cons.IH [OF Cons.prems]
  show ?case
  proof (cases ev)
    case (Serve i)
    have "leaves v (par fin es (ts[i := Some (k w)]) c)" if "i < length ts" "ts ! i = Some (Remote m k)" for m k w
      by (rule Cons.IH, rule keep) (use at [OF that] in simp)
    with Serve skip show ?thesis by (auto split: option.split task.split)
  next
    case (Resume i)
    have "leaves v (locals t (\<lambda>t'. case settle fin i t' ts c of (us, d) \<Rightarrow> par fin es us d))"
      if "i < length ts" "ts ! i = Some t" for t
    proof (rule leaves_locals [OF at [OF that]])
      fix t' :: "('e, 's, 'w, 'a) task"
      assume "leaves v t'"
      then show "leaves v (case settle fin i t' ts c of (us, d) \<Rightarrow> par fin es us d)"
        by (cases t') (auto simp: settle_def intro!: Cons.IH keep)
    qed
    with Resume skip show ?thesis by (auto split: option.split)
  qed
qed

lemma leaves_concurrently [leaves_intros]:
  "(\<And>t. t \<in> set ts \<Longrightarrow> leaves v t) \<Longrightarrow> leaves v (concurrently fin es ts c)"
  unfolding concurrently_def by (rule leaves_par) auto

lemma leaves_promise_all [leaves_intros]: "(\<And>t. t \<in> set ts \<Longrightarrow> leaves v t) \<Longrightarrow> leaves v (promise_all es ts)"
  unfolding promise_all_def
  by (intro leaves_await leaves_concurrently) (auto intro: leaves_intros split: option.split)

lemma leaves_promise_all2 [leaves_intros]: "leaves v t \<Longrightarrow> leaves v u \<Longrightarrow> leaves v (promise_all2 t u)"
  unfolding promise_all2_def by (intro leaves_intros) (assumption | simp)+

lemma leaves_promise_all3 [leaves_intros]:
  "leaves v t \<Longrightarrow> leaves v u \<Longrightarrow> leaves v x \<Longrightarrow> leaves v (promise_all3 t u x)"
  unfolding promise_all3_def by (intro leaves_intros) (assumption | simp)+

text \<open>Sequentially and under interference alike, such a task keeps every property of that part.\<close>

lemma run_leaves: "leaves v t \<Longrightarrow> run t s w = (r, s', w') \<Longrightarrow> v s' = v s"
proof (induction t arbitrary: s w)
  case (Local m k)
  then show ?case using Local.IH [of "k s" "m s" w] by simp
next
  case (Remote m k)
  then show ?case using Remote.IH [of "k w" s "m w"] by simp
qed simp

lemma rg_leaves:
  assumes "\<And>s s'. C s s' \<longleftrightarrow> (I (v s) \<longrightarrow> I (v s'))"
  shows "leaves v t \<Longrightarrow> C s0 s \<Longrightarrow> (\<And>r s0 s. C s0 s \<Longrightarrow> Q r s0 s) \<Longrightarrow> rg C t Q s0 s"
  by (induction t arbitrary: s0 s) (simp_all add: assms)

end
