(* ===== verification/JsBase.thy ===== *)
theory JsBase
  imports Prelude "HOL-Library.Char_ord"
begin

text \<open>
  The JavaScript standard library the code uses, on strings whose code units are below 256
  (a \<open>char\<close> is one code unit) and on integers: searching and splitting strings, the character
  classes of the regular expressions, upper and lower case, hexadecimal and decimal digits,
  and the conversion of a \<open>bigint\<close> to a \<open>number\<close>, which rounds to 53 bits.
\<close>

section \<open>Characters\<close>

definition char_between :: "char \<Rightarrow> char \<Rightarrow> char \<Rightarrow> bool" where
  "char_between lo hi c \<longleftrightarrow> of_char lo \<le> (of_char c :: nat) \<and> (of_char c :: nat) \<le> of_char hi"

definition is_lower :: "char \<Rightarrow> bool" where
  "is_lower c \<longleftrightarrow> char_between CHR ''a'' CHR ''z'' c"

definition is_digit :: "char \<Rightarrow> bool" where
  "is_digit c \<longleftrightarrow> char_between CHR ''0'' CHR ''9'' c"

text \<open>\<open>toLowerCase\<close> moves \<open>A\<close> to \<open>Z\<close> and the Latin-1 capitals (192 to 222 but 215) up by 32.\<close>

definition lower_char :: "char \<Rightarrow> char" where
  "lower_char c =
     (let n = (of_char c :: nat) in
      if 65 \<le> n \<and> n \<le> 90 \<or> 192 \<le> n \<and> n \<le> 222 \<and> n \<noteq> 215 then char_of (n + 32) else c)"

definition toLowerCase :: "string \<Rightarrow> string" where
  "toLowerCase = map lower_char"

text \<open>\<open>trim\<close> strips white space and line ends.\<close>

definition is_space :: "char \<Rightarrow> bool" where
  "is_space c \<longleftrightarrow> (of_char c :: nat) \<in> {9, 10, 11, 12, 13, 32, 160}"

definition trim_start :: "string \<Rightarrow> string" where
  "trim_start s = dropWhile is_space s"

definition trim_end :: "string \<Rightarrow> string" where
  "trim_end s = rev (dropWhile is_space (rev s))"

definition trim :: "string \<Rightarrow> string" where
  "trim s = trim_end (trim_start s)"

section \<open>Searching\<close>

fun index_of :: "char \<Rightarrow> string \<Rightarrow> nat option" where
  "index_of c [] = None"
| "index_of c (x # xs) = (if x = c then Some 0 else map_option Suc (index_of c xs))"

definition last_index_of :: "char \<Rightarrow> string \<Rightarrow> nat option" where
  "last_index_of c s = map_option (\<lambda>i. length s - Suc i) (index_of c (rev s))"

lemma index_of_None [simp]: "index_of c s = None \<longleftrightarrow> c \<notin> set s"
  by (induction s) auto

lemma index_of_Some:
  "index_of c s = Some i \<longleftrightarrow> i < length s \<and> s ! i = c \<and> c \<notin> set (take i s)"
proof (induction s arbitrary: i)
  case (Cons x xs)
  then show ?case by (cases i) auto
qed simp

lemma index_of_split: "index_of c s = Some i \<Longrightarrow> s = take i s @ c # drop (Suc i) s"
  by (auto simp: index_of_Some id_take_nth_drop)

lemma index_of_append: "c \<notin> set xs \<Longrightarrow> index_of c (xs @ c # ys) = Some (length xs)"
  by (induction xs) auto

lemma last_index_of_None [simp]: "last_index_of c s = None \<longleftrightarrow> c \<notin> set s"
  by (simp add: last_index_of_def)

lemma last_index_of_append: "c \<notin> set ys \<Longrightarrow> last_index_of c (xs @ c # ys) = Some (length xs)"
  by (simp add: last_index_of_def index_of_append)

definition starts_with :: "string \<Rightarrow> string \<Rightarrow> bool" where
  "starts_with p s \<longleftrightarrow> take (length p) s = p"

definition ends_with :: "string \<Rightarrow> string \<Rightarrow> bool" where
  "ends_with p s \<longleftrightarrow> starts_with (rev p) (rev s)"

fun js_includes :: "string \<Rightarrow> string \<Rightarrow> bool" where
  "js_includes p [] = (p = [])"
| "js_includes p (c # s) = (starts_with p (c # s) \<or> js_includes p s)"

text \<open>
  \<open>s.split(t).join(r)\<close> for a non-empty \<open>t\<close>: every occurrence of \<open>t\<close> from the left, without
  looking into what was inserted, becomes \<open>r\<close>. \<open>replace_first\<close> is \<open>s.replace(t, r)\<close>.
\<close>

function replace_all :: "string \<Rightarrow> string \<Rightarrow> string \<Rightarrow> string" where
  "replace_all t r [] = []"
| "replace_all t r (c # s) =
     (if t \<noteq> [] \<and> starts_with t (c # s) then r @ replace_all t r (drop (length t) (c # s))
      else c # replace_all t r s)"
  by pat_completeness auto
termination
  by (relation "measure (\<lambda>(t, r, s). length s)") (auto simp: neq_Nil_conv)

fun replace_first :: "string \<Rightarrow> string \<Rightarrow> string \<Rightarrow> string" where
  "replace_first t r [] = (if t = [] then r else [])"
| "replace_first t r (c # s) =
     (if starts_with t (c # s) then r @ drop (length t) (c # s) else c # replace_first t r s)"

lemma replace_all_absent: "t \<noteq> [] \<Longrightarrow> \<not> js_includes t s \<Longrightarrow> replace_all t r s = s"
  by (induction t r s rule: replace_all.induct) auto

text \<open>
  A replacement whose pattern is one character maps every character on its own: \<open>subst1\<close>.
\<close>

definition subst1 :: "char \<Rightarrow> string \<Rightarrow> string \<Rightarrow> string" where
  "subst1 c r s = concat (map (\<lambda>x. if x = c then r else [x]) s)"

lemma replace_all_char: "replace_all [c] r s = subst1 c r s"
  by (induction "[c]" r s rule: replace_all.induct) (auto simp: subst1_def starts_with_def)

section \<open>Digits\<close>

definition hex_digit :: "nat \<Rightarrow> char" where
  "hex_digit d = (if d < 10 then char_of (48 + d) else char_of (87 + d))"

definition hex_value :: "char \<Rightarrow> nat" where
  "hex_value c = (let n = of_char c in if n < 58 then n - 48 else n - 87)"

lemma hex_value_digit: "d < 16 \<Longrightarrow> hex_value (hex_digit d) = d"
  by (auto simp: hex_value_def hex_digit_def of_char_of)

text \<open>\<open>b.toString(16).padStart(2, '0')\<close> for a byte.\<close>

definition hex_byte :: "nat \<Rightarrow> string" where
  "hex_byte b = [hex_digit (b div 16), hex_digit (b mod 16)]"

fun decimal :: "nat \<Rightarrow> string" where
  "decimal n = (if n < 10 then [char_of (48 + n)] else decimal (n div 10) @ [char_of (48 + n mod 10)])"

declare decimal.simps [simp del]

definition decimal_value :: "string \<Rightarrow> nat" where
  "decimal_value s = foldl (\<lambda>a c. 10 * a + (of_char c - 48)) 0 s"

lemma decimal_value_decimal: "decimal_value (decimal n) = n"
proof (induction n rule: decimal.induct)
  case (1 n)
  show ?case
  proof (cases "n < 10")
    case True
    then show ?thesis by (simp add: decimal.simps [of n] decimal_value_def of_char_of)
  next
    case False
    with "1" have "foldl (\<lambda>a c. 10 * a + (of_char c - 48)) 0 (decimal (n div 10)) = n div 10"
      by (simp add: decimal_value_def)
    with False show ?thesis
      by (simp add: decimal.simps [of n] decimal_value_def of_char_of)
  qed
qed

lemma decimal_inject [simp]: "decimal m = decimal n \<longleftrightarrow> m = n"
  by (metis decimal_value_decimal)

lemma decimal_digits: "c \<in> set (decimal n) \<Longrightarrow> is_digit c"
proof (induction n rule: decimal.induct)
  case (1 n)
  then show ?case
    by (cases "n < 10") (auto simp: decimal.simps [of n] is_digit_def char_between_def of_char_of)
qed

lemma decimal_not_Nil [simp]: "decimal n \<noteq> []"
  by (simp add: decimal.simps [of n])

section \<open>Numbers\<close>

text \<open>
  \<open>Number(n)\<close> of a \<open>bigint\<close>: exact below \<open>2 ^ 53\<close>, else the nearest multiple of the power of two
  that leaves 53 bits, ties to the even one. \<open>excess_bits\<close> counts the bits dropped.
\<close>

fun excess_bits :: "nat \<Rightarrow> nat" where
  "excess_bits n = (if n < 2 ^ 53 then 0 else Suc (excess_bits (n div 2)))"

declare excess_bits.simps [simp del]

definition round_half_even :: "nat \<Rightarrow> nat \<Rightarrow> nat" where
  "round_half_even n m =
     (let q = n div m; r = n mod m in
      if 2 * r < m \<or> 2 * r = m \<and> even q then q else q + 1)"

definition number_of_nat :: "nat \<Rightarrow> nat" where
  "number_of_nat n = (let m = 2 ^ excess_bits n in round_half_even n m * m)"

definition js_Number :: "int \<Rightarrow> int" where
  "js_Number i = (if 0 \<le> i then int (number_of_nat (nat i)) else - int (number_of_nat (nat (- i))))"

lemma js_Number_exact: "\<bar>i\<bar> < 2 ^ 53 \<Longrightarrow> js_Number i = i"
proof -
  assume "\<bar>i\<bar> < 2 ^ 53"
  then have "nat i < 2 ^ 53" and "nat (- i) < 2 ^ 53" by auto
  then show ?thesis
    by (auto simp: js_Number_def number_of_nat_def round_half_even_def excess_bits.simps)
qed

lemma js_Number_witness: "js_Number (2 ^ 53 + 1) = 2 ^ 53"
  by (simp add: js_Number_def number_of_nat_def round_half_even_def excess_bits.simps)

text \<open>Division of non-negative \<open>bigint\<close>s truncates; \<open>Math.max\<close> and friends are HOL's.\<close>

definition bigint_div :: "int \<Rightarrow> int \<Rightarrow> int" where
  "bigint_div a b = sgn a * sgn b * (\<bar>a\<bar> div \<bar>b\<bar>)"

lemma bigint_div_nonneg: "0 \<le> a \<Longrightarrow> 0 < b \<Longrightarrow> bigint_div a b = a div b"
  by (cases "a = 0") (auto simp: bigint_div_def)

text \<open>A JavaScript \<open>Date\<close> holds milliseconds since the epoch.\<close>

datatype Date = Date (getTime: int)

text \<open>The backend's time stamps are nanoseconds; the client keeps milliseconds in a \<open>Date\<close>.\<close>

definition date_of_nanos :: "int \<Rightarrow> Date" where
  "date_of_nanos t = Date (js_Number (bigint_div t 1000000))"

lemma date_of_nanos_exact:
  "0 \<le> t \<Longrightarrow> t < 2 ^ 64 \<Longrightarrow> getTime (date_of_nanos t) = t div 1000000"
  by (simp add: date_of_nanos_def bigint_div_nonneg js_Number_exact)

end
