(* ===== verification/ApiError.thy ===== *)
theory ApiError
  imports Task JsBase
begin

text \<open>
  \<open>lib/nil.ts\<close>, the candid helpers of \<open>lib/utils.ts\<close> and \<open>lib/api-models/error.ts\<close>: what a
  call to the backend may answer, the error it is turned into, and the names the errors carry.
  A throwing function returns a sum, with the thrown \<open>js_error\<close> on the left.
\<close>

section \<open>Nullable values and candid options (nil.ts, utils.ts)\<close>

definition isNil :: "'a option \<Rightarrow> bool" where
  "isNil v \<longleftrightarrow> v = None"

definition isNotNil :: "'a option \<Rightarrow> bool" where
  "isNotNil v \<longleftrightarrow> v \<noteq> None"

lemma isNil_simps [simp]: "isNil None" "\<not> isNil (Some x)" "isNotNil (Some x)" "\<not> isNotNil None"
  by (simp_all add: isNil_def isNotNil_def)

lemma isNotNil_iff: "isNotNil v \<longleftrightarrow> \<not> isNil v"
  by (simp add: isNil_def isNotNil_def)

definition fromCandidOpt :: "'a candid_opt \<Rightarrow> 'a option" where
  "fromCandidOpt opt = (if length opt = 0 then None else Some (opt ! 0))"

definition toCandidOpt :: "'a option \<Rightarrow> 'a candid_opt" where
  "toCandidOpt v = (case v of None \<Rightarrow> [] | Some x \<Rightarrow> [x])"

lemma fromCandidOpt_simps [simp]:
  "fromCandidOpt [] = None"
  "fromCandidOpt (x # xs) = Some x"
  by (simp_all add: fromCandidOpt_def)

lemma toCandidOpt_simps [simp]:
  "toCandidOpt None = []"
  "toCandidOpt (Some x) = [x]"
  by (simp_all add: toCandidOpt_def)

lemma toCandidOpt_ok [simp]: "candid_opt_ok (toCandidOpt v)"
  by (cases v) (simp_all add: candid_opt_ok_def)

lemma toCandidOpt_fromCandidOpt: "candid_opt_ok xs \<Longrightarrow> toCandidOpt (fromCandidOpt xs) = xs"
  by (cases xs) (auto simp: candid_opt_ok_def)

interpretation candid_option: codec toCandidOpt fromCandidOpt
  by unfold_locales (simp split: option.split add: toCandidOpt_def)

text \<open>\<open>const [x] = xs\<close> and \<open>xs[0] ?? null\<close>: the first element, or nothing.\<close>

definition first :: "'a list \<Rightarrow> 'a option" where
  "first xs = (case xs of [] \<Rightarrow> None | x # _ \<Rightarrow> Some x)"

lemma first_simps [simp]: "first [] = None" "first (x # xs) = Some x"
  by (simp_all add: first_def)

lemma first_fromCandidOpt: "first xs = fromCandidOpt xs"
  by (cases xs) simp_all

section \<open>What the canisters answer\<close>

datatype ApiErrorCode =
    Api_Unauthenticated | Api_Unauthorized | Api_DependencyError
  | Api_InternalError | Api_ClientError | Api_QuotaExceeded

record ApiError =
  ApiError_code :: "ApiErrorCode candid_opt"
  ApiError_message :: string

datatype RejectionReason =
    Expired | Invalid | WrongPurpose | EmailMismatch | ProfileNotFound | NoVerifiedAccount

record RejectionError =
  RejectionError_message :: string
  RejectionError_reason :: "RejectionReason candid_opt"

datatype ('a, 'err) response = Ok 'a | Err 'err

type_synonym 'a ApiResponse = "('a, ApiError) response"
type_synonym 'a RejectionResponse = "('a, RejectionError) response"

section \<open>Errors\<close>

datatype ApiErrorCodeName =
    ClientError | Unauthorized | DependencyError | InternalError | Unauthenticated | Unknown

text \<open>
  What the code throws: \<open>ApiCallError\<close>, a plain \<open>Error\<close>, or whatever a library rejected with
  (the agent when a canister cannot be reached, the identity provider, \<open>fetch\<close>).
\<close>

datatype js_error =
    ApiCallError ApiErrorCodeName string "RejectionReason option"
  | Error string
  | LibraryError string

fun code_name :: "ApiErrorCodeName \<Rightarrow> string" where
  "code_name ClientError = ''ClientError''"
| "code_name Unauthorized = ''Unauthorized''"
| "code_name DependencyError = ''DependencyError''"
| "code_name InternalError = ''InternalError''"
| "code_name Unauthenticated = ''Unauthenticated''"
| "code_name Unknown = ''Unknown''"

fun error_message :: "js_error \<Rightarrow> string" where
  "error_message (ApiCallError code apiMessage reason) = ''['' @ code_name code @ '']: '' @ apiMessage"
| "error_message (Error msg) = msg"
| "error_message (LibraryError msg) = msg"

text \<open>
  \<open>codeObjToString\<close> tests the five names it knows in order; any other code, \<open>QuotaExceeded\<close>
  included, is \<open>Unknown\<close>.
\<close>

definition codeObjToString :: "ApiErrorCode option \<Rightarrow> ApiErrorCodeName" where
  "codeObjToString codeObj =
     (if isNil codeObj then Unknown
      else if codeObj = Some Api_ClientError then ClientError
      else if codeObj = Some Api_Unauthorized then Unauthorized
      else if codeObj = Some Api_DependencyError then DependencyError
      else if codeObj = Some Api_InternalError then InternalError
      else if codeObj = Some Api_Unauthenticated then Unauthenticated
      else Unknown)"

definition mapOkResponse :: "'a ApiResponse \<Rightarrow> js_error + 'a" where
  "mapOkResponse response =
     (case response of
        Ok x \<Rightarrow> Inr x
      | Err err \<Rightarrow> Inl (ApiCallError (codeObjToString (first (ApiError_code err))) (ApiError_message err) None))"

definition mapRejectionResponse :: "'a RejectionResponse \<Rightarrow> js_error + 'a" where
  "mapRejectionResponse response =
     (case response of
        Ok x \<Rightarrow> Inr x
      | Err err \<Rightarrow> Inl (ApiCallError ClientError (RejectionError_message err) (first (RejectionError_reason err))))"

lemma mapOkResponse_simps [simp]:
  "mapOkResponse (Ok x) = Inr x"
  "mapOkResponse (Err err) =
     Inl (ApiCallError (codeObjToString (first (ApiError_code err))) (ApiError_message err) None)"
  by (simp_all add: mapOkResponse_def)

lemma mapRejectionResponse_simps [simp]:
  "mapRejectionResponse (Ok x) = Inr x"
  "mapRejectionResponse (Err err) =
     Inl (ApiCallError ClientError (RejectionError_message err) (first (RejectionError_reason err)))"
  by (simp_all add: mapRejectionResponse_def)

lemma mapOkResponse_Inr [sum_simps]: "mapOkResponse r = Inr x \<longleftrightarrow> r = Ok x"
  by (cases r) simp_all

text \<open>The body of a response mapper: \<open>const ok = mapOkResponse(res); return f(ok)\<close>.\<close>

definition ok_map :: "('a \<Rightarrow> 'b) \<Rightarrow> 'a ApiResponse \<Rightarrow> js_error + 'b" where
  "ok_map f res = and_then (mapOkResponse res) (\<lambda>ok. Inr (f ok))"

lemma ok_map_simps [simp]:
  "ok_map f (Ok x) = Inr (f x)"
  "ok_map f (Err err) =
     Inl (ApiCallError (codeObjToString (first (ApiError_code err))) (ApiError_message err) None)"
  by (simp_all add: ok_map_def)

lemma ok_map_Inr [sum_simps]: "ok_map f res = Inr y \<longleftrightarrow> (\<exists>x. res = Ok x \<and> y = f x)"
  by (cases res) auto

section \<open>Principals\<close>

text \<open>
  A principal is the byte string the Internet Computer identifies a canister or a user by; its
  text form is made and parsed by the \<open>Principal\<close> class of the SDK, a parameter of the functions
  below: \<open>toText\<close>, and \<open>fromText\<close>, which throws on text that is not a principal.
\<close>

datatype principal = Principal (principal_bytes: "nat list")

record principal_codec =
  toText :: "principal \<Rightarrow> string"
  fromText :: "string \<Rightarrow> js_error + principal"

text \<open>The documented behaviour the round trips rely on: \<open>fromText\<close> parses what \<open>toText\<close> prints.\<close>

definition principal_codec_ok :: "('z) principal_codec_scheme \<Rightarrow> bool" where
  "principal_codec_ok P \<longleftrightarrow> (\<forall>p. fromText P (toText P p) = Inr p)"

end
