(* ===== verification/Permissions.thy ===== *)
theory Permissions
  imports ApiError
begin

text \<open>
  \<open>lib/api-models/permissions.ts\<close>: the permission bits of an organization and of a project, and
  their translation to and from the records the backend exchanges.
\<close>

section \<open>Organization permissions\<close>

record OrgPermissions =
  orgAdmin :: bool
  memberManage :: bool
  teamManage :: bool
  projectCreate :: bool
  billingManage :: bool

record ApiOrgPermissions =
  org_admin :: bool
  member_manage :: bool
  team_manage :: bool
  project_create :: bool
  billing_manage :: bool

definition emptyOrgPermissions :: OrgPermissions where
  "emptyOrgPermissions =
     \<lparr>orgAdmin = False, memberManage = False, teamManage = False, projectCreate = False,
      billingManage = False\<rparr>"

definition mapOrgPermissions :: "ApiOrgPermissions \<Rightarrow> OrgPermissions" where
  "mapOrgPermissions res =
     \<lparr>orgAdmin = org_admin res,
      memberManage = member_manage res,
      teamManage = team_manage res,
      projectCreate = project_create res,
      billingManage = billing_manage res\<rparr>"

definition mapOrgPermissionsToApi :: "OrgPermissions \<Rightarrow> ApiOrgPermissions" where
  "mapOrgPermissionsToApi perms =
     \<lparr>org_admin = orgAdmin perms,
      member_manage = memberManage perms,
      team_manage = teamManage perms,
      project_create = projectCreate perms,
      billing_manage = billingManage perms\<rparr>"

interpretation org_permissions: bijective_codec mapOrgPermissionsToApi mapOrgPermissions
  by unfold_locales (simp_all add: mapOrgPermissionsToApi_def mapOrgPermissions_def)

section \<open>Project permissions\<close>

record ProjectPermissions =
  projectAdmin :: bool
  canisterManage :: bool
  proposalCreate :: bool
  proposalApprove :: bool
  canisterOperate :: bool
  canisterRead :: bool
  approvalPolicyManage :: bool
  projectSettings :: bool

record ApiProjectPermissions =
  project_admin :: bool
  canister_manage :: bool
  proposal_create :: bool
  proposal_approve :: bool
  canister_operate :: bool
  canister_read :: bool
  approval_policy_manage :: bool
  project_settings :: bool

definition emptyProjectPermissions :: ProjectPermissions where
  "emptyProjectPermissions =
     \<lparr>projectAdmin = False, canisterManage = False, proposalCreate = False,
      proposalApprove = False, canisterOperate = False, canisterRead = False,
      approvalPolicyManage = False, projectSettings = False\<rparr>"

definition mapProjectPermissions :: "ApiProjectPermissions \<Rightarrow> ProjectPermissions" where
  "mapProjectPermissions res =
     \<lparr>projectAdmin = project_admin res,
      canisterManage = canister_manage res,
      proposalCreate = proposal_create res,
      proposalApprove = proposal_approve res,
      canisterOperate = canister_operate res,
      canisterRead = canister_read res,
      approvalPolicyManage = approval_policy_manage res,
      projectSettings = project_settings res\<rparr>"

definition mapProjectPermissionsToApi :: "ProjectPermissions \<Rightarrow> ApiProjectPermissions" where
  "mapProjectPermissionsToApi perms =
     \<lparr>project_admin = projectAdmin perms,
      canister_manage = canisterManage perms,
      proposal_create = proposalCreate perms,
      proposal_approve = proposalApprove perms,
      canister_operate = canisterOperate perms,
      canister_read = canisterRead perms,
      approval_policy_manage = approvalPolicyManage perms,
      project_settings = projectSettings perms\<rparr>"

interpretation project_permissions: bijective_codec mapProjectPermissionsToApi mapProjectPermissions
  by unfold_locales (simp_all add: mapProjectPermissionsToApi_def mapProjectPermissions_def)

end
