(* ===== verification/UserModels.thy ===== *)
theory UserModels
  imports Permissions
begin

text \<open>
  The models of users and what belongs to them: \<open>lib/api-models/user-profile.ts\<close>,
  \<open>staff-permissions.ts\<close>, \<open>trusted-partner.ts\<close>, \<open>terms-and-conditions.ts\<close> and
  \<open>principal-link.ts\<close>. A response mapper that can throw returns a sum. The candid types of the
  bindings carry the prefix \<open>Api\<close>; their response types are spelled out (\<open>'a ApiResponse\<close>).
\<close>

section \<open>User profiles\<close>

datatype UserStatus = Active | Inactive

text \<open>The variant as it comes off the wire; a tag the client does not know is kept.\<close>

datatype ApiUserStatus = ApiUserStatus_Active | ApiUserStatus_Inactive | ApiUserStatus_Other string

record ApiUserProfile =
  ApiUserProfile_id :: string
  ApiUserProfile_email :: "string candid_opt"
  ApiUserProfile_email_verified :: bool
  ApiUserProfile_status :: ApiUserStatus
  ApiUserProfile_is_admin :: bool

record UserProfile =
  UserProfile_id :: string
  UserProfile_email :: "string option"
  UserProfile_emailVerified :: bool
  UserProfile_status :: UserStatus
  UserProfile_isAdmin :: bool

record UpdateMyUserProfileRequest =
  UpdateMyUserProfileRequest_email :: "string option"

record ApiUpdateMyUserProfileRequest =
  ApiUpdateMyUserProfileRequest_email :: "string candid_opt"

record UpdateUserProfileRequest =
  UpdateUserProfileRequest_userId :: string
  UpdateUserProfileRequest_status :: "UserStatus option"

record ApiUpdateUserProfileRequest =
  ApiUpdateUserProfileRequest_user_id :: string
  ApiUpdateUserProfileRequest_status :: "ApiUserStatus candid_opt"

text \<open>The \<open>default\<close> branch of the source throws for a value outside the enum; there is none.\<close>

definition mapUserStatusRequest :: "UserStatus \<Rightarrow> ApiUserStatus" where
  "mapUserStatusRequest status =
     (case status of Active \<Rightarrow> ApiUserStatus_Active | Inactive \<Rightarrow> ApiUserStatus_Inactive)"

definition mapUserStatusResponse :: "ApiUserStatus \<Rightarrow> js_error + UserStatus" where
  "mapUserStatusResponse status =
     (if status = ApiUserStatus_Active then Inr Active
      else if status = ApiUserStatus_Inactive then Inr Inactive
      else Inl (Error ''Unknown user status response''))"

lemma mapUserStatusResponse_simps [simp]:
  "mapUserStatusResponse ApiUserStatus_Active = Inr Active"
  "mapUserStatusResponse ApiUserStatus_Inactive = Inr Inactive"
  "mapUserStatusResponse (ApiUserStatus_Other t) = Inl (Error ''Unknown user status response'')"
  by (simp_all add: mapUserStatusResponse_def)

lemma mapUserStatus_roundtrip [simp]: "mapUserStatusResponse (mapUserStatusRequest status) = Inr status"
  by (cases status) (simp_all add: mapUserStatusRequest_def)

definition mapUserProfileResponse :: "ApiUserProfile \<Rightarrow> js_error + UserProfile" where
  "mapUserProfileResponse res =
     and_then (mapUserStatusResponse (ApiUserProfile_status res)) (\<lambda>status. Inr
       \<lparr>UserProfile_id = ApiUserProfile_id res,
        UserProfile_email = fromCandidOpt (ApiUserProfile_email res),
        UserProfile_emailVerified = ApiUserProfile_email_verified res,
        UserProfile_status = status,
        UserProfile_isAdmin = ApiUserProfile_is_admin res\<rparr>)"

definition mapListUserProfilesResponse :: "ApiUserProfile list ApiResponse \<Rightarrow> js_error + UserProfile list" where
  "mapListUserProfilesResponse res = and_then (mapOkResponse res) (map_throwing mapUserProfileResponse)"

definition mapGetMyUserProfileResponse ::
    "ApiUserProfile candid_opt ApiResponse \<Rightarrow> js_error + UserProfile option" where
  "mapGetMyUserProfileResponse res =
     and_then (mapOkResponse res) (\<lambda>ok.
       case fromCandidOpt ok of
         Some userProfile \<Rightarrow> and_then (mapUserProfileResponse userProfile) (\<lambda>p. Inr (Some p))
       | None \<Rightarrow> Inr None)"

definition mapCreateMyUserProfileResponse :: "ApiUserProfile ApiResponse \<Rightarrow> js_error + UserProfile" where
  "mapCreateMyUserProfileResponse res = and_then (mapOkResponse res) mapUserProfileResponse"

definition mapUpdateMyUserProfileRequest :: "UpdateMyUserProfileRequest \<Rightarrow> ApiUpdateMyUserProfileRequest" where
  "mapUpdateMyUserProfileRequest req =
     \<lparr>ApiUpdateMyUserProfileRequest_email = toCandidOpt (UpdateMyUserProfileRequest_email req)\<rparr>"

definition mapUpdateUserProfileRequest :: "UpdateUserProfileRequest \<Rightarrow> ApiUpdateUserProfileRequest" where
  "mapUpdateUserProfileRequest req =
     \<lparr>ApiUpdateUserProfileRequest_user_id = UpdateUserProfileRequest_userId req,
      ApiUpdateUserProfileRequest_status =
        (case UpdateUserProfileRequest_status req of
           Some status \<Rightarrow> [mapUserStatusRequest status] | None \<Rightarrow> [])\<rparr>"

section \<open>User statistics and stale users\<close>

record ApiUserStats =
  ApiUserStats_total :: int
  ApiUserStats_active :: int
  ApiUserStats_inactive :: int

record GetUserStatsResponse =
  GetUserStatsResponse_total :: int
  GetUserStatsResponse_active :: int
  GetUserStatsResponse_inactive :: int

definition mapUserStatsResponse :: "ApiUserStats ApiResponse \<Rightarrow> js_error + GetUserStatsResponse" where
  "mapUserStatsResponse = ok_map (\<lambda>okRes.
     \<lparr>GetUserStatsResponse_total = js_Number (ApiUserStats_total okRes),
      GetUserStatsResponse_active = js_Number (ApiUserStats_active okRes),
      GetUserStatsResponse_inactive = js_Number (ApiUserStats_inactive okRes)\<rparr>)"

record ApiStaleUserEntry =
  ApiStaleUserEntry_id :: string
  ApiStaleUserEntry_email :: "string candid_opt"

record StaleUserEntry =
  StaleUserEntry_id :: string
  StaleUserEntry_email :: "string option"

definition mapListStaleUsersResponse :: "ApiStaleUserEntry list ApiResponse \<Rightarrow> js_error + StaleUserEntry list" where
  "mapListStaleUsersResponse = ok_map (map (\<lambda>entry.
     \<lparr>StaleUserEntry_id = ApiStaleUserEntry_id entry,
      StaleUserEntry_email = fromCandidOpt (ApiStaleUserEntry_email entry)\<rparr>))"

section \<open>Profiles looked up by principal or by id\<close>

record ApiUserProfileBrief =
  ApiUserProfileBrief_id :: string
  ApiUserProfileBrief_email :: "string candid_opt"
  ApiUserProfileBrief_email_verified :: bool

record UserProfileBrief =
  UserProfileBrief_id :: string
  UserProfileBrief_email :: "string option"
  UserProfileBrief_emailVerified :: bool

record GetUserProfilesByPrincipalsRequest =
  GetUserProfilesByPrincipalsRequest_projectId :: string
  GetUserProfilesByPrincipalsRequest_principals :: "string list"

record ApiGetUserProfilesByPrincipalsRequest =
  ApiGetUserProfilesByPrincipalsRequest_project_id :: string
  ApiGetUserProfilesByPrincipalsRequest_principals :: "principal list"

record ApiUserProfileByPrincipal =
  ApiUserProfileByPrincipal_subject_principal :: principal
  ApiUserProfileByPrincipal_profile :: "ApiUserProfileBrief candid_opt"

record ApiUserProfilesByPrincipals =
  ApiUserProfilesByPrincipals_profiles :: "ApiUserProfileByPrincipal list"

record UserProfileByPrincipal =
  UserProfileByPrincipal_principal :: string
  UserProfileByPrincipal_profile :: "UserProfileBrief option"

definition mapGetUserProfilesByPrincipalsRequest ::
    "('z) principal_codec_scheme \<Rightarrow> GetUserProfilesByPrincipalsRequest \<Rightarrow>
     js_error + ApiGetUserProfilesByPrincipalsRequest" where
  "mapGetUserProfilesByPrincipalsRequest P req =
     and_then (map_throwing (fromText P) (GetUserProfilesByPrincipalsRequest_principals req)) (\<lambda>principals. Inr
       \<lparr>ApiGetUserProfilesByPrincipalsRequest_project_id = GetUserProfilesByPrincipalsRequest_projectId req,
        ApiGetUserProfilesByPrincipalsRequest_principals = principals\<rparr>)"

definition mapUserProfileBriefOpt :: "ApiUserProfileBrief candid_opt \<Rightarrow> UserProfileBrief option" where
  "mapUserProfileBriefOpt opt =
     (case fromCandidOpt opt of
        Some brief \<Rightarrow> Some
          \<lparr>UserProfileBrief_id = ApiUserProfileBrief_id brief,
           UserProfileBrief_email = fromCandidOpt (ApiUserProfileBrief_email brief),
           UserProfileBrief_emailVerified = ApiUserProfileBrief_email_verified brief\<rparr>
      | None \<Rightarrow> None)"

definition mapGetUserProfilesByPrincipalsResponse ::
    "('z) principal_codec_scheme \<Rightarrow> ApiUserProfilesByPrincipals ApiResponse \<Rightarrow>
     js_error + UserProfileByPrincipal list" where
  "mapGetUserProfilesByPrincipalsResponse P = ok_map (\<lambda>ok.
     map (\<lambda>entry.
       \<lparr>UserProfileByPrincipal_principal = toText P (ApiUserProfileByPrincipal_subject_principal entry),
        UserProfileByPrincipal_profile = mapUserProfileBriefOpt (ApiUserProfileByPrincipal_profile entry)\<rparr>)
     (ApiUserProfilesByPrincipals_profiles ok))"

record GetUserProfilesByUserIdsRequest =
  GetUserProfilesByUserIdsRequest_projectId :: string
  GetUserProfilesByUserIdsRequest_userIds :: "string list"

record ApiGetUserProfilesByUserIdsRequest =
  ApiGetUserProfilesByUserIdsRequest_project_id :: string
  ApiGetUserProfilesByUserIdsRequest_user_ids :: "string list"

record ApiUserProfilesByUserIds =
  ApiUserProfilesByUserIds_profiles :: "ApiUserProfileBrief list"

definition mapGetUserProfilesByUserIdsRequest ::
    "GetUserProfilesByUserIdsRequest \<Rightarrow> ApiGetUserProfilesByUserIdsRequest" where
  "mapGetUserProfilesByUserIdsRequest req =
     \<lparr>ApiGetUserProfilesByUserIdsRequest_project_id = GetUserProfilesByUserIdsRequest_projectId req,
      ApiGetUserProfilesByUserIdsRequest_user_ids = GetUserProfilesByUserIdsRequest_userIds req\<rparr>"

definition mapGetUserProfilesByUserIdsResponse ::
    "ApiUserProfilesByUserIds ApiResponse \<Rightarrow> js_error + UserProfileBrief list" where
  "mapGetUserProfilesByUserIdsResponse = ok_map (\<lambda>ok.
     map (\<lambda>brief.
       \<lparr>UserProfileBrief_id = ApiUserProfileBrief_id brief,
        UserProfileBrief_email = fromCandidOpt (ApiUserProfileBrief_email brief),
        UserProfileBrief_emailVerified = ApiUserProfileBrief_email_verified brief\<rparr>)
     (ApiUserProfilesByUserIds_profiles ok))"

section \<open>Staff permissions\<close>

record StaffPermissions =
  readAllOrgs :: bool
  writeBilling :: bool
  manageUsers :: bool
  readMetrics :: bool

record ApiStaffPermissions =
  read_all_orgs :: bool
  write_billing :: bool
  manage_users :: bool
  read_metrics :: bool

record StaffMember =
  StaffMember_userId :: string
  StaffMember_email :: "string option"
  StaffMember_emailVerified :: bool
  StaffMember_status :: UserStatus
  StaffMember_permissions :: StaffPermissions

record ApiStaffMember =
  ApiStaffMember_user_id :: string
  ApiStaffMember_email :: "string candid_opt"
  ApiStaffMember_email_verified :: bool
  ApiStaffMember_status :: ApiUserStatus
  ApiStaffMember_permissions :: ApiStaffPermissions

record GrantStaffPermissionsRequest =
  GrantStaffPermissionsRequest_userId :: string
  GrantStaffPermissionsRequest_permissions :: StaffPermissions

record ApiGrantStaffPermissionsRequest =
  ApiGrantStaffPermissionsRequest_user_id :: string
  ApiGrantStaffPermissionsRequest_permissions :: ApiStaffPermissions

record RevokeStaffPermissionsRequest =
  RevokeStaffPermissionsRequest_userId :: string

record ApiRevokeStaffPermissionsRequest =
  ApiRevokeStaffPermissionsRequest_user_id :: string

definition mapStaffPermissionsResponse :: "ApiStaffPermissions \<Rightarrow> StaffPermissions" where
  "mapStaffPermissionsResponse res =
     \<lparr>readAllOrgs = read_all_orgs res,
      writeBilling = write_billing res,
      manageUsers = manage_users res,
      readMetrics = read_metrics res\<rparr>"

definition mapStaffPermissionsRequest :: "StaffPermissions \<Rightarrow> ApiStaffPermissions" where
  "mapStaffPermissionsRequest req =
     \<lparr>read_all_orgs = readAllOrgs req,
      write_billing = writeBilling req,
      manage_users = manageUsers req,
      read_metrics = readMetrics req\<rparr>"

interpretation staff_permissions: bijective_codec mapStaffPermissionsRequest mapStaffPermissionsResponse
  by unfold_locales (simp_all add: mapStaffPermissionsRequest_def mapStaffPermissionsResponse_def)

definition mapGetMyStaffPermissionsResponse ::
    "ApiStaffPermissions candid_opt ApiResponse \<Rightarrow> js_error + StaffPermissions option" where
  "mapGetMyStaffPermissionsResponse = ok_map (\<lambda>ok.
     map_option mapStaffPermissionsResponse (fromCandidOpt ok))"

definition mapStaffMemberResponse :: "ApiStaffMember \<Rightarrow> js_error + StaffMember" where
  "mapStaffMemberResponse res =
     and_then (mapUserStatusResponse (ApiStaffMember_status res)) (\<lambda>status. Inr
       \<lparr>StaffMember_userId = ApiStaffMember_user_id res,
        StaffMember_email = fromCandidOpt (ApiStaffMember_email res),
        StaffMember_emailVerified = ApiStaffMember_email_verified res,
        StaffMember_status = status,
        StaffMember_permissions = mapStaffPermissionsResponse (ApiStaffMember_permissions res)\<rparr>)"

definition mapListStaffResponse :: "ApiStaffMember list ApiResponse \<Rightarrow> js_error + StaffMember list" where
  "mapListStaffResponse res = and_then (mapOkResponse res) (map_throwing mapStaffMemberResponse)"

definition mapGrantStaffPermissionsRequest ::
    "GrantStaffPermissionsRequest \<Rightarrow> ApiGrantStaffPermissionsRequest" where
  "mapGrantStaffPermissionsRequest req =
     \<lparr>ApiGrantStaffPermissionsRequest_user_id = GrantStaffPermissionsRequest_userId req,
      ApiGrantStaffPermissionsRequest_permissions =
        mapStaffPermissionsRequest (GrantStaffPermissionsRequest_permissions req)\<rparr>"

definition mapGrantStaffPermissionsResponse :: "unit ApiResponse \<Rightarrow> js_error + unit" where
  "mapGrantStaffPermissionsResponse res = mapOkResponse res"

definition mapRevokeStaffPermissionsRequest ::
    "RevokeStaffPermissionsRequest \<Rightarrow> ApiRevokeStaffPermissionsRequest" where
  "mapRevokeStaffPermissionsRequest req =
     \<lparr>ApiRevokeStaffPermissionsRequest_user_id = RevokeStaffPermissionsRequest_userId req\<rparr>"

definition mapRevokeStaffPermissionsResponse :: "unit ApiResponse \<Rightarrow> js_error + unit" where
  "mapRevokeStaffPermissionsResponse res = mapOkResponse res"

section \<open>Trusted partners\<close>

record TrustedPartner =
  TrustedPartner_id :: string
  TrustedPartner_principal :: string
  TrustedPartner_name :: string

record ApiTrustedPartner =
  ApiTrustedPartner_id :: string
  ApiTrustedPartner_principal_id :: string
  ApiTrustedPartner_name :: string

record CreateTrustedPartnerRequest =
  CreateTrustedPartnerRequest_principal :: string
  CreateTrustedPartnerRequest_name :: string

record ApiCreateTrustedPartnerRequest =
  ApiCreateTrustedPartnerRequest_principal_id :: string
  ApiCreateTrustedPartnerRequest_name :: string

definition mapTrustedPartnerResponse :: "ApiTrustedPartner \<Rightarrow> TrustedPartner" where
  "mapTrustedPartnerResponse res =
     \<lparr>TrustedPartner_id = ApiTrustedPartner_id res,
      TrustedPartner_principal = ApiTrustedPartner_principal_id res,
      TrustedPartner_name = ApiTrustedPartner_name res\<rparr>"

definition mapListTrustedPartnersResponse ::
    "ApiTrustedPartner list ApiResponse \<Rightarrow> js_error + TrustedPartner list" where
  "mapListTrustedPartnersResponse = ok_map (map mapTrustedPartnerResponse)"

definition mapCreateTrustedPartnerRequest ::
    "CreateTrustedPartnerRequest \<Rightarrow> ApiCreateTrustedPartnerRequest" where
  "mapCreateTrustedPartnerRequest req =
     \<lparr>ApiCreateTrustedPartnerRequest_principal_id = CreateTrustedPartnerRequest_principal req,
      ApiCreateTrustedPartnerRequest_name = CreateTrustedPartnerRequest_name req\<rparr>"

definition mapCreateTrustedPartnerResponse :: "ApiTrustedPartner ApiResponse \<Rightarrow> js_error + TrustedPartner" where
  "mapCreateTrustedPartnerResponse = ok_map mapTrustedPartnerResponse"

section \<open>Terms and conditions\<close>

record TermsAndConditions =
  TermsAndConditions_id :: string
  TermsAndConditions_content :: string
  TermsAndConditions_comment :: string
  TermsAndConditions_createdAt :: Date
  TermsAndConditions_hasAccepted :: bool

record ApiTermsAndConditions =
  ApiTermsAndConditions_id :: string
  ApiTermsAndConditions_content :: string
  ApiTermsAndConditions_comment :: string
  ApiTermsAndConditions_created_at :: int
  ApiTermsAndConditions_has_accepted :: bool

record TermsAndConditionsListItem =
  TermsAndConditionsListItem_id :: string
  TermsAndConditionsListItem_content :: string
  TermsAndConditionsListItem_comment :: string
  TermsAndConditionsListItem_createdAt :: Date
  TermsAndConditionsListItem_createdBy :: string

record ApiTermsAndConditionsListItem =
  ApiTermsAndConditionsListItem_id :: string
  ApiTermsAndConditionsListItem_content :: string
  ApiTermsAndConditionsListItem_comment :: string
  ApiTermsAndConditionsListItem_created_at :: int
  ApiTermsAndConditionsListItem_created_by :: string

record CreateTermsAndConditionsRequest =
  CreateTermsAndConditionsRequest_content :: string
  CreateTermsAndConditionsRequest_comment :: string

record ApiCreateTermsAndConditionsRequest =
  ApiCreateTermsAndConditionsRequest_content :: string
  ApiCreateTermsAndConditionsRequest_comment :: string

datatype TermsAndConditionsDecisionType = Decision_Accept | Decision_Reject

datatype ApiTermsAndConditionsDecisionType = ApiDecision_Accept | ApiDecision_Reject

record UpsertTermsAndConditionsDecisionRequest =
  UpsertTermsAndConditionsDecisionRequest_termsAndConditionsId :: string
  UpsertTermsAndConditionsDecisionRequest_decisionType :: TermsAndConditionsDecisionType

record ApiUpsertTermsAndConditionsDecisionRequest =
  ApiUpsertTermsAndConditionsDecisionRequest_terms_and_conditions_id :: string
  ApiUpsertTermsAndConditionsDecisionRequest_decision_type :: ApiTermsAndConditionsDecisionType

definition mapTermsAndConditionsResponse :: "ApiTermsAndConditions \<Rightarrow> TermsAndConditions" where
  "mapTermsAndConditionsResponse res =
     \<lparr>TermsAndConditions_id = ApiTermsAndConditions_id res,
      TermsAndConditions_content = ApiTermsAndConditions_content res,
      TermsAndConditions_comment = ApiTermsAndConditions_comment res,
      TermsAndConditions_createdAt = date_of_nanos (ApiTermsAndConditions_created_at res),
      TermsAndConditions_hasAccepted = ApiTermsAndConditions_has_accepted res\<rparr>"

definition mapGetLatestTermsAndConditionForUserResponse ::
    "ApiTermsAndConditions candid_opt ApiResponse \<Rightarrow> js_error + TermsAndConditions option" where
  "mapGetLatestTermsAndConditionForUserResponse = ok_map (\<lambda>okRes.
     if length okRes = 0 then None else Some (mapTermsAndConditionsResponse (okRes ! 0)))"

definition mapTermsAndConditionsListItemResponse ::
    "ApiTermsAndConditionsListItem \<Rightarrow> TermsAndConditionsListItem" where
  "mapTermsAndConditionsListItemResponse res =
     \<lparr>TermsAndConditionsListItem_id = ApiTermsAndConditionsListItem_id res,
      TermsAndConditionsListItem_content = ApiTermsAndConditionsListItem_content res,
      TermsAndConditionsListItem_comment = ApiTermsAndConditionsListItem_comment res,
      TermsAndConditionsListItem_createdAt = date_of_nanos (ApiTermsAndConditionsListItem_created_at res),
      TermsAndConditionsListItem_createdBy = ApiTermsAndConditionsListItem_created_by res\<rparr>"

definition mapListTermsAndConditionsResponse ::
    "ApiTermsAndConditionsListItem list ApiResponse \<Rightarrow> js_error + TermsAndConditionsListItem list" where
  "mapListTermsAndConditionsResponse = ok_map (\<lambda>items.
     rev (map mapTermsAndConditionsListItemResponse items))"

definition mapCreateTermsAndConditionsRequest ::
    "CreateTermsAndConditionsRequest \<Rightarrow> ApiCreateTermsAndConditionsRequest" where
  "mapCreateTermsAndConditionsRequest req =
     \<lparr>ApiCreateTermsAndConditionsRequest_content = CreateTermsAndConditionsRequest_content req,
      ApiCreateTermsAndConditionsRequest_comment = CreateTermsAndConditionsRequest_comment req\<rparr>"

definition mapUpsertTermsAndConditionsDecisionRequest ::
    "UpsertTermsAndConditionsDecisionRequest \<Rightarrow> ApiUpsertTermsAndConditionsDecisionRequest" where
  "mapUpsertTermsAndConditionsDecisionRequest req =
     \<lparr>ApiUpsertTermsAndConditionsDecisionRequest_terms_and_conditions_id =
        UpsertTermsAndConditionsDecisionRequest_termsAndConditionsId req,
      ApiUpsertTermsAndConditionsDecisionRequest_decision_type =
        (if UpsertTermsAndConditionsDecisionRequest_decisionType req = Decision_Accept
         then ApiDecision_Accept else ApiDecision_Reject)\<rparr>"

section \<open>Linked principals (principal-link.ts)\<close>

record PendingLinkCode =
  PendingLinkCode_code :: string
  PendingLinkCode_expiresAtNanos :: int
  PendingLinkCode_targetPrincipal :: string

record LinkedPrincipal =
  LinkedPrincipal_principal :: string
  LinkedPrincipal_name :: "string option"

record ApiPendingLinkCode =
  ApiPendingLinkCode_code :: string
  ApiPendingLinkCode_expires_at_nanos :: int
  ApiPendingLinkCode_target_principal :: principal

record ApiLinkedPrincipal =
  ApiLinkedPrincipal_principal :: principal
  ApiLinkedPrincipal_name :: "string candid_opt"

record ApiRegisterLinkCodeRequest =
  ApiRegisterLinkCodeRequest_code :: string
  ApiRegisterLinkCodeRequest_target_principal :: principal

record ApiRegisterLinkCodeOk =
  ApiRegisterLinkCodeOk_expires_at_nanos :: int

record ApiLinkMyPrincipalRequest =
  ApiLinkMyPrincipalRequest_code :: string

record ApiUnlinkMyPrincipalRequest =
  ApiUnlinkMyPrincipalRequest_principal :: principal

record ApiListMyLinkedPrincipalsOk =
  ApiListMyLinkedPrincipalsOk_principals :: "ApiLinkedPrincipal list"

record ApiSetMyPrincipalNameRequest =
  ApiSetMyPrincipalNameRequest_principal :: principal
  ApiSetMyPrincipalNameRequest_name :: "string candid_opt"

record ApiGetMyPendingLinkCodeOk =
  ApiGetMyPendingLinkCodeOk_code :: "ApiPendingLinkCode candid_opt"

record ApiAdminLinkPrincipalRequest =
  ApiAdminLinkPrincipalRequest_user_id :: string
  ApiAdminLinkPrincipalRequest_principal :: principal

record ApiAdminUnlinkPrincipalRequest =
  ApiAdminUnlinkPrincipalRequest_user_id :: string
  ApiAdminUnlinkPrincipalRequest_principal :: principal

record ApiAdminListLinkedPrincipalsRequest =
  ApiAdminListLinkedPrincipalsRequest_user_id :: string

record ApiAdminListLinkedPrincipalsOk =
  ApiAdminListLinkedPrincipalsOk_principals :: "principal list"

definition LINK_CODE_ALPHABET :: string where
  "LINK_CODE_ALPHABET = ''ABCDEFGHIJKLMNOPQRSTUVWXYZ0123456789''"

definition LINK_CODE_LEN :: nat where
  "LINK_CODE_LEN = 8"

text \<open>
  \<open>crypto.getRandomValues\<close> fills an array of \<open>LINK_CODE_LEN\<close> bytes; the bytes it supplied are the
  argument. The loop appends one character of the alphabet for each of them.
\<close>

definition generateLinkCode :: "nat list \<Rightarrow> string" where
  "generateLinkCode bytes =
     foldl (\<lambda>out byte. out @ [LINK_CODE_ALPHABET ! (byte mod length LINK_CODE_ALPHABET)]) [] bytes"

definition random_bytes_ok :: "nat list \<Rightarrow> bool" where
  "random_bytes_ok bytes \<longleftrightarrow> length bytes = LINK_CODE_LEN \<and> (\<forall>b\<in>set bytes. b < 256)"

definition mapRegisterLinkCodeRequest ::
    "('z) principal_codec_scheme \<Rightarrow> string \<Rightarrow> string \<Rightarrow> js_error + ApiRegisterLinkCodeRequest" where
  "mapRegisterLinkCodeRequest P code targetPrincipal =
     and_then (fromText P targetPrincipal) (\<lambda>p. Inr
       \<lparr>ApiRegisterLinkCodeRequest_code = code, ApiRegisterLinkCodeRequest_target_principal = p\<rparr>)"

text \<open>The result record \<open>{ expiresAtNanos }\<close> is represented by its one field.\<close>

definition mapRegisterLinkCodeResponse :: "ApiRegisterLinkCodeOk ApiResponse \<Rightarrow> js_error + int" where
  "mapRegisterLinkCodeResponse = ok_map ApiRegisterLinkCodeOk_expires_at_nanos"

definition mapLinkMyPrincipalRequest :: "string \<Rightarrow> ApiLinkMyPrincipalRequest" where
  "mapLinkMyPrincipalRequest code = \<lparr>ApiLinkMyPrincipalRequest_code = code\<rparr>"

definition mapLinkMyPrincipalResponse :: "unit ApiResponse \<Rightarrow> js_error + unit" where
  "mapLinkMyPrincipalResponse res = mapOkResponse res"

definition mapUnlinkMyPrincipalRequest ::
    "('z) principal_codec_scheme \<Rightarrow> string \<Rightarrow> js_error + ApiUnlinkMyPrincipalRequest" where
  "mapUnlinkMyPrincipalRequest P principalText =
     and_then (fromText P principalText) (\<lambda>p. Inr \<lparr>ApiUnlinkMyPrincipalRequest_principal = p\<rparr>)"

definition mapUnlinkMyPrincipalResponse :: "unit ApiResponse \<Rightarrow> js_error + unit" where
  "mapUnlinkMyPrincipalResponse res = mapOkResponse res"

definition mapListMyLinkedPrincipalsResponse ::
    "('z) principal_codec_scheme \<Rightarrow> ApiListMyLinkedPrincipalsOk ApiResponse \<Rightarrow>
     js_error + LinkedPrincipal list" where
  "mapListMyLinkedPrincipalsResponse P = ok_map (\<lambda>ok.
     map (\<lambda>p.
       \<lparr>LinkedPrincipal_principal = toText P (ApiLinkedPrincipal_principal p),
        LinkedPrincipal_name = first (ApiLinkedPrincipal_name p)\<rparr>)
     (ApiListMyLinkedPrincipalsOk_principals ok))"

definition mapSetMyPrincipalNameRequest ::
    "('z) principal_codec_scheme \<Rightarrow> string \<Rightarrow> string option \<Rightarrow> js_error + ApiSetMyPrincipalNameRequest" where
  "mapSetMyPrincipalNameRequest P principalText name =
     and_then (fromText P principalText) (\<lambda>p. Inr
       \<lparr>ApiSetMyPrincipalNameRequest_principal = p,
        ApiSetMyPrincipalNameRequest_name = (case name of None \<Rightarrow> [] | Some n \<Rightarrow> [n])\<rparr>)"

definition mapSetMyPrincipalNameResponse :: "unit ApiResponse \<Rightarrow> js_error + unit" where
  "mapSetMyPrincipalNameResponse res = mapOkResponse res"

definition mapGetMyPendingLinkCodeResponse ::
    "('z) principal_codec_scheme \<Rightarrow> ApiGetMyPendingLinkCodeOk ApiResponse \<Rightarrow>
     js_error + PendingLinkCode option" where
  "mapGetMyPendingLinkCodeResponse P = ok_map (\<lambda>ok.
     case first (ApiGetMyPendingLinkCodeOk_code ok) of
       None \<Rightarrow> None
     | Some entry \<Rightarrow> Some
         \<lparr>PendingLinkCode_code = ApiPendingLinkCode_code entry,
          PendingLinkCode_expiresAtNanos = ApiPendingLinkCode_expires_at_nanos entry,
          PendingLinkCode_targetPrincipal = toText P (ApiPendingLinkCode_target_principal entry)\<rparr>)"

definition mapRevokeMyLinkCodeResponse :: "unit ApiResponse \<Rightarrow> js_error + unit" where
  "mapRevokeMyLinkCodeResponse res = mapOkResponse res"

definition mapAdminLinkPrincipalRequest ::
    "('z) principal_codec_scheme \<Rightarrow> string \<Rightarrow> string \<Rightarrow> js_error + ApiAdminLinkPrincipalRequest" where
  "mapAdminLinkPrincipalRequest P userId principalText =
     and_then (fromText P principalText) (\<lambda>p. Inr
       \<lparr>ApiAdminLinkPrincipalRequest_user_id = userId, ApiAdminLinkPrincipalRequest_principal = p\<rparr>)"

definition mapAdminLinkPrincipalResponse :: "unit ApiResponse \<Rightarrow> js_error + unit" where
  "mapAdminLinkPrincipalResponse res = mapOkResponse res"

definition mapAdminUnlinkPrincipalRequest ::
    "('z) principal_codec_scheme \<Rightarrow> string \<Rightarrow> string \<Rightarrow> js_error + ApiAdminUnlinkPrincipalRequest" where
  "mapAdminUnlinkPrincipalRequest P userId principalText =
     and_then (fromText P principalText) (\<lambda>p. Inr
       \<lparr>ApiAdminUnlinkPrincipalRequest_user_id = userId, ApiAdminUnlinkPrincipalRequest_principal = p\<rparr>)"

definition mapAdminUnlinkPrincipalResponse :: "unit ApiResponse \<Rightarrow> js_error + unit" where
  "mapAdminUnlinkPrincipalResponse res = mapOkResponse res"

definition mapAdminListLinkedPrincipalsRequest :: "string \<Rightarrow> ApiAdminListLinkedPrincipalsRequest" where
  "mapAdminListLinkedPrincipalsRequest userId = \<lparr>ApiAdminListLinkedPrincipalsRequest_user_id = userId\<rparr>"

definition mapAdminListLinkedPrincipalsResponse ::
    "('z) principal_codec_scheme \<Rightarrow> ApiAdminListLinkedPrincipalsOk ApiResponse \<Rightarrow> js_error + string list" where
  "mapAdminListLinkedPrincipalsResponse P = ok_map (\<lambda>ok.
     map (toText P) (ApiAdminListLinkedPrincipalsOk_principals ok))"

end
