(* ===== verification/OrgModels.thy ===== *)
theory OrgModels
  imports UserModels
begin

text \<open>
  The models of organizations, their billing plans and their teams:
  \<open>lib/api-models/organization-billing-plan.ts\<close>, \<open>organization.ts\<close> and \<open>team.ts\<close>. \<open>ok_map f\<close> is a
  mapper that unwraps the response and applies \<open>f\<close>; candid's \<open>nat32\<close> and \<open>nat64\<close> are integers.
\<close>

section \<open>Billing plans (organization-billing-plan.ts)\<close>

datatype PlanTier = PlanTier_Free | PlanTier_Pro | PlanTier_Enterprise

datatype ApiPlanTier = ApiPlanTier_Free | ApiPlanTier_Pro | ApiPlanTier_Enterprise

definition mapPlanTier :: "ApiPlanTier \<Rightarrow> PlanTier" where
  "mapPlanTier tier =
     (if tier = ApiPlanTier_Free then PlanTier_Free
      else if tier = ApiPlanTier_Pro then PlanTier_Pro
      else PlanTier_Enterprise)"

definition mapPlanTierRequest :: "PlanTier \<Rightarrow> ApiPlanTier" where
  "mapPlanTierRequest tier =
     (case tier of
        PlanTier_Free \<Rightarrow> ApiPlanTier_Free
      | PlanTier_Pro \<Rightarrow> ApiPlanTier_Pro
      | PlanTier_Enterprise \<Rightarrow> ApiPlanTier_Enterprise)"

interpretation plan_tier: bijective_codec mapPlanTierRequest mapPlanTier
proof unfold_locales
  show "mapPlanTier (mapPlanTierRequest x) = x" for x
    by (cases x) (simp_all add: mapPlanTier_def mapPlanTierRequest_def)
  show "mapPlanTierRequest (mapPlanTier y) = y" for y
    by (cases y) (simp_all add: mapPlanTier_def mapPlanTierRequest_def)
qed

record GetOrgBillingPlanRequest =
  GetOrgBillingPlanRequest_orgId :: string

record ApiGetOrgBillingPlanRequest =
  ApiGetOrgBillingPlanRequest_org_id :: string

definition mapGetOrgBillingPlanRequest :: "GetOrgBillingPlanRequest \<Rightarrow> ApiGetOrgBillingPlanRequest" where
  "mapGetOrgBillingPlanRequest req =
     \<lparr>ApiGetOrgBillingPlanRequest_org_id = GetOrgBillingPlanRequest_orgId req\<rparr>"

record ApiGetOrgBillingPlanResponseData =
  ApiGetOrgBillingPlanResponseData_tier :: ApiPlanTier
  ApiGetOrgBillingPlanResponseData_max_canisters :: int
  ApiGetOrgBillingPlanResponseData_canisters_used :: int
  ApiGetOrgBillingPlanResponseData_max_storage_bytes :: "int candid_opt"

record OrgBillingPlan =
  OrgBillingPlan_tier :: PlanTier
  OrgBillingPlan_maxCanisters :: int
  OrgBillingPlan_canistersUsed :: int
  OrgBillingPlan_maxStorageBytes :: "int option"

definition mapGetOrgBillingPlanResponse ::
    "ApiGetOrgBillingPlanResponseData ApiResponse \<Rightarrow> js_error + OrgBillingPlan" where
  "mapGetOrgBillingPlanResponse = ok_map (\<lambda>ok.
     \<lparr>OrgBillingPlan_tier = mapPlanTier (ApiGetOrgBillingPlanResponseData_tier ok),
      OrgBillingPlan_maxCanisters = ApiGetOrgBillingPlanResponseData_max_canisters ok,
      OrgBillingPlan_canistersUsed = ApiGetOrgBillingPlanResponseData_canisters_used ok,
      OrgBillingPlan_maxStorageBytes = first (ApiGetOrgBillingPlanResponseData_max_storage_bytes ok)\<rparr>)"

record SetOrgBillingPlanRequest =
  SetOrgBillingPlanRequest_orgId :: string
  SetOrgBillingPlanRequest_tier :: PlanTier

record ApiSetOrgBillingPlanRequest =
  ApiSetOrgBillingPlanRequest_org_id :: string
  ApiSetOrgBillingPlanRequest_tier :: ApiPlanTier

definition mapSetOrgBillingPlanRequest :: "SetOrgBillingPlanRequest \<Rightarrow> ApiSetOrgBillingPlanRequest" where
  "mapSetOrgBillingPlanRequest req =
     \<lparr>ApiSetOrgBillingPlanRequest_org_id = SetOrgBillingPlanRequest_orgId req,
      ApiSetOrgBillingPlanRequest_tier = mapPlanTierRequest (SetOrgBillingPlanRequest_tier req)\<rparr>"

definition mapSetOrgBillingPlanResponse :: "unit ApiResponse \<Rightarrow> js_error + unit" where
  "mapSetOrgBillingPlanResponse res = mapOkResponse res"

record ApiMyOrgBillingPlan =
  ApiMyOrgBillingPlan_org_id :: string
  ApiMyOrgBillingPlan_tier :: ApiPlanTier
  ApiMyOrgBillingPlan_max_canisters :: int
  ApiMyOrgBillingPlan_canisters_used :: int
  ApiMyOrgBillingPlan_max_storage_bytes :: "int candid_opt"

record MyOrgBillingPlan =
  MyOrgBillingPlan_orgId :: string
  MyOrgBillingPlan_tier :: PlanTier
  MyOrgBillingPlan_maxCanisters :: int
  MyOrgBillingPlan_canistersUsed :: int
  MyOrgBillingPlan_maxStorageBytes :: "int option"

definition mapMyOrgBillingPlan :: "ApiMyOrgBillingPlan \<Rightarrow> MyOrgBillingPlan" where
  "mapMyOrgBillingPlan api =
     \<lparr>MyOrgBillingPlan_orgId = ApiMyOrgBillingPlan_org_id api,
      MyOrgBillingPlan_tier = mapPlanTier (ApiMyOrgBillingPlan_tier api),
      MyOrgBillingPlan_maxCanisters = ApiMyOrgBillingPlan_max_canisters api,
      MyOrgBillingPlan_canistersUsed = ApiMyOrgBillingPlan_canisters_used api,
      MyOrgBillingPlan_maxStorageBytes = first (ApiMyOrgBillingPlan_max_storage_bytes api)\<rparr>"

definition mapListMyOrgBillingPlansResponse ::
    "ApiMyOrgBillingPlan list ApiResponse \<Rightarrow> js_error + MyOrgBillingPlan list" where
  "mapListMyOrgBillingPlansResponse = ok_map (map mapMyOrgBillingPlan)"

section \<open>Organizations (organization.ts)\<close>

record Organization =
  Organization_id :: string
  Organization_name :: string
  Organization_yourPermissions :: OrgPermissions

record ApiOrganization =
  ApiOrganization_id :: string
  ApiOrganization_name :: string
  ApiOrganization_your_permissions :: ApiOrgPermissions

record ListMyOrganizationsResponse =
  ListMyOrganizationsResponse_organizations :: "Organization list"

record CreateOrganizationRequest =
  CreateOrganizationRequest_name :: string

record ApiCreateOrganizationRequest =
  ApiCreateOrganizationRequest_name :: string

record OrganizationResponse =
  OrganizationResponse_organization :: Organization

record ApiOrganizationOk =
  ApiOrganizationOk_organization :: ApiOrganization

record GetOrganizationRequest =
  GetOrganizationRequest_orgId :: string

record ApiGetOrganizationRequest =
  ApiGetOrganizationRequest_org_id :: string

record UpdateOrganizationRequest =
  UpdateOrganizationRequest_orgId :: string
  UpdateOrganizationRequest_name :: string

record ApiUpdateOrganizationRequest =
  ApiUpdateOrganizationRequest_org_id :: string
  ApiUpdateOrganizationRequest_name :: string

record DeleteOrganizationRequest =
  DeleteOrganizationRequest_orgId :: string

record ApiDeleteOrganizationRequest =
  ApiDeleteOrganizationRequest_org_id :: string

definition mapOrganizationResponse :: "ApiOrganization \<Rightarrow> Organization" where
  "mapOrganizationResponse res =
     \<lparr>Organization_id = ApiOrganization_id res,
      Organization_name = ApiOrganization_name res,
      Organization_yourPermissions = mapOrgPermissions (ApiOrganization_your_permissions res)\<rparr>"

definition mapListMyOrganizationsResponse ::
    "ApiOrganization list ApiResponse \<Rightarrow> js_error + ListMyOrganizationsResponse" where
  "mapListMyOrganizationsResponse = ok_map (\<lambda>okRes.
     \<lparr>ListMyOrganizationsResponse_organizations = map mapOrganizationResponse okRes\<rparr>)"

record AdminOrganization =
  AdminOrganization_id :: string
  AdminOrganization_name :: string
  AdminOrganization_tier :: PlanTier
  AdminOrganization_memberCount :: int

record ApiAdminOrganization =
  ApiAdminOrganization_id :: string
  ApiAdminOrganization_name :: string
  ApiAdminOrganization_tier :: ApiPlanTier
  ApiAdminOrganization_member_count :: int

record ListOrganizationsRequest =
  ListOrganizationsRequest_after :: "string option"
  ListOrganizationsRequest_limit :: "int option"

record ApiListOrganizationsRequest =
  ApiListOrganizationsRequest_after :: "string candid_opt"
  ApiListOrganizationsRequest_limit :: "int candid_opt"

record ListOrganizationsResponse =
  ListOrganizationsResponse_organizations :: "AdminOrganization list"
  ListOrganizationsResponse_nextCursor :: "string option"

record ApiListOrganizationsOk =
  ApiListOrganizationsOk_organizations :: "ApiAdminOrganization list"
  ApiListOrganizationsOk_next_cursor :: "string candid_opt"

definition mapListOrganizationsRequest :: "ListOrganizationsRequest \<Rightarrow> ApiListOrganizationsRequest" where
  "mapListOrganizationsRequest req =
     \<lparr>ApiListOrganizationsRequest_after =
        (case ListOrganizationsRequest_after req of None \<Rightarrow> [] | Some after \<Rightarrow> [after]),
      ApiListOrganizationsRequest_limit =
        (case ListOrganizationsRequest_limit req of None \<Rightarrow> [] | Some limit \<Rightarrow> [limit])\<rparr>"

definition mapAdminOrganization :: "ApiAdminOrganization \<Rightarrow> AdminOrganization" where
  "mapAdminOrganization org =
     \<lparr>AdminOrganization_id = ApiAdminOrganization_id org,
      AdminOrganization_name = ApiAdminOrganization_name org,
      AdminOrganization_tier = mapPlanTier (ApiAdminOrganization_tier org),
      AdminOrganization_memberCount = ApiAdminOrganization_member_count org\<rparr>"

definition mapListOrganizationsResponse ::
    "ApiListOrganizationsOk ApiResponse \<Rightarrow> js_error + ListOrganizationsResponse" where
  "mapListOrganizationsResponse = ok_map (\<lambda>ok.
     \<lparr>ListOrganizationsResponse_organizations = map mapAdminOrganization (ApiListOrganizationsOk_organizations ok),
      ListOrganizationsResponse_nextCursor = first (ApiListOrganizationsOk_next_cursor ok)\<rparr>)"

definition mapCreateOrganizationRequest :: "CreateOrganizationRequest \<Rightarrow> ApiCreateOrganizationRequest" where
  "mapCreateOrganizationRequest req =
     \<lparr>ApiCreateOrganizationRequest_name = CreateOrganizationRequest_name req\<rparr>"

definition mapCreateOrganizationResponse ::
    "ApiOrganizationOk ApiResponse \<Rightarrow> js_error + OrganizationResponse" where
  "mapCreateOrganizationResponse = ok_map (\<lambda>okRes.
     \<lparr>OrganizationResponse_organization = mapOrganizationResponse (ApiOrganizationOk_organization okRes)\<rparr>)"

definition mapGetOrganizationResponse ::
    "ApiOrganizationOk ApiResponse \<Rightarrow> js_error + OrganizationResponse" where
  "mapGetOrganizationResponse = ok_map (\<lambda>okRes.
     \<lparr>OrganizationResponse_organization = mapOrganizationResponse (ApiOrganizationOk_organization okRes)\<rparr>)"

definition mapUpdateOrganizationResponse ::
    "ApiOrganizationOk ApiResponse \<Rightarrow> js_error + OrganizationResponse" where
  "mapUpdateOrganizationResponse = ok_map (\<lambda>okRes.
     \<lparr>OrganizationResponse_organization = mapOrganizationResponse (ApiOrganizationOk_organization okRes)\<rparr>)"

definition mapGetOrganizationRequest :: "GetOrganizationRequest \<Rightarrow> ApiGetOrganizationRequest" where
  "mapGetOrganizationRequest req =
     \<lparr>ApiGetOrganizationRequest_org_id = GetOrganizationRequest_orgId req\<rparr>"

definition mapUpdateOrganizationRequest :: "UpdateOrganizationRequest \<Rightarrow> ApiUpdateOrganizationRequest" where
  "mapUpdateOrganizationRequest req =
     \<lparr>ApiUpdateOrganizationRequest_org_id = UpdateOrganizationRequest_orgId req,
      ApiUpdateOrganizationRequest_name = UpdateOrganizationRequest_name req\<rparr>"

definition mapDeleteOrganizationRequest :: "DeleteOrganizationRequest \<Rightarrow> ApiDeleteOrganizationRequest" where
  "mapDeleteOrganizationRequest req =
     \<lparr>ApiDeleteOrganizationRequest_org_id = DeleteOrganizationRequest_orgId req\<rparr>"

definition mapDeleteOrganizationResponse :: "unit ApiResponse \<Rightarrow> js_error + unit" where
  "mapDeleteOrganizationResponse res = mapOkResponse res"

text \<open>
  The candid \<open>Team\<close>, and the \<open>{ id; name }\<close> pairs of \<open>OrgUser.teams\<close>, have the fields of the client's \<open>Team\<close>.
\<close>

record Team =
  Team_id :: string
  Team_name :: string

record ApiTeam =
  ApiTeam_id :: string
  ApiTeam_name :: string

record OrgUser =
  OrgUser_id :: string
  OrgUser_email :: "string option"
  OrgUser_emailVerified :: bool
  OrgUser_teams :: "Team list"
  OrgUser_isOrgAdmin :: bool

record ApiOrgUser =
  ApiOrgUser_id :: string
  ApiOrgUser_email :: "string candid_opt"
  ApiOrgUser_email_verified :: bool
  ApiOrgUser_teams :: "ApiTeam list"
  ApiOrgUser_is_org_admin :: bool

record ListOrgUsersRequest =
  ListOrgUsersRequest_orgId :: string

record ApiListOrgUsersRequest =
  ApiListOrgUsersRequest_org_id :: string

definition mapOrgUserResponse :: "ApiOrgUser \<Rightarrow> OrgUser" where
  "mapOrgUserResponse user =
     \<lparr>OrgUser_id = ApiOrgUser_id user,
      OrgUser_email = first (ApiOrgUser_email user),
      OrgUser_emailVerified = ApiOrgUser_email_verified user,
      OrgUser_teams = map (\<lambda>t. \<lparr>Team_id = ApiTeam_id t, Team_name = ApiTeam_name t\<rparr>) (ApiOrgUser_teams user),
      OrgUser_isOrgAdmin = ApiOrgUser_is_org_admin user\<rparr>"

definition mapListOrgUsersRequest :: "ListOrgUsersRequest \<Rightarrow> ApiListOrgUsersRequest" where
  "mapListOrgUsersRequest req =
     \<lparr>ApiListOrgUsersRequest_org_id = ListOrgUsersRequest_orgId req\<rparr>"

definition mapListOrgUsersResponse :: "ApiOrgUser list ApiResponse \<Rightarrow> js_error + OrgUser list" where
  "mapListOrgUsersResponse = ok_map (map mapOrgUserResponse)"

section \<open>Teams (team.ts)\<close>

record OrgTeam =
  OrgTeam_id :: string
  OrgTeam_name :: string
  OrgTeam_permissions :: OrgPermissions

record ApiOrgTeam =
  ApiOrgTeam_id :: string
  ApiOrgTeam_name :: string
  ApiOrgTeam_permissions :: ApiOrgPermissions

record ProjectTeam =
  ProjectTeam_id :: string
  ProjectTeam_name :: string
  ProjectTeam_permissions :: ProjectPermissions

record ApiProjectTeam =
  ApiProjectTeam_id :: string
  ApiProjectTeam_name :: string
  ApiProjectTeam_permissions :: ApiProjectPermissions

record ListTeamsResponse =
  ListTeamsResponse_teams :: "Team list"

record ListOrgTeamsResponse =
  ListOrgTeamsResponse_teams :: "OrgTeam list"

record ListProjectTeamsResponse =
  ListProjectTeamsResponse_teams :: "ProjectTeam list"

record ListOrgTeamsRequest =
  ListOrgTeamsRequest_orgId :: string

record ApiListOrgTeamsRequest =
  ApiListOrgTeamsRequest_org_id :: string

record CreateTeamRequest =
  CreateTeamRequest_orgId :: string
  CreateTeamRequest_name :: string

record ApiCreateTeamRequest =
  ApiCreateTeamRequest_org_id :: string
  ApiCreateTeamRequest_name :: string

record TeamResponse =
  TeamResponse_team :: Team

record ApiTeamOk =
  ApiTeamOk_team :: ApiTeam

record GetTeamRequest =
  GetTeamRequest_teamId :: string

record ApiGetTeamRequest =
  ApiGetTeamRequest_team_id :: string

record UpdateTeamRequest =
  UpdateTeamRequest_teamId :: string
  UpdateTeamRequest_name :: string

record ApiUpdateTeamRequest =
  ApiUpdateTeamRequest_team_id :: string
  ApiUpdateTeamRequest_name :: string

record DeleteTeamRequest =
  DeleteTeamRequest_teamId :: string

record ApiDeleteTeamRequest =
  ApiDeleteTeamRequest_team_id :: string

record AddUserToTeamRequest =
  AddUserToTeamRequest_teamId :: string
  AddUserToTeamRequest_userId :: string

record ApiAddUserToTeamRequest =
  ApiAddUserToTeamRequest_team_id :: string
  ApiAddUserToTeamRequest_user_id :: string

record RemoveUserFromTeamRequest =
  RemoveUserFromTeamRequest_teamId :: string
  RemoveUserFromTeamRequest_userId :: string

record ApiRemoveUserFromTeamRequest =
  ApiRemoveUserFromTeamRequest_team_id :: string
  ApiRemoveUserFromTeamRequest_user_id :: string

record UpdateTeamOrgPermissionsRequest =
  UpdateTeamOrgPermissionsRequest_teamId :: string
  UpdateTeamOrgPermissionsRequest_permissions :: OrgPermissions

record ApiUpdateTeamOrgPermissionsRequest =
  ApiUpdateTeamOrgPermissionsRequest_team_id :: string
  ApiUpdateTeamOrgPermissionsRequest_permissions :: ApiOrgPermissions

record OrgTeamResponse =
  OrgTeamResponse_team :: OrgTeam

record ApiOrgTeamOk =
  ApiOrgTeamOk_team :: ApiOrgTeam

definition mapTeamResponse :: "ApiTeam \<Rightarrow> Team" where
  "mapTeamResponse res =
     \<lparr>Team_id = ApiTeam_id res,
      Team_name = ApiTeam_name res\<rparr>"

definition mapOrgTeamResponse :: "ApiOrgTeam \<Rightarrow> OrgTeam" where
  "mapOrgTeamResponse res =
     \<lparr>OrgTeam_id = ApiOrgTeam_id res,
      OrgTeam_name = ApiOrgTeam_name res,
      OrgTeam_permissions = mapOrgPermissions (ApiOrgTeam_permissions res)\<rparr>"

definition mapProjectTeamResponse :: "ApiProjectTeam \<Rightarrow> ProjectTeam" where
  "mapProjectTeamResponse res =
     \<lparr>ProjectTeam_id = ApiProjectTeam_id res,
      ProjectTeam_name = ApiProjectTeam_name res,
      ProjectTeam_permissions = mapProjectPermissions (ApiProjectTeam_permissions res)\<rparr>"

definition mapListTeamsResponse :: "ApiTeam list ApiResponse \<Rightarrow> js_error + ListTeamsResponse" where
  "mapListTeamsResponse = ok_map (\<lambda>okRes.
     \<lparr>ListTeamsResponse_teams = map mapTeamResponse okRes\<rparr>)"

definition mapListOrgTeamsResponse :: "ApiOrgTeam list ApiResponse \<Rightarrow> js_error + ListOrgTeamsResponse" where
  "mapListOrgTeamsResponse = ok_map (\<lambda>okRes.
     \<lparr>ListOrgTeamsResponse_teams = map mapOrgTeamResponse okRes\<rparr>)"

definition mapListProjectTeamsResponse ::
    "ApiProjectTeam list ApiResponse \<Rightarrow> js_error + ListProjectTeamsResponse" where
  "mapListProjectTeamsResponse = ok_map (\<lambda>okRes.
     \<lparr>ListProjectTeamsResponse_teams = map mapProjectTeamResponse okRes\<rparr>)"

definition mapListOrgTeamsRequest :: "ListOrgTeamsRequest \<Rightarrow> ApiListOrgTeamsRequest" where
  "mapListOrgTeamsRequest req =
     \<lparr>ApiListOrgTeamsRequest_org_id = ListOrgTeamsRequest_orgId req\<rparr>"

definition mapCreateTeamRequest :: "CreateTeamRequest \<Rightarrow> ApiCreateTeamRequest" where
  "mapCreateTeamRequest req =
     \<lparr>ApiCreateTeamRequest_org_id = CreateTeamRequest_orgId req,
      ApiCreateTeamRequest_name = CreateTeamRequest_name req\<rparr>"

definition mapCreateTeamResponse :: "ApiTeamOk ApiResponse \<Rightarrow> js_error + TeamResponse" where
  "mapCreateTeamResponse = ok_map (\<lambda>okRes.
     \<lparr>TeamResponse_team = mapTeamResponse (ApiTeamOk_team okRes)\<rparr>)"

definition mapGetTeamResponse :: "ApiTeamOk ApiResponse \<Rightarrow> js_error + TeamResponse" where
  "mapGetTeamResponse = ok_map (\<lambda>okRes.
     \<lparr>TeamResponse_team = mapTeamResponse (ApiTeamOk_team okRes)\<rparr>)"

definition mapUpdateTeamResponse :: "ApiTeamOk ApiResponse \<Rightarrow> js_error + TeamResponse" where
  "mapUpdateTeamResponse = ok_map (\<lambda>okRes.
     \<lparr>TeamResponse_team = mapTeamResponse (ApiTeamOk_team okRes)\<rparr>)"

definition mapGetTeamRequest :: "GetTeamRequest \<Rightarrow> ApiGetTeamRequest" where
  "mapGetTeamRequest req =
     \<lparr>ApiGetTeamRequest_team_id = GetTeamRequest_teamId req\<rparr>"

definition mapUpdateTeamRequest :: "UpdateTeamRequest \<Rightarrow> ApiUpdateTeamRequest" where
  "mapUpdateTeamRequest req =
     \<lparr>ApiUpdateTeamRequest_team_id = UpdateTeamRequest_teamId req,
      ApiUpdateTeamRequest_name = UpdateTeamRequest_name req\<rparr>"

definition mapDeleteTeamRequest :: "DeleteTeamRequest \<Rightarrow> ApiDeleteTeamRequest" where
  "mapDeleteTeamRequest req =
     \<lparr>ApiDeleteTeamRequest_team_id = DeleteTeamRequest_teamId req\<rparr>"

definition mapDeleteTeamResponse :: "unit ApiResponse \<Rightarrow> js_error + unit" where
  "mapDeleteTeamResponse res = mapOkResponse res"

definition mapAddUserToTeamRequest :: "AddUserToTeamRequest \<Rightarrow> ApiAddUserToTeamRequest" where
  "mapAddUserToTeamRequest req =
     \<lparr>ApiAddUserToTeamRequest_team_id = AddUserToTeamRequest_teamId req,
      ApiAddUserToTeamRequest_user_id = AddUserToTeamRequest_userId req\<rparr>"

definition mapAddUserToTeamResponse :: "unit ApiResponse \<Rightarrow> js_error + unit" where
  "mapAddUserToTeamResponse res = mapOkResponse res"

definition mapRemoveUserFromTeamRequest :: "RemoveUserFromTeamRequest \<Rightarrow> ApiRemoveUserFromTeamRequest" where
  "mapRemoveUserFromTeamRequest req =
     \<lparr>ApiRemoveUserFromTeamRequest_team_id = RemoveUserFromTeamRequest_teamId req,
      ApiRemoveUserFromTeamRequest_user_id = RemoveUserFromTeamRequest_userId req\<rparr>"

definition mapRemoveUserFromTeamResponse :: "unit ApiResponse \<Rightarrow> js_error + unit" where
  "mapRemoveUserFromTeamResponse res = mapOkResponse res"

definition mapUpdateTeamOrgPermissionsRequest :: "UpdateTeamOrgPermissionsRequest \<Rightarrow> ApiUpdateTeamOrgPermissionsRequest" where
  "mapUpdateTeamOrgPermissionsRequest req =
     \<lparr>ApiUpdateTeamOrgPermissionsRequest_team_id = UpdateTeamOrgPermissionsRequest_teamId req,
      ApiUpdateTeamOrgPermissionsRequest_permissions = mapOrgPermissionsToApi (UpdateTeamOrgPermissionsRequest_permissions req)\<rparr>"

definition mapUpdateTeamOrgPermissionsResponse ::
    "ApiOrgTeamOk ApiResponse \<Rightarrow> js_error + OrgTeamResponse" where
  "mapUpdateTeamOrgPermissionsResponse = ok_map (\<lambda>okRes.
     \<lparr>OrgTeamResponse_team = mapOrgTeamResponse (ApiOrgTeamOk_team okRes)\<rparr>)"

record TeamUser =
  TeamUser_id :: string
  TeamUser_email :: "string option"
  TeamUser_emailVerified :: bool

record ApiTeamUser =
  ApiTeamUser_id :: string
  ApiTeamUser_email :: "string candid_opt"
  ApiTeamUser_email_verified :: bool

record ListTeamUsersRequest =
  ListTeamUsersRequest_teamId :: string

record ApiListTeamUsersRequest =
  ApiListTeamUsersRequest_team_id :: string

definition mapTeamUser :: "ApiTeamUser \<Rightarrow> TeamUser" where
  "mapTeamUser user =
     \<lparr>TeamUser_id = ApiTeamUser_id user,
      TeamUser_email = first (ApiTeamUser_email user),
      TeamUser_emailVerified = ApiTeamUser_email_verified user\<rparr>"

definition mapListTeamUsersRequest :: "ListTeamUsersRequest \<Rightarrow> ApiListTeamUsersRequest" where
  "mapListTeamUsersRequest req =
     \<lparr>ApiListTeamUsersRequest_team_id = ListTeamUsersRequest_teamId req\<rparr>"

definition mapListTeamUsersResponse :: "ApiTeamUser list ApiResponse \<Rightarrow> js_error + TeamUser list" where
  "mapListTeamUsersResponse = ok_map (map mapTeamUser)"

end
