(* ===== verification/ProjectModels.thy ===== *)
theory ProjectModels
  imports OrgModels
begin

text \<open>
  The models of projects and of invitations: \<open>lib/api-models/project.ts\<close> and \<open>invite.ts\<close>.
\<close>

section \<open>Projects (project.ts)\<close>

record Project =
  Project_id :: string
  Project_orgId :: string
  Project_name :: string
  Project_yourPermissions :: ProjectPermissions

record ApiProject =
  ApiProject_org_id :: string
  ApiProject_id :: string
  ApiProject_name :: string
  ApiProject_your_permissions :: ApiProjectPermissions

definition mapProjectResponse :: "ApiProject \<Rightarrow> Project" where
  "mapProjectResponse res =
     \<lparr>Project_id = ApiProject_id res,
      Project_orgId = ApiProject_org_id res,
      Project_name = ApiProject_name res,
      Project_yourPermissions = mapProjectPermissions (ApiProject_your_permissions res)\<rparr>"

record ListMyProjectsResponse =
  ListMyProjectsResponse_projects :: "Project list"

record ApiProjectsOk =
  ApiProjectsOk_projects :: "ApiProject list"

definition mapListMyProjectsResponse :: "ApiProjectsOk ApiResponse \<Rightarrow> js_error + ListMyProjectsResponse" where
  "mapListMyProjectsResponse = ok_map (\<lambda>okRes.
     \<lparr>ListMyProjectsResponse_projects = map mapProjectResponse (ApiProjectsOk_projects okRes)\<rparr>)"

record ListOrgProjectsRequest =
  ListOrgProjectsRequest_orgId :: string

record ApiListOrgProjectsRequest =
  ApiListOrgProjectsRequest_org_id :: string

definition mapListOrgProjectsRequest :: "ListOrgProjectsRequest \<Rightarrow> ApiListOrgProjectsRequest" where
  "mapListOrgProjectsRequest req =
     \<lparr>ApiListOrgProjectsRequest_org_id = ListOrgProjectsRequest_orgId req\<rparr>"

record ListOrgProjectsResponse =
  ListOrgProjectsResponse_projects :: "Project list"

definition mapListOrgProjectsResponse ::
    "ApiProjectsOk ApiResponse \<Rightarrow> js_error + ListOrgProjectsResponse" where
  "mapListOrgProjectsResponse = ok_map (\<lambda>okRes.
     \<lparr>ListOrgProjectsResponse_projects = map mapProjectResponse (ApiProjectsOk_projects okRes)\<rparr>)"

record CreateProjectRequest =
  CreateProjectRequest_orgId :: string
  CreateProjectRequest_name :: string

record ApiCreateProjectRequest =
  ApiCreateProjectRequest_org_id :: string
  ApiCreateProjectRequest_name :: string

definition mapCreateProjectRequest :: "CreateProjectRequest \<Rightarrow> ApiCreateProjectRequest" where
  "mapCreateProjectRequest req =
     \<lparr>ApiCreateProjectRequest_org_id = CreateProjectRequest_orgId req,
      ApiCreateProjectRequest_name = CreateProjectRequest_name req\<rparr>"

record ProjectResponse =
  ProjectResponse_project :: Project

record ApiProjectOk =
  ApiProjectOk_project :: ApiProject

definition mapCreateProjectResponse :: "ApiProjectOk ApiResponse \<Rightarrow> js_error + ProjectResponse" where
  "mapCreateProjectResponse = ok_map (\<lambda>okRes.
     \<lparr>ProjectResponse_project = mapProjectResponse (ApiProjectOk_project okRes)\<rparr>)"

record GetProjectRequest =
  GetProjectRequest_projectId :: string

record ApiGetProjectRequest =
  ApiGetProjectRequest_project_id :: string

definition mapGetProjectRequest :: "GetProjectRequest \<Rightarrow> ApiGetProjectRequest" where
  "mapGetProjectRequest req =
     \<lparr>ApiGetProjectRequest_project_id = GetProjectRequest_projectId req\<rparr>"

definition mapGetProjectResponse :: "ApiProjectOk ApiResponse \<Rightarrow> js_error + ProjectResponse" where
  "mapGetProjectResponse = ok_map (\<lambda>okRes.
     \<lparr>ProjectResponse_project = mapProjectResponse (ApiProjectOk_project okRes)\<rparr>)"

record UpdateProjectRequest =
  UpdateProjectRequest_projectId :: string
  UpdateProjectRequest_name :: string

record ApiUpdateProjectRequest =
  ApiUpdateProjectRequest_project_id :: string
  ApiUpdateProjectRequest_name :: string

definition mapUpdateProjectRequest :: "UpdateProjectRequest \<Rightarrow> ApiUpdateProjectRequest" where
  "mapUpdateProjectRequest req =
     \<lparr>ApiUpdateProjectRequest_project_id = UpdateProjectRequest_projectId req,
      ApiUpdateProjectRequest_name = UpdateProjectRequest_name req\<rparr>"

definition mapUpdateProjectResponse :: "ApiProjectOk ApiResponse \<Rightarrow> js_error + ProjectResponse" where
  "mapUpdateProjectResponse = ok_map (\<lambda>okRes.
     \<lparr>ProjectResponse_project = mapProjectResponse (ApiProjectOk_project okRes)\<rparr>)"

record DeleteProjectRequest =
  DeleteProjectRequest_projectId :: string

record ApiDeleteProjectRequest =
  ApiDeleteProjectRequest_project_id :: string

definition mapDeleteProjectRequest :: "DeleteProjectRequest \<Rightarrow> ApiDeleteProjectRequest" where
  "mapDeleteProjectRequest req =
     \<lparr>ApiDeleteProjectRequest_project_id = DeleteProjectRequest_projectId req\<rparr>"

definition mapDeleteProjectResponse :: "unit ApiResponse \<Rightarrow> js_error + unit" where
  "mapDeleteProjectResponse res = mapOkResponse res"

record AddTeamToProjectRequest =
  AddTeamToProjectRequest_projectId :: string
  AddTeamToProjectRequest_teamId :: string

record ApiAddTeamToProjectRequest =
  ApiAddTeamToProjectRequest_project_id :: string
  ApiAddTeamToProjectRequest_team_id :: string

definition mapAddTeamToProjectRequest :: "AddTeamToProjectRequest \<Rightarrow> ApiAddTeamToProjectRequest" where
  "mapAddTeamToProjectRequest req =
     \<lparr>ApiAddTeamToProjectRequest_project_id = AddTeamToProjectRequest_projectId req,
      ApiAddTeamToProjectRequest_team_id = AddTeamToProjectRequest_teamId req\<rparr>"

definition mapAddTeamToProjectResponse :: "unit ApiResponse \<Rightarrow> js_error + unit" where
  "mapAddTeamToProjectResponse res = mapOkResponse res"

record RemoveTeamFromProjectRequest =
  RemoveTeamFromProjectRequest_projectId :: string
  RemoveTeamFromProjectRequest_teamId :: string

record ApiRemoveTeamFromProjectRequest =
  ApiRemoveTeamFromProjectRequest_project_id :: string
  ApiRemoveTeamFromProjectRequest_team_id :: string

definition mapRemoveTeamFromProjectRequest :: "RemoveTeamFromProjectRequest \<Rightarrow> ApiRemoveTeamFromProjectRequest" where
  "mapRemoveTeamFromProjectRequest req =
     \<lparr>ApiRemoveTeamFromProjectRequest_project_id = RemoveTeamFromProjectRequest_projectId req,
      ApiRemoveTeamFromProjectRequest_team_id = RemoveTeamFromProjectRequest_teamId req\<rparr>"

definition mapRemoveTeamFromProjectResponse :: "unit ApiResponse \<Rightarrow> js_error + unit" where
  "mapRemoveTeamFromProjectResponse res = mapOkResponse res"

record ListProjectTeamsRequest =
  ListProjectTeamsRequest_projectId :: string

record ApiListProjectTeamsRequest =
  ApiListProjectTeamsRequest_project_id :: string

definition mapListProjectTeamsRequest :: "ListProjectTeamsRequest \<Rightarrow> ApiListProjectTeamsRequest" where
  "mapListProjectTeamsRequest req =
     \<lparr>ApiListProjectTeamsRequest_project_id = ListProjectTeamsRequest_projectId req\<rparr>"

record UpdateTeamProjectPermissionsRequest =
  UpdateTeamProjectPermissionsRequest_projectId :: string
  UpdateTeamProjectPermissionsRequest_teamId :: string
  UpdateTeamProjectPermissionsRequest_permissions :: ProjectPermissions

record ApiUpdateTeamProjectPermissionsRequest =
  ApiUpdateTeamProjectPermissionsRequest_project_id :: string
  ApiUpdateTeamProjectPermissionsRequest_team_id :: string
  ApiUpdateTeamProjectPermissionsRequest_permissions :: ApiProjectPermissions

definition mapUpdateTeamProjectPermissionsRequest :: "UpdateTeamProjectPermissionsRequest \<Rightarrow> ApiUpdateTeamProjectPermissionsRequest" where
  "mapUpdateTeamProjectPermissionsRequest req =
     \<lparr>ApiUpdateTeamProjectPermissionsRequest_project_id = UpdateTeamProjectPermissionsRequest_projectId req,
      ApiUpdateTeamProjectPermissionsRequest_team_id = UpdateTeamProjectPermissionsRequest_teamId req,
      ApiUpdateTeamProjectPermissionsRequest_permissions = mapProjectPermissionsToApi (UpdateTeamProjectPermissionsRequest_permissions req)\<rparr>"

record ProjectTeamResponse =
  ProjectTeamResponse_team :: ProjectTeam

record ApiProjectTeamOk =
  ApiProjectTeamOk_team :: ApiProjectTeam

definition mapUpdateTeamProjectPermissionsResponse ::
    "ApiProjectTeamOk ApiResponse \<Rightarrow> js_error + ProjectTeamResponse" where
  "mapUpdateTeamProjectPermissionsResponse = ok_map (\<lambda>okRes.
     \<lparr>ProjectTeamResponse_team = mapProjectTeamResponse (ApiProjectTeamOk_team okRes)\<rparr>)"

section \<open>Invitations to an organization (invite.ts)\<close>

datatype InviteTarget =
    InviteTarget_email string
  | InviteTarget_userId string
  | InviteTarget_principal principal

datatype ApiInviteTarget =
    ApiInviteTarget_Email string
  | ApiInviteTarget_UserId string
  | ApiInviteTarget_Principal principal

datatype InviteStatus = Invite_pending | Invite_accepted | Invite_declined | Invite_revoked

datatype ApiInviteStatus =
  ApiInvite_Pending | ApiInvite_Accepted | ApiInvite_Declined | ApiInvite_Revoked

record OrgInvite =
  OrgInvite_id :: string
  OrgInvite_orgId :: string
  OrgInvite_orgName :: string
  OrgInvite_createdBy :: string
  OrgInvite_createdAtNs :: int
  OrgInvite_expiresAtNs :: int
  OrgInvite_target :: InviteTarget
  OrgInvite_status :: InviteStatus

record ApiOrgInvite =
  ApiOrgInvite_id :: string
  ApiOrgInvite_org_id :: string
  ApiOrgInvite_org_name :: string
  ApiOrgInvite_created_by :: string
  ApiOrgInvite_created_at_ns :: int
  ApiOrgInvite_expires_at_ns :: int
  ApiOrgInvite_target :: ApiInviteTarget
  ApiOrgInvite_status :: ApiInviteStatus

definition mapInviteTargetRequest :: "InviteTarget \<Rightarrow> ApiInviteTarget" where
  "mapInviteTargetRequest target =
     (case target of
        InviteTarget_email email \<Rightarrow> ApiInviteTarget_Email email
      | InviteTarget_userId userId \<Rightarrow> ApiInviteTarget_UserId userId
      | InviteTarget_principal p \<Rightarrow> ApiInviteTarget_Principal p)"

definition mapInviteTargetResponse :: "ApiInviteTarget \<Rightarrow> InviteTarget" where
  "mapInviteTargetResponse target =
     (case target of
        ApiInviteTarget_Email email \<Rightarrow> InviteTarget_email email
      | ApiInviteTarget_UserId userId \<Rightarrow> InviteTarget_userId userId
      | ApiInviteTarget_Principal p \<Rightarrow> InviteTarget_principal p)"

interpretation invite_target: bijective_codec mapInviteTargetRequest mapInviteTargetResponse
  by unfold_locales
    (auto simp: mapInviteTargetRequest_def mapInviteTargetResponse_def
      split: InviteTarget.split ApiInviteTarget.split)

definition mapInviteStatus :: "ApiInviteStatus \<Rightarrow> InviteStatus" where
  "mapInviteStatus status =
     (if status = ApiInvite_Pending then Invite_pending
      else if status = ApiInvite_Accepted then Invite_accepted
      else if status = ApiInvite_Declined then Invite_declined
      else Invite_revoked)"

lemma mapInviteStatus_bij: "bij mapInviteStatus"
proof (rule bijI)
  show "inj mapInviteStatus"
    by (rule injI) (auto simp: mapInviteStatus_def split: if_splits intro: ApiInviteStatus.exhaust)
  show "surj mapInviteStatus"
    unfolding surj_def
  proof
    fix y
    show "\<exists>x. y = mapInviteStatus x"
      by (cases y) (simp_all add: mapInviteStatus_def, auto intro: exI [where x = ApiInvite_Pending]
        exI [where x = ApiInvite_Accepted] exI [where x = ApiInvite_Declined] exI [where x = ApiInvite_Revoked])
  qed
qed

definition mapInvite :: "ApiOrgInvite \<Rightarrow> OrgInvite" where
  "mapInvite invite =
     \<lparr>OrgInvite_id = ApiOrgInvite_id invite,
      OrgInvite_orgId = ApiOrgInvite_org_id invite,
      OrgInvite_orgName = ApiOrgInvite_org_name invite,
      OrgInvite_createdBy = ApiOrgInvite_created_by invite,
      OrgInvite_createdAtNs = ApiOrgInvite_created_at_ns invite,
      OrgInvite_expiresAtNs = ApiOrgInvite_expires_at_ns invite,
      OrgInvite_target = mapInviteTargetResponse (ApiOrgInvite_target invite),
      OrgInvite_status = mapInviteStatus (ApiOrgInvite_status invite)\<rparr>"

record CreateOrgInviteRequest =
  CreateOrgInviteRequest_orgId :: string
  CreateOrgInviteRequest_target :: InviteTarget

record ApiCreateOrgInviteRequest =
  ApiCreateOrgInviteRequest_org_id :: string
  ApiCreateOrgInviteRequest_target :: ApiInviteTarget

definition mapCreateOrgInviteRequest :: "CreateOrgInviteRequest \<Rightarrow> ApiCreateOrgInviteRequest" where
  "mapCreateOrgInviteRequest req =
     \<lparr>ApiCreateOrgInviteRequest_org_id = CreateOrgInviteRequest_orgId req,
      ApiCreateOrgInviteRequest_target = mapInviteTargetRequest (CreateOrgInviteRequest_target req)\<rparr>"

record ApiOrgInviteOk =
  ApiOrgInviteOk_invite :: ApiOrgInvite

definition mapCreateOrgInviteResponse :: "ApiOrgInviteOk ApiResponse \<Rightarrow> js_error + OrgInvite" where
  "mapCreateOrgInviteResponse = ok_map (\<lambda>okRes. mapInvite (ApiOrgInviteOk_invite okRes))"

record ListOrgInvitesRequest =
  ListOrgInvitesRequest_orgId :: string

record ApiListOrgInvitesRequest =
  ApiListOrgInvitesRequest_org_id :: string

definition mapListOrgInvitesRequest :: "ListOrgInvitesRequest \<Rightarrow> ApiListOrgInvitesRequest" where
  "mapListOrgInvitesRequest req =
     \<lparr>ApiListOrgInvitesRequest_org_id = ListOrgInvitesRequest_orgId req\<rparr>"

definition mapListOrgInvitesResponse :: "ApiOrgInvite list ApiResponse \<Rightarrow> js_error + OrgInvite list" where
  "mapListOrgInvitesResponse = ok_map (map mapInvite)"

definition mapListMyInvitesResponse :: "ApiOrgInvite list ApiResponse \<Rightarrow> js_error + OrgInvite list" where
  "mapListMyInvitesResponse = ok_map (map mapInvite)"

record RevokeOrgInviteRequest =
  RevokeOrgInviteRequest_inviteId :: string

record ApiRevokeOrgInviteRequest =
  ApiRevokeOrgInviteRequest_invite_id :: string

definition mapRevokeOrgInviteRequest :: "RevokeOrgInviteRequest \<Rightarrow> ApiRevokeOrgInviteRequest" where
  "mapRevokeOrgInviteRequest req =
     \<lparr>ApiRevokeOrgInviteRequest_invite_id = RevokeOrgInviteRequest_inviteId req\<rparr>"

definition mapRevokeOrgInviteResponse :: "unit ApiResponse \<Rightarrow> js_error + unit" where
  "mapRevokeOrgInviteResponse res = mapOkResponse res"

record AcceptOrgInviteRequest =
  AcceptOrgInviteRequest_inviteId :: string

record ApiAcceptOrgInviteRequest =
  ApiAcceptOrgInviteRequest_invite_id :: string

definition mapAcceptOrgInviteRequest :: "AcceptOrgInviteRequest \<Rightarrow> ApiAcceptOrgInviteRequest" where
  "mapAcceptOrgInviteRequest req =
     \<lparr>ApiAcceptOrgInviteRequest_invite_id = AcceptOrgInviteRequest_inviteId req\<rparr>"

definition mapAcceptOrgInviteResponse :: "unit ApiResponse \<Rightarrow> js_error + unit" where
  "mapAcceptOrgInviteResponse res = mapOkResponse res"

record DeclineOrgInviteRequest =
  DeclineOrgInviteRequest_inviteId :: string

record ApiDeclineOrgInviteRequest =
  ApiDeclineOrgInviteRequest_invite_id :: string

definition mapDeclineOrgInviteRequest :: "DeclineOrgInviteRequest \<Rightarrow> ApiDeclineOrgInviteRequest" where
  "mapDeclineOrgInviteRequest req =
     \<lparr>ApiDeclineOrgInviteRequest_invite_id = DeclineOrgInviteRequest_inviteId req\<rparr>"

definition mapDeclineOrgInviteResponse :: "unit ApiResponse \<Rightarrow> js_error + unit" where
  "mapDeclineOrgInviteResponse res = mapOkResponse res"

end
