(* ===== verification/CanisterModels.thy ===== *)
theory CanisterModels
  imports ApiError
begin

text \<open>
  The models of canisters: \<open>lib/api-models/canister.ts\<close> (what the backend knows of them) and
  \<open>management-canister.ts\<close> (what the management canister is asked and answers). Candid's \<open>nat\<close>,
  \<open>nat64\<close> and the \<open>bigint\<close>s they become are integers, a \<open>blob\<close> is a list of bytes. The nested
  object types of the source have a record of their own here, and their translation a function.
\<close>

section \<open>Canisters (canister.ts)\<close>

datatype CanisterStatus = Running | Stopping | Stopped

datatype ApiCanisterStatus = ApiCanister_Running | ApiCanister_Stopping | ApiCanister_Stopped

datatype LogVisibility = LogVisibility_controllers | LogVisibility_public | LogVisibility_viewers "string list"

datatype ApiLogVisibility =
    ApiLogVisibility_Controllers
  | ApiLogVisibility_Public
  | ApiLogVisibility_AllowedViewers "principal list"

record EnvironmentVariable =
  EnvironmentVariable_name :: string
  EnvironmentVariable_value :: string

record ApiEnvironmentVariable =
  ApiEnvironmentVariable_name :: string
  ApiEnvironmentVariable_value :: string

record MemoryMetrics =
  MemoryMetrics_wasmMemorySize :: int
  MemoryMetrics_stableMemorySize :: int
  MemoryMetrics_globalMemorySize :: int
  MemoryMetrics_wasmBinarySize :: int
  MemoryMetrics_customSectionsSize :: int
  MemoryMetrics_canisterHistorySize :: int
  MemoryMetrics_wasmChunkStoreSize :: int
  MemoryMetrics_snapshotsSize :: int

record ApiMemoryMetrics =
  ApiMemoryMetrics_wasm_memory_size :: int
  ApiMemoryMetrics_stable_memory_size :: int
  ApiMemoryMetrics_global_memory_size :: int
  ApiMemoryMetrics_wasm_binary_size :: int
  ApiMemoryMetrics_custom_sections_size :: int
  ApiMemoryMetrics_canister_history_size :: int
  ApiMemoryMetrics_wasm_chunk_store_size :: int
  ApiMemoryMetrics_snapshots_size :: int

record QueryStats =
  QueryStats_numCallsTotal :: int
  QueryStats_numInstructionsTotal :: int
  QueryStats_requestPayloadBytesTotal :: int
  QueryStats_responsePayloadBytesTotal :: int

record ApiQueryStats =
  ApiQueryStats_num_calls_total :: int
  ApiQueryStats_num_instructions_total :: int
  ApiQueryStats_request_payload_bytes_total :: int
  ApiQueryStats_response_payload_bytes_total :: int

record CanisterInfoSettings =
  CanisterInfoSettings_controllers :: "string list"
  CanisterInfoSettings_computeAllocation :: int
  CanisterInfoSettings_memoryAllocation :: int
  CanisterInfoSettings_freezingThreshold :: int
  CanisterInfoSettings_reservedCyclesLimit :: int
  CanisterInfoSettings_logVisibility :: LogVisibility
  CanisterInfoSettings_wasmMemoryLimit :: int
  CanisterInfoSettings_wasmMemoryThreshold :: int
  CanisterInfoSettings_environmentVariables :: "EnvironmentVariable list"

record ApiDefiniteCanisterSettings =
  ApiDefiniteCanisterSettings_controllers :: "principal list"
  ApiDefiniteCanisterSettings_compute_allocation :: int
  ApiDefiniteCanisterSettings_memory_allocation :: int
  ApiDefiniteCanisterSettings_freezing_threshold :: int
  ApiDefiniteCanisterSettings_reserved_cycles_limit :: int
  ApiDefiniteCanisterSettings_log_visibility :: ApiLogVisibility
  ApiDefiniteCanisterSettings_wasm_memory_limit :: int
  ApiDefiniteCanisterSettings_wasm_memory_threshold :: int
  ApiDefiniteCanisterSettings_environment_variables :: "ApiEnvironmentVariable list"

record CanisterInfo =
  CanisterInfo_status :: CanisterStatus
  CanisterInfo_readyForMigration :: bool
  CanisterInfo_version :: int
  CanisterInfo_settings :: CanisterInfoSettings
  CanisterInfo_moduleHash :: "nat list option"
  CanisterInfo_memorySize :: int
  CanisterInfo_memoryMetrics :: MemoryMetrics
  CanisterInfo_cycles :: int
  CanisterInfo_reservedCycles :: int
  CanisterInfo_idleCyclesBurnedPerDay :: int
  CanisterInfo_queryStats :: QueryStats

record ApiCanisterInfo =
  ApiCanisterInfo_status :: ApiCanisterStatus
  ApiCanisterInfo_ready_for_migration :: bool
  ApiCanisterInfo_version :: int
  ApiCanisterInfo_settings :: ApiDefiniteCanisterSettings
  ApiCanisterInfo_module_hash :: "nat list candid_opt"
  ApiCanisterInfo_memory_size :: int
  ApiCanisterInfo_memory_metrics :: ApiMemoryMetrics
  ApiCanisterInfo_cycles :: int
  ApiCanisterInfo_reserved_cycles :: int
  ApiCanisterInfo_idle_cycles_burned_per_day :: int
  ApiCanisterInfo_query_stats :: ApiQueryStats

text \<open>The union \<open>CanisterState\<close>: the availability, and the information that only an accessible canister has.\<close>

datatype CanisterState = Accessible CanisterInfo | Inaccessible | Deleted

datatype CanisterAvailability =
  Availability_Accessible | Availability_Inaccessible | Availability_Deleted

fun availability :: "CanisterState \<Rightarrow> CanisterAvailability" where
  "availability (Accessible info) = Availability_Accessible"
| "availability Inaccessible = Availability_Inaccessible"
| "availability Deleted = Availability_Deleted"

datatype ApiCanisterState =
  ApiCanister_Accessible ApiCanisterInfo | ApiCanister_Inaccessible | ApiCanister_Deleted

record Canister =
  Canister_id :: string
  Canister_principal :: string
  Canister_name :: "string option"
  Canister_state :: CanisterState
  Canister_deletedAt :: "int option"

record ApiCanister =
  ApiCanister_id :: string
  ApiCanister_principal_id :: string
  ApiCanister_name :: "string candid_opt"
  ApiCanister_state :: ApiCanisterState
  ApiCanister_deleted_at :: "int candid_opt"

definition mapCanisterStatus :: "ApiCanisterStatus \<Rightarrow> CanisterStatus" where
  "mapCanisterStatus status =
     (if status = ApiCanister_Running then Running
      else if status = ApiCanister_Stopping then Stopping
      else Stopped)"

definition mapLogVisibility :: "('z) principal_codec_scheme \<Rightarrow> ApiLogVisibility \<Rightarrow> LogVisibility" where
  "mapLogVisibility P v =
     (case v of
        ApiLogVisibility_Controllers \<Rightarrow> LogVisibility_controllers
      | ApiLogVisibility_Public \<Rightarrow> LogVisibility_public
      | ApiLogVisibility_AllowedViewers viewers \<Rightarrow> LogVisibility_viewers (map (toText P) viewers))"

definition mapEnvironmentVariable :: "ApiEnvironmentVariable \<Rightarrow> EnvironmentVariable" where
  "mapEnvironmentVariable env =
     \<lparr>EnvironmentVariable_name = ApiEnvironmentVariable_name env,
      EnvironmentVariable_value = ApiEnvironmentVariable_value env\<rparr>"

definition mapMemoryMetrics :: "ApiMemoryMetrics \<Rightarrow> MemoryMetrics" where
  "mapMemoryMetrics m =
     \<lparr>MemoryMetrics_wasmMemorySize = ApiMemoryMetrics_wasm_memory_size m,
      MemoryMetrics_stableMemorySize = ApiMemoryMetrics_stable_memory_size m,
      MemoryMetrics_globalMemorySize = ApiMemoryMetrics_global_memory_size m,
      MemoryMetrics_wasmBinarySize = ApiMemoryMetrics_wasm_binary_size m,
      MemoryMetrics_customSectionsSize = ApiMemoryMetrics_custom_sections_size m,
      MemoryMetrics_canisterHistorySize = ApiMemoryMetrics_canister_history_size m,
      MemoryMetrics_wasmChunkStoreSize = ApiMemoryMetrics_wasm_chunk_store_size m,
      MemoryMetrics_snapshotsSize = ApiMemoryMetrics_snapshots_size m\<rparr>"

definition mapQueryStats :: "ApiQueryStats \<Rightarrow> QueryStats" where
  "mapQueryStats q =
     \<lparr>QueryStats_numCallsTotal = ApiQueryStats_num_calls_total q,
      QueryStats_numInstructionsTotal = ApiQueryStats_num_instructions_total q,
      QueryStats_requestPayloadBytesTotal = ApiQueryStats_request_payload_bytes_total q,
      QueryStats_responsePayloadBytesTotal = ApiQueryStats_response_payload_bytes_total q\<rparr>"

definition mapDefiniteCanisterSettings ::
    "('z) principal_codec_scheme \<Rightarrow> ApiDefiniteCanisterSettings \<Rightarrow> CanisterInfoSettings" where
  "mapDefiniteCanisterSettings P settings =
     \<lparr>CanisterInfoSettings_controllers = map (toText P) (ApiDefiniteCanisterSettings_controllers settings),
      CanisterInfoSettings_computeAllocation = ApiDefiniteCanisterSettings_compute_allocation settings,
      CanisterInfoSettings_memoryAllocation = ApiDefiniteCanisterSettings_memory_allocation settings,
      CanisterInfoSettings_freezingThreshold = ApiDefiniteCanisterSettings_freezing_threshold settings,
      CanisterInfoSettings_reservedCyclesLimit = ApiDefiniteCanisterSettings_reserved_cycles_limit settings,
      CanisterInfoSettings_logVisibility = mapLogVisibility P (ApiDefiniteCanisterSettings_log_visibility settings),
      CanisterInfoSettings_wasmMemoryLimit = ApiDefiniteCanisterSettings_wasm_memory_limit settings,
      CanisterInfoSettings_wasmMemoryThreshold = ApiDefiniteCanisterSettings_wasm_memory_threshold settings,
      CanisterInfoSettings_environmentVariables = map mapEnvironmentVariable (ApiDefiniteCanisterSettings_environment_variables settings)\<rparr>"

definition mapCanisterInfo :: "('z) principal_codec_scheme \<Rightarrow> ApiCanisterInfo \<Rightarrow> CanisterInfo" where
  "mapCanisterInfo P canisterInfo =
     \<lparr>CanisterInfo_status = mapCanisterStatus (ApiCanisterInfo_status canisterInfo),
      CanisterInfo_readyForMigration = ApiCanisterInfo_ready_for_migration canisterInfo,
      CanisterInfo_version = ApiCanisterInfo_version canisterInfo,
      CanisterInfo_settings = mapDefiniteCanisterSettings P (ApiCanisterInfo_settings canisterInfo),
      CanisterInfo_moduleHash = fromCandidOpt (ApiCanisterInfo_module_hash canisterInfo),
      CanisterInfo_memorySize = ApiCanisterInfo_memory_size canisterInfo,
      CanisterInfo_memoryMetrics = mapMemoryMetrics (ApiCanisterInfo_memory_metrics canisterInfo),
      CanisterInfo_cycles = ApiCanisterInfo_cycles canisterInfo,
      CanisterInfo_reservedCycles = ApiCanisterInfo_reserved_cycles canisterInfo,
      CanisterInfo_idleCyclesBurnedPerDay = ApiCanisterInfo_idle_cycles_burned_per_day canisterInfo,
      CanisterInfo_queryStats = mapQueryStats (ApiCanisterInfo_query_stats canisterInfo)\<rparr>"

definition mapCanisterState :: "('z) principal_codec_scheme \<Rightarrow> ApiCanisterState \<Rightarrow> CanisterState" where
  "mapCanisterState P state =
     (case state of
        ApiCanister_Accessible info \<Rightarrow> Accessible (mapCanisterInfo P info)
      | ApiCanister_Deleted \<Rightarrow> Deleted
      | ApiCanister_Inaccessible \<Rightarrow> Inaccessible)"

definition mapCanisterResponse :: "('z) principal_codec_scheme \<Rightarrow> ApiCanister \<Rightarrow> Canister" where
  "mapCanisterResponse P res =
     \<lparr>Canister_id = ApiCanister_id res,
      Canister_principal = ApiCanister_principal_id res,
      Canister_name = fromCandidOpt (ApiCanister_name res),
      Canister_state = mapCanisterState P (ApiCanister_state res),
      Canister_deletedAt = fromCandidOpt (ApiCanister_deleted_at res)\<rparr>"

definition mapListMyCanistersResponse ::
    "('z) principal_codec_scheme \<Rightarrow> ApiCanister list ApiResponse \<Rightarrow> js_error + Canister list" where
  "mapListMyCanistersResponse P = ok_map (map (mapCanisterResponse P))"

record ListUserCanistersResponse =
  ListUserCanistersResponse_canisters :: "Canister list"

record ApiListUserCanistersOk =
  ApiListUserCanistersOk_canisters :: "ApiCanister list"

definition mapListUserCanistersResponse ::
    "('z) principal_codec_scheme \<Rightarrow> ApiListUserCanistersOk ApiResponse \<Rightarrow> js_error + ListUserCanistersResponse" where
  "mapListUserCanistersResponse P = ok_map (\<lambda>ok.
     \<lparr>ListUserCanistersResponse_canisters = map (mapCanisterResponse P) (ApiListUserCanistersOk_canisters ok)\<rparr>)"

record CanisterWithOwner =
  CanisterWithOwner_id :: string
  CanisterWithOwner_principal :: string
  CanisterWithOwner_userId :: string
  CanisterWithOwner_email :: "string option"
  CanisterWithOwner_emailVerified :: bool
  CanisterWithOwner_deletedAt :: "int option"

record ApiCanisterWithOwner =
  ApiCanisterWithOwner_id :: string
  ApiCanisterWithOwner_principal_id :: string
  ApiCanisterWithOwner_user_id :: string
  ApiCanisterWithOwner_email :: "string candid_opt"
  ApiCanisterWithOwner_email_verified :: bool
  ApiCanisterWithOwner_deleted_at :: "int candid_opt"

record ListAllCanistersResponse =
  ListAllCanistersResponse_canisters :: "CanisterWithOwner list"
  ListAllCanistersResponse_totalPages :: int

record ApiPaginationMetaResponse =
  ApiPaginationMetaResponse_limit :: int
  ApiPaginationMetaResponse_page :: int
  ApiPaginationMetaResponse_total_items :: int
  ApiPaginationMetaResponse_total_pages :: int

record ApiListAllCanistersOk =
  ApiListAllCanistersOk_canisters :: "ApiCanisterWithOwner list"
  ApiListAllCanistersOk_meta :: ApiPaginationMetaResponse

definition mapCanisterWithOwner :: "ApiCanisterWithOwner \<Rightarrow> CanisterWithOwner" where
  "mapCanisterWithOwner res =
     \<lparr>CanisterWithOwner_id = ApiCanisterWithOwner_id res,
      CanisterWithOwner_principal = ApiCanisterWithOwner_principal_id res,
      CanisterWithOwner_userId = ApiCanisterWithOwner_user_id res,
      CanisterWithOwner_email = fromCandidOpt (ApiCanisterWithOwner_email res),
      CanisterWithOwner_emailVerified = ApiCanisterWithOwner_email_verified res,
      CanisterWithOwner_deletedAt = fromCandidOpt (ApiCanisterWithOwner_deleted_at res)\<rparr>"

definition mapListAllCanistersResponse ::
    "ApiListAllCanistersOk ApiResponse \<Rightarrow> js_error + ListAllCanistersResponse" where
  "mapListAllCanistersResponse = ok_map (\<lambda>ok.
     \<lparr>ListAllCanistersResponse_canisters = map mapCanisterWithOwner (ApiListAllCanistersOk_canisters ok),
      ListAllCanistersResponse_totalPages = ApiPaginationMetaResponse_total_pages (ApiListAllCanistersOk_meta ok)\<rparr>)"

section \<open>The management canister (management-canister.ts)\<close>

record CanisterStatusRequest =
  CanisterStatusRequest_canisterId :: string

record ApiCanisterStatusRequest =
  ApiCanisterStatusRequest_canister_id :: principal

definition mapCanisterStatusRequest ::
    "('z) principal_codec_scheme \<Rightarrow> CanisterStatusRequest \<Rightarrow> js_error + ApiCanisterStatusRequest" where
  "mapCanisterStatusRequest P req =
     and_then (fromText P (CanisterStatusRequest_canisterId req)) (\<lambda>canister_id. Inr
       \<lparr>ApiCanisterStatusRequest_canister_id = canister_id\<rparr>)"

record CanisterStatusSettings =
  CanisterStatusSettings_controllers :: "string list"
  CanisterStatusSettings_controller :: string
  CanisterStatusSettings_computeAllocation :: int
  CanisterStatusSettings_memoryAllocation :: int
  CanisterStatusSettings_freezingThreshold :: int
  CanisterStatusSettings_reservedCyclesLimit :: int
  CanisterStatusSettings_logVisibility :: LogVisibility
  CanisterStatusSettings_logMemoryLimit :: int
  CanisterStatusSettings_wasmMemoryLimit :: int
  CanisterStatusSettings_wasmMemoryThreshold :: int
  CanisterStatusSettings_environmentVariables :: "EnvironmentVariable list"

record ApiCanisterStatusSettings =
  ApiCanisterStatusSettings_controllers :: "principal list"
  ApiCanisterStatusSettings_controller :: principal
  ApiCanisterStatusSettings_compute_allocation :: int
  ApiCanisterStatusSettings_memory_allocation :: int
  ApiCanisterStatusSettings_freezing_threshold :: int
  ApiCanisterStatusSettings_reserved_cycles_limit :: int
  ApiCanisterStatusSettings_log_visibility :: ApiLogVisibility
  ApiCanisterStatusSettings_log_memory_limit :: int
  ApiCanisterStatusSettings_wasm_memory_limit :: int
  ApiCanisterStatusSettings_wasm_memory_threshold :: int
  ApiCanisterStatusSettings_environment_variables :: "ApiEnvironmentVariable list"

record CanisterBalance =
  CanisterBalance_blob :: "nat list"
  CanisterBalance_nat :: int

record CanisterStatusResponse =
  CanisterStatusResponse_status :: CanisterStatus
  CanisterStatusResponse_version :: int
  CanisterStatusResponse_readyForMigration :: bool
  CanisterStatusResponse_settings :: CanisterStatusSettings
  CanisterStatusResponse_moduleHash :: "nat list option"
  CanisterStatusResponse_memorySize :: int
  CanisterStatusResponse_memoryMetrics :: MemoryMetrics
  CanisterStatusResponse_controller :: string
  CanisterStatusResponse_freezingThreshold :: int
  CanisterStatusResponse_balance :: "CanisterBalance list"
  CanisterStatusResponse_cycles :: int
  CanisterStatusResponse_reservedCycles :: int

record ApiCanisterStatusResponse =
  ApiCanisterStatusResponse_status :: ApiCanisterStatus
  ApiCanisterStatusResponse_version :: int
  ApiCanisterStatusResponse_ready_for_migration :: bool
  ApiCanisterStatusResponse_settings :: ApiCanisterStatusSettings
  ApiCanisterStatusResponse_module_hash :: "nat list candid_opt"
  ApiCanisterStatusResponse_memory_size :: int
  ApiCanisterStatusResponse_memory_metrics :: ApiMemoryMetrics
  ApiCanisterStatusResponse_controller :: principal
  ApiCanisterStatusResponse_freezing_threshold :: int
  ApiCanisterStatusResponse_balance :: "(nat list \<times> int) list"
  ApiCanisterStatusResponse_cycles :: int
  ApiCanisterStatusResponse_reserved_cycles :: int

definition mapCanisterStatusSettings ::
    "('z) principal_codec_scheme \<Rightarrow> ApiCanisterStatusSettings \<Rightarrow> CanisterStatusSettings" where
  "mapCanisterStatusSettings P settings =
     \<lparr>CanisterStatusSettings_controllers = map (toText P) (ApiCanisterStatusSettings_controllers settings),
      CanisterStatusSettings_controller = toText P (ApiCanisterStatusSettings_controller settings),
      CanisterStatusSettings_computeAllocation = ApiCanisterStatusSettings_compute_allocation settings,
      CanisterStatusSettings_memoryAllocation = ApiCanisterStatusSettings_memory_allocation settings,
      CanisterStatusSettings_freezingThreshold = ApiCanisterStatusSettings_freezing_threshold settings,
      CanisterStatusSettings_reservedCyclesLimit = ApiCanisterStatusSettings_reserved_cycles_limit settings,
      CanisterStatusSettings_logVisibility = mapLogVisibility P (ApiCanisterStatusSettings_log_visibility settings),
      CanisterStatusSettings_logMemoryLimit = ApiCanisterStatusSettings_log_memory_limit settings,
      CanisterStatusSettings_wasmMemoryLimit = ApiCanisterStatusSettings_wasm_memory_limit settings,
      CanisterStatusSettings_wasmMemoryThreshold = ApiCanisterStatusSettings_wasm_memory_threshold settings,
      CanisterStatusSettings_environmentVariables = map mapEnvironmentVariable (ApiCanisterStatusSettings_environment_variables settings)\<rparr>"

definition mapCanisterStatusResponse ::
    "('z) principal_codec_scheme \<Rightarrow> ApiCanisterStatusResponse \<Rightarrow> CanisterStatusResponse" where
  "mapCanisterStatusResponse P res =
     \<lparr>CanisterStatusResponse_status = mapCanisterStatus (ApiCanisterStatusResponse_status res),
      CanisterStatusResponse_version = ApiCanisterStatusResponse_version res,
      CanisterStatusResponse_readyForMigration = ApiCanisterStatusResponse_ready_for_migration res,
      CanisterStatusResponse_settings = mapCanisterStatusSettings P (ApiCanisterStatusResponse_settings res),
      CanisterStatusResponse_moduleHash = fromCandidOpt (ApiCanisterStatusResponse_module_hash res),
      CanisterStatusResponse_memorySize = ApiCanisterStatusResponse_memory_size res,
      CanisterStatusResponse_memoryMetrics = mapMemoryMetrics (ApiCanisterStatusResponse_memory_metrics res),
      CanisterStatusResponse_controller = toText P (ApiCanisterStatusResponse_controller res),
      CanisterStatusResponse_freezingThreshold = ApiCanisterStatusResponse_freezing_threshold res,
      CanisterStatusResponse_balance = map (\<lambda>(blob, n). \<lparr>CanisterBalance_blob = blob, CanisterBalance_nat = n\<rparr>) (ApiCanisterStatusResponse_balance res),
      CanisterStatusResponse_cycles = ApiCanisterStatusResponse_cycles res,
      CanisterStatusResponse_reservedCycles = ApiCanisterStatusResponse_reserved_cycles res\<rparr>"

record UpdateSettings =
  UpdateSettings_controllers :: "string list option"
  UpdateSettings_controller :: "string option"
  UpdateSettings_computeAllocation :: "int option"
  UpdateSettings_memoryAllocation :: "int option"
  UpdateSettings_freezingThreshold :: "int option"
  UpdateSettings_reservedCyclesLimit :: "int option"
  UpdateSettings_logVisibility :: "LogVisibility option"
  UpdateSettings_logMemoryLimit :: "int option"
  UpdateSettings_wasmMemoryLimit :: "int option"
  UpdateSettings_wasmMemoryThreshold :: "int option"
  UpdateSettings_environmentVariables :: "EnvironmentVariable list option"

record UpdateSettingsRequest =
  UpdateSettingsRequest_canisterId :: string
  UpdateSettingsRequest_settings :: UpdateSettings
  UpdateSettingsRequest_senderCanisterVersion :: "int option"

record ApiCanisterSettings =
  ApiCanisterSettings_controllers :: "principal list candid_opt"
  ApiCanisterSettings_compute_allocation :: "int candid_opt"
  ApiCanisterSettings_memory_allocation :: "int candid_opt"
  ApiCanisterSettings_freezing_threshold :: "int candid_opt"
  ApiCanisterSettings_reserved_cycles_limit :: "int candid_opt"
  ApiCanisterSettings_log_visibility :: "ApiLogVisibility candid_opt"
  ApiCanisterSettings_log_memory_limit :: "int candid_opt"
  ApiCanisterSettings_wasm_memory_limit :: "int candid_opt"
  ApiCanisterSettings_wasm_memory_threshold :: "int candid_opt"
  ApiCanisterSettings_environment_variables :: "EnvironmentVariable list candid_opt"

record ApiUpdateSettingsRequest =
  ApiUpdateSettingsRequest_canister_id :: principal
  ApiUpdateSettingsRequest_settings :: ApiCanisterSettings
  ApiUpdateSettingsRequest_sender_canister_version :: "int candid_opt"

definition mapLogVisibilityRequest ::
    "('z) principal_codec_scheme \<Rightarrow> LogVisibility \<Rightarrow> js_error + ApiLogVisibility" where
  "mapLogVisibilityRequest P v =
     (case v of
        LogVisibility_controllers \<Rightarrow> Inr ApiLogVisibility_Controllers
      | LogVisibility_public \<Rightarrow> Inr ApiLogVisibility_Public
      | LogVisibility_viewers viewers \<Rightarrow>
          and_then (map_throwing (fromText P) viewers) (\<lambda>ps. Inr (ApiLogVisibility_AllowedViewers ps)))"

text \<open>An optional field through a function that may throw: \<open>x ? [f(x)] : []\<close>.\<close>

definition opt_throwing :: "('a \<Rightarrow> js_error + 'b) \<Rightarrow> 'a option \<Rightarrow> js_error + 'b candid_opt" where
  "opt_throwing f v = (case v of None \<Rightarrow> Inr [] | Some x \<Rightarrow> and_then (f x) (\<lambda>y. Inr [y]))"

text \<open>The deprecated \<open>controller\<close> of the settings is not part of the request that is sent.\<close>

definition mapUpdateSettingsRequest ::
    "('z) principal_codec_scheme \<Rightarrow> UpdateSettingsRequest \<Rightarrow> js_error + ApiUpdateSettingsRequest" where
  "mapUpdateSettingsRequest P req =
     (let settings = UpdateSettingsRequest_settings req in
      and_then (fromText P (UpdateSettingsRequest_canisterId req)) (\<lambda>canister_id.
      and_then (opt_throwing (map_throwing (fromText P)) (UpdateSettings_controllers settings)) (\<lambda>controllers.
      and_then (opt_throwing (mapLogVisibilityRequest P) (UpdateSettings_logVisibility settings)) (\<lambda>log_visibility. Inr
        \<lparr>ApiUpdateSettingsRequest_canister_id = canister_id,
         ApiUpdateSettingsRequest_settings =
           \<lparr>ApiCanisterSettings_controllers = controllers,
            ApiCanisterSettings_compute_allocation = toCandidOpt (UpdateSettings_computeAllocation settings),
            ApiCanisterSettings_memory_allocation = toCandidOpt (UpdateSettings_memoryAllocation settings),
            ApiCanisterSettings_freezing_threshold = toCandidOpt (UpdateSettings_freezingThreshold settings),
            ApiCanisterSettings_reserved_cycles_limit = toCandidOpt (UpdateSettings_reservedCyclesLimit settings),
            ApiCanisterSettings_log_visibility = log_visibility,
            ApiCanisterSettings_log_memory_limit = toCandidOpt (UpdateSettings_logMemoryLimit settings),
            ApiCanisterSettings_wasm_memory_limit = toCandidOpt (UpdateSettings_wasmMemoryLimit settings),
            ApiCanisterSettings_wasm_memory_threshold = toCandidOpt (UpdateSettings_wasmMemoryThreshold settings),
            ApiCanisterSettings_environment_variables = toCandidOpt (UpdateSettings_environmentVariables settings)\<rparr>,
         ApiUpdateSettingsRequest_sender_canister_version =
           toCandidOpt (UpdateSettingsRequest_senderCanisterVersion req)\<rparr>))))"

record StartCanisterRequest =
  StartCanisterRequest_canisterId :: string

record ApiStartCanisterRequest =
  ApiStartCanisterRequest_canister_id :: principal

definition mapStartCanisterRequest ::
    "('z) principal_codec_scheme \<Rightarrow> StartCanisterRequest \<Rightarrow> js_error + ApiStartCanisterRequest" where
  "mapStartCanisterRequest P req =
     and_then (fromText P (StartCanisterRequest_canisterId req)) (\<lambda>canister_id. Inr
       \<lparr>ApiStartCanisterRequest_canister_id = canister_id\<rparr>)"

record StopCanisterRequest =
  StopCanisterRequest_canisterId :: string

record ApiStopCanisterRequest =
  ApiStopCanisterRequest_canister_id :: principal

definition mapStopCanisterRequest ::
    "('z) principal_codec_scheme \<Rightarrow> StopCanisterRequest \<Rightarrow> js_error + ApiStopCanisterRequest" where
  "mapStopCanisterRequest P req =
     and_then (fromText P (StopCanisterRequest_canisterId req)) (\<lambda>canister_id. Inr
       \<lparr>ApiStopCanisterRequest_canister_id = canister_id\<rparr>)"

record DeleteCanisterRequest =
  DeleteCanisterRequest_canisterId :: string

record ApiDeleteCanisterRequest =
  ApiDeleteCanisterRequest_canister_id :: principal

definition mapDeleteCanisterRequest ::
    "('z) principal_codec_scheme \<Rightarrow> DeleteCanisterRequest \<Rightarrow> js_error + ApiDeleteCanisterRequest" where
  "mapDeleteCanisterRequest P req =
     and_then (fromText P (DeleteCanisterRequest_canisterId req)) (\<lambda>canister_id. Inr
       \<lparr>ApiDeleteCanisterRequest_canister_id = canister_id\<rparr>)"

end
