(* ===== verification/UsageModels.thy ===== *)
theory UsageModels
  imports CanisterModels
begin

text \<open>
  The models of what canisters consume, \<open>lib/api-models/usage.ts\<close>, and of the changes made to
  them, \<open>canister-history.ts\<close>.
\<close>

section \<open>Usage (usage.ts)\<close>

record GetUsageRequest =
  GetUsageRequest_projectId :: string
  GetUsageRequest_billingMonth :: "string option"

record ApiGetUsageRequest =
  ApiGetUsageRequest_project_id :: string
  ApiGetUsageRequest_billing_month :: "string candid_opt"

definition mapGetUsageRequest :: "GetUsageRequest \<Rightarrow> ApiGetUsageRequest" where
  "mapGetUsageRequest req =
     \<lparr>ApiGetUsageRequest_project_id = GetUsageRequest_projectId req,
      ApiGetUsageRequest_billing_month = toCandidOpt (GetUsageRequest_billingMonth req)\<rparr>"

record ProjectUsage =
  ProjectUsage_memory :: int
  ProjectUsage_memoryBytes :: int
  ProjectUsage_computeAllocation :: int
  ProjectUsage_computeAllocationPercent :: int
  ProjectUsage_ingressInduction :: int
  ProjectUsage_ingressInductionBytesTotal :: int
  ProjectUsage_instructions :: int
  ProjectUsage_computeTimeSecondsTotal :: int
  ProjectUsage_requestAndResponseTransmission :: int
  ProjectUsage_transmissionBytesTotal :: int
  ProjectUsage_uninstall :: int
  ProjectUsage_uninstallsTotal :: int
  ProjectUsage_httpOutcalls :: int
  ProjectUsage_burnedCycles :: int

record ApiProjectUsage =
  ApiProjectUsage_memory :: int
  ApiProjectUsage_memory_bytes :: int
  ApiProjectUsage_compute_allocation :: int
  ApiProjectUsage_compute_allocation_percent :: int
  ApiProjectUsage_ingress_induction :: int
  ApiProjectUsage_ingress_induction_bytes_total :: int
  ApiProjectUsage_instructions :: int
  ApiProjectUsage_compute_time_seconds_total :: int
  ApiProjectUsage_request_and_response_transmission :: int
  ApiProjectUsage_transmission_bytes_total :: int
  ApiProjectUsage_uninstall :: int
  ApiProjectUsage_uninstalls_total :: int
  ApiProjectUsage_http_outcalls :: int
  ApiProjectUsage_burned_cycles :: int

definition mapProjectUsage :: "ApiProjectUsage \<Rightarrow> ProjectUsage" where
  "mapProjectUsage api =
     \<lparr>ProjectUsage_memory = ApiProjectUsage_memory api,
      ProjectUsage_memoryBytes = ApiProjectUsage_memory_bytes api,
      ProjectUsage_computeAllocation = ApiProjectUsage_compute_allocation api,
      ProjectUsage_computeAllocationPercent = ApiProjectUsage_compute_allocation_percent api,
      ProjectUsage_ingressInduction = ApiProjectUsage_ingress_induction api,
      ProjectUsage_ingressInductionBytesTotal = ApiProjectUsage_ingress_induction_bytes_total api,
      ProjectUsage_instructions = ApiProjectUsage_instructions api,
      ProjectUsage_computeTimeSecondsTotal = ApiProjectUsage_compute_time_seconds_total api,
      ProjectUsage_requestAndResponseTransmission = ApiProjectUsage_request_and_response_transmission api,
      ProjectUsage_transmissionBytesTotal = ApiProjectUsage_transmission_bytes_total api,
      ProjectUsage_uninstall = ApiProjectUsage_uninstall api,
      ProjectUsage_uninstallsTotal = ApiProjectUsage_uninstalls_total api,
      ProjectUsage_httpOutcalls = ApiProjectUsage_http_outcalls api,
      ProjectUsage_burnedCycles = ApiProjectUsage_burned_cycles api\<rparr>"

record CanisterUsage =
  CanisterUsage_canisterId :: string
  CanisterUsage_memory :: int
  CanisterUsage_memoryBytes :: int
  CanisterUsage_computeAllocation :: int
  CanisterUsage_computeAllocationPercent :: int
  CanisterUsage_ingressInduction :: int
  CanisterUsage_ingressInductionBytesTotal :: int
  CanisterUsage_instructions :: int
  CanisterUsage_computeTimeSecondsTotal :: int
  CanisterUsage_requestAndResponseTransmission :: int
  CanisterUsage_transmissionBytesTotal :: int
  CanisterUsage_uninstall :: int
  CanisterUsage_uninstallsTotal :: int
  CanisterUsage_httpOutcalls :: int
  CanisterUsage_burnedCycles :: int

record ApiCanisterUsage =
  ApiCanisterUsage_canister_id :: principal
  ApiCanisterUsage_memory :: int
  ApiCanisterUsage_memory_bytes :: int
  ApiCanisterUsage_compute_allocation :: int
  ApiCanisterUsage_compute_allocation_percent :: int
  ApiCanisterUsage_ingress_induction :: int
  ApiCanisterUsage_ingress_induction_bytes_total :: int
  ApiCanisterUsage_instructions :: int
  ApiCanisterUsage_compute_time_seconds_total :: int
  ApiCanisterUsage_request_and_response_transmission :: int
  ApiCanisterUsage_transmission_bytes_total :: int
  ApiCanisterUsage_uninstall :: int
  ApiCanisterUsage_uninstalls_total :: int
  ApiCanisterUsage_http_outcalls :: int
  ApiCanisterUsage_burned_cycles :: int

definition mapCanisterUsage :: "('z) principal_codec_scheme \<Rightarrow> ApiCanisterUsage \<Rightarrow> CanisterUsage" where
  "mapCanisterUsage P api =
     \<lparr>CanisterUsage_canisterId = toText P (ApiCanisterUsage_canister_id api),
      CanisterUsage_memory = ApiCanisterUsage_memory api,
      CanisterUsage_memoryBytes = ApiCanisterUsage_memory_bytes api,
      CanisterUsage_computeAllocation = ApiCanisterUsage_compute_allocation api,
      CanisterUsage_computeAllocationPercent = ApiCanisterUsage_compute_allocation_percent api,
      CanisterUsage_ingressInduction = ApiCanisterUsage_ingress_induction api,
      CanisterUsage_ingressInductionBytesTotal = ApiCanisterUsage_ingress_induction_bytes_total api,
      CanisterUsage_instructions = ApiCanisterUsage_instructions api,
      CanisterUsage_computeTimeSecondsTotal = ApiCanisterUsage_compute_time_seconds_total api,
      CanisterUsage_requestAndResponseTransmission = ApiCanisterUsage_request_and_response_transmission api,
      CanisterUsage_transmissionBytesTotal = ApiCanisterUsage_transmission_bytes_total api,
      CanisterUsage_uninstall = ApiCanisterUsage_uninstall api,
      CanisterUsage_uninstallsTotal = ApiCanisterUsage_uninstalls_total api,
      CanisterUsage_httpOutcalls = ApiCanisterUsage_http_outcalls api,
      CanisterUsage_burnedCycles = ApiCanisterUsage_burned_cycles api\<rparr>"

record GetUsageResponse =
  GetUsageResponse_project :: ProjectUsage
  GetUsageResponse_canisters :: "CanisterUsage list"

record ApiGetUsageOk =
  ApiGetUsageOk_project :: ApiProjectUsage
  ApiGetUsageOk_canisters :: "ApiCanisterUsage list"

definition mapGetUsageResponse ::
    "('z) principal_codec_scheme \<Rightarrow> ApiGetUsageOk ApiResponse \<Rightarrow> js_error + GetUsageResponse" where
  "mapGetUsageResponse P = ok_map (\<lambda>ok.
     \<lparr>GetUsageResponse_project = mapProjectUsage (ApiGetUsageOk_project ok),
      GetUsageResponse_canisters = map (mapCanisterUsage P) (ApiGetUsageOk_canisters ok)\<rparr>)"

section \<open>The history of a canister (canister-history.ts)\<close>

datatype CanisterChangeOrigin =
    Origin_user string
  | Origin_canister string "int option"

datatype ApiCanisterChangeOrigin =
    ApiOrigin_FromUser principal
  | ApiOrigin_FromCanister principal "int candid_opt"

datatype DeploymentMode = Mode_install | Mode_reinstall | Mode_upgrade

datatype ApiDeploymentMode = ApiMode_Install | ApiMode_Reinstall | ApiMode_Upgrade

datatype CanisterChangeDetails =
    Details_creation "string list"
  | Details_codeUninstall
  | Details_codeDeployment "DeploymentMode option" string
  | Details_controllersChange "string list"
  | Details_loadSnapshot

text \<open>Of a loaded snapshot only the constructor matters; its fields are not read.\<close>

datatype ApiCanisterChangeDetails =
    ApiDetails_Creation "principal list"
  | ApiDetails_CodeUninstall
  | ApiDetails_CodeDeployment "ApiDeploymentMode candid_opt" "nat list"
  | ApiDetails_ControllersChange "principal list"
  | ApiDetails_LoadSnapshot

record CanisterChange =
  CanisterChange_id :: string
  CanisterChange_canisterId :: string
  CanisterChange_timestampNanos :: int
  CanisterChange_canisterVersion :: int
  CanisterChange_origin :: "CanisterChangeOrigin option"
  CanisterChange_details :: "CanisterChangeDetails option"

record ApiCanisterChange =
  ApiCanisterChange_id :: string
  ApiCanisterChange_canister_id :: principal
  ApiCanisterChange_timestamp_nanos :: int
  ApiCanisterChange_canister_version :: int
  ApiCanisterChange_origin :: "ApiCanisterChangeOrigin candid_opt"
  ApiCanisterChange_details :: "ApiCanisterChangeDetails candid_opt"

record ListCanisterChangesResponse =
  ListCanisterChangesResponse_changes :: "CanisterChange list"
  ListCanisterChangesResponse_isDeleted :: bool
  ListCanisterChangesResponse_totalPages :: int

record ApiListCanisterChangesOk =
  ApiListCanisterChangesOk_changes :: "ApiCanisterChange list"
  ApiListCanisterChangesOk_is_deleted :: bool
  ApiListCanisterChangesOk_meta :: ApiPaginationMetaResponse

record KnownCanister =
  KnownCanister_canisterId :: string
  KnownCanister_isDeleted :: bool

definition mapOrigin ::
    "('z) principal_codec_scheme \<Rightarrow> ApiCanisterChangeOrigin candid_opt \<Rightarrow> CanisterChangeOrigin option" where
  "mapOrigin P raw =
     (case fromCandidOpt raw of
        None \<Rightarrow> None
      | Some (ApiOrigin_FromUser user_id) \<Rightarrow> Some (Origin_user (toText P user_id))
      | Some (ApiOrigin_FromCanister canister_id canister_version) \<Rightarrow>
          Some (Origin_canister (toText P canister_id) (fromCandidOpt canister_version)))"

definition mapDeploymentMode :: "ApiDeploymentMode candid_opt \<Rightarrow> DeploymentMode option" where
  "mapDeploymentMode raw =
     (case fromCandidOpt raw of
        None \<Rightarrow> None
      | Some m \<Rightarrow> Some (if m = ApiMode_Install then Mode_install
          else if m = ApiMode_Reinstall then Mode_reinstall else Mode_upgrade))"

text \<open>\<open>Array.from(bytes).map(b => b.toString(16).padStart(2, '0')).join('')\<close>.\<close>

definition hex_string :: "nat list \<Rightarrow> string" where
  "hex_string bytes = concat (map hex_byte bytes)"

definition mapDetails ::
    "('z) principal_codec_scheme \<Rightarrow> ApiCanisterChangeDetails candid_opt \<Rightarrow> CanisterChangeDetails option" where
  "mapDetails P raw =
     (case fromCandidOpt raw of
        None \<Rightarrow> None
      | Some d \<Rightarrow> Some (case d of
            ApiDetails_Creation controllers \<Rightarrow> Details_creation (map (toText P) controllers)
          | ApiDetails_CodeUninstall \<Rightarrow> Details_codeUninstall
          | ApiDetails_CodeDeployment mode module_hash \<Rightarrow>
              Details_codeDeployment (mapDeploymentMode mode) (hex_string module_hash)
          | ApiDetails_ControllersChange controllers \<Rightarrow> Details_controllersChange (map (toText P) controllers)
          | ApiDetails_LoadSnapshot \<Rightarrow> Details_loadSnapshot))"

definition mapCanisterChange :: "('z) principal_codec_scheme \<Rightarrow> ApiCanisterChange \<Rightarrow> CanisterChange" where
  "mapCanisterChange P raw =
     \<lparr>CanisterChange_id = ApiCanisterChange_id raw,
      CanisterChange_canisterId = toText P (ApiCanisterChange_canister_id raw),
      CanisterChange_timestampNanos = ApiCanisterChange_timestamp_nanos raw,
      CanisterChange_canisterVersion = ApiCanisterChange_canister_version raw,
      CanisterChange_origin = mapOrigin P (ApiCanisterChange_origin raw),
      CanisterChange_details = mapDetails P (ApiCanisterChange_details raw)\<rparr>"

definition mapListCanisterChangesResponse ::
    "('z) principal_codec_scheme \<Rightarrow> ApiListCanisterChangesOk ApiResponse \<Rightarrow> js_error + ListCanisterChangesResponse" where
  "mapListCanisterChangesResponse P res =
     (case res of
        Err err \<Rightarrow> Inl (Error (ApiError_message err))
      | Ok ok \<Rightarrow> Inr
          \<lparr>ListCanisterChangesResponse_changes = map (mapCanisterChange P) (ApiListCanisterChangesOk_changes ok),
           ListCanisterChangesResponse_isDeleted = ApiListCanisterChangesOk_is_deleted ok,
           ListCanisterChangesResponse_totalPages = ApiPaginationMetaResponse_total_pages (ApiListCanisterChangesOk_meta ok)\<rparr>)"

end
