(* ===== verification/ProposalModels.thy ===== *)
theory ProposalModels
  imports ApiError
begin

text \<open>
  The models of the approval workflow: \<open>lib/api-models/approval-policy.ts\<close> and \<open>proposal.ts\<close>.
\<close>

section \<open>Approval policies (approval-policy.ts)\<close>

datatype ApprovalOperationType = Op_CreateCanister | Op_AddCanisterController

datatype ApiOperationType = ApiOp_CreateCanister | ApiOp_AddCanisterController

datatype ApprovalPolicyType = AutoApprove | FixedQuorum int

datatype ApiPolicyType = ApiPolicy_AutoApprove | ApiPolicy_FixedQuorum int

definition APPROVAL_OPERATION_TYPES :: "ApprovalOperationType list" where
  "APPROVAL_OPERATION_TYPES = [Op_CreateCanister, Op_AddCanisterController]"

definition DEFAULT_APPROVAL_POLICY_TYPE :: ApprovalPolicyType where
  "DEFAULT_APPROVAL_POLICY_TYPE = AutoApprove"

record ApprovalPolicy =
  ApprovalPolicy_id :: string
  ApprovalPolicy_operationType :: ApprovalOperationType
  ApprovalPolicy_policyType :: ApprovalPolicyType

record ApiApprovalPolicy =
  ApiApprovalPolicy_id :: string
  ApiApprovalPolicy_operation_type :: ApiOperationType
  ApiApprovalPolicy_policy_type :: ApiPolicyType

record ListProjectApprovalPoliciesRequest =
  ListProjectApprovalPoliciesRequest_projectId :: string

record ApiListProjectApprovalPoliciesRequest =
  ApiListProjectApprovalPoliciesRequest_project_id :: string

record ListProjectApprovalPoliciesResponse =
  ListProjectApprovalPoliciesResponse_approvalPolicies :: "ApprovalPolicy list"

record ApiListProjectApprovalPoliciesOk =
  ApiListProjectApprovalPoliciesOk_approval_policies :: "ApiApprovalPolicy list"

record UpsertApprovalPolicyRequest =
  UpsertApprovalPolicyRequest_projectId :: string
  UpsertApprovalPolicyRequest_operationType :: ApprovalOperationType
  UpsertApprovalPolicyRequest_policyType :: ApprovalPolicyType

record ApiUpsertApprovalPolicyRequest =
  ApiUpsertApprovalPolicyRequest_project_id :: string
  ApiUpsertApprovalPolicyRequest_operation_type :: ApiOperationType
  ApiUpsertApprovalPolicyRequest_policy_type :: ApiPolicyType

definition mapApprovalOperationType :: "ApiOperationType \<Rightarrow> ApprovalOperationType" where
  "mapApprovalOperationType op =
     (if op = ApiOp_CreateCanister then Op_CreateCanister else Op_AddCanisterController)"

definition mapApprovalOperationTypeToApi :: "ApprovalOperationType \<Rightarrow> ApiOperationType" where
  "mapApprovalOperationTypeToApi op =
     (if op = Op_CreateCanister then ApiOp_CreateCanister else ApiOp_AddCanisterController)"

interpretation operation_type: bijective_codec mapApprovalOperationTypeToApi mapApprovalOperationType
proof unfold_locales
  show "mapApprovalOperationType (mapApprovalOperationTypeToApi x) = x" for x
    by (cases x) (simp_all add: mapApprovalOperationType_def mapApprovalOperationTypeToApi_def)
  show "mapApprovalOperationTypeToApi (mapApprovalOperationType y) = y" for y
    by (cases y) (simp_all add: mapApprovalOperationType_def mapApprovalOperationTypeToApi_def)
qed

definition mapApprovalPolicyType :: "ApiPolicyType \<Rightarrow> ApprovalPolicyType" where
  "mapApprovalPolicyType p =
     (case p of
        ApiPolicy_AutoApprove \<Rightarrow> AutoApprove
      | ApiPolicy_FixedQuorum threshold \<Rightarrow> FixedQuorum threshold)"

definition mapApprovalPolicyTypeToApi :: "ApprovalPolicyType \<Rightarrow> ApiPolicyType" where
  "mapApprovalPolicyTypeToApi p =
     (case p of
        AutoApprove \<Rightarrow> ApiPolicy_AutoApprove
      | FixedQuorum threshold \<Rightarrow> ApiPolicy_FixedQuorum threshold)"

interpretation policy_type: bijective_codec mapApprovalPolicyTypeToApi mapApprovalPolicyType
  by unfold_locales
    (auto simp: mapApprovalPolicyType_def mapApprovalPolicyTypeToApi_def
      split: ApprovalPolicyType.split ApiPolicyType.split)

definition mapListProjectApprovalPoliciesRequest :: "ListProjectApprovalPoliciesRequest \<Rightarrow> ApiListProjectApprovalPoliciesRequest" where
  "mapListProjectApprovalPoliciesRequest req =
     \<lparr>ApiListProjectApprovalPoliciesRequest_project_id = ListProjectApprovalPoliciesRequest_projectId req\<rparr>"

definition mapApprovalPolicyResponse :: "ApiApprovalPolicy \<Rightarrow> ApprovalPolicy" where
  "mapApprovalPolicyResponse res =
     \<lparr>ApprovalPolicy_id = ApiApprovalPolicy_id res,
      ApprovalPolicy_operationType = mapApprovalOperationType (ApiApprovalPolicy_operation_type res),
      ApprovalPolicy_policyType = mapApprovalPolicyType (ApiApprovalPolicy_policy_type res)\<rparr>"

definition mapListProjectApprovalPoliciesResponse ::
    "ApiListProjectApprovalPoliciesOk ApiResponse \<Rightarrow> js_error + ListProjectApprovalPoliciesResponse" where
  "mapListProjectApprovalPoliciesResponse = ok_map (\<lambda>okRes.
     \<lparr>ListProjectApprovalPoliciesResponse_approvalPolicies = map mapApprovalPolicyResponse (ApiListProjectApprovalPoliciesOk_approval_policies okRes)\<rparr>)"

definition mapUpsertApprovalPolicyRequest :: "UpsertApprovalPolicyRequest \<Rightarrow> ApiUpsertApprovalPolicyRequest" where
  "mapUpsertApprovalPolicyRequest req =
     \<lparr>ApiUpsertApprovalPolicyRequest_project_id = UpsertApprovalPolicyRequest_projectId req,
      ApiUpsertApprovalPolicyRequest_operation_type = mapApprovalOperationTypeToApi (UpsertApprovalPolicyRequest_operationType req),
      ApiUpsertApprovalPolicyRequest_policy_type = mapApprovalPolicyTypeToApi (UpsertApprovalPolicyRequest_policyType req)\<rparr>"

definition mapUpsertApprovalPolicyResponse ::
    "ApiApprovalPolicy ApiResponse \<Rightarrow> js_error + ApprovalPolicy" where
  "mapUpsertApprovalPolicyResponse = ok_map mapApprovalPolicyResponse"

fun approvalOperationLabel :: "ApprovalOperationType \<Rightarrow> string" where
  "approvalOperationLabel Op_CreateCanister = ''Create canister''"
| "approvalOperationLabel Op_AddCanisterController = ''Add canister controller''"

section \<open>Proposals (proposal.ts)\<close>

datatype Vote = Approve | Reject

datatype ApiVote = ApiVote_Approve | ApiVote_Reject

record ProposalVoteRecord =
  ProposalVoteRecord_voter :: string
  ProposalVoteRecord_vote :: Vote

record ApiProposalVote =
  ApiProposalVote_voter :: string
  ApiProposalVote_vote :: ApiVote

datatype ProposalStatusKind =
  Kind_Open | Kind_PendingApproval | Kind_Rejected | Kind_Cancelled | Kind_Executing | Kind_Executed | Kind_Failed

datatype ApiProposalStatusFilter =
    ApiFilter_Open | ApiFilter_PendingApproval | ApiFilter_Rejected | ApiFilter_Cancelled
  | ApiFilter_Executing | ApiFilter_Executed | ApiFilter_Failed

text \<open>A pending approval carries its threshold, its approvers and the votes cast; a failure its message.\<close>

datatype ProposalStatus =
    Status_Open
  | Status_PendingApproval int "string list" "ProposalVoteRecord list"
  | Status_Rejected
  | Status_Cancelled
  | Status_Executing
  | Status_Executed
  | Status_Failed string

fun status_kind :: "ProposalStatus \<Rightarrow> ProposalStatusKind" where
  "status_kind Status_Open = Kind_Open"
| "status_kind (Status_PendingApproval threshold approvers votes) = Kind_PendingApproval"
| "status_kind Status_Rejected = Kind_Rejected"
| "status_kind Status_Cancelled = Kind_Cancelled"
| "status_kind Status_Executing = Kind_Executing"
| "status_kind Status_Executed = Kind_Executed"
| "status_kind (Status_Failed message) = Kind_Failed"

datatype ApiProposalStatus =
    ApiStatus_Open
  | ApiStatus_PendingApproval int "string list" "ApiProposalVote list"
  | ApiStatus_Rejected
  | ApiStatus_Cancelled
  | ApiStatus_Executing
  | ApiStatus_Executed
  | ApiStatus_Failed string

datatype ProposalOperation = CreateCanister | AddCanisterController string string

datatype ApiProposalOperation = ApiCreateCanister | ApiAddCanisterController principal principal

record Proposal =
  Proposal_id :: string
  Proposal_projectId :: string
  Proposal_proposerId :: "string option"
  Proposal_status :: "ProposalStatus option"
  Proposal_operation :: "ProposalOperation option"
  Proposal_createdAtNanos :: "int option"
  Proposal_updatedAtNanos :: "int option"

record ApiProposal =
  ApiProposal_id :: string
  ApiProposal_project_id :: string
  ApiProposal_proposer_id :: string
  ApiProposal_status :: "ApiProposalStatus candid_opt"
  ApiProposal_operation :: "ApiProposalOperation candid_opt"
  ApiProposal_created_at_nanos :: "int candid_opt"
  ApiProposal_updated_at_nanos :: "int candid_opt"

text \<open>What became of a proposal the user has just made.\<close>

datatype ProposalOutcome = executed | pendingApproval string

definition readProposalOutcome :: "ApiProposal \<Rightarrow> js_error + ProposalOutcome" where
  "readProposalOutcome proposal =
     (case first (ApiProposal_status proposal) of
        None \<Rightarrow> Inl (Error ''Proposal returned without a status'')
      | Some (ApiStatus_Failed message) \<Rightarrow> Inl (Error message)
      | Some ApiStatus_Rejected \<Rightarrow> Inl (Error ''Proposal was rejected'')
      | Some ApiStatus_Cancelled \<Rightarrow> Inl (Error ''Proposal was cancelled'')
      | Some (ApiStatus_PendingApproval threshold approvers votes) \<Rightarrow>
          Inr (pendingApproval (ApiProposal_id proposal))
      | Some ApiStatus_Open \<Rightarrow> Inr executed
      | Some ApiStatus_Executing \<Rightarrow> Inr executed
      | Some ApiStatus_Executed \<Rightarrow> Inr executed)"

definition NIL_PROPOSER_ID :: string where
  "NIL_PROPOSER_ID = ''00000000-0000-0000-0000-000000000000''"

definition PROPOSAL_OPEN_FILTER :: "ProposalStatusKind list" where
  "PROPOSAL_OPEN_FILTER = [Kind_Open, Kind_PendingApproval]"

definition PROPOSAL_CLOSED_FILTER :: "ProposalStatusKind list" where
  "PROPOSAL_CLOSED_FILTER = [Kind_Rejected, Kind_Cancelled, Kind_Executing, Kind_Executed, Kind_Failed]"

record ListProjectProposalsRequest =
  ListProjectProposalsRequest_projectId :: string
  ListProjectProposalsRequest_statusFilter :: "ProposalStatusKind list option"
  ListProjectProposalsRequest_after :: "string option"
  ListProjectProposalsRequest_limit :: "int option"

record ApiListProjectProposalsRequest =
  ApiListProjectProposalsRequest_project_id :: string
  ApiListProjectProposalsRequest_status_filter :: "ApiProposalStatusFilter list candid_opt"
  ApiListProjectProposalsRequest_after :: "string candid_opt"
  ApiListProjectProposalsRequest_limit :: "int candid_opt"

record ListProjectProposalsResponse =
  ListProjectProposalsResponse_proposals :: "Proposal list"
  ListProjectProposalsResponse_nextCursor :: "string option"

record ApiListProjectProposalsOk =
  ApiListProjectProposalsOk_proposals :: "ApiProposal list"
  ApiListProjectProposalsOk_next_cursor :: "string candid_opt"

record GetProposalRequest =
  GetProposalRequest_proposalId :: string

record ApiGetProposalRequest =
  ApiGetProposalRequest_proposal_id :: string

record VoteProposalRequest =
  VoteProposalRequest_proposalId :: string
  VoteProposalRequest_vote :: Vote

record ApiVoteProposalRequest =
  ApiVoteProposalRequest_proposal_id :: string
  ApiVoteProposalRequest_vote :: ApiVote

record CancelProposalRequest =
  CancelProposalRequest_proposalId :: string

record ApiCancelProposalRequest =
  ApiCancelProposalRequest_proposal_id :: string

definition mapProposalVote :: "ApiProposalVote \<Rightarrow> ProposalVoteRecord" where
  "mapProposalVote v =
     \<lparr>ProposalVoteRecord_voter = ApiProposalVote_voter v,
      ProposalVoteRecord_vote = (if ApiProposalVote_vote v = ApiVote_Approve then Approve else Reject)\<rparr>"

definition mapVoteToApi :: "Vote \<Rightarrow> ApiVote" where
  "mapVoteToApi vote = (if vote = Approve then ApiVote_Approve else ApiVote_Reject)"

lemma mapVote_roundtrip:
  "mapProposalVote \<lparr>ApiProposalVote_voter = v, ApiProposalVote_vote = mapVoteToApi vote\<rparr> =
     \<lparr>ProposalVoteRecord_voter = v, ProposalVoteRecord_vote = vote\<rparr>"
  by (cases vote) (simp_all add: mapProposalVote_def mapVoteToApi_def)

definition mapProposalStatus :: "ApiProposalStatus \<Rightarrow> ProposalStatus" where
  "mapProposalStatus status =
     (case status of
        ApiStatus_Open \<Rightarrow> Status_Open
      | ApiStatus_Rejected \<Rightarrow> Status_Rejected
      | ApiStatus_Cancelled \<Rightarrow> Status_Cancelled
      | ApiStatus_Executing \<Rightarrow> Status_Executing
      | ApiStatus_Executed \<Rightarrow> Status_Executed
      | ApiStatus_Failed message \<Rightarrow> Status_Failed message
      | ApiStatus_PendingApproval threshold approvers votes \<Rightarrow>
          Status_PendingApproval threshold approvers (map mapProposalVote votes))"

definition mapProposalOperation :: "('z) principal_codec_scheme \<Rightarrow> ApiProposalOperation \<Rightarrow> ProposalOperation" where
  "mapProposalOperation P op =
     (case op of
        ApiCreateCanister \<Rightarrow> CreateCanister
      | ApiAddCanisterController canister_id controller_id \<Rightarrow>
          AddCanisterController (toText P canister_id) (toText P controller_id))"

definition mapProposalStatusFilterToApi :: "ProposalStatusKind \<Rightarrow> ApiProposalStatusFilter" where
  "mapProposalStatusFilterToApi kind =
     (case kind of
        Kind_Open \<Rightarrow> ApiFilter_Open
      | Kind_PendingApproval \<Rightarrow> ApiFilter_PendingApproval
      | Kind_Rejected \<Rightarrow> ApiFilter_Rejected
      | Kind_Cancelled \<Rightarrow> ApiFilter_Cancelled
      | Kind_Executing \<Rightarrow> ApiFilter_Executing
      | Kind_Executed \<Rightarrow> ApiFilter_Executed
      | Kind_Failed \<Rightarrow> ApiFilter_Failed)"

definition mapProposalResponse :: "('z) principal_codec_scheme \<Rightarrow> ApiProposal \<Rightarrow> Proposal" where
  "mapProposalResponse P res =
     \<lparr>Proposal_id = ApiProposal_id res,
      Proposal_projectId = ApiProposal_project_id res,
      Proposal_proposerId =
        (if ApiProposal_proposer_id res = NIL_PROPOSER_ID then None else Some (ApiProposal_proposer_id res)),
      Proposal_status = map_option mapProposalStatus (first (ApiProposal_status res)),
      Proposal_operation = map_option (mapProposalOperation P) (first (ApiProposal_operation res)),
      Proposal_createdAtNanos = fromCandidOpt (ApiProposal_created_at_nanos res),
      Proposal_updatedAtNanos = fromCandidOpt (ApiProposal_updated_at_nanos res)\<rparr>"

definition mapListProjectProposalsRequest ::
    "ListProjectProposalsRequest \<Rightarrow> ApiListProjectProposalsRequest" where
  "mapListProjectProposalsRequest req =
     \<lparr>ApiListProjectProposalsRequest_project_id = ListProjectProposalsRequest_projectId req,
      ApiListProjectProposalsRequest_status_filter =
        (case ListProjectProposalsRequest_statusFilter req of
           Some kinds \<Rightarrow> [map mapProposalStatusFilterToApi kinds]
         | None \<Rightarrow> []),
      ApiListProjectProposalsRequest_after = toCandidOpt (ListProjectProposalsRequest_after req),
      ApiListProjectProposalsRequest_limit = toCandidOpt (ListProjectProposalsRequest_limit req)\<rparr>"

definition mapListProjectProposalsResponse ::
    "('z) principal_codec_scheme \<Rightarrow> ApiListProjectProposalsOk ApiResponse \<Rightarrow> js_error + ListProjectProposalsResponse" where
  "mapListProjectProposalsResponse P = ok_map (\<lambda>okRes.
     \<lparr>ListProjectProposalsResponse_proposals = map (mapProposalResponse P) (ApiListProjectProposalsOk_proposals okRes),
      ListProjectProposalsResponse_nextCursor = fromCandidOpt (ApiListProjectProposalsOk_next_cursor okRes)\<rparr>)"

definition mapGetProposalRequest :: "GetProposalRequest \<Rightarrow> ApiGetProposalRequest" where
  "mapGetProposalRequest req =
     \<lparr>ApiGetProposalRequest_proposal_id = GetProposalRequest_proposalId req\<rparr>"

definition mapGetProposalResponse ::
    "('z) principal_codec_scheme \<Rightarrow> ApiProposal ApiResponse \<Rightarrow> js_error + Proposal" where
  "mapGetProposalResponse P = ok_map (mapProposalResponse P)"

definition mapVoteProposalRequest :: "VoteProposalRequest \<Rightarrow> ApiVoteProposalRequest" where
  "mapVoteProposalRequest req =
     \<lparr>ApiVoteProposalRequest_proposal_id = VoteProposalRequest_proposalId req,
      ApiVoteProposalRequest_vote = mapVoteToApi (VoteProposalRequest_vote req)\<rparr>"

definition mapVoteProposalResponse ::
    "('z) principal_codec_scheme \<Rightarrow> ApiProposal ApiResponse \<Rightarrow> js_error + Proposal" where
  "mapVoteProposalResponse P = ok_map (mapProposalResponse P)"

definition mapCancelProposalRequest :: "CancelProposalRequest \<Rightarrow> ApiCancelProposalRequest" where
  "mapCancelProposalRequest req =
     \<lparr>ApiCancelProposalRequest_proposal_id = CancelProposalRequest_proposalId req\<rparr>"

definition mapCancelProposalResponse ::
    "('z) principal_codec_scheme \<Rightarrow> ApiProposal ApiResponse \<Rightarrow> js_error + Proposal" where
  "mapCancelProposalResponse P = ok_map (mapProposalResponse P)"

definition proposalOperationLabel :: "ProposalOperation option \<Rightarrow> string" where
  "proposalOperationLabel op =
     (case op of
        None \<Rightarrow> ''Unknown operation''
      | Some CreateCanister \<Rightarrow> ''Create canister''
      | Some (AddCanisterController canisterId controllerId) \<Rightarrow> ''Add canister controller'')"

definition proposalStatusLabel :: "ProposalStatus option \<Rightarrow> string" where
  "proposalStatusLabel status =
     (case status of
        None \<Rightarrow> ''Unknown''
      | Some s \<Rightarrow>
          (case status_kind s of
             Kind_Open \<Rightarrow> ''Open''
           | Kind_PendingApproval \<Rightarrow> ''Pending approval''
           | Kind_Rejected \<Rightarrow> ''Rejected''
           | Kind_Cancelled \<Rightarrow> ''Cancelled''
           | Kind_Executing \<Rightarrow> ''Executing''
           | Kind_Executed \<Rightarrow> ''Executed''
           | Kind_Failed \<Rightarrow> ''Failed''))"

definition isProposalActionable :: "ProposalStatus option \<Rightarrow> bool" where
  "isProposalActionable status =
     (case status of
        None \<Rightarrow> False
      | Some s \<Rightarrow> status_kind s = Kind_Open \<or> status_kind s = Kind_PendingApproval)"

definition principalToText :: "('z) principal_codec_scheme \<Rightarrow> string + principal \<Rightarrow> string" where
  "principalToText P p = (case p of Inl s \<Rightarrow> s | Inr q \<Rightarrow> toText P q)"

end
