(* ===== verification/Backend.thy ===== *)
theory Backend
  imports Schedules UserModels OrgModels ProjectModels UsageModels ProposalModels
begin

text \<open>
  The world outside the store, as a parameter \<open>E\<close> of everything that uses it: the methods of the
  backend canister (one record per group of \<open>.did\<close> files), of the management
  canister and of the canister-history canister, the browser's \<open>fetch\<close> and random bytes, and the
  authentication client. The type \<open>'w\<close> of the world's state is arbitrary. A method that takes an
  empty record takes \<open>()\<close>.
\<close>

section \<open>Callers and methods\<close>

text \<open>
  An identity is anonymous, or the delegation chain that the identity provider issued; the
  canisters see the caller's principal. The keys of a delegation belong to the SDK and appear
  only where the metrics proxy uses them.
\<close>

datatype Identity = AnonymousIdentity | DelegationIdentity principal

text \<open>
  A method of a canister, as the actor exposes it: from the caller and the argument, the state of
  the world outside the browser steps and the call either rejects (the replica cannot be reached,
  the canister traps) or answers. Nothing is assumed about a method except where a statement says
  so.
\<close>

type_synonym ('w, 'q, 'r) canister_method = "Identity \<Rightarrow> 'q \<Rightarrow> 'w \<Rightarrow> 'w \<times> (string + 'r)"

section \<open>The backend canister (backend-api)\<close>

record 'w UserProfileService =
  admin_list_user_profiles :: "('w, unit, ApiUserProfile list ApiResponse) canister_method"
  get_user_profiles_by_principals :: "('w, ApiGetUserProfilesByPrincipalsRequest, ApiUserProfilesByPrincipals ApiResponse) canister_method"
  get_user_profiles_by_user_ids :: "('w, ApiGetUserProfilesByUserIdsRequest, ApiUserProfilesByUserIds ApiResponse) canister_method"
  admin_update_user_profile :: "('w, ApiUpdateUserProfileRequest, unit ApiResponse) canister_method"
  admin_get_user_stats :: "('w, unit, ApiUserStats ApiResponse) canister_method"
  admin_list_stale_users :: "('w, unit, ApiStaleUserEntry list ApiResponse) canister_method"
  get_my_user_profile :: "('w, unit, ApiUserProfile candid_opt ApiResponse) canister_method"
  create_my_user_profile :: "('w, unit, ApiUserProfile ApiResponse) canister_method"
  update_my_user_profile :: "('w, ApiUpdateMyUserProfileRequest, unit ApiResponse) canister_method"
  verify_my_email :: "('w, string, unit RejectionResponse) canister_method"

record 'w StaffService =
  get_my_staff_permissions :: "('w, unit, ApiStaffPermissions candid_opt ApiResponse) canister_method"
  admin_grant_staff_permissions :: "('w, ApiGrantStaffPermissionsRequest, unit ApiResponse) canister_method"
  admin_revoke_staff_permissions :: "('w, ApiRevokeStaffPermissionsRequest, unit ApiResponse) canister_method"
  admin_list_staff :: "('w, unit, ApiStaffMember list ApiResponse) canister_method"
  admin_list_trusted_partners :: "('w, unit, ApiTrustedPartner list ApiResponse) canister_method"
  admin_create_trusted_partner :: "('w, ApiCreateTrustedPartnerRequest, ApiTrustedPartner ApiResponse) canister_method"

record 'w TermsService =
  get_latest_terms_and_conditions :: "('w, unit, ApiTermsAndConditions candid_opt ApiResponse) canister_method"
  admin_list_terms_and_conditions :: "('w, unit, ApiTermsAndConditionsListItem list ApiResponse) canister_method"
  upsert_terms_and_conditions_decision :: "('w, ApiUpsertTermsAndConditionsDecisionRequest, unit ApiResponse) canister_method"
  admin_create_terms_and_conditions :: "('w, ApiCreateTermsAndConditionsRequest, unit ApiResponse) canister_method"

record 'w PrincipalLinkService =
  register_link_code :: "('w, ApiRegisterLinkCodeRequest, ApiRegisterLinkCodeOk ApiResponse) canister_method"
  link_my_principal :: "('w, ApiLinkMyPrincipalRequest, unit ApiResponse) canister_method"
  unlink_my_principal :: "('w, ApiUnlinkMyPrincipalRequest, unit ApiResponse) canister_method"
  list_my_linked_principals :: "('w, unit, ApiListMyLinkedPrincipalsOk ApiResponse) canister_method"
  get_my_pending_link_code :: "('w, unit, ApiGetMyPendingLinkCodeOk ApiResponse) canister_method"
  revoke_my_link_code :: "('w, unit, unit ApiResponse) canister_method"
  set_my_principal_name :: "('w, ApiSetMyPrincipalNameRequest, unit ApiResponse) canister_method"
  admin_link_principal_to_user :: "('w, ApiAdminLinkPrincipalRequest, unit ApiResponse) canister_method"
  admin_unlink_principal_from_user :: "('w, ApiAdminUnlinkPrincipalRequest, unit ApiResponse) canister_method"
  admin_list_linked_principals :: "('w, ApiAdminListLinkedPrincipalsRequest, ApiAdminListLinkedPrincipalsOk ApiResponse) canister_method"
  recover_account_by_email :: "('w, string, unit RejectionResponse) canister_method"

record 'w OrganizationService =
  list_my_organizations :: "('w, unit, ApiOrganization list ApiResponse) canister_method"
  admin_list_organizations :: "('w, ApiListOrganizationsRequest, ApiListOrganizationsOk ApiResponse) canister_method"
  create_organization :: "('w, ApiCreateOrganizationRequest, ApiOrganizationOk ApiResponse) canister_method"
  get_organization :: "('w, ApiGetOrganizationRequest, ApiOrganizationOk ApiResponse) canister_method"
  update_organization :: "('w, ApiUpdateOrganizationRequest, ApiOrganizationOk ApiResponse) canister_method"
  delete_organization :: "('w, ApiDeleteOrganizationRequest, unit ApiResponse) canister_method"
  list_org_users :: "('w, ApiListOrgUsersRequest, ApiOrgUser list ApiResponse) canister_method"
  admin_set_org_billing_plan :: "('w, ApiSetOrgBillingPlanRequest, unit ApiResponse) canister_method"
  get_org_billing_plan :: "('w, ApiGetOrgBillingPlanRequest, ApiGetOrgBillingPlanResponseData ApiResponse) canister_method"
  list_my_org_billing_plans :: "('w, unit, ApiMyOrgBillingPlan list ApiResponse) canister_method"

record 'w TeamService =
  list_my_teams :: "('w, unit, ApiTeam list ApiResponse) canister_method"
  list_org_teams :: "('w, ApiListOrgTeamsRequest, ApiOrgTeam list ApiResponse) canister_method"
  create_team :: "('w, ApiCreateTeamRequest, ApiTeamOk ApiResponse) canister_method"
  get_team :: "('w, ApiGetTeamRequest, ApiTeamOk ApiResponse) canister_method"
  update_team :: "('w, ApiUpdateTeamRequest, ApiTeamOk ApiResponse) canister_method"
  delete_team :: "('w, ApiDeleteTeamRequest, unit ApiResponse) canister_method"
  add_user_to_team :: "('w, ApiAddUserToTeamRequest, unit ApiResponse) canister_method"
  remove_user_from_team :: "('w, ApiRemoveUserFromTeamRequest, unit ApiResponse) canister_method"
  list_team_users :: "('w, ApiListTeamUsersRequest, ApiTeamUser list ApiResponse) canister_method"
  update_team_org_permissions :: "('w, ApiUpdateTeamOrgPermissionsRequest, ApiOrgTeamOk ApiResponse) canister_method"

record 'w ProjectService =
  list_my_projects :: "('w, unit, ApiProjectsOk ApiResponse) canister_method"
  list_org_projects :: "('w, ApiListOrgProjectsRequest, ApiProjectsOk ApiResponse) canister_method"
  create_project :: "('w, ApiCreateProjectRequest, ApiProjectOk ApiResponse) canister_method"
  get_project :: "('w, ApiGetProjectRequest, ApiProjectOk ApiResponse) canister_method"
  update_project :: "('w, ApiUpdateProjectRequest, ApiProjectOk ApiResponse) canister_method"
  delete_project :: "('w, ApiDeleteProjectRequest, unit ApiResponse) canister_method"
  list_project_teams :: "('w, ApiListProjectTeamsRequest, ApiProjectTeam list ApiResponse) canister_method"
  add_team_to_project :: "('w, ApiAddTeamToProjectRequest, unit ApiResponse) canister_method"
  remove_team_from_project :: "('w, ApiRemoveTeamFromProjectRequest, unit ApiResponse) canister_method"
  update_team_project_permissions :: "('w, ApiUpdateTeamProjectPermissionsRequest, ApiProjectTeamOk ApiResponse) canister_method"

record 'w InviteService =
  create_org_invite :: "('w, ApiCreateOrgInviteRequest, ApiOrgInviteOk ApiResponse) canister_method"
  list_org_invites :: "('w, ApiListOrgInvitesRequest, ApiOrgInvite list ApiResponse) canister_method"
  revoke_org_invite :: "('w, ApiRevokeOrgInviteRequest, unit ApiResponse) canister_method"
  list_my_invites :: "('w, unit, ApiOrgInvite list ApiResponse) canister_method"
  accept_org_invite :: "('w, ApiAcceptOrgInviteRequest, unit ApiResponse) canister_method"
  decline_org_invite :: "('w, ApiDeclineOrgInviteRequest, unit ApiResponse) canister_method"

record ApiListMyCanistersRequest =
  ApiListMyCanistersRequest_project_id :: string

record ApiListUserCanistersRequest =
  ApiListUserCanistersRequest_user_id :: string

record ApiListAllCanistersRequest =
  ApiListAllCanistersRequest_limit :: "int candid_opt"
  ApiListAllCanistersRequest_page :: "int candid_opt"

record ApiUpdateMyCanisterNameRequest =
  ApiUpdateMyCanisterNameRequest_canister_id :: string
  ApiUpdateMyCanisterNameRequest_name :: "string candid_opt"

record ApiCanisterIdRequest =
  ApiCanisterIdRequest_canister_id :: string

record ApiCreateProposalRequest =
  ApiCreateProposalRequest_project_id :: string
  ApiCreateProposalRequest_operation :: "ApiProposalOperation candid_opt"

text \<open>The requests that name only a canister (to remove, start or stop it) share one record.\<close>

record 'w CanisterService =
  list_my_canisters :: "('w, ApiListMyCanistersRequest, ApiCanister list ApiResponse) canister_method"
  admin_list_user_canisters :: "('w, ApiListUserCanistersRequest, ApiListUserCanistersOk ApiResponse) canister_method"
  remove_my_canister :: "('w, ApiCanisterIdRequest, unit ApiResponse) canister_method"
  update_my_canister_name :: "('w, ApiUpdateMyCanisterNameRequest, unit ApiResponse) canister_method"
  start_my_canister :: "('w, ApiCanisterIdRequest, unit ApiResponse) canister_method"
  stop_my_canister :: "('w, ApiCanisterIdRequest, unit ApiResponse) canister_method"
  admin_list_all_canisters :: "('w, ApiListAllCanistersRequest, ApiListAllCanistersOk ApiResponse) canister_method"
  get_usage :: "('w, ApiGetUsageRequest, ApiGetUsageOk ApiResponse) canister_method"

record 'w ProposalService =
  create_proposal :: "('w, ApiCreateProposalRequest, ApiProposal ApiResponse) canister_method"
  get_proposal :: "('w, ApiGetProposalRequest, ApiProposal ApiResponse) canister_method"
  list_project_proposals :: "('w, ApiListProjectProposalsRequest, ApiListProjectProposalsOk ApiResponse) canister_method"
  vote_proposal :: "('w, ApiVoteProposalRequest, ApiProposal ApiResponse) canister_method"
  cancel_proposal :: "('w, ApiCancelProposalRequest, ApiProposal ApiResponse) canister_method"
  list_project_approval_policies :: "('w, ApiListProjectApprovalPoliciesRequest, ApiListProjectApprovalPoliciesOk ApiResponse) canister_method"
  upsert_approval_policy :: "('w, ApiUpsertApprovalPolicyRequest, ApiApprovalPolicy ApiResponse) canister_method"

section \<open>The management canister and the history canister\<close>

record ApiListCanisterChangesRequest =
  ApiListCanisterChangesRequest_canister_id :: principal
  ApiListCanisterChangesRequest_reverse :: "bool candid_opt"
  ApiListCanisterChangesRequest_limit :: "int candid_opt"
  ApiListCanisterChangesRequest_page :: "int candid_opt"

record ApiKnownCanister =
  ApiKnownCanister_canister_id :: principal
  ApiKnownCanister_is_deleted :: bool

record ApiListKnownCanistersOk =
  ApiListKnownCanistersOk_canisters :: "ApiKnownCanister list"

record 'w OtherCanisters =
  canister_status :: "('w, ApiCanisterStatusRequest, ApiCanisterStatusResponse) canister_method"
  update_settings :: "('w, ApiUpdateSettingsRequest, unit) canister_method"
  start_canister :: "('w, ApiStartCanisterRequest, unit) canister_method"
  stop_canister :: "('w, ApiStopCanisterRequest, unit) canister_method"
  delete_canister :: "('w, ApiDeleteCanisterRequest, unit) canister_method"
  list_canister_changes :: "('w, ApiListCanisterChangesRequest, ApiListCanisterChangesOk ApiResponse) canister_method"
  list_known_canisters :: "('w, unit, ApiListKnownCanistersOk ApiResponse) canister_method"

section \<open>The browser and the identity provider\<close>

text \<open>
  \<open>fetch\<close>, the random number generator, and the \<open>AuthClient\<close> of the SDK: creating it, asking it
  whether a session is stored, its identity, logging in (a window in which the user succeeds or
  not) and logging out. The remaining fields are the values of \<open>env.ts\<close>.
\<close>

record FetchRequest =
  FetchRequest_url :: string
  FetchRequest_method :: string
  FetchRequest_headers :: "(string \<times> string) list"
  FetchRequest_body :: "string option"

record FetchResponse =
  FetchResponse_ok :: bool
  FetchResponse_status :: int
  FetchResponse_statusText :: string
  FetchResponse_text :: string

datatype AuthClient = AuthClient

record 'w env = principal_codec +
  userProfileService :: "'w UserProfileService"
  staffService :: "'w StaffService"
  termsService :: "'w TermsService"
  principalLinkService :: "'w PrincipalLinkService"
  organizationService :: "'w OrganizationService"
  teamService :: "'w TeamService"
  projectService :: "'w ProjectService"
  inviteService :: "'w InviteService"
  canisterService :: "'w CanisterService"
  proposalService :: "'w ProposalService"
  otherCanisters :: "'w OtherCanisters"
  fetch :: "FetchRequest \<Rightarrow> 'w \<Rightarrow> 'w \<times> (string + FetchResponse)"
  getRandomValues :: "nat \<Rightarrow> 'w \<Rightarrow> 'w \<times> nat list"
  AuthClient_create :: "'w \<Rightarrow> 'w \<times> (string + AuthClient)"
  AuthClient_isAuthenticated :: "'w \<Rightarrow> 'w \<times> (string + bool)"
  AuthClient_getIdentity :: "'w \<Rightarrow> Identity"
  AuthClient_login :: "'w \<Rightarrow> 'w \<times> (string + unit)"
  AuthClient_logout :: "'w \<Rightarrow> 'w \<times> (string + unit)"
  BACKEND_CANISTER_ID :: string
  AUTH_SERVICE_URL :: string

section \<open>Calls\<close>

text \<open>
  The one piece of client state the actors depend on: the agent signs each call with the identity
  it holds when the call is made. The slices of the store extend this record.
\<close>

record AgentState =
  agentIdentity :: Identity

type_synonym ('s, 'w, 'a) api_task = "(js_error, 's AgentState_scheme, 'w, 'a) task"

definition library_result :: "'w \<times> (string + 'r) \<Rightarrow> 'w \<times> (js_error + 'r)" where
  "library_result wr = (fst wr, case snd wr of Inl msg \<Rightarrow> Inl (LibraryError msg) | Inr r \<Rightarrow> Inr r)"

definition call :: "('w, 'q, 'r) canister_method \<Rightarrow> 'q \<Rightarrow> ('s, 'w, 'r) api_task" where
  "call m q = get_state (\<lambda>s. remote (\<lambda>w. library_result (m (agentIdentity s) q w)))"

text \<open>A request to a library that does not go through the agent.\<close>

definition request :: "('w \<Rightarrow> 'w \<times> (string + 'r)) \<Rightarrow> (js_error, 's, 'w, 'r) task" where
  "request f = remote (\<lambda>w. library_result (f w))"

text \<open>The result of a synchronous function inside an \<open>async\<close> one: a value, or a throw.\<close>

definition lift_sum :: "js_error + 'a \<Rightarrow> (js_error, 's, 'w, 'a) task" where
  "lift_sum r = Done r"

text \<open>\<open>const res = await actor.m(q); return f(res)\<close>, with \<open>f\<close> a response mapper.\<close>

definition call_map :: "('w, 'q, 'r) canister_method \<Rightarrow> 'q \<Rightarrow> ('r \<Rightarrow> js_error + 'b) \<Rightarrow> ('s, 'w, 'b) api_task" where
  "call_map m q f = await (call m q) (\<lambda>res. lift_sum (f res))"


lemma run_call [run_simps]:
  "run (call m q) s w =
     (case m (agentIdentity s) q w of
        (w', Inl msg) \<Rightarrow> (Inl (LibraryError msg), s, w') | (w', Inr r) \<Rightarrow> (Inr r, s, w'))"
  by (auto simp: call_def run_simps library_result_def split: prod.splits sum.splits)

lemma run_request [run_simps]:
  "run (request f) s w =
     (case f w of (w', Inl msg) \<Rightarrow> (Inl (LibraryError msg), s, w') | (w', Inr r) \<Rightarrow> (Inr r, s, w'))"
  by (auto simp: request_def run_simps library_result_def split: prod.splits sum.splits)

lemma run_lift_sum [run_simps]: "run (lift_sum r) s w = (r, s, w)"
  by (simp add: lift_sum_def)

lemma run_call_map [run_simps]:
  "run (call_map m q f) s w =
     (case m (agentIdentity s) q w of
        (w', Inl msg) \<Rightarrow> (Inl (LibraryError msg), s, w') | (w', Inr r) \<Rightarrow> (f r, s, w'))"
  by (auto simp: call_map_def run_simps split: prod.splits sum.splits)

text \<open>
  The shape of a mapped call: the caller is read, then one request is made. From it follow its
  rules for interleaving, for the rely-guarantee calculus and for order-independence.
\<close>

definition reply :: "('r \<Rightarrow> js_error + 'b) \<Rightarrow> string + 'r \<Rightarrow> js_error + 'b" where
  "reply f r = (case r of Inl msg \<Rightarrow> Inl (LibraryError msg) | Inr x \<Rightarrow> f x)"

definition pending :: "('w, 'q, 'r) canister_method \<Rightarrow> Identity \<Rightarrow> 'q \<Rightarrow> ('r \<Rightarrow> js_error + 'b) \<Rightarrow> (js_error, 's, 'w, 'b) task" where
  "pending m i q f = Remote (\<lambda>w. fst (m i q w)) (\<lambda>w. Done (reply f (snd (m i q w))))"

lemma call_map_pending: "call_map m q f = get_state (\<lambda>s. pending m (agentIdentity s) q f)"
  by (auto simp: call_map_def call_def get_state_def pending_def reply_def await_def remote_def
      library_result_def lift_sum_def throw_def fun_eq_iff split: sum.splits)

lemma rg_pending [rg_simps]:
  "rg C (pending m i q f) Q s0 s \<longleftrightarrow> C s0 s \<and> (\<forall>w s'. C s s' \<longrightarrow> Q (reply f (snd (m i q w))) s' s')"
  by (simp add: pending_def)

lemma rg_call_map [rg_simps]:
  "rg C (call_map m q f) Q s0 s \<longleftrightarrow>
     C s0 s \<and> (\<forall>w s'. C s s' \<longrightarrow> Q (reply f (snd (m (agentIdentity s) q w))) s' s')"
  by (simp add: call_map_pending rg_simps)

lemma rg_request [rg_simps]:
  "rg C (request f) Q s0 s \<longleftrightarrow> C s0 s \<and> (\<forall>w s'. C s s' \<longrightarrow> Q (snd (library_result (f w))) s' s')"
  by (simp add: request_def rg_simps)

lemma rg_lift_sum [rg_simps]: "rg C (lift_sum r) Q s0 s \<longleftrightarrow> Q r s0 s"
  by (simp add: lift_sum_def)

lemma locals_call_map: "locals (call_map m q f) h = get_state (\<lambda>s. h (pending m (agentIdentity s) q f))"
  by (simp add: call_map_pending get_state_def pending_def)

lemma steps_call_map [steps_intros]:
  assumes "\<And>i w. reply f (snd (m i q w)) = r"
  shows "steps v (call_map m q f) r []"
  using assms by (simp add: call_map_pending get_state_def pending_def)

lemma steps_lift_sum [steps_intros]: "steps v (lift_sum r) r []"
  by (simp add: lift_sum_def)

lemma leaves_call [leaves_intros]: "leaves v (call m q)"
  unfolding call_def by (intro leaves_intros)

lemma leaves_call_map [leaves_intros]: "leaves v (call_map m q f)"
  unfolding call_map_pending pending_def by (intro leaves_intros) simp_all

lemma leaves_request [leaves_intros]: "leaves v (request f)"
  unfolding request_def by (rule leaves_intros)

lemma leaves_lift_sum [leaves_intros]: "leaves v (lift_sum r)"
  by (simp add: lift_sum_def)

end
