(* ===== verification/ApiClients.thy ===== *)
theory ApiClients
  imports Backend
begin

text \<open>
  The API clients of \<open>lib/api/*.ts\<close>: one definition per method of each class, named
  \<open>Class_method\<close>. A method maps its request (which may throw, before anything is sent), calls the
  actor, and maps the response (which may throw). \<open>E\<close> stands for the actor and the environment.
\<close>

section \<open>User profiles (api/user-profile.ts)\<close>

definition UserProfileApi_getMyUserProfile :: "'w env \<Rightarrow> ('s, 'w, UserProfile option) api_task" where
  "UserProfileApi_getMyUserProfile E =
     call_map (get_my_user_profile (userProfileService E)) () mapGetMyUserProfileResponse"

definition UserProfileApi_createMyUserProfile :: "'w env \<Rightarrow> ('s, 'w, UserProfile) api_task" where
  "UserProfileApi_createMyUserProfile E =
     call_map (create_my_user_profile (userProfileService E)) () mapCreateMyUserProfileResponse"

definition UserProfileApi_listUserProfiles :: "'w env \<Rightarrow> ('s, 'w, UserProfile list) api_task" where
  "UserProfileApi_listUserProfiles E =
     call_map (admin_list_user_profiles (userProfileService E)) () mapListUserProfilesResponse"

definition UserProfileApi_updateMyUserProfile ::
    "'w env \<Rightarrow> UpdateMyUserProfileRequest \<Rightarrow> ('s, 'w, unit) api_task" where
  "UserProfileApi_updateMyUserProfile E req =
     call_map (update_my_user_profile (userProfileService E)) (mapUpdateMyUserProfileRequest req) mapOkResponse"

definition UserProfileApi_updateUserProfile ::
    "'w env \<Rightarrow> UpdateUserProfileRequest \<Rightarrow> ('s, 'w, unit) api_task" where
  "UserProfileApi_updateUserProfile E req =
     call_map (admin_update_user_profile (userProfileService E)) (mapUpdateUserProfileRequest req) mapOkResponse"

definition UserProfileApi_getUserStats :: "'w env \<Rightarrow> ('s, 'w, GetUserStatsResponse) api_task" where
  "UserProfileApi_getUserStats E =
     call_map (admin_get_user_stats (userProfileService E)) () mapUserStatsResponse"

definition UserProfileApi_listStaleUsers :: "'w env \<Rightarrow> ('s, 'w, StaleUserEntry list) api_task" where
  "UserProfileApi_listStaleUsers E =
     call_map (admin_list_stale_users (userProfileService E)) () mapListStaleUsersResponse"

definition UserProfileApi_verifyMyEmail :: "'w env \<Rightarrow> string \<Rightarrow> ('s, 'w, unit) api_task" where
  "UserProfileApi_verifyMyEmail E token =
     call_map (verify_my_email (userProfileService E)) token mapRejectionResponse"

definition UserProfileApi_getUserProfilesByPrincipals ::
    "'w env \<Rightarrow> GetUserProfilesByPrincipalsRequest \<Rightarrow> ('s, 'w, UserProfileByPrincipal list) api_task" where
  "UserProfileApi_getUserProfilesByPrincipals E req =
     await (lift_sum (mapGetUserProfilesByPrincipalsRequest E req)) (\<lambda>q.
       call_map (get_user_profiles_by_principals (userProfileService E)) q (mapGetUserProfilesByPrincipalsResponse E))"

definition UserProfileApi_getUserProfilesByUserIds ::
    "'w env \<Rightarrow> GetUserProfilesByUserIdsRequest \<Rightarrow> ('s, 'w, UserProfileBrief list) api_task" where
  "UserProfileApi_getUserProfilesByUserIds E req =
     call_map (get_user_profiles_by_user_ids (userProfileService E)) (mapGetUserProfilesByUserIdsRequest req) mapGetUserProfilesByUserIdsResponse"

section \<open>Staff and trusted partners (api/staff-permissions.ts, api/trusted-partner.ts)\<close>

definition StaffPermissionsApi_listStaff :: "'w env \<Rightarrow> ('s, 'w, StaffMember list) api_task" where
  "StaffPermissionsApi_listStaff E =
     call_map (admin_list_staff (staffService E)) () mapListStaffResponse"

definition StaffPermissionsApi_getMyStaffPermissions ::
    "'w env \<Rightarrow> ('s, 'w, StaffPermissions option) api_task" where
  "StaffPermissionsApi_getMyStaffPermissions E =
     call_map (get_my_staff_permissions (staffService E)) () mapGetMyStaffPermissionsResponse"

definition StaffPermissionsApi_grantStaffPermissions ::
    "'w env \<Rightarrow> GrantStaffPermissionsRequest \<Rightarrow> ('s, 'w, unit) api_task" where
  "StaffPermissionsApi_grantStaffPermissions E req =
     call_map (admin_grant_staff_permissions (staffService E)) (mapGrantStaffPermissionsRequest req) mapGrantStaffPermissionsResponse"

definition StaffPermissionsApi_revokeStaffPermissions ::
    "'w env \<Rightarrow> RevokeStaffPermissionsRequest \<Rightarrow> ('s, 'w, unit) api_task" where
  "StaffPermissionsApi_revokeStaffPermissions E req =
     call_map (admin_revoke_staff_permissions (staffService E)) (mapRevokeStaffPermissionsRequest req) mapRevokeStaffPermissionsResponse"

definition TrustedPartnerApi_listTrustedPartners :: "'w env \<Rightarrow> ('s, 'w, TrustedPartner list) api_task" where
  "TrustedPartnerApi_listTrustedPartners E =
     call_map (admin_list_trusted_partners (staffService E)) () mapListTrustedPartnersResponse"

definition TrustedPartnerApi_createTrustedPartner ::
    "'w env \<Rightarrow> CreateTrustedPartnerRequest \<Rightarrow> ('s, 'w, TrustedPartner) api_task" where
  "TrustedPartnerApi_createTrustedPartner E req =
     call_map (admin_create_trusted_partner (staffService E)) (mapCreateTrustedPartnerRequest req) mapCreateTrustedPartnerResponse"

section \<open>Terms and conditions (api/terms-and-conditions.ts)\<close>

definition TermsAndConditionsApi_getLatestTermsAndConditions ::
    "'w env \<Rightarrow> ('s, 'w, TermsAndConditions option) api_task" where
  "TermsAndConditionsApi_getLatestTermsAndConditions E =
     call_map (get_latest_terms_and_conditions (termsService E)) () mapGetLatestTermsAndConditionForUserResponse"

definition TermsAndConditionsApi_listTermsAndConditions ::
    "'w env \<Rightarrow> ('s, 'w, TermsAndConditionsListItem list) api_task" where
  "TermsAndConditionsApi_listTermsAndConditions E =
     call_map (admin_list_terms_and_conditions (termsService E)) () mapListTermsAndConditionsResponse"

definition TermsAndConditionsApi_upsertTermsAndConditionsDecision ::
    "'w env \<Rightarrow> UpsertTermsAndConditionsDecisionRequest \<Rightarrow> ('s, 'w, unit) api_task" where
  "TermsAndConditionsApi_upsertTermsAndConditionsDecision E req =
     call_map (upsert_terms_and_conditions_decision (termsService E)) (mapUpsertTermsAndConditionsDecisionRequest req) mapOkResponse"

definition TermsAndConditionsApi_createTermsAndConditions ::
    "'w env \<Rightarrow> CreateTermsAndConditionsRequest \<Rightarrow> ('s, 'w, unit) api_task" where
  "TermsAndConditionsApi_createTermsAndConditions E req =
     call_map (admin_create_terms_and_conditions (termsService E)) (mapCreateTermsAndConditionsRequest req) mapOkResponse"

section \<open>Linked principals (api/principal-link.ts)\<close>

definition PrincipalLinkApi_registerLinkCode :: "'w env \<Rightarrow> string \<Rightarrow> string \<Rightarrow> ('s, 'w, int) api_task" where
  "PrincipalLinkApi_registerLinkCode E code targetPrincipal =
     await (lift_sum (mapRegisterLinkCodeRequest E code targetPrincipal)) (\<lambda>q.
       call_map (register_link_code (principalLinkService E)) q mapRegisterLinkCodeResponse)"

definition PrincipalLinkApi_linkMyPrincipal :: "'w env \<Rightarrow> string \<Rightarrow> ('s, 'w, unit) api_task" where
  "PrincipalLinkApi_linkMyPrincipal E code =
     call_map (link_my_principal (principalLinkService E)) (mapLinkMyPrincipalRequest code) mapLinkMyPrincipalResponse"

definition PrincipalLinkApi_unlinkMyPrincipal :: "'w env \<Rightarrow> string \<Rightarrow> ('s, 'w, unit) api_task" where
  "PrincipalLinkApi_unlinkMyPrincipal E principalText =
     await (lift_sum (mapUnlinkMyPrincipalRequest E principalText)) (\<lambda>q.
       call_map (unlink_my_principal (principalLinkService E)) q mapUnlinkMyPrincipalResponse)"

definition PrincipalLinkApi_listMyLinkedPrincipals :: "'w env \<Rightarrow> ('s, 'w, LinkedPrincipal list) api_task" where
  "PrincipalLinkApi_listMyLinkedPrincipals E =
     call_map (list_my_linked_principals (principalLinkService E)) () (mapListMyLinkedPrincipalsResponse E)"

definition PrincipalLinkApi_getMyPendingLinkCode :: "'w env \<Rightarrow> ('s, 'w, PendingLinkCode option) api_task" where
  "PrincipalLinkApi_getMyPendingLinkCode E =
     call_map (get_my_pending_link_code (principalLinkService E)) () (mapGetMyPendingLinkCodeResponse E)"

definition PrincipalLinkApi_revokeMyLinkCode :: "'w env \<Rightarrow> ('s, 'w, unit) api_task" where
  "PrincipalLinkApi_revokeMyLinkCode E =
     call_map (revoke_my_link_code (principalLinkService E)) () mapRevokeMyLinkCodeResponse"

definition PrincipalLinkApi_setMyPrincipalName ::
    "'w env \<Rightarrow> string \<Rightarrow> string option \<Rightarrow> ('s, 'w, unit) api_task" where
  "PrincipalLinkApi_setMyPrincipalName E principalText name =
     await (lift_sum (mapSetMyPrincipalNameRequest E principalText name)) (\<lambda>q.
       call_map (set_my_principal_name (principalLinkService E)) q mapSetMyPrincipalNameResponse)"

definition PrincipalLinkApi_adminLinkPrincipalToUser ::
    "'w env \<Rightarrow> string \<Rightarrow> string \<Rightarrow> ('s, 'w, unit) api_task" where
  "PrincipalLinkApi_adminLinkPrincipalToUser E userId principalText =
     await (lift_sum (mapAdminLinkPrincipalRequest E userId principalText)) (\<lambda>q.
       call_map (admin_link_principal_to_user (principalLinkService E)) q mapAdminLinkPrincipalResponse)"

definition PrincipalLinkApi_adminUnlinkPrincipalFromUser ::
    "'w env \<Rightarrow> string \<Rightarrow> string \<Rightarrow> ('s, 'w, unit) api_task" where
  "PrincipalLinkApi_adminUnlinkPrincipalFromUser E userId principalText =
     await (lift_sum (mapAdminUnlinkPrincipalRequest E userId principalText)) (\<lambda>q.
       call_map (admin_unlink_principal_from_user (principalLinkService E)) q mapAdminUnlinkPrincipalResponse)"

definition PrincipalLinkApi_adminListLinkedPrincipals ::
    "'w env \<Rightarrow> string \<Rightarrow> ('s, 'w, string list) api_task" where
  "PrincipalLinkApi_adminListLinkedPrincipals E userId =
     call_map (admin_list_linked_principals (principalLinkService E)) (mapAdminListLinkedPrincipalsRequest userId)
       (mapAdminListLinkedPrincipalsResponse E)"

definition PrincipalLinkApi_recoverAccountByEmail :: "'w env \<Rightarrow> string \<Rightarrow> ('s, 'w, unit) api_task" where
  "PrincipalLinkApi_recoverAccountByEmail E token =
     call_map (recover_account_by_email (principalLinkService E)) token mapRejectionResponse"

section \<open>Organizations (api/organization.ts)\<close>

definition OrganizationApi_listMyOrganizations ::
    "'w env \<Rightarrow> ('s, 'w, ListMyOrganizationsResponse) api_task" where
  "OrganizationApi_listMyOrganizations E =
     call_map (list_my_organizations (organizationService E)) () mapListMyOrganizationsResponse"

definition OrganizationApi_listOrganizations ::
    "'w env \<Rightarrow> ListOrganizationsRequest \<Rightarrow> ('s, 'w, ListOrganizationsResponse) api_task" where
  "OrganizationApi_listOrganizations E req =
     call_map (admin_list_organizations (organizationService E)) (mapListOrganizationsRequest req) mapListOrganizationsResponse"

definition OrganizationApi_createOrganization ::
    "'w env \<Rightarrow> CreateOrganizationRequest \<Rightarrow> ('s, 'w, OrganizationResponse) api_task" where
  "OrganizationApi_createOrganization E req =
     call_map (create_organization (organizationService E)) (mapCreateOrganizationRequest req) mapCreateOrganizationResponse"

definition OrganizationApi_getOrganization ::
    "'w env \<Rightarrow> GetOrganizationRequest \<Rightarrow> ('s, 'w, OrganizationResponse) api_task" where
  "OrganizationApi_getOrganization E req =
     call_map (get_organization (organizationService E)) (mapGetOrganizationRequest req) mapGetOrganizationResponse"

definition OrganizationApi_updateOrganization ::
    "'w env \<Rightarrow> UpdateOrganizationRequest \<Rightarrow> ('s, 'w, OrganizationResponse) api_task" where
  "OrganizationApi_updateOrganization E req =
     call_map (update_organization (organizationService E)) (mapUpdateOrganizationRequest req) mapUpdateOrganizationResponse"

definition OrganizationApi_deleteOrganization ::
    "'w env \<Rightarrow> DeleteOrganizationRequest \<Rightarrow> ('s, 'w, unit) api_task" where
  "OrganizationApi_deleteOrganization E req =
     call_map (delete_organization (organizationService E)) (mapDeleteOrganizationRequest req) mapDeleteOrganizationResponse"

definition OrganizationApi_listOrgUsers ::
    "'w env \<Rightarrow> ListOrgUsersRequest \<Rightarrow> ('s, 'w, OrgUser list) api_task" where
  "OrganizationApi_listOrgUsers E req =
     call_map (list_org_users (organizationService E)) (mapListOrgUsersRequest req) mapListOrgUsersResponse"

definition OrganizationApi_getOrgBillingPlan ::
    "'w env \<Rightarrow> GetOrgBillingPlanRequest \<Rightarrow> ('s, 'w, OrgBillingPlan) api_task" where
  "OrganizationApi_getOrgBillingPlan E req =
     call_map (get_org_billing_plan (organizationService E)) (mapGetOrgBillingPlanRequest req) mapGetOrgBillingPlanResponse"

definition OrganizationApi_setOrgBillingPlan ::
    "'w env \<Rightarrow> SetOrgBillingPlanRequest \<Rightarrow> ('s, 'w, unit) api_task" where
  "OrganizationApi_setOrgBillingPlan E req =
     call_map (admin_set_org_billing_plan (organizationService E)) (mapSetOrgBillingPlanRequest req) mapSetOrgBillingPlanResponse"

definition OrganizationApi_listMyOrgBillingPlans :: "'w env \<Rightarrow> ('s, 'w, MyOrgBillingPlan list) api_task" where
  "OrganizationApi_listMyOrgBillingPlans E =
     call_map (list_my_org_billing_plans (organizationService E)) () mapListMyOrgBillingPlansResponse"

section \<open>Teams (api/team.ts)\<close>

definition TeamApi_listMyTeams :: "'w env \<Rightarrow> ('s, 'w, ListTeamsResponse) api_task" where
  "TeamApi_listMyTeams E =
     call_map (list_my_teams (teamService E)) () mapListTeamsResponse"

definition TeamApi_listOrgTeams ::
    "'w env \<Rightarrow> ListOrgTeamsRequest \<Rightarrow> ('s, 'w, ListOrgTeamsResponse) api_task" where
  "TeamApi_listOrgTeams E req =
     call_map (list_org_teams (teamService E)) (mapListOrgTeamsRequest req) mapListOrgTeamsResponse"

definition TeamApi_createTeam :: "'w env \<Rightarrow> CreateTeamRequest \<Rightarrow> ('s, 'w, TeamResponse) api_task" where
  "TeamApi_createTeam E req =
     call_map (create_team (teamService E)) (mapCreateTeamRequest req) mapCreateTeamResponse"

definition TeamApi_getTeam :: "'w env \<Rightarrow> GetTeamRequest \<Rightarrow> ('s, 'w, TeamResponse) api_task" where
  "TeamApi_getTeam E req =
     call_map (get_team (teamService E)) (mapGetTeamRequest req) mapGetTeamResponse"

definition TeamApi_updateTeam :: "'w env \<Rightarrow> UpdateTeamRequest \<Rightarrow> ('s, 'w, TeamResponse) api_task" where
  "TeamApi_updateTeam E req =
     call_map (update_team (teamService E)) (mapUpdateTeamRequest req) mapUpdateTeamResponse"

definition TeamApi_deleteTeam :: "'w env \<Rightarrow> DeleteTeamRequest \<Rightarrow> ('s, 'w, unit) api_task" where
  "TeamApi_deleteTeam E req =
     call_map (delete_team (teamService E)) (mapDeleteTeamRequest req) mapDeleteTeamResponse"

definition TeamApi_addUserToTeam :: "'w env \<Rightarrow> AddUserToTeamRequest \<Rightarrow> ('s, 'w, unit) api_task" where
  "TeamApi_addUserToTeam E req =
     call_map (add_user_to_team (teamService E)) (mapAddUserToTeamRequest req) mapAddUserToTeamResponse"

definition TeamApi_removeUserFromTeam :: "'w env \<Rightarrow> RemoveUserFromTeamRequest \<Rightarrow> ('s, 'w, unit) api_task" where
  "TeamApi_removeUserFromTeam E req =
     call_map (remove_user_from_team (teamService E)) (mapRemoveUserFromTeamRequest req) mapRemoveUserFromTeamResponse"

definition TeamApi_listTeamUsers :: "'w env \<Rightarrow> ListTeamUsersRequest \<Rightarrow> ('s, 'w, TeamUser list) api_task" where
  "TeamApi_listTeamUsers E req =
     call_map (list_team_users (teamService E)) (mapListTeamUsersRequest req) mapListTeamUsersResponse"

definition TeamApi_updateTeamOrgPermissions ::
    "'w env \<Rightarrow> UpdateTeamOrgPermissionsRequest \<Rightarrow> ('s, 'w, OrgTeamResponse) api_task" where
  "TeamApi_updateTeamOrgPermissions E req =
     call_map (update_team_org_permissions (teamService E)) (mapUpdateTeamOrgPermissionsRequest req) mapUpdateTeamOrgPermissionsResponse"

section \<open>Projects (api/project.ts)\<close>

definition ProjectApi_listMyProjects :: "'w env \<Rightarrow> ('s, 'w, ListMyProjectsResponse) api_task" where
  "ProjectApi_listMyProjects E =
     call_map (list_my_projects (projectService E)) () mapListMyProjectsResponse"

definition ProjectApi_listOrgProjects ::
    "'w env \<Rightarrow> ListOrgProjectsRequest \<Rightarrow> ('s, 'w, ListOrgProjectsResponse) api_task" where
  "ProjectApi_listOrgProjects E req =
     call_map (list_org_projects (projectService E)) (mapListOrgProjectsRequest req) mapListOrgProjectsResponse"

definition ProjectApi_createProject ::
    "'w env \<Rightarrow> CreateProjectRequest \<Rightarrow> ('s, 'w, ProjectResponse) api_task" where
  "ProjectApi_createProject E req =
     call_map (create_project (projectService E)) (mapCreateProjectRequest req) mapCreateProjectResponse"

definition ProjectApi_getProject :: "'w env \<Rightarrow> GetProjectRequest \<Rightarrow> ('s, 'w, ProjectResponse) api_task" where
  "ProjectApi_getProject E req =
     call_map (get_project (projectService E)) (mapGetProjectRequest req) mapGetProjectResponse"

definition ProjectApi_updateProject ::
    "'w env \<Rightarrow> UpdateProjectRequest \<Rightarrow> ('s, 'w, ProjectResponse) api_task" where
  "ProjectApi_updateProject E req =
     call_map (update_project (projectService E)) (mapUpdateProjectRequest req) mapUpdateProjectResponse"

definition ProjectApi_deleteProject :: "'w env \<Rightarrow> DeleteProjectRequest \<Rightarrow> ('s, 'w, unit) api_task" where
  "ProjectApi_deleteProject E req =
     call_map (delete_project (projectService E)) (mapDeleteProjectRequest req) mapDeleteProjectResponse"

definition ProjectApi_listProjectTeams ::
    "'w env \<Rightarrow> ListProjectTeamsRequest \<Rightarrow> ('s, 'w, ListProjectTeamsResponse) api_task" where
  "ProjectApi_listProjectTeams E req =
     call_map (list_project_teams (projectService E)) (mapListProjectTeamsRequest req) mapListProjectTeamsResponse"

definition ProjectApi_addTeamToProject :: "'w env \<Rightarrow> AddTeamToProjectRequest \<Rightarrow> ('s, 'w, unit) api_task" where
  "ProjectApi_addTeamToProject E req =
     call_map (add_team_to_project (projectService E)) (mapAddTeamToProjectRequest req) mapAddTeamToProjectResponse"

definition ProjectApi_removeTeamFromProject ::
    "'w env \<Rightarrow> RemoveTeamFromProjectRequest \<Rightarrow> ('s, 'w, unit) api_task" where
  "ProjectApi_removeTeamFromProject E req =
     call_map (remove_team_from_project (projectService E)) (mapRemoveTeamFromProjectRequest req) mapRemoveTeamFromProjectResponse"

definition ProjectApi_updateTeamProjectPermissions ::
    "'w env \<Rightarrow> UpdateTeamProjectPermissionsRequest \<Rightarrow> ('s, 'w, ProjectTeamResponse) api_task" where
  "ProjectApi_updateTeamProjectPermissions E req =
     call_map (update_team_project_permissions (projectService E)) (mapUpdateTeamProjectPermissionsRequest req) mapUpdateTeamProjectPermissionsResponse"

section \<open>Invitations (api/invite.ts)\<close>

definition InviteApi_createOrgInvite :: "'w env \<Rightarrow> CreateOrgInviteRequest \<Rightarrow> ('s, 'w, OrgInvite) api_task" where
  "InviteApi_createOrgInvite E req =
     call_map (create_org_invite (inviteService E)) (mapCreateOrgInviteRequest req) mapCreateOrgInviteResponse"

definition InviteApi_listOrgInvites ::
    "'w env \<Rightarrow> ListOrgInvitesRequest \<Rightarrow> ('s, 'w, OrgInvite list) api_task" where
  "InviteApi_listOrgInvites E req =
     call_map (list_org_invites (inviteService E)) (mapListOrgInvitesRequest req) mapListOrgInvitesResponse"

definition InviteApi_revokeOrgInvite :: "'w env \<Rightarrow> RevokeOrgInviteRequest \<Rightarrow> ('s, 'w, unit) api_task" where
  "InviteApi_revokeOrgInvite E req =
     call_map (revoke_org_invite (inviteService E)) (mapRevokeOrgInviteRequest req) mapRevokeOrgInviteResponse"

definition InviteApi_listMyInvites :: "'w env \<Rightarrow> ('s, 'w, OrgInvite list) api_task" where
  "InviteApi_listMyInvites E =
     call_map (list_my_invites (inviteService E)) () mapListMyInvitesResponse"

definition InviteApi_acceptOrgInvite :: "'w env \<Rightarrow> AcceptOrgInviteRequest \<Rightarrow> ('s, 'w, unit) api_task" where
  "InviteApi_acceptOrgInvite E req =
     call_map (accept_org_invite (inviteService E)) (mapAcceptOrgInviteRequest req) mapAcceptOrgInviteResponse"

definition InviteApi_declineOrgInvite :: "'w env \<Rightarrow> DeclineOrgInviteRequest \<Rightarrow> ('s, 'w, unit) api_task" where
  "InviteApi_declineOrgInvite E req =
     call_map (decline_org_invite (inviteService E)) (mapDeclineOrgInviteRequest req) mapDeclineOrgInviteResponse"

section \<open>Canisters (api/canister.ts)\<close>

definition CanisterApi_listMyCanisters ::
    "'w env \<Rightarrow> ApiListMyCanistersRequest \<Rightarrow> ('s, 'w, Canister list) api_task" where
  "CanisterApi_listMyCanisters E req =
     call_map (list_my_canisters (canisterService E)) req (mapListMyCanistersResponse E)"

definition CanisterApi_listUserCanisters ::
    "'w env \<Rightarrow> ApiListUserCanistersRequest \<Rightarrow> ('s, 'w, ListUserCanistersResponse) api_task" where
  "CanisterApi_listUserCanisters E req =
     call_map (admin_list_user_canisters (canisterService E)) req (mapListUserCanistersResponse E)"

definition CanisterApi_adminListAllCanisters ::
    "'w env \<Rightarrow> int \<Rightarrow> int \<Rightarrow> ('s, 'w, ListAllCanistersResponse) api_task" where
  "CanisterApi_adminListAllCanisters E page limit =
     call_map (admin_list_all_canisters (canisterService E))
       \<lparr>ApiListAllCanistersRequest_limit = [limit], ApiListAllCanistersRequest_page = [page]\<rparr>
       mapListAllCanistersResponse"

text \<open>What became of a proposal: \<open>readProposalOutcome(mapOkResponse(res))\<close>.\<close>

definition proposal_outcome :: "ApiProposal ApiResponse \<Rightarrow> js_error + ProposalOutcome" where
  "proposal_outcome res = and_then (mapOkResponse res) readProposalOutcome"

definition CanisterApi_createCanister :: "'w env \<Rightarrow> string \<Rightarrow> ('s, 'w, ProposalOutcome) api_task" where
  "CanisterApi_createCanister E projectId =
     call_map (create_proposal (proposalService E))
       \<lparr>ApiCreateProposalRequest_project_id = projectId,
        ApiCreateProposalRequest_operation = [ApiCreateCanister]\<rparr>
       proposal_outcome"

definition CanisterApi_removeCanister :: "'w env \<Rightarrow> string \<Rightarrow> ('s, 'w, unit) api_task" where
  "CanisterApi_removeCanister E canisterId =
     call_map (remove_my_canister (canisterService E)) \<lparr>ApiCanisterIdRequest_canister_id = canisterId\<rparr> mapOkResponse"

definition CanisterApi_updateCanisterName :: "'w env \<Rightarrow> string \<Rightarrow> string option \<Rightarrow> ('s, 'w, unit) api_task" where
  "CanisterApi_updateCanisterName E canisterId name =
     call_map (update_my_canister_name (canisterService E))
       \<lparr>ApiUpdateMyCanisterNameRequest_canister_id = canisterId,
        ApiUpdateMyCanisterNameRequest_name = toCandidOpt name\<rparr>
       mapOkResponse"

definition CanisterApi_startCanister :: "'w env \<Rightarrow> string \<Rightarrow> ('s, 'w, unit) api_task" where
  "CanisterApi_startCanister E canisterId =
     call_map (start_my_canister (canisterService E)) \<lparr>ApiCanisterIdRequest_canister_id = canisterId\<rparr> mapOkResponse"

definition CanisterApi_stopCanister :: "'w env \<Rightarrow> string \<Rightarrow> ('s, 'w, unit) api_task" where
  "CanisterApi_stopCanister E canisterId =
     call_map (stop_my_canister (canisterService E)) \<lparr>ApiCanisterIdRequest_canister_id = canisterId\<rparr> mapOkResponse"

definition CanisterApi_addCanisterController ::
    "'w env \<Rightarrow> string \<Rightarrow> string \<Rightarrow> ('s, 'w, ProposalOutcome) api_task" where
  "CanisterApi_addCanisterController E canisterId controllerId =
     await (call (list_my_projects (projectService E)) ()) (\<lambda>res.
      await (lift_sum (mapOkResponse res)) (\<lambda>ok.
        case first (ApiProjectsOk_projects ok) of
          None \<Rightarrow> throw (Error ''Default project not found'')
        | Some project \<Rightarrow>
            await (lift_sum (fromText E canisterId)) (\<lambda>canister_id.
            await (lift_sum (fromText E controllerId)) (\<lambda>controller_id.
              call_map (create_proposal (proposalService E))
                \<lparr>ApiCreateProposalRequest_project_id = ApiProject_id project,
                 ApiCreateProposalRequest_operation = [ApiAddCanisterController canister_id controller_id]\<rparr>
                proposal_outcome))))"

section \<open>The management canister (api/management-canister.ts)\<close>

definition ManagementCanisterApi_getCanisterStatus ::
    "'w env \<Rightarrow> CanisterStatusRequest \<Rightarrow> ('s, 'w, CanisterStatusResponse) api_task" where
  "ManagementCanisterApi_getCanisterStatus E req =
     await (lift_sum (mapCanisterStatusRequest E req)) (\<lambda>apiReq.
       call_map (canister_status (otherCanisters E)) apiReq (\<lambda>apiRes. Inr (mapCanisterStatusResponse E apiRes)))"

definition ManagementCanisterApi_updateSettings ::
    "'w env \<Rightarrow> UpdateSettingsRequest \<Rightarrow> ('s, 'w, unit) api_task" where
  "ManagementCanisterApi_updateSettings E req =
     await (lift_sum (mapUpdateSettingsRequest E req)) (call (update_settings (otherCanisters E)))"

definition ManagementCanisterApi_startCanister ::
    "'w env \<Rightarrow> StartCanisterRequest \<Rightarrow> ('s, 'w, unit) api_task" where
  "ManagementCanisterApi_startCanister E req =
     await (lift_sum (mapStartCanisterRequest E req)) (call (start_canister (otherCanisters E)))"

definition ManagementCanisterApi_stopCanister ::
    "'w env \<Rightarrow> StopCanisterRequest \<Rightarrow> ('s, 'w, unit) api_task" where
  "ManagementCanisterApi_stopCanister E req =
     await (lift_sum (mapStopCanisterRequest E req)) (call (stop_canister (otherCanisters E)))"

definition ManagementCanisterApi_deleteCanister ::
    "'w env \<Rightarrow> DeleteCanisterRequest \<Rightarrow> ('s, 'w, unit) api_task" where
  "ManagementCanisterApi_deleteCanister E req =
     await (lift_sum (mapDeleteCanisterRequest E req)) (call (delete_canister (otherCanisters E)))"

section \<open>The history canister (api/canister-history.ts)\<close>

definition CanisterHistoryApi_listCanisterChanges ::
    "'w env \<Rightarrow> string \<Rightarrow> ('s, 'w, ListCanisterChangesResponse) api_task" where
  "CanisterHistoryApi_listCanisterChanges E canisterId =
     await (lift_sum (fromText E canisterId)) (\<lambda>canister_id.
       call_map (list_canister_changes (otherCanisters E))
         \<lparr>ApiListCanisterChangesRequest_canister_id = canister_id,
          ApiListCanisterChangesRequest_reverse = [True],
          ApiListCanisterChangesRequest_limit = [50],
          ApiListCanisterChangesRequest_page = []\<rparr>
         (mapListCanisterChangesResponse E))"

definition CanisterHistoryApi_listKnownCanisters :: "'w env \<Rightarrow> ('s, 'w, KnownCanister list) api_task" where
  "CanisterHistoryApi_listKnownCanisters E =
     call_map (list_known_canisters (otherCanisters E)) () (\<lambda>res.
       case res of
         Err err \<Rightarrow> Inl (Error (ApiError_message err))
       | Ok ok \<Rightarrow> Inr (map (\<lambda>c.
           \<lparr>KnownCanister_canisterId = toText E (ApiKnownCanister_canister_id c),
            KnownCanister_isDeleted = ApiKnownCanister_is_deleted c\<rparr>)
         (ApiListKnownCanistersOk_canisters ok)))"

section \<open>Proposals, policies and usage (api/proposal.ts, api/approval-policy.ts, api/usage.ts)\<close>

definition ProposalApi_listProjectProposals ::
    "'w env \<Rightarrow> ListProjectProposalsRequest \<Rightarrow> ('s, 'w, ListProjectProposalsResponse) api_task" where
  "ProposalApi_listProjectProposals E req =
     call_map (list_project_proposals (proposalService E)) (mapListProjectProposalsRequest req) (mapListProjectProposalsResponse E)"

definition ProposalApi_getProposal :: "'w env \<Rightarrow> GetProposalRequest \<Rightarrow> ('s, 'w, Proposal) api_task" where
  "ProposalApi_getProposal E req =
     call_map (get_proposal (proposalService E)) (mapGetProposalRequest req) (mapGetProposalResponse E)"

definition ProposalApi_voteProposal :: "'w env \<Rightarrow> VoteProposalRequest \<Rightarrow> ('s, 'w, Proposal) api_task" where
  "ProposalApi_voteProposal E req =
     call_map (vote_proposal (proposalService E)) (mapVoteProposalRequest req) (mapVoteProposalResponse E)"

definition ProposalApi_cancelProposal :: "'w env \<Rightarrow> CancelProposalRequest \<Rightarrow> ('s, 'w, Proposal) api_task" where
  "ProposalApi_cancelProposal E req =
     call_map (cancel_proposal (proposalService E)) (mapCancelProposalRequest req) (mapCancelProposalResponse E)"

definition ApprovalPolicyApi_listProjectApprovalPolicies ::
    "'w env \<Rightarrow> ListProjectApprovalPoliciesRequest \<Rightarrow> ('s, 'w, ListProjectApprovalPoliciesResponse) api_task" where
  "ApprovalPolicyApi_listProjectApprovalPolicies E req =
     call_map (list_project_approval_policies (proposalService E)) (mapListProjectApprovalPoliciesRequest req) mapListProjectApprovalPoliciesResponse"

definition ApprovalPolicyApi_upsertApprovalPolicy ::
    "'w env \<Rightarrow> UpsertApprovalPolicyRequest \<Rightarrow> ('s, 'w, ApprovalPolicy) api_task" where
  "ApprovalPolicyApi_upsertApprovalPolicy E req =
     call_map (upsert_approval_policy (proposalService E)) (mapUpsertApprovalPolicyRequest req) mapUpsertApprovalPolicyResponse"

definition UsageApi_getUsage :: "'w env \<Rightarrow> GetUsageRequest \<Rightarrow> ('s, 'w, GetUsageResponse) api_task" where
  "UsageApi_getUsage E req =
     call_map (get_usage (canisterService E)) (mapGetUsageRequest req) (mapGetUsageResponse E)"

section \<open>The auth service (api/auth.ts)\<close>

text \<open>\<open>JSON.stringify\<close> of a string of code units below 256: quotes, backslashes and controls are escaped.\<close>

definition json_char :: "char \<Rightarrow> string" where
  "json_char c =
     (let n = of_char c :: nat in
      if c = CHR 0x22 then [CHR 0x5C, c]
      else if n = 92 then [CHR 0x5C, c]
      else if n = 8 then [CHR 0x5C, CHR ''b'']
      else if n = 9 then [CHR 0x5C, CHR ''t'']
      else if n = 10 then [CHR 0x5C, CHR ''n'']
      else if n = 12 then [CHR 0x5C, CHR ''f'']
      else if n = 13 then [CHR 0x5C, CHR ''r'']
      else if n < 32 then [CHR 0x5C, CHR ''u'', CHR ''0'', CHR ''0''] @ hex_byte n
      else [c])"

definition json_string :: "string \<Rightarrow> string" where
  "json_string s = [CHR 0x22] @ concat (map json_char s) @ [CHR 0x22]"

definition API_PREFIX :: string where
  "API_PREFIX = ''/v0/auth''"

definition AuthApi_post :: "'w env \<Rightarrow> string \<Rightarrow> string \<Rightarrow> ('s, 'w, unit) api_task" where
  "AuthApi_post E path email =
     await (request (fetch E
       \<lparr>FetchRequest_url = AUTH_SERVICE_URL E @ API_PREFIX @ path,
        FetchRequest_method = ''POST'',
        FetchRequest_headers = [(''Content-Type'', ''application/json'')],
        FetchRequest_body = Some ([CHR 0x7B] @ json_string ''email'' @ '':'' @ json_string email @ [CHR 0x7D])\<rparr>))
       (\<lambda>res. if \<not> FetchResponse_ok res
              then throw (Error (''Unexpected response '' @ decimal (nat (FetchResponse_status res)) @ '' '' @
                                 FetchResponse_statusText res))
              else ret ())"

definition AuthApi_sendEmailVerification :: "'w env \<Rightarrow> string \<Rightarrow> ('s, 'w, unit) api_task" where
  "AuthApi_sendEmailVerification E email = AuthApi_post E ''/email-verification'' email"

definition AuthApi_sendAccountRecovery :: "'w env \<Rightarrow> string \<Rightarrow> ('s, 'w, unit) api_task" where
  "AuthApi_sendAccountRecovery E email = AuthApi_post E ''/account-recovery'' email"

end
