(* ===== verification/AppState.thy ===== *)
theory AppState
  imports ApiClients
begin

text \<open>
  The state of the store, \<open>lib/store/model.ts\<close>: one record per slice in the order of \<open>AppSlice\<close>,
  each extending the one before as the intersection type does. Only the data of a slice is
  state; its operations are definitions of the slice's theory. The API clients a slice type holds
  are constants of the store (\<open>lib/store/api.ts\<close>): what is left of them here is the identity the
  shared agent signs with, in \<open>AgentState\<close>. The unused \<open>error\<close> field of the auth slice is left
  out. A JavaScript \<open>Set\<close> is a set.
\<close>

section \<open>Slices\<close>

record AuthSlice = AgentState +
  isAuthInitialized :: bool
  isLoggingIn :: bool
  isAuthenticated :: bool
  identity :: "Identity option"
  authClient :: "AuthClient option"

record UserProfileSlice = AuthSlice +
  isProfileInitialized :: bool
  isProfileLoading :: bool
  profile :: "UserProfile option"
  myStaffPermissions :: "StaffPermissions option"

record UsersSlice = UserProfileSlice +
  isUsersInitialized :: bool
  users :: "UserProfile list option"
  userStats :: "GetUserStatsResponse option"
  staleUserIds :: "string set option"

record CanistersSlice = UsersSlice +
  isCanistersInitialized :: bool
  isCanistersLoading :: bool
  canisters :: "(string, Canister list) js_map option"

record TrustedPartnersSlice = CanistersSlice +
  isTrustedPartnersInitialized :: bool
  trustedPartners :: "TrustedPartner list option"

record StaffSlice = TrustedPartnersSlice +
  isStaffInitialized :: bool
  staff :: "StaffMember list option"

record AdminOrgsSlice = StaffSlice +
  isAdminOrgsInitialized :: bool
  adminOrgs :: "AdminOrganization list option"
  adminOrgsNextCursor :: "string option"

record AdminCanisterRow = CanisterWithOwner +
  tracked :: bool

record AdminCanistersSlice = AdminOrgsSlice +
  isAdminCanistersInitialized :: bool
  isAdminCanistersLoading :: bool
  adminCanisters :: "AdminCanisterRow list option"
  adminUntrackedCount :: int

record TermsAndConditionsSlice = AdminCanistersSlice +
  isTermsAndConditionsInitialized :: bool
  termsAndConditions :: "TermsAndConditions option"
  termsAndConditionsHistory :: "TermsAndConditionsListItem list option"

record ProjectsSlice = TermsAndConditionsSlice +
  isProjectsInitialized :: bool
  projects :: "Project list"

record OrganizationsSlice = ProjectsSlice +
  isOrganizationsInitialized :: bool
  organizations :: "Organization list"

record TeamsSlice = OrganizationsSlice +
  isTeamsInitialized :: bool
  teams :: "Team list"

record InvitesSlice = TeamsSlice +
  isMyInvitesInitialized :: bool
  myInvites :: "OrgInvite list"

record PrincipalLinkSlice = InvitesSlice +
  linkedPrincipals :: "LinkedPrincipal list option"
  pendingLinkCode :: "PendingLinkCode option"

text \<open>The toasts the user has been shown (title and description) are the store's one output.\<close>

record AppSlice = PrincipalLinkSlice +
  toasts :: "(string \<times> string) list"

type_synonym ('w, 'a) store_task = "(js_error, AppSlice, 'w, 'a) task"

section \<open>The store as created\<close>

definition initialState :: AppSlice where
  "initialState =
     \<lparr>agentIdentity = AnonymousIdentity,
      isAuthInitialized = False, isLoggingIn = False, isAuthenticated = False,
      identity = None, authClient = None,
      isProfileInitialized = False, isProfileLoading = False, profile = None, myStaffPermissions = None,
      isUsersInitialized = False, users = None, userStats = None, staleUserIds = None,
      isCanistersInitialized = False, isCanistersLoading = False, canisters = None,
      isTrustedPartnersInitialized = False, trustedPartners = None,
      isStaffInitialized = False, staff = None,
      isAdminOrgsInitialized = False, adminOrgs = None, adminOrgsNextCursor = None,
      isAdminCanistersInitialized = False, isAdminCanistersLoading = False, adminCanisters = None,
      adminUntrackedCount = 0,
      isTermsAndConditionsInitialized = False, termsAndConditions = None, termsAndConditionsHistory = None,
      isProjectsInitialized = False, projects = [],
      isOrganizationsInitialized = False, organizations = [],
      isTeamsInitialized = False, teams = [],
      isMyInvitesInitialized = False, myInvites = [],
      linkedPrincipals = None, pendingLinkCode = None,
      toasts = []\<rparr>"

section \<open>The agent (store/api.ts)\<close>

text \<open>The agent is created with the store, so the check that it is not nil always passes.\<close>

definition setAgentIdentity :: "Identity \<Rightarrow> ('s, 'w, unit) api_task" where
  "setAgentIdentity i = set_state (agentIdentity_update (\<lambda>_. i))"

section \<open>Toasts (lib/toast.ts)\<close>

definition showErrorToast :: "string \<Rightarrow> js_error \<Rightarrow> ('w, unit) store_task" where
  "showErrorToast title err = set_state (toasts_update (\<lambda>ts. ts @ [(title, error_message err)]))"

end
