(* ===== verification/UserStore.thy ===== *)
theory UserStore
  imports AppState
begin

text \<open>
  The slices about users: \<open>lib/store/user-profile.ts\<close> with its selectors, \<open>users.ts\<close>,
  \<open>staff-permissions.ts\<close>, \<open>trusted-partner.ts\<close> and \<open>terms-and-conditions.ts\<close>. \<open>get_state (\<lambda>s. ...)\<close>
  is \<open>const { ... } = get()\<close>, \<open>set_state\<close> is \<open>set\<close>, \<open>try_finally\<close> and \<open>await\<close> are the keywords.
\<close>

section \<open>The user's profile (user-profile.ts)\<close>

definition selectIsAdmin :: "AppSlice \<Rightarrow> bool" where
  "selectIsAdmin state = (case profile state of Some p \<Rightarrow> UserProfile_isAdmin p | None \<Rightarrow> False)"

definition selectIsActive :: "AppSlice \<Rightarrow> bool" where
  "selectIsActive state = (case profile state of Some p \<Rightarrow> UserProfile_status p = Active | None \<Rightarrow> False)"

text \<open>\<open>state.myStaffPermissions?.bit ?? false\<close>\<close>

definition staff_bit :: "(StaffPermissions \<Rightarrow> bool) \<Rightarrow> AppSlice \<Rightarrow> bool" where
  "staff_bit b state = (case myStaffPermissions state of Some m \<Rightarrow> b m | None \<Rightarrow> False)"

definition selectCanManageUsers :: "AppSlice \<Rightarrow> bool" where
  "selectCanManageUsers state \<longleftrightarrow> selectIsAdmin state \<or> staff_bit manageUsers state"

definition selectCanReadAllOrgs :: "AppSlice \<Rightarrow> bool" where
  "selectCanReadAllOrgs state \<longleftrightarrow> selectIsAdmin state \<or> staff_bit readAllOrgs state"

definition selectCanWriteBilling :: "AppSlice \<Rightarrow> bool" where
  "selectCanWriteBilling state \<longleftrightarrow> selectIsAdmin state \<or> staff_bit writeBilling state"

definition selectCanReadMetrics :: "AppSlice \<Rightarrow> bool" where
  "selectCanReadMetrics state \<longleftrightarrow> selectIsAdmin state \<or> staff_bit readMetrics state"

definition selectCanAccessAdmin :: "AppSlice \<Rightarrow> bool" where
  "selectCanAccessAdmin state \<longleftrightarrow>
     selectCanManageUsers state \<or> selectCanReadAllOrgs state \<or>
     selectCanWriteBilling state \<or> selectCanReadMetrics state"

definition initializeUserProfile :: "'w env \<Rightarrow> ('w, unit) store_task" where
  "initializeUserProfile E =
     await (set_state (\<lambda>s. s\<lparr>isProfileLoading := True\<rparr>)) (\<lambda>_.
     get_state (\<lambda>s.
       if \<not> isAuthenticated s then
         set_state (\<lambda>s. s\<lparr>isProfileInitialized := True, isProfileLoading := False\<rparr>)
       else
         try_finally
           (await (UserProfileApi_getMyUserProfile E) (\<lambda>p.
            await (StaffPermissionsApi_getMyStaffPermissions E) (\<lambda>m.
              set_state (\<lambda>s. s\<lparr>profile := p, myStaffPermissions := m\<rparr>))))
           (set_state (\<lambda>s. s\<lparr>isProfileInitialized := True, isProfileLoading := False\<rparr>))))"

definition clearUserProfile :: "('w, unit) store_task" where
  "clearUserProfile = set_state (\<lambda>s. s\<lparr>profile := None, myStaffPermissions := None\<rparr>)"

definition createProfile :: "'w env \<Rightarrow> ('w, unit) store_task" where
  "createProfile E =
     get_state (\<lambda>s.
       if \<not> isAuthenticated s \<or> isNotNil (profile s) then ret ()
       else
         await (UserProfileApi_createMyUserProfile E) (\<lambda>created.
           set_state (\<lambda>s. s\<lparr>profile := Some created\<rparr>)))"

definition setEmail :: "'w env \<Rightarrow> string \<Rightarrow> ('w, unit) store_task" where
  "setEmail E email =
     get_state (\<lambda>s.
       if \<not> isProfileInitialized s then throw (Error ''User profile is not initialized'')
       else if \<not> isAuthenticated s then ret ()
       else
         await (UserProfileApi_updateMyUserProfile E \<lparr>UpdateMyUserProfileRequest_email = Some email\<rparr>) (\<lambda>_.
           set_state (\<lambda>s.
             case profile s of
               None \<Rightarrow> s
             | Some p \<Rightarrow> s\<lparr>profile := Some (p\<lparr>UserProfile_email := Some email\<rparr>)\<rparr>)))"

definition setEmailVerified :: "('w, unit) store_task" where
  "setEmailVerified =
     set_state (\<lambda>s.
       case profile s of
         None \<Rightarrow> s
       | Some p \<Rightarrow> s\<lparr>profile := Some (p\<lparr>UserProfile_emailVerified := True\<rparr>)\<rparr>)"

definition sendVerificationEmail :: "'w env \<Rightarrow> string \<Rightarrow> ('w, unit) store_task" where
  "sendVerificationEmail E email =
     get_state (\<lambda>s.
       if \<not> isProfileInitialized s then throw (Error ''User profile is not initialized'')
       else if \<not> isAuthenticated s then ret ()
       else AuthApi_sendEmailVerification E email)"

section \<open>All users (users.ts)\<close>

text \<open>The three requests are issued together; the results are used when all have arrived.\<close>

definition initializeUsers :: "'w env \<Rightarrow> ('w, unit) store_task" where
  "initializeUsers E =
     get_state (\<lambda>s.
       if \<not> isProfileInitialized s then throw (Error ''User profile is not initialized'')
       else if \<not> isAuthenticated s \<or> \<not> selectCanManageUsers s then
         set_state (\<lambda>s. s\<lparr>isUsersInitialized := True\<rparr>)
       else
         try_finally
           (await (promise_all3 (UserProfileApi_listUserProfiles E) (UserProfileApi_getUserStats E)
                    (UserProfileApi_listStaleUsers E)) (\<lambda>(us, stats, staleUsers).
              set_state (\<lambda>s. s\<lparr>users := Some us, userStats := Some stats,
                staleUserIds := Some (StaleUserEntry_id ` set staleUsers)\<rparr>)))
           (set_state (\<lambda>s. s\<lparr>isUsersInitialized := True\<rparr>)))"

definition clearUsers :: "('w, unit) store_task" where
  "clearUsers = set_state (\<lambda>s. s\<lparr>users := None, staleUserIds := None\<rparr>)"

definition setUserStatus :: "'w env \<Rightarrow> string \<Rightarrow> UserStatus \<Rightarrow> ('w, unit) store_task" where
  "setUserStatus E userId status =
     get_state (\<lambda>s.
       if \<not> isProfileInitialized s \<or> isNil (profile s) then
         throw (Error ''User profile is not initialized'')
       else if \<not> isAuthenticated s \<or> \<not> selectCanManageUsers s then
         throw (Error ''Not authorized to set user status'')
       else
         await (UserProfileApi_updateUserProfile E
           \<lparr>UpdateUserProfileRequest_userId = userId, UpdateUserProfileRequest_status = Some status\<rparr>) (\<lambda>_.
         get_state (\<lambda>s.
           case users s of
             None \<Rightarrow> throw (Error ''Users are not initialized'')
           | Some us \<Rightarrow>
               set_state (\<lambda>s. s\<lparr>users := Some (replace_by UserProfile_id userId
                 (\<lambda>user. user\<lparr>UserProfile_status := status\<rparr>) us)\<rparr>))))"

definition activateUser :: "'w env \<Rightarrow> string \<Rightarrow> ('w, unit) store_task" where
  "activateUser E userId = setUserStatus E userId Active"

definition deactivateUser :: "'w env \<Rightarrow> string \<Rightarrow> ('w, unit) store_task" where
  "deactivateUser E userId = setUserStatus E userId Inactive"

section \<open>Staff (staff-permissions.ts)\<close>

definition initializeStaff :: "'w env \<Rightarrow> ('w, unit) store_task" where
  "initializeStaff E =
     get_state (\<lambda>s.
       if \<not> isAuthenticated s \<or> \<not> selectIsAdmin s then
         set_state (\<lambda>s. s\<lparr>isStaffInitialized := True\<rparr>)
       else
         try_finally
           (await (StaffPermissionsApi_listStaff E) (\<lambda>x. set_state (\<lambda>s. s\<lparr>staff := Some x\<rparr>)))
           (set_state (\<lambda>s. s\<lparr>isStaffInitialized := True\<rparr>)))"

definition clearStaff :: "('w, unit) store_task" where
  "clearStaff = set_state (\<lambda>s. s\<lparr>staff := None\<rparr>)"

definition grantStaffPermissions :: "'w env \<Rightarrow> string \<Rightarrow> StaffPermissions \<Rightarrow> ('w, unit) store_task" where
  "grantStaffPermissions E userId permissions =
     get_state (\<lambda>s.
       if \<not> isAuthenticated s \<or> \<not> selectIsAdmin s then
         throw (Error ''Not authorized to grant staff permissions'')
       else
         await (StaffPermissionsApi_grantStaffPermissions E
           \<lparr>GrantStaffPermissionsRequest_userId = userId,
            GrantStaffPermissionsRequest_permissions = permissions\<rparr>) (\<lambda>_.
         await (StaffPermissionsApi_listStaff E) (\<lambda>refreshed.
           set_state (\<lambda>s. s\<lparr>staff := Some refreshed\<rparr>))))"

definition revokeStaffPermissions :: "'w env \<Rightarrow> string \<Rightarrow> ('w, unit) store_task" where
  "revokeStaffPermissions E userId =
     get_state (\<lambda>s.
       if \<not> isAuthenticated s \<or> \<not> selectIsAdmin s then
         throw (Error ''Not authorized to revoke staff permissions'')
       else
         await (StaffPermissionsApi_revokeStaffPermissions E
           \<lparr>RevokeStaffPermissionsRequest_userId = userId\<rparr>) (\<lambda>_.
         get_state (\<lambda>s.
           case staff s of
             None \<Rightarrow> ret ()
           | Some members \<Rightarrow>
               set_state (\<lambda>s. s\<lparr>staff := Some (remove_by StaffMember_userId userId members)\<rparr>))))"

section \<open>Trusted partners (trusted-partner.ts)\<close>

definition initializeTrustedPartners :: "'w env \<Rightarrow> ('w, unit) store_task" where
  "initializeTrustedPartners E =
     get_state (\<lambda>s.
       if \<not> isAuthenticated s \<or> \<not> selectIsAdmin s then
         set_state (\<lambda>s. s\<lparr>isTrustedPartnersInitialized := True\<rparr>)
       else
         try_finally
           (await (TrustedPartnerApi_listTrustedPartners E) (\<lambda>x.
             set_state (\<lambda>s. s\<lparr>trustedPartners := Some x\<rparr>)))
           (set_state (\<lambda>s. s\<lparr>isTrustedPartnersInitialized := True\<rparr>)))"

definition clearTrustedPartners :: "('w, unit) store_task" where
  "clearTrustedPartners = set_state (\<lambda>s. s\<lparr>trustedPartners := None\<rparr>)"

definition createTrustedPartner :: "'w env \<Rightarrow> CreateTrustedPartnerRequest \<Rightarrow> ('w, unit) store_task" where
  "createTrustedPartner E req =
     get_state (\<lambda>s.
       if \<not> isTrustedPartnersInitialized s then
         throw (Error ''Trusted partners must be initialized before creating new trusted partners'')
       else if \<not> isAuthenticated s then
         throw (Error ''User must be authenticated to create trusted partners'')
       else if \<not> selectIsAdmin s then
         throw (Error ''User must be an admin to create trusted partners'')
       else
         await (TrustedPartnerApi_createTrustedPartner E req) (\<lambda>newTrustedPartner.
           set_state (\<lambda>s.
             case trustedPartners s of
               None \<Rightarrow> s\<lparr>trustedPartners := Some [newTrustedPartner]\<rparr>
             | Some ps \<Rightarrow> s\<lparr>trustedPartners := Some (ps @ [newTrustedPartner])\<rparr>)))"

section \<open>Terms and conditions (terms-and-conditions.ts)\<close>

definition initializeTermsAndConditions :: "'w env \<Rightarrow> ('w, unit) store_task" where
  "initializeTermsAndConditions E =
     get_state (\<lambda>s.
       if \<not> isAuthenticated s then
         set_state (\<lambda>s. s\<lparr>isTermsAndConditionsInitialized := True\<rparr>)
       else
         try_finally
           (await (TermsAndConditionsApi_getLatestTermsAndConditions E) (\<lambda>x.
            await (set_state (\<lambda>s. s\<lparr>termsAndConditions := x\<rparr>)) (\<lambda>_.
              if selectIsAdmin s then
                await (TermsAndConditionsApi_listTermsAndConditions E) (\<lambda>h.
                  set_state (\<lambda>s. s\<lparr>termsAndConditionsHistory := Some h\<rparr>))
              else ret ())))
           (set_state (\<lambda>s. s\<lparr>isTermsAndConditionsInitialized := True\<rparr>)))"

definition clearTermsAndConditions :: "('w, unit) store_task" where
  "clearTermsAndConditions =
     set_state (\<lambda>s. s\<lparr>termsAndConditions := None, termsAndConditionsHistory := None\<rparr>)"

definition refreshTermsAndConditionsHistory :: "'w env \<Rightarrow> ('w, unit) store_task" where
  "refreshTermsAndConditionsHistory E =
     get_state (\<lambda>s.
       if \<not> isAuthenticated s \<or> \<not> selectIsAdmin s then ret ()
       else
         await (TermsAndConditionsApi_listTermsAndConditions E) (\<lambda>h.
           set_state (\<lambda>s. s\<lparr>termsAndConditionsHistory := Some h\<rparr>)))"

definition upsertTermsAndConditionsDecision ::
    "'w env \<Rightarrow> UpsertTermsAndConditionsDecisionRequest \<Rightarrow> ('w, unit) store_task" where
  "upsertTermsAndConditionsDecision E req =
     get_state (\<lambda>s.
       if \<not> isTermsAndConditionsInitialized s then
         throw (Error ''Terms and conditions must be initialized before upserting terms and conditions responses'')
       else if \<not> isAuthenticated s then
         throw (Error ''User must be authenticated to upsert terms and conditions responses'')
       else if selectIsAdmin s then
         throw (Error ''Admins cannot upsert terms and conditions responses'')
       else
         await (TermsAndConditionsApi_upsertTermsAndConditionsDecision E req) (\<lambda>_.
           initializeTermsAndConditions E))"

definition createTermsAndConditions :: "'w env \<Rightarrow> CreateTermsAndConditionsRequest \<Rightarrow> ('w, unit) store_task" where
  "createTermsAndConditions E req =
     get_state (\<lambda>s.
       if \<not> isTermsAndConditionsInitialized s then
         throw (Error ''Terms and conditions must be initialized before creating new terms and conditions'')
       else if \<not> isAuthenticated s then
         throw (Error ''User must be authenticated before creating new terms and conditions'')
       else if \<not> selectIsAdmin s then
         throw (Error ''User must be an admin to create new terms and conditions'')
       else
         await (TermsAndConditionsApi_createTermsAndConditions E req) (\<lambda>_.
         await (promise_all2 (TermsAndConditionsApi_getLatestTermsAndConditions E)
                  (TermsAndConditionsApi_listTermsAndConditions E)) (\<lambda>(x, h).
           set_state (\<lambda>s. s\<lparr>termsAndConditions := x, termsAndConditionsHistory := Some h\<rparr>))))"

end
