(* ===== verification/OrgStore.thy ===== *)
theory OrgStore
  imports UserStore
begin

text \<open>
  The slices about organizations and what belongs to them: \<open>lib/store/project.ts\<close>,
  \<open>organization.ts\<close>, \<open>team.ts\<close>, \<open>invite.ts\<close> and \<open>principal-link.ts\<close>.
\<close>

section \<open>Projects (project.ts)\<close>

definition initializeProjects :: "'w env \<Rightarrow> ('w, unit) store_task" where
  "initializeProjects E =
     get_state (\<lambda>s.
       if \<not> isAuthenticated s then set_state (\<lambda>s. s\<lparr>isProjectsInitialized := True\<rparr>)
       else
         try_finally
           (await (ProjectApi_listMyProjects E) (\<lambda>res.
             set_state (\<lambda>s. s\<lparr>projects := ListMyProjectsResponse_projects res\<rparr>)))
           (set_state (\<lambda>s. s\<lparr>isProjectsInitialized := True\<rparr>)))"

definition clearProjects :: "('w, unit) store_task" where
  "clearProjects = set_state (\<lambda>s. s\<lparr>projects := []\<rparr>)"

definition loadOrgProjects :: "'w env \<Rightarrow> string \<Rightarrow> ('w, Project list) store_task" where
  "loadOrgProjects E orgId =
     await (ProjectApi_listOrgProjects E \<lparr>ListOrgProjectsRequest_orgId = orgId\<rparr>) (\<lambda>res.
       ret (ListOrgProjectsResponse_projects res))"

definition createProject :: "'w env \<Rightarrow> string \<Rightarrow> string \<Rightarrow> ('w, Project) store_task" where
  "createProject E orgId name =
     await (ProjectApi_createProject E
       \<lparr>CreateProjectRequest_orgId = orgId, CreateProjectRequest_name = name\<rparr>) (\<lambda>res.
     await (set_state (\<lambda>s. s\<lparr>projects := projects s @ [ProjectResponse_project res]\<rparr>)) (\<lambda>_.
       ret (ProjectResponse_project res)))"

definition updateProject :: "'w env \<Rightarrow> string \<Rightarrow> string \<Rightarrow> ('w, Project) store_task" where
  "updateProject E projectId name =
     await (ProjectApi_updateProject E
       \<lparr>UpdateProjectRequest_projectId = projectId, UpdateProjectRequest_name = name\<rparr>) (\<lambda>res.
     await (set_state (\<lambda>s. s\<lparr>projects :=
         replace_by Project_id projectId (\<lambda>_. ProjectResponse_project res) (projects s)\<rparr>)) (\<lambda>_.
       ret (ProjectResponse_project res)))"

definition deleteProject :: "'w env \<Rightarrow> string \<Rightarrow> ('w, unit) store_task" where
  "deleteProject E projectId =
     await (ProjectApi_deleteProject E \<lparr>DeleteProjectRequest_projectId = projectId\<rparr>) (\<lambda>_.
       set_state (\<lambda>s. s\<lparr>projects := remove_by Project_id projectId (projects s)\<rparr>))"

definition loadProjectTeams :: "'w env \<Rightarrow> string \<Rightarrow> ('w, ProjectTeam list) store_task" where
  "loadProjectTeams E projectId =
     await (ProjectApi_listProjectTeams E \<lparr>ListProjectTeamsRequest_projectId = projectId\<rparr>) (\<lambda>res.
       ret (ListProjectTeamsResponse_teams res))"

definition addTeamToProject :: "'w env \<Rightarrow> string \<Rightarrow> string \<Rightarrow> ('w, unit) store_task" where
  "addTeamToProject E projectId teamId =
     ProjectApi_addTeamToProject E
       \<lparr>AddTeamToProjectRequest_projectId = projectId, AddTeamToProjectRequest_teamId = teamId\<rparr>"

definition removeTeamFromProject :: "'w env \<Rightarrow> string \<Rightarrow> string \<Rightarrow> ('w, unit) store_task" where
  "removeTeamFromProject E projectId teamId =
     ProjectApi_removeTeamFromProject E
       \<lparr>RemoveTeamFromProjectRequest_projectId = projectId, RemoveTeamFromProjectRequest_teamId = teamId\<rparr>"

definition updateTeamProjectPermissions ::
    "'w env \<Rightarrow> string \<Rightarrow> string \<Rightarrow> ProjectPermissions \<Rightarrow> ('w, ProjectTeam) store_task" where
  "updateTeamProjectPermissions E projectId teamId permissions =
     await (ProjectApi_updateTeamProjectPermissions E
       \<lparr>UpdateTeamProjectPermissionsRequest_projectId = projectId,
        UpdateTeamProjectPermissionsRequest_teamId = teamId,
        UpdateTeamProjectPermissionsRequest_permissions = permissions\<rparr>) (\<lambda>res.
       ret (ProjectTeamResponse_team res))"

section \<open>Organizations (organization.ts)\<close>

definition initializeOrganizations :: "'w env \<Rightarrow> ('w, unit) store_task" where
  "initializeOrganizations E =
     get_state (\<lambda>s.
       if \<not> isAuthenticated s then set_state (\<lambda>s. s\<lparr>isOrganizationsInitialized := True\<rparr>)
       else
         try_finally
           (await (OrganizationApi_listMyOrganizations E) (\<lambda>res.
             set_state (\<lambda>s. s\<lparr>organizations := ListMyOrganizationsResponse_organizations res\<rparr>)))
           (set_state (\<lambda>s. s\<lparr>isOrganizationsInitialized := True\<rparr>)))"

definition clearOrganizations :: "('w, unit) store_task" where
  "clearOrganizations = set_state (\<lambda>s. s\<lparr>organizations := []\<rparr>)"

definition createOrganization :: "'w env \<Rightarrow> string \<Rightarrow> ('w, Organization) store_task" where
  "createOrganization E name =
     await (OrganizationApi_createOrganization E \<lparr>CreateOrganizationRequest_name = name\<rparr>) (\<lambda>res.
     await (set_state (\<lambda>s. s\<lparr>organizations := organizations s @ [OrganizationResponse_organization res]\<rparr>)) (\<lambda>_.
     await (initializeProjects E) (\<lambda>_.
       ret (OrganizationResponse_organization res))))"

definition updateOrganization :: "'w env \<Rightarrow> string \<Rightarrow> string \<Rightarrow> ('w, Organization) store_task" where
  "updateOrganization E orgId name =
     await (OrganizationApi_updateOrganization E
       \<lparr>UpdateOrganizationRequest_orgId = orgId, UpdateOrganizationRequest_name = name\<rparr>) (\<lambda>res.
     await (set_state (\<lambda>s. s\<lparr>organizations :=
         replace_by Organization_id orgId (\<lambda>_. OrganizationResponse_organization res) (organizations s)\<rparr>)) (\<lambda>_.
       ret (OrganizationResponse_organization res)))"

definition deleteOrganization :: "'w env \<Rightarrow> string \<Rightarrow> ('w, unit) store_task" where
  "deleteOrganization E orgId =
     await (OrganizationApi_deleteOrganization E \<lparr>DeleteOrganizationRequest_orgId = orgId\<rparr>) (\<lambda>_.
       set_state (\<lambda>s. s\<lparr>organizations := remove_by Organization_id orgId (organizations s)\<rparr>))"

definition loadOrgUsers :: "'w env \<Rightarrow> string \<Rightarrow> ('w, OrgUser list) store_task" where
  "loadOrgUsers E orgId = OrganizationApi_listOrgUsers E \<lparr>ListOrgUsersRequest_orgId = orgId\<rparr>"

definition loadOrgBillingPlan :: "'w env \<Rightarrow> string \<Rightarrow> ('w, OrgBillingPlan) store_task" where
  "loadOrgBillingPlan E orgId =
     OrganizationApi_getOrgBillingPlan E \<lparr>GetOrgBillingPlanRequest_orgId = orgId\<rparr>"

definition loadMyOrgBillingPlans :: "'w env \<Rightarrow> ('w, MyOrgBillingPlan list) store_task" where
  "loadMyOrgBillingPlans E = OrganizationApi_listMyOrgBillingPlans E"

section \<open>Teams (team.ts)\<close>

definition initializeTeams :: "'w env \<Rightarrow> ('w, unit) store_task" where
  "initializeTeams E =
     get_state (\<lambda>s.
       if \<not> isAuthenticated s then set_state (\<lambda>s. s\<lparr>isTeamsInitialized := True\<rparr>)
       else
         try_finally
           (await (TeamApi_listMyTeams E) (\<lambda>res.
             set_state (\<lambda>s. s\<lparr>teams := ListTeamsResponse_teams res\<rparr>)))
           (set_state (\<lambda>s. s\<lparr>isTeamsInitialized := True\<rparr>)))"

definition clearTeams :: "('w, unit) store_task" where
  "clearTeams = set_state (\<lambda>s. s\<lparr>teams := []\<rparr>)"

definition loadOrgTeams :: "'w env \<Rightarrow> string \<Rightarrow> ('w, OrgTeam list) store_task" where
  "loadOrgTeams E orgId =
     await (TeamApi_listOrgTeams E \<lparr>ListOrgTeamsRequest_orgId = orgId\<rparr>) (\<lambda>res.
       ret (ListOrgTeamsResponse_teams res))"

definition createTeam :: "'w env \<Rightarrow> string \<Rightarrow> string \<Rightarrow> ('w, Team) store_task" where
  "createTeam E orgId name =
     await (TeamApi_createTeam E \<lparr>CreateTeamRequest_orgId = orgId, CreateTeamRequest_name = name\<rparr>) (\<lambda>res.
     await (set_state (\<lambda>s. s\<lparr>teams := teams s @ [TeamResponse_team res]\<rparr>)) (\<lambda>_.
       ret (TeamResponse_team res)))"

definition updateTeam :: "'w env \<Rightarrow> string \<Rightarrow> string \<Rightarrow> ('w, Team) store_task" where
  "updateTeam E teamId name =
     await (TeamApi_updateTeam E \<lparr>UpdateTeamRequest_teamId = teamId, UpdateTeamRequest_name = name\<rparr>) (\<lambda>res.
     await (set_state (\<lambda>s. s\<lparr>teams :=
         replace_by Team_id teamId (\<lambda>_. TeamResponse_team res) (teams s)\<rparr>)) (\<lambda>_.
       ret (TeamResponse_team res)))"

definition deleteTeam :: "'w env \<Rightarrow> string \<Rightarrow> ('w, unit) store_task" where
  "deleteTeam E teamId =
     await (TeamApi_deleteTeam E \<lparr>DeleteTeamRequest_teamId = teamId\<rparr>) (\<lambda>_.
       set_state (\<lambda>s. s\<lparr>teams := remove_by Team_id teamId (teams s)\<rparr>))"

definition addUserToTeam :: "'w env \<Rightarrow> string \<Rightarrow> string \<Rightarrow> ('w, unit) store_task" where
  "addUserToTeam E teamId userId =
     TeamApi_addUserToTeam E \<lparr>AddUserToTeamRequest_teamId = teamId, AddUserToTeamRequest_userId = userId\<rparr>"

definition removeUserFromTeam :: "'w env \<Rightarrow> string \<Rightarrow> string \<Rightarrow> ('w, unit) store_task" where
  "removeUserFromTeam E teamId userId =
     TeamApi_removeUserFromTeam E
       \<lparr>RemoveUserFromTeamRequest_teamId = teamId, RemoveUserFromTeamRequest_userId = userId\<rparr>"

definition loadTeamUsers :: "'w env \<Rightarrow> string \<Rightarrow> ('w, TeamUser list) store_task" where
  "loadTeamUsers E teamId = TeamApi_listTeamUsers E \<lparr>ListTeamUsersRequest_teamId = teamId\<rparr>"

definition updateTeamOrgPermissions :: "'w env \<Rightarrow> string \<Rightarrow> OrgPermissions \<Rightarrow> ('w, OrgTeam) store_task" where
  "updateTeamOrgPermissions E teamId permissions =
     await (TeamApi_updateTeamOrgPermissions E
       \<lparr>UpdateTeamOrgPermissionsRequest_teamId = teamId,
        UpdateTeamOrgPermissionsRequest_permissions = permissions\<rparr>) (\<lambda>res.
       ret (OrgTeamResponse_team res))"

section \<open>Invitations (invite.ts)\<close>

definition initializeMyInvites :: "'w env \<Rightarrow> ('w, unit) store_task" where
  "initializeMyInvites E =
     get_state (\<lambda>s.
       if \<not> isAuthenticated s then set_state (\<lambda>s. s\<lparr>isMyInvitesInitialized := True\<rparr>)
       else
         try_finally
           (await (InviteApi_listMyInvites E) (\<lambda>invites. set_state (\<lambda>s. s\<lparr>myInvites := invites\<rparr>)))
           (set_state (\<lambda>s. s\<lparr>isMyInvitesInitialized := True\<rparr>)))"

definition clearMyInvites :: "('w, unit) store_task" where
  "clearMyInvites = set_state (\<lambda>s. s\<lparr>myInvites := [], isMyInvitesInitialized := False\<rparr>)"

definition refreshMyInvites :: "'w env \<Rightarrow> ('w, unit) store_task" where
  "refreshMyInvites E =
     await (InviteApi_listMyInvites E) (\<lambda>invites. set_state (\<lambda>s. s\<lparr>myInvites := invites\<rparr>))"

definition createOrgInvite :: "'w env \<Rightarrow> CreateOrgInviteRequest \<Rightarrow> ('w, OrgInvite) store_task" where
  "createOrgInvite E req = InviteApi_createOrgInvite E req"

definition listOrgInvites :: "'w env \<Rightarrow> string \<Rightarrow> ('w, OrgInvite list) store_task" where
  "listOrgInvites E orgId = InviteApi_listOrgInvites E \<lparr>ListOrgInvitesRequest_orgId = orgId\<rparr>"

definition revokeOrgInvite :: "'w env \<Rightarrow> string \<Rightarrow> ('w, unit) store_task" where
  "revokeOrgInvite E inviteId = InviteApi_revokeOrgInvite E \<lparr>RevokeOrgInviteRequest_inviteId = inviteId\<rparr>"

definition acceptOrgInvite :: "'w env \<Rightarrow> string \<Rightarrow> ('w, unit) store_task" where
  "acceptOrgInvite E inviteId =
     await (InviteApi_acceptOrgInvite E \<lparr>AcceptOrgInviteRequest_inviteId = inviteId\<rparr>) (\<lambda>_.
     await (set_state (\<lambda>s. s\<lparr>myInvites := remove_by OrgInvite_id inviteId (myInvites s)\<rparr>)) (\<lambda>_.
       initializeOrganizations E))"

definition declineOrgInvite :: "'w env \<Rightarrow> string \<Rightarrow> ('w, unit) store_task" where
  "declineOrgInvite E inviteId =
     await (InviteApi_declineOrgInvite E \<lparr>DeclineOrgInviteRequest_inviteId = inviteId\<rparr>) (\<lambda>_.
       set_state (\<lambda>s. s\<lparr>myInvites := remove_by OrgInvite_id inviteId (myInvites s)\<rparr>))"

section \<open>Linked principals (principal-link.ts)\<close>

definition loadLinkedPrincipals :: "'w env \<Rightarrow> ('w, unit) store_task" where
  "loadLinkedPrincipals E =
     get_state (\<lambda>s.
       if \<not> isAuthenticated s then ret ()
       else
         await (PrincipalLinkApi_listMyLinkedPrincipals E) (\<lambda>ps.
           set_state (\<lambda>s. s\<lparr>linkedPrincipals := Some ps\<rparr>)))"

definition loadPendingLinkCode :: "'w env \<Rightarrow> ('w, unit) store_task" where
  "loadPendingLinkCode E =
     get_state (\<lambda>s.
       if \<not> isAuthenticated s then ret ()
       else
         await (PrincipalLinkApi_getMyPendingLinkCode E) (\<lambda>pending.
           set_state (\<lambda>s. s\<lparr>pendingLinkCode := pending\<rparr>)))"

definition clearLinkedPrincipals :: "('w, unit) store_task" where
  "clearLinkedPrincipals = set_state (\<lambda>s. s\<lparr>linkedPrincipals := None, pendingLinkCode := None\<rparr>)"

text \<open>The random bytes are requested from the browser; the code is made of them before the call.\<close>

definition createLinkCode :: "'w env \<Rightarrow> string \<Rightarrow> ('w, string \<times> int) store_task" where
  "createLinkCode E targetPrincipal =
     await (remote (\<lambda>w. case getRandomValues E LINK_CODE_LEN w of (w', bytes) \<Rightarrow> (w', Inr bytes))) (\<lambda>bytes.
     let code = generateLinkCode bytes in
     await (PrincipalLinkApi_registerLinkCode E code targetPrincipal) (\<lambda>expiresAtNanos.
     await (set_state (\<lambda>s. s\<lparr>pendingLinkCode := Some
         \<lparr>PendingLinkCode_code = code, PendingLinkCode_expiresAtNanos = expiresAtNanos,
          PendingLinkCode_targetPrincipal = targetPrincipal\<rparr>\<rparr>)) (\<lambda>_.
       ret (code, expiresAtNanos))))"

definition linkMyPrincipal :: "'w env \<Rightarrow> string \<Rightarrow> ('w, unit) store_task" where
  "linkMyPrincipal E code = PrincipalLinkApi_linkMyPrincipal E code"

definition unlinkMyPrincipal :: "'w env \<Rightarrow> string \<Rightarrow> ('w, unit) store_task" where
  "unlinkMyPrincipal E p =
     await (PrincipalLinkApi_unlinkMyPrincipal E p) (\<lambda>_.
       set_state (\<lambda>s. s\<lparr>linkedPrincipals :=
         map_option (remove_by LinkedPrincipal_principal p) (linkedPrincipals s)\<rparr>))"

definition revokeMyLinkCode :: "'w env \<Rightarrow> ('w, unit) store_task" where
  "revokeMyLinkCode E =
     await (PrincipalLinkApi_revokeMyLinkCode E) (\<lambda>_. set_state (\<lambda>s. s\<lparr>pendingLinkCode := None\<rparr>))"

definition setMyPrincipalName :: "'w env \<Rightarrow> string \<Rightarrow> string option \<Rightarrow> ('w, unit) store_task" where
  "setMyPrincipalName E p name =
     await (PrincipalLinkApi_setMyPrincipalName E p name) (\<lambda>_.
       set_state (\<lambda>s. s\<lparr>linkedPrincipals :=
         map_option (replace_by LinkedPrincipal_principal p (\<lambda>x. x\<lparr>LinkedPrincipal_name := name\<rparr>))
           (linkedPrincipals s)\<rparr>))"

definition sendRecoveryEmail :: "'w env \<Rightarrow> string \<Rightarrow> ('w, unit) store_task" where
  "sendRecoveryEmail E email = AuthApi_sendAccountRecovery E email"

definition recoverAccountByEmail :: "'w env \<Rightarrow> string \<Rightarrow> ('w, unit) store_task" where
  "recoverAccountByEmail E token = PrincipalLinkApi_recoverAccountByEmail E token"

section \<open>Selectors\<close>

text \<open>\<open>xs.reduce((accum, x) => accum.set(key(x), x), new Map())\<close>\<close>

definition index_by :: "('a \<Rightarrow> 'k) \<Rightarrow> 'a list \<Rightarrow> ('k, 'a) js_map" where
  "index_by key xs = foldl (\<lambda>accum x. js_map_set (key x) x accum) [] xs"

definition selectOrgMap :: "AppSlice \<Rightarrow> (string, Organization) js_map" where
  "selectOrgMap state = index_by Organization_id (organizations state)"

definition selectProjectMap :: "AppSlice \<Rightarrow> (string, Project) js_map" where
  "selectProjectMap state = index_by Project_id (projects state)"

definition selectTeamMap :: "AppSlice \<Rightarrow> (string, Team) js_map" where
  "selectTeamMap state = index_by Team_id (teams state)"

record OrgWithProjects =
  OrgWithProjects_id :: string
  OrgWithProjects_name :: string
  OrgWithProjects_projects :: "Project list"

definition add_project ::
    "(string, Organization) js_map \<Rightarrow> (string, OrgWithProjects) js_map \<Rightarrow> Project \<Rightarrow>
     (string, OrgWithProjects) js_map" where
  "add_project orgMap accum project =
     (let orgId = Project_orgId project;
          orgWithProjects = (case js_map_get orgId accum of
              Some o' \<Rightarrow> o'
            | None \<Rightarrow>
                \<lparr>OrgWithProjects_id = orgId,
                 OrgWithProjects_name = (case js_map_get orgId orgMap of
                     Some org \<Rightarrow> Organization_name org | None \<Rightarrow> ''''),
                 OrgWithProjects_projects = []\<rparr>)
      in js_map_set orgId
           (orgWithProjects\<lparr>OrgWithProjects_projects := OrgWithProjects_projects orgWithProjects @ [project]\<rparr>)
           accum)"

definition selectOrgWithProjectsMap :: "AppSlice \<Rightarrow> (string, OrgWithProjects) js_map" where
  "selectOrgWithProjectsMap state =
     (let orgMap = selectOrgMap state in
      if length orgMap \<le> 0 then [] else foldl (add_project orgMap) [] (projects state))"

definition selectOrgsWithProjects :: "AppSlice \<Rightarrow> OrgWithProjects list" where
  "selectOrgsWithProjects state = js_map_values (selectOrgWithProjectsMap state)"

end
