(* ===== verification/CanisterStore.thy ===== *)
theory CanisterStore
  imports OrgStore
begin

text \<open>
  The slices about canisters and their governance: \<open>lib/store/canister.ts\<close>, \<open>usage.ts\<close>,
  \<open>proposal.ts\<close> and \<open>approval-policy.ts\<close>.
\<close>

section \<open>Canisters of a project (canister.ts)\<close>

definition refreshCanisters :: "'w env \<Rightarrow> string \<Rightarrow> ('w, unit) store_task" where
  "refreshCanisters E projectId =
     await (set_state (\<lambda>s. s\<lparr>isCanistersLoading := True\<rparr>)) (\<lambda>_.
       try_finally
         (await (CanisterApi_listMyCanisters E \<lparr>ApiListMyCanistersRequest_project_id = projectId\<rparr>) (\<lambda>cs.
           set_state (\<lambda>s. s\<lparr>canisters :=
             Some (js_map_set projectId cs (case canisters s of Some m \<Rightarrow> m | None \<Rightarrow> []))\<rparr>)))
         (set_state (\<lambda>s. s\<lparr>isCanistersLoading := False\<rparr>)))"

definition initializeCanisters :: "'w env \<Rightarrow> string \<Rightarrow> ('w, unit) store_task" where
  "initializeCanisters E projectId =
     get_state (\<lambda>s.
       if \<not> isAuthenticated s then set_state (\<lambda>s. s\<lparr>isCanistersInitialized := True\<rparr>)
       else if (case canisters s of Some m \<Rightarrow> js_map_has projectId m | None \<Rightarrow> False) then
         set_state (\<lambda>s. s\<lparr>isCanistersInitialized := True\<rparr>)
       else
         try_finally (refreshCanisters E projectId)
           (set_state (\<lambda>s. s\<lparr>isCanistersInitialized := True\<rparr>)))"

definition clearCanisters :: "('w, unit) store_task" where
  "clearCanisters = set_state (\<lambda>s. s\<lparr>canisters := None\<rparr>)"

definition createCanister :: "'w env \<Rightarrow> string \<Rightarrow> ('w, ProposalOutcome) store_task" where
  "createCanister E projectId =
     await (CanisterApi_createCanister E projectId) (\<lambda>outcome.
     await (refreshCanisters E projectId) (\<lambda>_.
       ret outcome))"

text \<open>Settings that change only the controllers: every other field is absent.\<close>

definition controllers_only :: "string list \<Rightarrow> UpdateSettings" where
  "controllers_only cs =
     \<lparr>UpdateSettings_controllers = Some cs, UpdateSettings_controller = None,
      UpdateSettings_computeAllocation = None, UpdateSettings_memoryAllocation = None,
      UpdateSettings_freezingThreshold = None, UpdateSettings_reservedCyclesLimit = None,
      UpdateSettings_logVisibility = None, UpdateSettings_logMemoryLimit = None,
      UpdateSettings_wasmMemoryLimit = None, UpdateSettings_wasmMemoryThreshold = None,
      UpdateSettings_environmentVariables = None\<rparr>"

definition addMissingController :: "'w env \<Rightarrow> string \<Rightarrow> string \<Rightarrow> ('w, unit) store_task" where
  "addMissingController E canisterId projectId =
     await (ManagementCanisterApi_getCanisterStatus E \<lparr>CanisterStatusRequest_canisterId = canisterId\<rparr>)
       (\<lambda>canisterSettings.
     await (ManagementCanisterApi_updateSettings E
       \<lparr>UpdateSettingsRequest_canisterId = canisterId,
        UpdateSettingsRequest_settings = controllers_only
          (CanisterStatusSettings_controllers (CanisterStatusResponse_settings canisterSettings) @
           [BACKEND_CANISTER_ID E]),
        UpdateSettingsRequest_senderCanisterVersion = None\<rparr>) (\<lambda>_.
       refreshCanisters E projectId))"

definition addController :: "'w env \<Rightarrow> string \<Rightarrow> string \<Rightarrow> string \<Rightarrow> ('w, ProposalOutcome) store_task" where
  "addController E canisterId controllerId projectId =
     await (CanisterApi_addCanisterController E canisterId controllerId) (\<lambda>outcome.
     await (refreshCanisters E projectId) (\<lambda>_.
       ret outcome))"

definition removeCanister :: "'w env \<Rightarrow> string \<Rightarrow> string \<Rightarrow> ('w, unit) store_task" where
  "removeCanister E canisterRecordId projectId =
     await (CanisterApi_removeCanister E canisterRecordId) (\<lambda>_. refreshCanisters E projectId)"

definition updateCanisterName :: "'w env \<Rightarrow> string \<Rightarrow> string \<Rightarrow> string option \<Rightarrow> ('w, unit) store_task" where
  "updateCanisterName E canisterRecordId projectId name =
     await (CanisterApi_updateCanisterName E canisterRecordId name) (\<lambda>_. refreshCanisters E projectId)"

definition startCanister :: "'w env \<Rightarrow> string \<Rightarrow> string \<Rightarrow> ('w, unit) store_task" where
  "startCanister E canisterRecordId projectId =
     await (CanisterApi_startCanister E canisterRecordId) (\<lambda>_. refreshCanisters E projectId)"

definition stopCanister :: "'w env \<Rightarrow> string \<Rightarrow> string \<Rightarrow> ('w, unit) store_task" where
  "stopCanister E canisterRecordId projectId =
     await (CanisterApi_stopCanister E canisterRecordId) (\<lambda>_. refreshCanisters E projectId)"

definition selectCanisterMap :: "AppSlice \<Rightarrow> (string, Canister list) js_map option" where
  "selectCanisterMap state = canisters state"

definition selectCanisters :: "AppSlice \<Rightarrow> Canister list list option" where
  "selectCanisters state = map_option js_map_values (selectCanisterMap state)"

section \<open>Usage (usage.ts)\<close>

definition loadProjectUsage :: "'w env \<Rightarrow> string \<Rightarrow> string option \<Rightarrow> ('w, GetUsageResponse) store_task" where
  "loadProjectUsage E projectId billingMonth =
     UsageApi_getUsage E
       \<lparr>GetUsageRequest_projectId = projectId, GetUsageRequest_billingMonth = billingMonth\<rparr>"

definition zero_usage :: ProjectUsage where
  "zero_usage =
     \<lparr>ProjectUsage_memory = 0, ProjectUsage_memoryBytes = 0, ProjectUsage_computeAllocation = 0,
      ProjectUsage_computeAllocationPercent = 0, ProjectUsage_ingressInduction = 0,
      ProjectUsage_ingressInductionBytesTotal = 0, ProjectUsage_instructions = 0,
      ProjectUsage_computeTimeSecondsTotal = 0, ProjectUsage_requestAndResponseTransmission = 0,
      ProjectUsage_transmissionBytesTotal = 0, ProjectUsage_uninstall = 0,
      ProjectUsage_uninstallsTotal = 0, ProjectUsage_httpOutcalls = 0, ProjectUsage_burnedCycles = 0\<rparr>"

definition add_usage :: "ProjectUsage \<Rightarrow> ProjectUsage \<Rightarrow> ProjectUsage" where
  "add_usage a b =
     \<lparr>ProjectUsage_memory = ProjectUsage_memory a + ProjectUsage_memory b,
      ProjectUsage_memoryBytes = ProjectUsage_memoryBytes a + ProjectUsage_memoryBytes b,
      ProjectUsage_computeAllocation = ProjectUsage_computeAllocation a + ProjectUsage_computeAllocation b,
      ProjectUsage_computeAllocationPercent =
        ProjectUsage_computeAllocationPercent a + ProjectUsage_computeAllocationPercent b,
      ProjectUsage_ingressInduction = ProjectUsage_ingressInduction a + ProjectUsage_ingressInduction b,
      ProjectUsage_ingressInductionBytesTotal =
        ProjectUsage_ingressInductionBytesTotal a + ProjectUsage_ingressInductionBytesTotal b,
      ProjectUsage_instructions = ProjectUsage_instructions a + ProjectUsage_instructions b,
      ProjectUsage_computeTimeSecondsTotal =
        ProjectUsage_computeTimeSecondsTotal a + ProjectUsage_computeTimeSecondsTotal b,
      ProjectUsage_requestAndResponseTransmission =
        ProjectUsage_requestAndResponseTransmission a + ProjectUsage_requestAndResponseTransmission b,
      ProjectUsage_transmissionBytesTotal =
        ProjectUsage_transmissionBytesTotal a + ProjectUsage_transmissionBytesTotal b,
      ProjectUsage_uninstall = ProjectUsage_uninstall a + ProjectUsage_uninstall b,
      ProjectUsage_uninstallsTotal = ProjectUsage_uninstallsTotal a + ProjectUsage_uninstallsTotal b,
      ProjectUsage_httpOutcalls = ProjectUsage_httpOutcalls a + ProjectUsage_httpOutcalls b,
      ProjectUsage_burnedCycles = ProjectUsage_burnedCycles a + ProjectUsage_burnedCycles b\<rparr>"

lemma add_usage_ac [keyed_simps]:
  "add_usage (add_usage a b) c = add_usage (add_usage a c) b"
  by (simp add: add_usage_def)

text \<open>
  The callback of \<open>projects.map\<close>: it reports a failure and goes on. Its contribution to the
  shared object is made in the segment that ends it, so it is folded in by \<open>collect_usage\<close>.
\<close>

definition project_usage_task ::
    "'w env \<Rightarrow> string option \<Rightarrow> Project \<Rightarrow> ('w, ProjectUsage option) store_task" where
  "project_usage_task E billingMonth project =
     try_catch
       (await (loadProjectUsage E (Project_id project) billingMonth) (\<lambda>usage.
         ret (Some (GetUsageResponse_project usage))))
       (\<lambda>err. await (showErrorToast (''Failed to load usage for project '' @ Project_id project) err) (\<lambda>_.
         ret None))"

definition collect_usage :: "js_error + ProjectUsage option \<Rightarrow> ProjectUsage \<Rightarrow> ProjectUsage" where
  "collect_usage r aggregatedUsage =
     (case r of Inr (Some usage) \<Rightarrow> add_usage aggregatedUsage usage | _ \<Rightarrow> aggregatedUsage)"

text \<open>\<open>es\<close> is the schedule under which the requests of the projects are served.\<close>

definition loadOrgUsage ::
    "'w env \<Rightarrow> event list \<Rightarrow> string \<Rightarrow> string option \<Rightarrow> ('w, ProjectUsage) store_task" where
  "loadOrgUsage E es orgId billingMonth =
     await (loadOrgProjects E orgId) (\<lambda>projects.
       concurrently collect_usage es (map (project_usage_task E billingMonth) projects) zero_usage)"

section \<open>Proposals and approval policies (proposal.ts, approval-policy.ts)\<close>

definition listProjectProposals ::
    "'w env \<Rightarrow> ListProjectProposalsRequest \<Rightarrow> ('w, ListProjectProposalsResponse) store_task" where
  "listProjectProposals E req = ProposalApi_listProjectProposals E req"

definition getProposal :: "'w env \<Rightarrow> string \<Rightarrow> ('w, Proposal) store_task" where
  "getProposal E proposalId = ProposalApi_getProposal E \<lparr>GetProposalRequest_proposalId = proposalId\<rparr>"

definition voteProposal :: "'w env \<Rightarrow> string \<Rightarrow> Vote \<Rightarrow> ('w, Proposal) store_task" where
  "voteProposal E proposalId vote =
     ProposalApi_voteProposal E
       \<lparr>VoteProposalRequest_proposalId = proposalId, VoteProposalRequest_vote = vote\<rparr>"

definition cancelProposal :: "'w env \<Rightarrow> string \<Rightarrow> ('w, Proposal) store_task" where
  "cancelProposal E proposalId =
     ProposalApi_cancelProposal E \<lparr>CancelProposalRequest_proposalId = proposalId\<rparr>"

definition getUserProfilesByPrincipals ::
    "'w env \<Rightarrow> string \<Rightarrow> string list \<Rightarrow> ('w, UserProfileByPrincipal list) store_task" where
  "getUserProfilesByPrincipals E projectId principals =
     UserProfileApi_getUserProfilesByPrincipals E
       \<lparr>GetUserProfilesByPrincipalsRequest_projectId = projectId,
        GetUserProfilesByPrincipalsRequest_principals = principals\<rparr>"

definition getUserProfilesByUserIds ::
    "'w env \<Rightarrow> string \<Rightarrow> string list \<Rightarrow> ('w, UserProfileBrief list) store_task" where
  "getUserProfilesByUserIds E projectId userIds =
     UserProfileApi_getUserProfilesByUserIds E
       \<lparr>GetUserProfilesByUserIdsRequest_projectId = projectId,
        GetUserProfilesByUserIdsRequest_userIds = userIds\<rparr>"

definition loadProjectApprovalPolicies :: "'w env \<Rightarrow> string \<Rightarrow> ('w, ApprovalPolicy list) store_task" where
  "loadProjectApprovalPolicies E projectId =
     await (ApprovalPolicyApi_listProjectApprovalPolicies E
       \<lparr>ListProjectApprovalPoliciesRequest_projectId = projectId\<rparr>) (\<lambda>res.
       ret (ListProjectApprovalPoliciesResponse_approvalPolicies res))"

definition upsertApprovalPolicy :: "'w env \<Rightarrow> UpsertApprovalPolicyRequest \<Rightarrow> ('w, ApprovalPolicy) store_task" where
  "upsertApprovalPolicy E req = ApprovalPolicyApi_upsertApprovalPolicy E req"

end
