(* ===== verification/AdminStore.thy ===== *)
theory AdminStore
  imports CanisterStore
begin

text \<open>
  The slices of the admin panel: \<open>lib/store/admin-orgs.ts\<close>, \<open>admin-canisters.ts\<close> and the separate
  store of \<open>admin-privacy.ts\<close>.
\<close>

section \<open>All organizations (admin-orgs.ts)\<close>

definition ORGS_PAGE_SIZE :: int where
  "ORGS_PAGE_SIZE = 50"

definition initializeAdminOrgs :: "'w env \<Rightarrow> ('w, unit) store_task" where
  "initializeAdminOrgs E =
     get_state (\<lambda>s.
       if \<not> isAuthenticated s \<or> \<not> selectCanReadAllOrgs s then
         set_state (\<lambda>s. s\<lparr>isAdminOrgsInitialized := True\<rparr>)
       else
         try_finally
           (await (OrganizationApi_listOrganizations E
             \<lparr>ListOrganizationsRequest_after = None, ListOrganizationsRequest_limit = Some ORGS_PAGE_SIZE\<rparr>) (\<lambda>res.
             set_state (\<lambda>s. s\<lparr>adminOrgs := Some (ListOrganizationsResponse_organizations res),
               adminOrgsNextCursor := ListOrganizationsResponse_nextCursor res\<rparr>)))
           (set_state (\<lambda>s. s\<lparr>isAdminOrgsInitialized := True\<rparr>)))"

text \<open>The list the page is appended to is the one read before the request, \<open>s0\<close>.\<close>

definition loadMoreAdminOrgs :: "'w env \<Rightarrow> ('w, unit) store_task" where
  "loadMoreAdminOrgs E =
     get_state (\<lambda>s0.
       case adminOrgsNextCursor s0 of
         None \<Rightarrow> ret ()
       | Some cursor \<Rightarrow>
           await (OrganizationApi_listOrganizations E
             \<lparr>ListOrganizationsRequest_after = Some cursor,
              ListOrganizationsRequest_limit = Some ORGS_PAGE_SIZE\<rparr>) (\<lambda>res.
             set_state (\<lambda>s. s\<lparr>adminOrgs :=
                 Some ((case adminOrgs s0 of Some orgs \<Rightarrow> orgs | None \<Rightarrow> []) @
                       ListOrganizationsResponse_organizations res),
               adminOrgsNextCursor := ListOrganizationsResponse_nextCursor res\<rparr>)))"

definition clearAdminOrgs :: "('w, unit) store_task" where
  "clearAdminOrgs = set_state (\<lambda>s. s\<lparr>adminOrgs := None, adminOrgsNextCursor := None\<rparr>)"

definition setAdminOrgPlan :: "'w env \<Rightarrow> string \<Rightarrow> PlanTier \<Rightarrow> ('w, unit) store_task" where
  "setAdminOrgPlan E orgId tier =
     get_state (\<lambda>s.
       if \<not> isAuthenticated s \<or> \<not> selectCanWriteBilling s then
         throw (Error ''Not authorized to change billing plans'')
       else
         await (OrganizationApi_setOrgBillingPlan E
           \<lparr>SetOrgBillingPlanRequest_orgId = orgId, SetOrgBillingPlanRequest_tier = tier\<rparr>) (\<lambda>_.
         get_state (\<lambda>s.
           case adminOrgs s of
             None \<Rightarrow> ret ()
           | Some orgs \<Rightarrow>
               set_state (\<lambda>s. s\<lparr>adminOrgs := Some (replace_by AdminOrganization_id orgId
                 (\<lambda>org. org\<lparr>AdminOrganization_tier := tier\<rparr>) orgs)\<rparr>))))"

section \<open>All canisters (admin-canisters.ts)\<close>

definition CANISTERS_PAGE_SIZE :: int where
  "CANISTERS_PAGE_SIZE = 50"

text \<open>
  The loop over the pages ends when the backend says that there is no page left, which it may
  never do: \<open>fuel\<close> bounds the number of pages, and running out of it is the error \<open>out_of_fuel\<close>,
  which no code throws.
\<close>

definition out_of_fuel :: js_error where
  "out_of_fuel = LibraryError ''out of fuel''"

fun list_tracked :: "'w env \<Rightarrow> nat \<Rightarrow> int \<Rightarrow> CanisterWithOwner list \<Rightarrow> ('w, CanisterWithOwner list) store_task" where
  "list_tracked E 0 page cs = throw out_of_fuel"
| "list_tracked E (Suc fuel) page cs =
     await (CanisterApi_adminListAllCanisters E page CANISTERS_PAGE_SIZE) (\<lambda>res.
       let cs' = cs @ ListAllCanistersResponse_canisters res in
       if page \<ge> ListAllCanistersResponse_totalPages res then ret cs'
       else list_tracked E fuel (page + 1) cs')"

definition tracked_row :: "CanisterWithOwner \<Rightarrow> AdminCanisterRow" where
  "tracked_row c = CanisterWithOwner.extend c (AdminCanisterRow.fields True)"

definition untracked_row :: "KnownCanister \<Rightarrow> AdminCanisterRow" where
  "untracked_row k =
     \<lparr>CanisterWithOwner_id = KnownCanister_canisterId k,
      CanisterWithOwner_principal = KnownCanister_canisterId k,
      CanisterWithOwner_userId = '''', CanisterWithOwner_email = None,
      CanisterWithOwner_emailVerified = False, CanisterWithOwner_deletedAt = None,
      tracked = False\<rparr>"

text \<open>The loop over the known canisters: the rows and the count it builds.\<close>

fun add_untracked :: "string set \<Rightarrow> KnownCanister list \<Rightarrow> AdminCanisterRow list \<times> int \<Rightarrow> AdminCanisterRow list \<times> int" where
  "add_untracked trackedPrincipals [] acc = acc"
| "add_untracked trackedPrincipals (k # known) (rows, untrackedCount) =
     (if KnownCanister_isDeleted k \<or> KnownCanister_canisterId k \<in> trackedPrincipals
      then add_untracked trackedPrincipals known (rows, untrackedCount)
      else add_untracked trackedPrincipals known (rows @ [untracked_row k], untrackedCount + 1))"

definition admin_rows :: "CanisterWithOwner list \<Rightarrow> KnownCanister list \<Rightarrow> AdminCanisterRow list \<times> int" where
  "admin_rows cs known =
     add_untracked (CanisterWithOwner_principal ` set cs) known (map tracked_row cs, 0)"

definition initializeAdminCanisters :: "'w env \<Rightarrow> nat \<Rightarrow> ('w, unit) store_task" where
  "initializeAdminCanisters E fuel =
     get_state (\<lambda>s.
       if \<not> isAuthenticated s \<or> \<not> selectCanReadAllOrgs s then
         set_state (\<lambda>s. s\<lparr>isAdminCanistersInitialized := True\<rparr>)
       else
         await (set_state (\<lambda>s. s\<lparr>isAdminCanistersLoading := True\<rparr>)) (\<lambda>_.
           try_finally
             (await (list_tracked E fuel 1 []) (\<lambda>cs.
              await (CanisterHistoryApi_listKnownCanisters E) (\<lambda>known.
                case admin_rows cs known of (rows, untrackedCount) \<Rightarrow>
                  set_state (\<lambda>s. s\<lparr>adminCanisters := Some rows, adminUntrackedCount := untrackedCount\<rparr>))))
             (set_state (\<lambda>s. s\<lparr>isAdminCanistersInitialized := True, isAdminCanistersLoading := False\<rparr>))))"

definition clearAdminCanisters :: "('w, unit) store_task" where
  "clearAdminCanisters =
     set_state (\<lambda>s. s\<lparr>adminCanisters := None, adminUntrackedCount := 0, isAdminCanistersInitialized := False\<rparr>)"

section \<open>Whether e-mail addresses are masked (admin-privacy.ts)\<close>

record AdminPrivacyState =
  censorEmails :: bool

definition initialAdminPrivacy :: AdminPrivacyState where
  "initialAdminPrivacy = \<lparr>censorEmails = True\<rparr>"

definition setCensorEmails :: "bool \<Rightarrow> AdminPrivacyState \<Rightarrow> AdminPrivacyState" where
  "setCensorEmails v s = s\<lparr>censorEmails := v\<rparr>"

definition toggleCensorEmails :: "AdminPrivacyState \<Rightarrow> AdminPrivacyState" where
  "toggleCensorEmails s = s\<lparr>censorEmails := \<not> censorEmails s\<rparr>"

end
