(* ===== verification/Loading.thy ===== *)
theory Loading
  imports AdminStore
begin

text \<open>
  The contract of the loaders, the \<open>initialize...\<close> operations that \<open>initializeData\<close> starts
  together: each raises its own flag whatever its requests answer, never lowers another's, leaves
  the session alone, and touches the data of the admin panel only for a user who may see it.
  \<open>progress\<close> is that contract as a relation on states, \<open>loader\<close> the interface; the nine loaders
  interpret it.
\<close>

section \<open>The contract\<close>

definition same_session :: "AppSlice \<Rightarrow> AppSlice \<Rightarrow> bool" where
  "same_session s s' \<longleftrightarrow>
     agentIdentity s' = agentIdentity s \<and> identity s' = identity s \<and> authClient s' = authClient s \<and>
     isAuthenticated s' = isAuthenticated s \<and> isAuthInitialized s' = isAuthInitialized s \<and>
     isLoggingIn s' = isLoggingIn s \<and>
     isProfileInitialized s' = isProfileInitialized s \<and> isProfileLoading s' = isProfileLoading s \<and>
     profile s' = profile s \<and> myStaffPermissions s' = myStaffPermissions s"

definition flags_kept :: "AppSlice \<Rightarrow> AppSlice \<Rightarrow> bool" where
  "flags_kept s s' \<longleftrightarrow>
     (isUsersInitialized s \<longrightarrow> isUsersInitialized s') \<and>
     (isTrustedPartnersInitialized s \<longrightarrow> isTrustedPartnersInitialized s') \<and>
     (isStaffInitialized s \<longrightarrow> isStaffInitialized s') \<and>
     (isAdminOrgsInitialized s \<longrightarrow> isAdminOrgsInitialized s') \<and>
     (isTermsAndConditionsInitialized s \<longrightarrow> isTermsAndConditionsInitialized s') \<and>
     (isProjectsInitialized s \<longrightarrow> isProjectsInitialized s') \<and>
     (isOrganizationsInitialized s \<longrightarrow> isOrganizationsInitialized s') \<and>
     (isTeamsInitialized s \<longrightarrow> isTeamsInitialized s') \<and>
     (isMyInvitesInitialized s \<longrightarrow> isMyInvitesInitialized s')"

text \<open>What the user may not see is not touched.\<close>

definition confined :: "AppSlice \<Rightarrow> AppSlice \<Rightarrow> bool" where
  "confined s s' \<longleftrightarrow>
     (\<not> selectCanManageUsers s \<longrightarrow>
        users s' = users s \<and> userStats s' = userStats s \<and> staleUserIds s' = staleUserIds s) \<and>
     (\<not> selectIsAdmin s \<longrightarrow>
        trustedPartners s' = trustedPartners s \<and> staff s' = staff s \<and>
        termsAndConditionsHistory s' = termsAndConditionsHistory s) \<and>
     (\<not> selectCanReadAllOrgs s \<longrightarrow>
        adminOrgs s' = adminOrgs s \<and> adminOrgsNextCursor s' = adminOrgsNextCursor s) \<and>
     adminCanisters s' = adminCanisters s \<and> canisters s' = canisters s \<and>
     linkedPrincipals s' = linkedPrincipals s \<and> pendingLinkCode s' = pendingLinkCode s"

definition progress :: "AppSlice \<Rightarrow> AppSlice \<Rightarrow> bool" where
  "progress s s' \<longleftrightarrow> same_session s s' \<and> flags_kept s s' \<and> confined s s'"

lemma same_session_selectors:
  assumes "same_session s s'"
  shows "selectIsAdmin s' = selectIsAdmin s" and "selectCanManageUsers s' = selectCanManageUsers s"
    and "selectCanReadAllOrgs s' = selectCanReadAllOrgs s"
    and "selectCanWriteBilling s' = selectCanWriteBilling s"
  using assms
  by (simp_all add: same_session_def selectIsAdmin_def selectCanManageUsers_def selectCanReadAllOrgs_def
      selectCanWriteBilling_def staff_bit_def)

lemma progress_refl: "reflp progress"
  by (simp add: reflp_def progress_def same_session_def flags_kept_def confined_def)

lemma same_session_trans: "same_session s t \<Longrightarrow> same_session t u \<Longrightarrow> same_session s u"
  by (simp add: same_session_def)

lemma flags_kept_trans: "flags_kept s t \<Longrightarrow> flags_kept t u \<Longrightarrow> flags_kept s u"
  unfolding flags_kept_def by (elim conjE, intro conjI) (rule impI, (drule mp, assumption)+, assumption)+

lemma confined_trans:
  assumes "same_session s t" and "confined s t" and "confined t u"
  shows "confined s u"
  using assms(2,3) unfolding confined_def same_session_selectors [OF assms(1)]
  by (elim conjE, intro conjI impI) simp_all

lemma progress_trans: "transp progress"
  by (rule transpI) (auto simp only: progress_def intro: same_session_trans flags_kept_trans confined_trans)

lemma progress_step [simp]: "progress s s"
  using progress_refl by (rule reflpD)

lemma progress_profile: "progress s s' \<Longrightarrow> isProfileInitialized s' = isProfileInitialized s"
  by (simp add: progress_def same_session_def)

text \<open>The facts a loader's proof computes with.\<close>

lemmas progress_unfold = progress_def same_session_def flags_kept_def confined_def

lemmas selector_defs = selectIsAdmin_def selectCanManageUsers_def selectCanReadAllOrgs_def staff_bit_def

section \<open>The interface\<close>

locale loader =
  fixes load :: "('w, unit) store_task"
    and flag :: "AppSlice \<Rightarrow> bool"
  assumes obeys_progress: "obeys progress load (\<lambda>r s. isProfileInitialized s \<longrightarrow> flag s)"
    and flag_kept: "progress s s' \<Longrightarrow> flag s \<Longrightarrow> flag s'"
begin

lemma flag_stable: "stable progress (\<lambda>r s. isProfileInitialized s \<longrightarrow> flag s)"
  unfolding stable_def using flag_kept progress_profile by blast

lemma run_load:
  assumes "run load s w = (r, s', w')"
  shows "progress s s'" and "isProfileInitialized s \<Longrightarrow> flag s'"
  using obeys_run [OF obeys_progress progress_refl progress_trans assms] progress_profile by blast+

end

section \<open>The loaders\<close>

text \<open>
  Most loaders have one shape: a user whom the guard \<open>g\<close> stops gets the flag only; for the others
  one request is made, its result stored, and the flag raised whatever happens.
\<close>

lemma simple_loader:
  assumes "\<And>s. progress s (mark s)" and "\<And>s. flag (mark s)"
    and "\<And>s0 s x. progress s0 s \<Longrightarrow> \<not> g s0 \<Longrightarrow> progress s (mark (upd x s))"
  shows "obeys progress
    (get_state (\<lambda>s. if g s then set_state mark
       else try_finally (await (call_map m q f) (\<lambda>x. set_state (upd x))) (set_state mark)))
    (\<lambda>r s. isProfileInitialized s \<longrightarrow> flag s)"
  by (rule obeysI) (simp add: rg_simps assms split: sum.split)

text \<open>What storing into a slice changes of the contract's parts is computed by these facts.\<close>

lemmas loader_simps = progress_unfold selector_defs

interpretation projects: loader "initializeProjects E" isProjectsInitialized
  unfolding initializeProjects_def ProjectApi_listMyProjects_def
  by (unfold_locales; (rule simple_loader)?; simp add: loader_simps)

interpretation organizations: loader "initializeOrganizations E" isOrganizationsInitialized
  unfolding initializeOrganizations_def OrganizationApi_listMyOrganizations_def
  by (unfold_locales; (rule simple_loader)?; simp add: loader_simps)

interpretation teams: loader "initializeTeams E" isTeamsInitialized
  unfolding initializeTeams_def TeamApi_listMyTeams_def
  by (unfold_locales; (rule simple_loader)?; simp add: loader_simps)

interpretation invites: loader "initializeMyInvites E" isMyInvitesInitialized
  unfolding initializeMyInvites_def InviteApi_listMyInvites_def
  by (unfold_locales; (rule simple_loader)?; simp add: loader_simps)

interpretation staff: loader "initializeStaff E" isStaffInitialized
  unfolding initializeStaff_def StaffPermissionsApi_listStaff_def
  by (unfold_locales; (rule simple_loader)?; simp add: loader_simps)

interpretation partners: loader "initializeTrustedPartners E" isTrustedPartnersInitialized
  unfolding initializeTrustedPartners_def TrustedPartnerApi_listTrustedPartners_def
  by (unfold_locales; (rule simple_loader)?; simp add: loader_simps)

interpretation admin_orgs: loader "initializeAdminOrgs E" isAdminOrgsInitialized
  unfolding initializeAdminOrgs_def OrganizationApi_listOrganizations_def
  by (unfold_locales; (rule simple_loader)?; simp add: loader_simps)

interpretation terms: loader "initializeTermsAndConditions E" isTermsAndConditionsInitialized
proof unfold_locales
  show "obeys progress (initializeTermsAndConditions E)
      (\<lambda>r s. isProfileInitialized s \<longrightarrow> isTermsAndConditionsInitialized s)"
    unfolding initializeTermsAndConditions_def TermsAndConditionsApi_getLatestTermsAndConditions_def
      TermsAndConditionsApi_listTermsAndConditions_def
    by (rule obeysI) (simp add: rg_simps loader_simps split: sum.split)
qed (simp add: loader_simps)

text \<open>Three requests at once: whatever they answer, the state has moved by steps of \<open>C\<close> only.\<close>

lemma rg_promise_all3:
  assumes "reflp C" and "transp C" and "C s0 s" and "\<And>r s'. C s s' \<Longrightarrow> Q r s' s'"
  shows "rg C (promise_all3 (call_map m1 q1 f1) (call_map m2 q2 f2) (call_map m3 q3 f3)) Q s0 s"
  unfolding promise_all3_def locals_call_map rg_get_state rg_bind_task rg_pending rg.simps
  by (intro conjI allI impI; (rule assms(3) | rule reflpD [OF assms(1)] | rule assms(4)))
    (blast intro: transpD [OF assms(2)])

lemma progress_users:
  "progress s (s\<lparr>isUsersInitialized := True\<rparr>)"
  "selectCanManageUsers s \<Longrightarrow>
     progress s (s\<lparr>users := us, userStats := st, staleUserIds := ids, isUsersInitialized := True\<rparr>)"
  by (simp_all add: progress_unfold)

lemma progress_manages: "progress s s' \<Longrightarrow> selectCanManageUsers s' = selectCanManageUsers s"
  using same_session_selectors by (simp add: progress_def)

interpretation users: loader "initializeUsers E" isUsersInitialized
proof unfold_locales
  show "obeys progress (initializeUsers E) (\<lambda>r s. isProfileInitialized s \<longrightarrow> isUsersInitialized s)"
  proof (rule obeysI)
    fix s
    show "rg progress (initializeUsers E)
        (\<lambda>r s0 s. progress s0 s \<and> (isProfileInitialized s \<longrightarrow> isUsersInitialized s)) s s"
    proof (cases "isProfileInitialized s \<and> isAuthenticated s \<and> selectCanManageUsers s")
      case True
      then have "selectCanManageUsers s'" if "progress s s'" for s'
        using progress_manages [OF that] by simp
      with True show ?thesis
        unfolding initializeUsers_def UserProfileApi_listUserProfiles_def UserProfileApi_getUserStats_def
          UserProfileApi_listStaleUsers_def
        by (simp add: rg_simps)
          (rule rg_promise_all3 [OF progress_refl progress_trans progress_step];
            simp add: rg_simps progress_users split: sum.split)
    next
      case False
      then show ?thesis by (simp add: initializeUsers_def rg_simps progress_users)
    qed
  qed
qed (simp add: loader_simps)

end
