(* ===== verification/Samples.thy ===== *)
theory Samples
  imports AppState
begin

text \<open>
  Concrete environments, at which the properties with hypotheses are applied: a world that counts
  the requests it is sent, in which no canister can be reached (\<open>offline\<close>). The others are made
  from it by replacing the methods that answer. Principals are written in a unary alphabet, a
  notation of no other use than that it can be parsed.
\<close>

section \<open>A notation for principals\<close>

definition sample_toText :: "principal \<Rightarrow> string" where
  "sample_toText p = concat (map (\<lambda>n. replicate n CHR ''a'' @ ''-'') (principal_bytes p))"

fun parse_unary :: "nat \<Rightarrow> string \<Rightarrow> nat list" where
  "parse_unary n [] = []"
| "parse_unary n (c # s) = (if c = CHR ''-'' then n # parse_unary 0 s else parse_unary (Suc n) s)"

definition sample_fromText :: "string \<Rightarrow> js_error + principal" where
  "sample_fromText s = Inr (Principal (parse_unary 0 s))"

lemma parse_unary_replicate: "parse_unary m (replicate n CHR ''a'' @ ''-'' @ s) = (m + n) # parse_unary 0 s"
  by (induction n arbitrary: m) auto

lemma sample_fromText_toText: "sample_fromText (sample_toText p) = Inr p"
proof -
  have "parse_unary 0 (concat (map (\<lambda>n. replicate n CHR ''a'' @ ''-'') ns)) = ns" for ns
    using parse_unary_replicate [of 0] by (induction ns) simp_all
  then show ?thesis
    by (cases p) (simp add: sample_fromText_def sample_toText_def)
qed

section \<open>The canisters that cannot be reached\<close>

definition unreachable :: "(nat, 'q, 'r) canister_method" where
  "unreachable i q w = (Suc w, Inl ''offline'')"

definition no_UserProfileService :: "nat UserProfileService" where
  "no_UserProfileService =
     \<lparr>admin_list_user_profiles = unreachable,
      get_user_profiles_by_principals = unreachable,
      get_user_profiles_by_user_ids = unreachable,
      admin_update_user_profile = unreachable,
      admin_get_user_stats = unreachable,
      admin_list_stale_users = unreachable,
      get_my_user_profile = unreachable,
      create_my_user_profile = unreachable,
      update_my_user_profile = unreachable,
      verify_my_email = unreachable\<rparr>"

definition no_StaffService :: "nat StaffService" where
  "no_StaffService =
     \<lparr>get_my_staff_permissions = unreachable,
      admin_grant_staff_permissions = unreachable,
      admin_revoke_staff_permissions = unreachable,
      admin_list_staff = unreachable,
      admin_list_trusted_partners = unreachable,
      admin_create_trusted_partner = unreachable\<rparr>"

definition no_TermsService :: "nat TermsService" where
  "no_TermsService =
     \<lparr>get_latest_terms_and_conditions = unreachable,
      admin_list_terms_and_conditions = unreachable,
      upsert_terms_and_conditions_decision = unreachable,
      admin_create_terms_and_conditions = unreachable\<rparr>"

definition no_PrincipalLinkService :: "nat PrincipalLinkService" where
  "no_PrincipalLinkService =
     \<lparr>register_link_code = unreachable,
      link_my_principal = unreachable,
      unlink_my_principal = unreachable,
      list_my_linked_principals = unreachable,
      get_my_pending_link_code = unreachable,
      revoke_my_link_code = unreachable,
      set_my_principal_name = unreachable,
      admin_link_principal_to_user = unreachable,
      admin_unlink_principal_from_user = unreachable,
      admin_list_linked_principals = unreachable,
      recover_account_by_email = unreachable\<rparr>"

definition no_OrganizationService :: "nat OrganizationService" where
  "no_OrganizationService =
     \<lparr>list_my_organizations = unreachable,
      admin_list_organizations = unreachable,
      create_organization = unreachable,
      get_organization = unreachable,
      update_organization = unreachable,
      delete_organization = unreachable,
      list_org_users = unreachable,
      admin_set_org_billing_plan = unreachable,
      get_org_billing_plan = unreachable,
      list_my_org_billing_plans = unreachable\<rparr>"

definition no_TeamService :: "nat TeamService" where
  "no_TeamService =
     \<lparr>list_my_teams = unreachable,
      list_org_teams = unreachable,
      create_team = unreachable,
      get_team = unreachable,
      update_team = unreachable,
      delete_team = unreachable,
      add_user_to_team = unreachable,
      remove_user_from_team = unreachable,
      list_team_users = unreachable,
      update_team_org_permissions = unreachable\<rparr>"

definition no_ProjectService :: "nat ProjectService" where
  "no_ProjectService =
     \<lparr>list_my_projects = unreachable,
      list_org_projects = unreachable,
      create_project = unreachable,
      get_project = unreachable,
      update_project = unreachable,
      delete_project = unreachable,
      list_project_teams = unreachable,
      add_team_to_project = unreachable,
      remove_team_from_project = unreachable,
      update_team_project_permissions = unreachable\<rparr>"

definition no_InviteService :: "nat InviteService" where
  "no_InviteService =
     \<lparr>create_org_invite = unreachable,
      list_org_invites = unreachable,
      revoke_org_invite = unreachable,
      list_my_invites = unreachable,
      accept_org_invite = unreachable,
      decline_org_invite = unreachable\<rparr>"

definition no_CanisterService :: "nat CanisterService" where
  "no_CanisterService =
     \<lparr>list_my_canisters = unreachable,
      admin_list_user_canisters = unreachable,
      remove_my_canister = unreachable,
      update_my_canister_name = unreachable,
      start_my_canister = unreachable,
      stop_my_canister = unreachable,
      admin_list_all_canisters = unreachable,
      get_usage = unreachable\<rparr>"

definition no_ProposalService :: "nat ProposalService" where
  "no_ProposalService =
     \<lparr>create_proposal = unreachable,
      get_proposal = unreachable,
      list_project_proposals = unreachable,
      vote_proposal = unreachable,
      cancel_proposal = unreachable,
      list_project_approval_policies = unreachable,
      upsert_approval_policy = unreachable\<rparr>"

definition no_OtherCanisters :: "nat OtherCanisters" where
  "no_OtherCanisters =
     \<lparr>canister_status = unreachable,
      update_settings = unreachable,
      start_canister = unreachable,
      stop_canister = unreachable,
      delete_canister = unreachable,
      list_canister_changes = unreachable,
      list_known_canisters = unreachable\<rparr>"

definition offline :: "nat env" where
  "offline =
     \<lparr>toText = sample_toText,
      fromText = sample_fromText,
      userProfileService = no_UserProfileService,
      staffService = no_StaffService,
      termsService = no_TermsService,
      principalLinkService = no_PrincipalLinkService,
      organizationService = no_OrganizationService,
      teamService = no_TeamService,
      projectService = no_ProjectService,
      inviteService = no_InviteService,
      canisterService = no_CanisterService,
      proposalService = no_ProposalService,
      otherCanisters = no_OtherCanisters,
      fetch = (\<lambda>q w. (Suc w, Inl ''offline'')),
      getRandomValues = (\<lambda>n w. (Suc w, replicate n 0)),
      AuthClient_create = (\<lambda>w. (Suc w, Inr AuthClient)),
      AuthClient_isAuthenticated = (\<lambda>w. (Suc w, Inr False)),
      AuthClient_getIdentity = (\<lambda>w. AnonymousIdentity),
      AuthClient_login = (\<lambda>w. (Suc w, Inr ())),
      AuthClient_logout = (\<lambda>w. (Suc w, Inr ())),
      BACKEND_CANISTER_ID = ''a-'',
      AUTH_SERVICE_URL = ''http://localhost''\<rparr>"

lemma offline_codec: "principal_codec_ok offline"
  by (simp add: principal_codec_ok_def offline_def sample_fromText_toText)

section \<open>Users\<close>

definition sample_profile :: "bool \<Rightarrow> UserProfile" where
  "sample_profile admin =
     \<lparr>UserProfile_id = ''u1'', UserProfile_email = Some ''u@example.com'', UserProfile_emailVerified = True,
      UserProfile_status = Active, UserProfile_isAdmin = admin\<rparr>"

definition admin_session :: AppSlice where
  "admin_session = initialState\<lparr>authClient := Some AuthClient, isAuthenticated := True,
     identity := Some (DelegationIdentity (Principal [1])), agentIdentity := DelegationIdentity (Principal [1]),
     isAuthInitialized := True, isProfileInitialized := True, profile := Some (sample_profile True)\<rparr>"

definition user_session :: AppSlice where
  "user_session = admin_session\<lparr>profile := Some (sample_profile False)\<rparr>"

text \<open>A method that always gives the same answer.\<close>

definition answering :: "'r \<Rightarrow> (nat, 'q, 'r) canister_method" where
  "answering r i q w = (Suc w, Inr r)"

lemmas session_defs = admin_session_def user_session_def sample_profile_def initialState_def

end
