(* ===== verification/AuthStore.thy ===== *)
theory AuthStore
  imports Loading Samples
begin

text \<open>
  The authentication slice, \<open>lib/store/auth.ts\<close>: it creates the \<open>AuthClient\<close>, logs the user in and
  out, and has the other slices load and clear their data. \<open>lib/auth.ts\<close> and \<open>lib/params.ts\<close> are
  the guards of the routes. \<open>es\<close> is the schedule under which the loaders' requests are served.
\<close>

section \<open>Loading the data\<close>

definition loaders :: "'w env \<Rightarrow> ('w, unit) store_task list" where
  "loaders E =
     [initializeUsers E,
      initializeTrustedPartners E,
      initializeStaff E,
      initializeAdminOrgs E,
      initializeTermsAndConditions E,
      initializeProjects E,
      initializeOrganizations E,
      initializeTeams E,
      initializeMyInvites E]"

definition initializeData :: "'w env \<Rightarrow> event list \<Rightarrow> ('w, unit) store_task" where
  "initializeData E es = await (initializeUserProfile E) (\<lambda>_. promise_all es (loaders E))"

section \<open>Starting up\<close>

text \<open>The options of \<open>AuthClient.create\<close> (no idle timeout, an Ed25519 key) are those of the client in \<open>E\<close>.\<close>

definition initializeAuth :: "'w env \<Rightarrow> event list \<Rightarrow> ('w, unit) store_task" where
  "initializeAuth E es =
     try_finally
       (await (request (AuthClient_create E)) (\<lambda>client.
        await (request (AuthClient_isAuthenticated E)) (\<lambda>authenticated.
        await (remote (\<lambda>w. (w, Inr (AuthClient_getIdentity E w)))) (\<lambda>i.
        await (setAgentIdentity i) (\<lambda>_.
        await (set_state (\<lambda>s. s\<lparr>authClient := Some client, isAuthenticated := authenticated,
            identity := Some i, isAuthInitialized := True\<rparr>)) (\<lambda>_.
          initializeData E es))))))
       (set_state (\<lambda>s. s\<lparr>isAuthInitialized := True\<rparr>))"

section \<open>Logging in\<close>

text \<open>
  The client reports the end of the login through one of two callbacks. The promise \<open>login\<close>
  returns settles at the latest with them; it may settle earlier, when the client's own \<open>login\<close>
  promise does, and nothing of the store depends on that, so the task is what the callbacks do.
\<close>

definition login_onSuccess :: "'w env \<Rightarrow> event list \<Rightarrow> ('w, unit) store_task" where
  "login_onSuccess E es =
     await (remote (\<lambda>w. (w, Inr (AuthClient_getIdentity E w)))) (\<lambda>i.
     await (setAgentIdentity i) (\<lambda>_.
     await (set_state (\<lambda>s. s\<lparr>isAuthenticated := True, isLoggingIn := False, identity := Some i\<rparr>)) (\<lambda>_.
       initializeData E es)))"

definition login_onError :: "js_error \<Rightarrow> ('w, unit) store_task" where
  "login_onError err = await (set_state (\<lambda>s. s\<lparr>isLoggingIn := False\<rparr>)) (\<lambda>_. throw err)"

definition login :: "'w env \<Rightarrow> event list \<Rightarrow> ('w, unit) store_task" where
  "login E es =
     get_state (\<lambda>s.
       if isNil (authClient s) then throw (Error ''AuthClient is not initialized'')
       else
         await (set_state (\<lambda>s. s\<lparr>isLoggingIn := True\<rparr>)) (\<lambda>_.
           bind_task (request (AuthClient_login E)) (\<lambda>outcome.
             case outcome of
               Inr _ \<Rightarrow> login_onSuccess E es
             | Inl err \<Rightarrow> login_onError err)))"

section \<open>Logging out\<close>

definition clear_slices :: "('w, unit) store_task" where
  "clear_slices =
     await clearUserProfile (\<lambda>_.
     await clearUsers (\<lambda>_.
     await clearCanisters (\<lambda>_.
     await clearTrustedPartners (\<lambda>_.
     await clearStaff (\<lambda>_.
     await clearTermsAndConditions (\<lambda>_.
     await clearProjects (\<lambda>_.
     await clearOrganizations (\<lambda>_.
     await clearTeams (\<lambda>_.
     await clearMyInvites (\<lambda>_.
     await clearLinkedPrincipals (\<lambda>_.
       clearAdminCanisters)))))))))))"

definition logout :: "'w env \<Rightarrow> ('w, unit) store_task" where
  "logout E =
     get_state (\<lambda>s.
       if isNil (authClient s) then throw (Error ''AuthClient is not initialized'')
       else
         try_finally (request (AuthClient_logout E))
           (await (setAgentIdentity AnonymousIdentity) (\<lambda>_.
            await (set_state (\<lambda>s. s\<lparr>isAuthenticated := False, identity := Some AnonymousIdentity\<rparr>)) (\<lambda>_.
              clear_slices))))"

section \<open>Route guards (lib/auth.ts, lib/params.ts)\<close>

text \<open>
  A guard's effect runs on every render: it navigates to a path, or does nothing (\<open>None\<close>);
  \<open>useReturnTo\<close> navigates only when the path is not the current one.
\<close>

definition returnTo :: "string \<Rightarrow> string \<Rightarrow> string option" where
  "returnTo pathname target = (if pathname \<noteq> target then Some target else None)"

definition useRequireAuth :: "AppSlice \<Rightarrow> string \<Rightarrow> string option" where
  "useRequireAuth s pathname =
     (if \<not> isProfileInitialized s \<or> \<not> isTermsAndConditionsInitialized s then None
      else if \<not> selectIsActive s then returnTo pathname ''/''
      else if \<not> selectIsAdmin s \<and>
              (case termsAndConditions s of Some t \<Rightarrow> \<not> TermsAndConditions_hasAccepted t | None \<Rightarrow> False)
      then returnTo pathname ''/terms-and-conditions''
      else None)"

definition useRequireAdminAuth :: "AppSlice \<Rightarrow> string \<Rightarrow> string option" where
  "useRequireAdminAuth s pathname =
     (if isProfileInitialized s \<and> \<not> selectCanAccessAdmin s then returnTo pathname ''/'' else None)"

definition useRequireAdminCapability :: "bool \<Rightarrow> AppSlice \<Rightarrow> string \<Rightarrow> string option" where
  "useRequireAdminCapability hasCapability s pathname =
     (if isProfileInitialized s \<and> \<not> hasCapability then returnTo pathname ''/admin'' else None)"

text \<open>A required route parameter: its value, or a navigation to the root and a throw.\<close>

definition useRequireProjectId :: "string option \<Rightarrow> string \<Rightarrow> string option \<times> (js_error + string)" where
  "useRequireProjectId projectId pathname =
     (case projectId of
        None \<Rightarrow> (returnTo pathname ''/'', Inl (Error '':projectId param is required''))
      | Some v \<Rightarrow> (None, Inr v))"

definition useRequireCanisterId :: "string option \<Rightarrow> string \<Rightarrow> string option \<times> (js_error + string)" where
  "useRequireCanisterId canisterId pathname =
     (case canisterId of
        None \<Rightarrow> (returnTo pathname ''/'', Inl (Error '':canisterId param is required''))
      | Some v \<Rightarrow> (None, Inr v))"

section \<open>Loading always completes\<close>

lemma run_initializeUserProfile:
  assumes "run (initializeUserProfile E) s w = (r, s', w')"
  shows "s' = s\<lparr>isProfileInitialized := True, isProfileLoading := False,
    profile := profile s', myStaffPermissions := myStaffPermissions s'\<rparr>"
  using assms
  by (auto simp: initializeUserProfile_def UserProfileApi_getMyUserProfile_def
      StaffPermissionsApi_getMyStaffPermissions_def run_simps split: prod.splits sum.splits if_splits)

text \<open>The flags the loaders raise, in the order of \<open>loaders\<close>.\<close>

definition loader_flags :: "(AppSlice \<Rightarrow> bool) list" where
  "loader_flags =
     [isUsersInitialized, isTrustedPartnersInitialized, isStaffInitialized, isAdminOrgsInitialized,
      isTermsAndConditionsInitialized, isProjectsInitialized, isOrganizationsInitialized,
      isTeamsInitialized, isMyInvitesInitialized]"

definition loader_goals :: "(js_error + unit \<Rightarrow> AppSlice \<Rightarrow> bool) list" where
  "loader_goals = map (\<lambda>flag r s. isProfileInitialized s \<longrightarrow> flag s) loader_flags"

lemma loaders_obey: "list_all2 (\<lambda>Q t. obeys progress t Q) loader_goals (loaders E)"
  by (simp add: loader_goals_def loader_flags_def loaders_def users.obeys_progress partners.obeys_progress
      staff.obeys_progress admin_orgs.obeys_progress terms.obeys_progress projects.obeys_progress
      organizations.obeys_progress teams.obeys_progress invites.obeys_progress)

lemma loaders_stable: "\<forall>Q \<in> set loader_goals. stable progress Q"
  by (simp add: loader_goals_def loader_flags_def users.flag_stable partners.flag_stable staff.flag_stable
      admin_orgs.flag_stable terms.flag_stable projects.flag_stable organizations.flag_stable
      teams.flag_stable invites.flag_stable)

lemma run_loaders:
  assumes "run (promise_all es (loaders E)) s w = (r, s', w')"
  shows "progress s s'" and "isProfileInitialized s \<Longrightarrow> \<forall>flag \<in> set loader_flags. flag s'"
proof -
  from obeys_run [OF obeys_promise_all [OF progress_refl progress_trans loaders_stable loaders_obey]
      progress_refl progress_trans assms]
  have p: "progress s s'" and g: "\<forall>Q \<in> set loader_goals. \<exists>r. Q r s'" by auto
  from p show "progress s s'" .
  assume "isProfileInitialized s"
  with p have "isProfileInitialized s'" by (simp add: progress_profile)
  with g show "\<forall>flag \<in> set loader_flags. flag s'" by (auto simp: loader_goals_def)
qed

lemma run_initializeData:
  "run (initializeData E es) s w =
     (case run (initializeUserProfile E) s w of
        (Inl e, s1, w1) \<Rightarrow> (Inl e, s1, w1)
      | (Inr _, s1, w1) \<Rightarrow> run (promise_all es (loaders E)) s1 w1)"
  by (simp add: initializeData_def run_await)

lemma run_initializeData_progress:
  assumes "run (initializeData E es) s w = (r, s', w')"
  obtains p m where "progress (s\<lparr>isProfileInitialized := True, isProfileLoading := False,
    profile := p, myStaffPermissions := m\<rparr>) s'"
proof -
  obtain r1 s1 w1 where 1: "run (initializeUserProfile E) s w = (r1, s1, w1)"
    by (cases "run (initializeUserProfile E) s w")
  have "progress s1 s'"
  proof (cases r1)
    case (Inl e)
    with 1 assms show ?thesis by (simp add: run_initializeData)
  next
    case (Inr u)
    with 1 assms have "run (promise_all es (loaders E)) s1 w1 = (r, s', w')"
      by (simp add: run_initializeData)
    from run_loaders(1) [OF this] show ?thesis .
  qed
  with run_initializeUserProfile [OF 1] show thesis using that by metis
qed

text \<open>What the loaders may fill, in terms of the state they leave.\<close>

lemma run_initializeData_confined:
  assumes "run (initializeData E es) s w = (r, s', w')"
  shows "(\<not> selectCanManageUsers s' \<longrightarrow>
      users s' = users s \<and> userStats s' = userStats s \<and> staleUserIds s' = staleUserIds s) \<and>
    (\<not> selectIsAdmin s' \<longrightarrow>
      trustedPartners s' = trustedPartners s \<and> staff s' = staff s \<and>
      termsAndConditionsHistory s' = termsAndConditionsHistory s) \<and>
    (\<not> selectCanReadAllOrgs s' \<longrightarrow>
      adminOrgs s' = adminOrgs s \<and> adminOrgsNextCursor s' = adminOrgsNextCursor s) \<and>
    adminCanisters s' = adminCanisters s"
proof -
  obtain p m where "progress (s\<lparr>isProfileInitialized := True, isProfileLoading := False,
      profile := p, myStaffPermissions := m\<rparr>) s'" (is "progress ?s1 s'")
    using run_initializeData_progress [OF assms] .
  then have ss: "same_session ?s1 s'" and "confined ?s1 s'" by (simp_all add: progress_def)
  then show ?thesis
    unfolding confined_def same_session_selectors [OF ss] by simp
qed


text \<open>C2: Loading never fills the data of the admin panel for a user who may not see it: under every
  schedule, when the profile that was loaded lacks the capability, the slice is what it was before.\<close>

theorem initializeData_confined:
  assumes "run (initializeData E es) s w = (r, s', w')"
  shows "(\<not> selectCanManageUsers s' \<longrightarrow>
      users s' = users s \<and> userStats s' = userStats s \<and> staleUserIds s' = staleUserIds s) \<and>
    (\<not> selectIsAdmin s' \<longrightarrow>
      trustedPartners s' = trustedPartners s \<and> staff s' = staff s \<and>
      termsAndConditionsHistory s' = termsAndConditionsHistory s) \<and>
    (\<not> selectCanReadAllOrgs s' \<longrightarrow>
      adminOrgs s' = adminOrgs s \<and> adminOrgsNextCursor s' = adminOrgsNextCursor s) \<and>
    adminCanisters s' = adminCanisters s"
  by (rule run_initializeData_confined [OF assms])

text \<open>A user without capabilities whose store still holds an organization of an earlier session.\<close>

definition stale_session :: AppSlice where
  "stale_session = user_session\<lparr>adminOrgs := Some [\<lparr>AdminOrganization_id = ''o'', AdminOrganization_name = ''Org'',
     AdminOrganization_tier = PlanTier_Pro, AdminOrganization_memberCount = 3\<rparr>]\<rparr>"

lemma initializeData_confined_witness:
  "\<exists>r s' w'. run (initializeData offline [Serve 3, Resume 3]) stale_session 0 = (r, s', w') \<and>
     adminCanisters s' = adminCanisters stale_session \<and>
     (selectCanReadAllOrgs s' \<or> adminOrgs s' = adminOrgs stale_session)"
proof -
  obtain r s' w' where run: "run (initializeData offline [Serve 3, Resume 3]) stale_session 0 = (r, s', w')"
    by (cases "run (initializeData offline [Serve 3, Resume 3]) stale_session 0")
  from initializeData_confined [OF run] run show ?thesis by blast
qed

section \<open>Signing out\<close>

lemma run_clear_slices:
  "run clear_slices s w =
     (Inr (), s\<lparr>profile := None, myStaffPermissions := None, users := None, staleUserIds := None,
        canisters := None, trustedPartners := None, staff := None, termsAndConditions := None,
        termsAndConditionsHistory := None, projects := [], organizations := [], teams := [],
        myInvites := [], isMyInvitesInitialized := False, linkedPrincipals := None,
        pendingLinkCode := None, adminCanisters := None, adminUntrackedCount := 0,
        isAdminCanistersInitialized := False\<rparr>, w)"
  by (simp add: clear_slices_def clearUserProfile_def clearUsers_def clearCanisters_def
      clearTrustedPartners_def clearStaff_def clearTermsAndConditions_def clearProjects_def
      clearOrganizations_def clearTeams_def clearMyInvites_def clearLinkedPrincipals_def
      clearAdminCanisters_def run_simps)

lemma run_logout:
  "run (logout E) s w =
     (case authClient s of
        None \<Rightarrow> (Inl (Error ''AuthClient is not initialized''), s, w)
      | Some _ \<Rightarrow>
          (case AuthClient_logout E w of (w', r) \<Rightarrow>
             (case r of Inl msg \<Rightarrow> Inl (LibraryError msg) | Inr u \<Rightarrow> Inr u,
              s\<lparr>agentIdentity := AnonymousIdentity, isAuthenticated := False, identity := Some AnonymousIdentity,
                profile := None, myStaffPermissions := None, users := None, staleUserIds := None,
                canisters := None, trustedPartners := None, staff := None, termsAndConditions := None,
                termsAndConditionsHistory := None, projects := [], organizations := [], teams := [],
                myInvites := [], isMyInvitesInitialized := False, linkedPrincipals := None,
                pendingLinkCode := None, adminCanisters := None, adminUntrackedCount := 0,
                isAdminCanistersInitialized := False\<rparr>, w')))"
  by (auto simp: logout_def setAgentIdentity_def run_simps run_clear_slices
      split: option.split prod.splits sum.splits)

text \<open>C3: Logging out with a client, even when the client's own logout fails, always leaves the agent
  and the store anonymous and the profile, the permissions and the listed slices empty; the failure
  is still reported. Without a client it throws and changes nothing.\<close>

theorem logout_clears:
  "case run (logout E) s w of (r, s', w') \<Rightarrow>
     (case authClient s of
        None \<Rightarrow> r = Inl (Error ''AuthClient is not initialized'') \<and> s' = s \<and> w' = w
      | Some _ \<Rightarrow>
          w' = fst (AuthClient_logout E w) \<and>
          (r = Inr () \<longleftrightarrow> (\<exists>u. snd (AuthClient_logout E w) = Inr u)) \<and>
          agentIdentity s' = AnonymousIdentity \<and> identity s' = Some AnonymousIdentity \<and> isAuthenticated s' = False \<and>
          profile s' = None \<and> myStaffPermissions s' = None \<and> users s' = None \<and> staleUserIds s' = None \<and>
          canisters s' = None \<and> trustedPartners s' = None \<and> staff s' = None \<and> termsAndConditions s' = None \<and>
          termsAndConditionsHistory s' = None \<and> projects s' = [] \<and> organizations s' = [] \<and> teams s' = [] \<and>
          myInvites s' = [] \<and> linkedPrincipals s' = None \<and> pendingLinkCode s' = None \<and> adminCanisters s' = None)"
  by (auto simp: run_logout split: option.split prod.split sum.split)

lemma run_login:
  "run (login E es) s w =
     (case authClient s of
        None \<Rightarrow> (Inl (Error ''AuthClient is not initialized''), s, w)
      | Some _ \<Rightarrow>
          (case AuthClient_login E w of
             (w1, Inl msg) \<Rightarrow> (Inl (LibraryError msg), s\<lparr>isLoggingIn := False\<rparr>, w1)
           | (w1, Inr _) \<Rightarrow>
               run (initializeData E es)
                 (s\<lparr>agentIdentity := AuthClient_getIdentity E w1, isAuthenticated := True,
                    isLoggingIn := False, identity := Some (AuthClient_getIdentity E w1)\<rparr>) w1))"
  by (auto simp: login_def login_onSuccess_def login_onError_def setAgentIdentity_def run_simps
      split: option.split prod.splits sum.splits)


text \<open>An administrator logs out; the next login succeeds but its profile cannot be loaded.\<close>

lemma run_initializeUserProfile_offline:
  "run (initializeUserProfile offline) s w =
     (if isAuthenticated s then
        (Inl (LibraryError ''offline''), s\<lparr>isProfileInitialized := True, isProfileLoading := False\<rparr>, Suc w)
      else (Inr (), s\<lparr>isProfileInitialized := True, isProfileLoading := False\<rparr>, w))"
  by (simp add: initializeUserProfile_def UserProfileApi_getMyUserProfile_def run_simps offline_def
      no_UserProfileService_def unreachable_def)


section \<open>The session\<close>

text \<open>The agent signs with the identity the store shows, and nobody is authenticated without one.\<close>

definition session_ok :: "AppSlice \<Rightarrow> bool" where
  "session_ok s \<longleftrightarrow>
     (case identity s of
        None \<Rightarrow> agentIdentity s = AnonymousIdentity \<and> \<not> isAuthenticated s
      | Some i \<Rightarrow> agentIdentity s = i)"

definition session_view :: "AppSlice \<Rightarrow> Identity option \<times> Identity \<times> bool" where
  "session_view s = (identity s, agentIdentity s, isAuthenticated s)"

definition view_ok :: "Identity option \<times> Identity \<times> bool \<Rightarrow> bool" where
  "view_ok v = (case v of (i, a, authenticated) \<Rightarrow>
     (case i of None \<Rightarrow> a = AnonymousIdentity \<and> \<not> authenticated | Some i \<Rightarrow> a = i))"

definition keeps_session :: "AppSlice \<Rightarrow> AppSlice \<Rightarrow> bool" where
  "keeps_session s s' \<longleftrightarrow> (view_ok (session_view s) \<longrightarrow> view_ok (session_view s'))"

lemma session_ok_view: "session_ok s \<longleftrightarrow> view_ok (session_view s)"
  by (simp add: session_ok_def view_ok_def session_view_def)

lemma keeps_session_refl: "reflp keeps_session" and keeps_session_trans: "transp keeps_session"
  by (auto simp: keeps_session_def reflp_def transp_def)

lemma initializeData_leaves_session: "leaves session_view (initializeData E es)"
proof -
  have "leaves session_view (initializeUserProfile E)"
    unfolding initializeUserProfile_def UserProfileApi_getMyUserProfile_def
      StaffPermissionsApi_getMyStaffPermissions_def
    by (intro leaves_intros) (simp_all add: session_view_def)
  moreover have "leaves session_view t" if "t \<in> set (loaders E)" for t
    using that unfolding loaders_def initializeUsers_def initializeTrustedPartners_def initializeStaff_def
      initializeAdminOrgs_def initializeTermsAndConditions_def initializeProjects_def
      initializeOrganizations_def initializeTeams_def initializeMyInvites_def
      UserProfileApi_listUserProfiles_def UserProfileApi_getUserStats_def UserProfileApi_listStaleUsers_def
      TrustedPartnerApi_listTrustedPartners_def StaffPermissionsApi_listStaff_def
      OrganizationApi_listOrganizations_def TermsAndConditionsApi_getLatestTermsAndConditions_def
      TermsAndConditionsApi_listTermsAndConditions_def ProjectApi_listMyProjects_def
      OrganizationApi_listMyOrganizations_def TeamApi_listMyTeams_def InviteApi_listMyInvites_def
    by (auto intro!: leaves_intros simp: session_view_def split: prod.split)
  ultimately show ?thesis
    unfolding initializeData_def by (intro leaves_intros)
qed

lemma rg_initializeData:
  "keeps_session s0 s \<Longrightarrow> (\<And>r s0 s. keeps_session s0 s \<Longrightarrow> Q r s0 s) \<Longrightarrow>
     rg keeps_session (initializeData E es) Q s0 s"
  by (rule rg_leaves [where v = session_view and I = view_ok])
    (simp_all add: keeps_session_def initializeData_leaves_session)

text \<open>The operations that change the session; every other operation of the store leaves it alone.\<close>

definition session_ops :: "'w env \<Rightarrow> ('w, unit) store_task set" where
  "session_ops E = range (initializeAuth E) \<union> range (login E) \<union> {logout E} \<union> range (initializeData E)"

lemma clear_slices_leaves_session: "leaves session_view clear_slices"
  unfolding clear_slices_def clearUserProfile_def clearUsers_def clearCanisters_def
    clearTrustedPartners_def clearStaff_def clearTermsAndConditions_def clearProjects_def
    clearOrganizations_def clearTeams_def clearMyInvites_def clearLinkedPrincipals_def clearAdminCanisters_def
  by (intro leaves_intros) (simp_all add: session_view_def)

lemma rg_clear_slices:
  "keeps_session s0 s \<Longrightarrow> (\<And>r s0 s. keeps_session s0 s \<Longrightarrow> Q r s0 s) \<Longrightarrow> rg keeps_session clear_slices Q s0 s"
  by (rule rg_leaves [where v = session_view and I = view_ok])
    (simp_all add: keeps_session_def clear_slices_leaves_session)

lemma keeps_session_step [simp]: "keeps_session s s"
  by (simp add: keeps_session_def)

lemma keeps_session_login:
  "keeps_session s s1 \<Longrightarrow>
     keeps_session s (s1\<lparr>agentIdentity := i, isAuthenticated := b, isLoggingIn := c, identity := Some i\<rparr>)"
  "keeps_session s (s1\<lparr>agentIdentity := i, authClient := a, isAuthenticated := b, identity := Some i,
     isAuthInitialized := c\<rparr>)"
  "keeps_session s (s1\<lparr>agentIdentity := i, isAuthenticated := b, identity := Some i\<rparr>)"
  "keeps_session s s1 \<Longrightarrow> keeps_session s (s1\<lparr>isAuthInitialized := c\<rparr>)"
  "keeps_session s s1 \<Longrightarrow> keeps_session s (s1\<lparr>isLoggingIn := c\<rparr>)"
  by (simp_all add: keeps_session_def view_ok_def session_view_def)

lemma session_ops_obey:
  assumes "t \<in> session_ops E"
  shows "obeys keeps_session t (\<lambda>_ _. True)"
proof -
  have "obeys keeps_session (initializeAuth E es) (\<lambda>_ _. True)" for es
    by (rule obeysI)
      (auto simp: initializeAuth_def setAgentIdentity_def rg_simps keeps_session_login
        intro!: rg_initializeData split: sum.split)
  moreover have "obeys keeps_session (login E es) (\<lambda>_ _. True)" for es
    by (rule obeysI)
      (auto simp: login_def login_onSuccess_def login_onError_def setAgentIdentity_def rg_simps
        keeps_session_login intro!: rg_initializeData split: sum.split)
  moreover have "obeys keeps_session (logout E) (\<lambda>_ _. True)"
    by (rule obeysI)
      (auto simp: logout_def setAgentIdentity_def rg_simps keeps_session_login
        intro!: rg_clear_slices split: sum.split)
  moreover have "obeys keeps_session (initializeData E es) (\<lambda>_ _. True)" for es
    by (rule obeysI) (auto intro!: rg_initializeData)
  ultimately show ?thesis
    using assms by (auto simp: session_ops_def)
qed

text \<open>C5: Whatever starting up, logins, logouts and reloads run at the same time and however their
  requests are interleaved, the agent always signs with the identity that the store shows, and
  nobody is authenticated without an identity.\<close>

theorem session_consistent:
  assumes "session_ok s" and "set ts \<subseteq> session_ops E"
    and "run (concurrently fin es ts c) s w = (r, s', w')"
  shows "session_ok s'"
proof -
  let ?Qs = "map (\<lambda>_ _ _. True) ts :: (js_error + unit \<Rightarrow> AppSlice \<Rightarrow> bool) list"
  have "list_all2 (\<lambda>Q t. obeys keeps_session t Q) ?Qs ts"
    using assms(2) by (induction ts) (auto intro: session_ops_obey)
  from obeys_run [OF obeys_concurrently [OF keeps_session_refl keeps_session_trans _ this]
      keeps_session_refl keeps_session_trans assms(3)] assms(1)
  show ?thesis by (auto simp: stable_def keeps_session_def session_ok_view)
qed

lemma session_consistent_witness:
  "case run (concurrently first_error [Serve 0, Serve 1, Resume 1, Resume 0]
       [initializeAuth offline [], logout offline] None) user_session 0 of (r, s', w') \<Rightarrow> session_ok s'"
proof -
  have "session_ok user_session" by (simp add: session_ok_def session_defs)
  moreover have "set [initializeAuth offline [], logout offline] \<subseteq> session_ops offline"
    by (simp add: session_ops_def)
  ultimately show ?thesis using session_consistent by (metis (mono_tags, lifting) case_prodI2)
qed

section \<open>Starting up without a session\<close>

text \<open>When no session is stored, starting up makes no request to any canister: after the two
  requests to the client, every loader ends at once with its flag raised and no data, under every
  schedule.\<close>

theorem initializeAuth_anonymous:
  assumes "AuthClient_create E w = (w1, Inr client)" and "AuthClient_isAuthenticated E w1 = (w2, Inr False)"
  shows "run (initializeAuth E es) s w =
    (Inr (), s\<lparr>agentIdentity := AuthClient_getIdentity E w2, identity := Some (AuthClient_getIdentity E w2),
       authClient := Some client, isAuthenticated := False, isAuthInitialized := True,
       isProfileInitialized := True, isProfileLoading := False, isUsersInitialized := True,
       isTrustedPartnersInitialized := True, isStaffInitialized := True, isAdminOrgsInitialized := True,
       isTermsAndConditionsInitialized := True, isProjectsInitialized := True,
       isOrganizationsInitialized := True, isTeamsInitialized := True, isMyInvitesInitialized := True\<rparr>, w2)"
proof -
  have loaders: "run (promise_all es (loaders E)) t v = (Inr (), t\<lparr>isUsersInitialized := True,
       isTrustedPartnersInitialized := True, isStaffInitialized := True, isAdminOrgsInitialized := True,
       isTermsAndConditionsInitialized := True, isProjectsInitialized := True,
       isOrganizationsInitialized := True, isTeamsInitialized := True, isMyInvitesInitialized := True\<rparr>, v)"
    if "\<not> isAuthenticated t" and "isProfileInitialized t" for t v
  proof -
    have "instants first_error (loaders E) (None, t) = Some (None, t\<lparr>isUsersInitialized := True,
       isTrustedPartnersInitialized := True, isStaffInitialized := True, isAdminOrgsInitialized := True,
       isTermsAndConditionsInitialized := True, isProjectsInitialized := True,
       isOrganizationsInitialized := True, isTeamsInitialized := True, isMyInvitesInitialized := True\<rparr>)"
      by (simp add: loaders_def initializeUsers_def initializeTrustedPartners_def initializeStaff_def
        initializeAdminOrgs_def initializeTermsAndConditions_def initializeProjects_def
        initializeOrganizations_def initializeTeams_def initializeMyInvites_def that first_error_def)
    from run_concurrently_instants [OF this]
    show ?thesis by (simp add: promise_all_def run_await run_ret)
  qed
  show ?thesis
    by (simp add: initializeAuth_def assms setAgentIdentity_def run_simps initializeData_def
        initializeUserProfile_def loaders)
qed

lemma initializeAuth_anonymous_witness:
  "case run (initializeAuth offline [Serve 7]) initialState 0 of (r, s', w') \<Rightarrow>
     r = Inr () \<and> isTeamsInitialized s' \<and> authClient s' = Some AuthClient \<and> teams s' = [] \<and> w' = 2"
  by (subst initializeAuth_anonymous [of offline 0 1 AuthClient 2])
    (simp_all add: offline_def initialState_def)

section \<open>Route guards\<close>

text \<open>The guard of the application's routes sends away, once profile and terms are known, exactly
  the users who are not active (to the root) and the active users, administrators apart, who have
  not accepted the current terms (to the terms), and it does not send to the page one is on.\<close>

theorem useRequireAuth_decides:
  "useRequireAuth s pathname =
     (if isProfileInitialized s \<and> isTermsAndConditionsInitialized s then
        (case profile s of
           None \<Rightarrow> if pathname = ''/'' then None else Some ''/''
         | Some p \<Rightarrow>
             if UserProfile_status p = Inactive then (if pathname = ''/'' then None else Some ''/'')
             else if UserProfile_isAdmin p \<or> pathname = ''/terms-and-conditions'' then None
             else (case termsAndConditions s of
                 None \<Rightarrow> None
               | Some t \<Rightarrow> if TermsAndConditions_hasAccepted t then None else Some ''/terms-and-conditions''))
      else None)"
  by (auto simp: useRequireAuth_def returnTo_def selectIsActive_def selectIsAdmin_def
      split: option.split) (metis UserStatus.exhaust)+



end
