(* ===== verification/ModelLaws.thy ===== *)
theory ModelLaws
  imports UserModels ProjectModels ProposalModels
begin

text \<open>
  What the models of the API guarantee: the encodings lose nothing, an error of the backend keeps its
  message and its name, a link code is made of the alphabet's characters, and the two filters of the list
  of proposals divide the proposals.
\<close>


text \<open>A call that the backend refuses throws an error whose message is the backend's, after the name of
  its code in brackets; a quota that is exceeded, like an error without a code, appears as unknown.\<close>

theorem refusals_keep_message:
  "(case mapOkResponse (Err err) of
      Inr _ \<Rightarrow> False
    | Inl e \<Rightarrow> error_message e = ''['' @
        (case ApiError_code err of
           [] \<Rightarrow> ''Unknown''
         | code # _ \<Rightarrow> (case code of
             Api_ClientError \<Rightarrow> ''ClientError'' | Api_Unauthorized \<Rightarrow> ''Unauthorized''
           | Api_DependencyError \<Rightarrow> ''DependencyError'' | Api_InternalError \<Rightarrow> ''InternalError''
           | Api_Unauthenticated \<Rightarrow> ''Unauthenticated'' | Api_QuotaExceeded \<Rightarrow> ''Unknown'')) @
        '']: '' @ ApiError_message err) \<and>
   mapOkResponse (Ok x) = Inr x"
  by (auto simp: codeObjToString_def split: list.split ApiErrorCode.split)

section \<open>Link codes\<close>

lemma generateLinkCode_map: "generateLinkCode bytes = map (\<lambda>b. LINK_CODE_ALPHABET ! (b mod 36)) bytes"
proof -
  have "foldl (\<lambda>out b. out @ [f b]) acc bytes = acc @ map f bytes" for f :: "nat \<Rightarrow> char" and acc
    by (induction bytes arbitrary: acc) simp_all
  from this [of "\<lambda>b. LINK_CODE_ALPHABET ! (b mod length LINK_CODE_ALPHABET)" "[]"] show ?thesis
    by (simp add: generateLinkCode_def LINK_CODE_ALPHABET_def)
qed

lemma byte_counts:
  assumes "i < 36"
  shows "card {b :: nat. b < 256 \<and> b mod 36 = i} = (if i < 4 then 8 else 7)"
proof -
  let ?n = "if i < 4 then 8 else 7 :: nat"
  have "{b :: nat. b < 256 \<and> b mod 36 = i} = (\<lambda>k. i + 36 * k) ` {..<?n}" (is "?L = ?R")
  proof (intro subset_antisym subsetI)
    fix b
    assume "b \<in> ?L"
    then have "b = i + 36 * (b div 36)" and "b < 256" by auto
    moreover from this have "b div 36 < ?n" by (cases "i < 4") auto
    ultimately show "b \<in> ?R" by blast
  next
    fix b
    assume "b \<in> ?R"
    then show "b \<in> ?L" using assms by (auto split: if_splits)
  qed
  moreover have "inj_on (\<lambda>k. i + 36 * k) {..<?n}" by (simp add: inj_on_def)
  ultimately show ?thesis by (simp only: card_image card_lessThan)
qed

text \<open>Eight random bytes give a link code of eight capital letters and digits. The characters are not
  quite equally likely: four of them stand for eight of the 256 bytes, the other 32 for seven.\<close>

theorem generateLinkCode_alphabet:
  assumes "random_bytes_ok bytes"
  shows "length (generateLinkCode bytes) = 8 \<and> set (generateLinkCode bytes) \<subseteq> set LINK_CODE_ALPHABET \<and>
    (\<forall>c \<in> set LINK_CODE_ALPHABET. card {b. b < 256 \<and> generateLinkCode [b] = [c]} =
      (if c \<in> set ''ABCD'' then 8 else 7))"
proof (intro conjI ballI)
  show "length (generateLinkCode bytes) = 8"
    using assms by (simp add: generateLinkCode_map random_bytes_ok_def LINK_CODE_LEN_def)
  have len: "length LINK_CODE_ALPHABET = 36" by (simp add: LINK_CODE_ALPHABET_def)
  show "set (generateLinkCode bytes) \<subseteq> set LINK_CODE_ALPHABET"
    by (auto simp: generateLinkCode_map intro!: nth_mem) (simp add: len)
  have dist: "distinct LINK_CODE_ALPHABET" by (simp add: LINK_CODE_ALPHABET_def)
  fix c
  assume "c \<in> set LINK_CODE_ALPHABET"
  then obtain i where i: "i < 36" "c = LINK_CODE_ALPHABET ! i" by (auto simp: in_set_conv_nth len)
  have "{b. b < 256 \<and> generateLinkCode [b] = [c]} = {b. b < 256 \<and> b mod 36 = i}"
    using i by (auto simp: generateLinkCode_map nth_eq_iff_index_eq [OF dist] len)
  then have "card {b. b < 256 \<and> generateLinkCode [b] = [c]} = (if i < 4 then 8 else 7)"
    by (simp only: byte_counts [OF i(1)])
  moreover have "i < 4 \<longleftrightarrow> c \<in> set ''ABCD''"
  proof -
    have "''ABCD'' = map (nth LINK_CODE_ALPHABET) [0, 1, 2, 3]" by (simp add: LINK_CODE_ALPHABET_def)
    then have "c \<in> set ''ABCD'' \<longleftrightarrow> (\<exists>j \<in> {0, 1, 2, 3}. LINK_CODE_ALPHABET ! i = LINK_CODE_ALPHABET ! j)"
      by (simp add: i(2))
    also have "... \<longleftrightarrow> (\<exists>j \<in> {0, 1, 2, 3}. i = j)"
      using i(1) by (intro bex_cong refl nth_eq_iff_index_eq [OF dist]) (auto simp: len)
    also have "... \<longleftrightarrow> i < 4" by auto
    finally show ?thesis by simp
  qed
  ultimately show "card {b. b < 256 \<and> generateLinkCode [b] = [c]} = (if c \<in> set ''ABCD'' then 8 else 7)" by simp
qed

theorem generateLinkCode_alphabet_witness:
  "length (generateLinkCode [0, 35, 36, 255, 7, 8, 9, 10]) = 8 \<and> generateLinkCode [0, 35, 36, 255] = ''A9AD''"
proof -
  have "random_bytes_ok [0, 35, 36, 255, 7, 8, 9, 10]" by (simp add: random_bytes_ok_def LINK_CODE_LEN_def)
  from generateLinkCode_alphabet [OF this] show ?thesis
    by (simp add: generateLinkCode_def LINK_CODE_ALPHABET_def)
qed

section \<open>Proposals\<close>

text \<open>The two tabs of the list of proposals divide them: every status is asked for by exactly one of the
  two filters, the open one asks for exactly the proposals one can still vote on or cancel, and each filter
  is sent as distinct kinds.\<close>

theorem proposal_filters_divide:
  "(status_kind st \<in> set PROPOSAL_CLOSED_FILTER \<longleftrightarrow> status_kind st \<notin> set PROPOSAL_OPEN_FILTER) \<and>
   (isProposalActionable (Some st) \<longleftrightarrow> status_kind st \<in> set PROPOSAL_OPEN_FILTER) \<and>
   \<not> isProposalActionable None \<and>
   distinct (map mapProposalStatusFilterToApi (PROPOSAL_OPEN_FILTER @ PROPOSAL_CLOSED_FILTER))"
  by (cases st) (simp_all add: PROPOSAL_CLOSED_FILTER_def PROPOSAL_OPEN_FILTER_def isProposalActionable_def
    mapProposalStatusFilterToApi_def)

end
