(* ===== verification/Steady.thy ===== *)
theory Steady
  imports Backend
begin

text \<open>
  Methods whose answer depends on the request only, not on when it is served: what a call of such a
  method does to a part of the state is known before the call is made, so that concurrent calls can be
  compared with calls made one after the other.
\<close>

text \<open>A steady method: the caller and the time of the call do not matter.\<close>

definition steady :: "('w, 'q, 'r) canister_method \<Rightarrow> bool" where
  "steady m \<longleftrightarrow> (\<forall>i j q w v. snd (m i q w) = snd (m j q v))"

text \<open>What an answered request changes: nothing when it failed, or what its result is turned into.\<close>

definition on_success :: "js_error + 'a \<Rightarrow> ('a \<Rightarrow> 'x \<Rightarrow> 'x) \<Rightarrow> ('x \<Rightarrow> 'x) list" where
  "on_success r f = (case r of Inl _ \<Rightarrow> [] | Inr x \<Rightarrow> [f x])"

lemma steps_edit:
  assumes "steady m" and "\<And>x. steps v (k x) (Inr (y x)) [h x]"
  shows "\<exists>r. steps v (await (call_map m q f) k) r (on_success (reply f (snd (m i q w))) h)"
proof -
  have same: "reply f (snd (m j q u)) = reply f (snd (m i q w))" for j u
    using assms(1) by (metis steady_def)
  note call = steps_call_map [where f = f and m = m and q = q and r = "reply f (snd (m i q w))" and v = v, OF same]
  show ?thesis
  proof (cases "reply f (snd (m i q w))")
    case (Inl e)
    with call have "steps v (call_map m q f) (Inl e) []" by simp
    from steps_await_error [OF this] Inl show ?thesis by (auto simp: on_success_def)
  next
    case (Inr x)
    with call have "steps v (call_map m q f) (Inr x) []" by simp
    from steps_await [of v "call_map m q f" x "[]" k "Inr (y x)" "[h x]", OF this assms(2)] Inr
    show ?thesis by (auto simp: on_success_def)
  qed
qed

lemma steps_set_then_ret: "(\<And>s. v (f s) = h (v s)) \<Longrightarrow> steps v (await (set_state f) (\<lambda>_. ret x)) (Inr x) [h]"
  using steps_await [of v "set_state f" "()" "[h]" "\<lambda>_. ret x" "Inr x" "[]"] by (simp add: steps_set_state steps_ret)

lemma steps_forget: "\<exists>r. steps v t r hs \<Longrightarrow> \<exists>r. steps v (await t (\<lambda>_. ret ())) r hs"
proof (elim exE)
  fix r
  assume t: "steps v t r hs"
  show "\<exists>r. steps v (await t (\<lambda>_. ret ())) r hs"
  proof (cases r)
    case (Inl e)
    with t show ?thesis by (blast intro: steps_await_error)
  next
    case (Inr x)
    with t steps_await [of v t x hs "\<lambda>_. ret ()" "Inr ()" "[]"]
    have "steps v (await t (\<lambda>_. ret ())) (Inr ()) hs" by (simp add: steps_ret)
    then show ?thesis by auto
  qed
qed

lemma run_result: "run t s w = (fst (run t s w), fst (snd (run t s w)), snd (snd (run t s w)))"
  by simp


end
