(* ===== verification/OrgEdits.thy ===== *)
theory OrgEdits
  imports OrgStore Samples Steady
begin

text \<open>
  What the operations of the organization store guarantee: the keyed arrays keep distinct ids and
  edits of different entities do not disturb each other, under every schedule of their requests; and
  the selectors of the project switcher against a reference.
\<close>

section \<open>Edits of the slices\<close>

text \<open>The four arrays the edits below work on are keyed slices of the state.\<close>

interpretation project_slice: keyed_slice Project_id projects "\<lambda>f s. s\<lparr>projects := f (projects s)\<rparr>"
  by unfold_locales simp_all

interpretation org_slice: keyed_slice Organization_id organizations "\<lambda>f s. s\<lparr>organizations := f (organizations s)\<rparr>"
  by unfold_locales simp_all

interpretation team_slice: keyed_slice Team_id teams "\<lambda>f s. s\<lparr>teams := f (teams s)\<rparr>"
  by unfold_locales simp_all

interpretation invite_slice: keyed_slice OrgInvite_id myInvites "\<lambda>f s. s\<lparr>myInvites := f (myInvites s)\<rparr>"
  by unfold_locales simp_all

definition ids_distinct :: "AppSlice \<Rightarrow> bool" where
  "ids_distinct s \<longleftrightarrow>
     distinct (map Project_id (projects s)) \<and> distinct (map Organization_id (organizations s)) \<and>
     distinct (map Team_id (teams s)) \<and> distinct (map OrgInvite_id (myInvites s))"

text \<open>What is assumed of the backend: an update answers with the entity it was asked to update.\<close>

definition updates_keep_ids :: "'w env \<Rightarrow> bool" where
  "updates_keep_ids E \<longleftrightarrow>
     (\<forall>i q w w' ok. update_project (projectService E) i q w = (w', Inr (Ok ok)) \<longrightarrow>
        ApiProject_id (ApiProjectOk_project ok) = ApiUpdateProjectRequest_project_id q) \<and>
     (\<forall>i q w w' ok. update_organization (organizationService E) i q w = (w', Inr (Ok ok)) \<longrightarrow>
        ApiOrganization_id (ApiOrganizationOk_organization ok) = ApiUpdateOrganizationRequest_org_id q) \<and>
     (\<forall>i q w w' ok. update_team (teamService E) i q w = (w', Inr (Ok ok)) \<longrightarrow>
        ApiTeam_id (ApiTeamOk_team ok) = ApiUpdateTeamRequest_team_id q)"

datatype slice_edit =
    UpdateProject string string | DeleteProject string
  | UpdateOrganization string string | DeleteOrganization string
  | UpdateTeam string string | DeleteTeam string
  | DeclineInvite string

fun run_edit :: "'w env \<Rightarrow> slice_edit \<Rightarrow> ('w, unit) store_task" where
  "run_edit E (UpdateProject k name) = await (updateProject E k name) (\<lambda>_. ret ())"
| "run_edit E (DeleteProject k) = deleteProject E k"
| "run_edit E (UpdateOrganization k name) = await (updateOrganization E k name) (\<lambda>_. ret ())"
| "run_edit E (DeleteOrganization k) = deleteOrganization E k"
| "run_edit E (UpdateTeam k name) = await (updateTeam E k name) (\<lambda>_. ret ())"
| "run_edit E (DeleteTeam k) = deleteTeam E k"
| "run_edit E (DeclineInvite k) = declineOrgInvite E k"

lemmas edit_defs = updateProject_def deleteProject_def updateOrganization_def deleteOrganization_def
  updateTeam_def deleteTeam_def declineOrgInvite_def ProjectApi_updateProject_def ProjectApi_deleteProject_def
  OrganizationApi_updateOrganization_def OrganizationApi_deleteOrganization_def TeamApi_updateTeam_def
  TeamApi_deleteTeam_def InviteApi_declineOrgInvite_def

lemmas edit_response_defs = mapUpdateProjectResponse_def mapUpdateProjectRequest_def mapProjectResponse_def
  mapUpdateOrganizationResponse_def mapUpdateOrganizationRequest_def mapOrganizationResponse_def
  mapUpdateTeamResponse_def mapUpdateTeamRequest_def mapTeamResponse_def

definition keeps_ids :: "AppSlice \<Rightarrow> AppSlice \<Rightarrow> bool" where
  "keeps_ids s s' \<longleftrightarrow> (ids_distinct s \<longrightarrow> ids_distinct s')"

lemma keeps_ids_refl: "reflp keeps_ids" and keeps_ids_trans: "transp keeps_ids"
  by (auto simp: keeps_ids_def reflp_def transp_def)

lemma keeps_ids_replace:
  "keeps_ids s0 s \<Longrightarrow> Project_id p = k \<Longrightarrow> keeps_ids s0 (s\<lparr>projects := replace_by Project_id k (\<lambda>_. p) (projects s)\<rparr>)"
  "keeps_ids s0 s \<Longrightarrow> Organization_id g = k \<Longrightarrow>
     keeps_ids s0 (s\<lparr>organizations := replace_by Organization_id k (\<lambda>_. g) (organizations s)\<rparr>)"
  "keeps_ids s0 s \<Longrightarrow> Team_id t = k \<Longrightarrow> keeps_ids s0 (s\<lparr>teams := replace_by Team_id k (\<lambda>_. t) (teams s)\<rparr>)"
  by (simp_all add: keeps_ids_def ids_distinct_def keys_replace_by)

lemma keeps_ids_remove:
  "keeps_ids s0 s \<Longrightarrow> keeps_ids s0 (s\<lparr>projects := remove_by Project_id k (projects s)\<rparr>)"
  "keeps_ids s0 s \<Longrightarrow> keeps_ids s0 (s\<lparr>organizations := remove_by Organization_id k (organizations s)\<rparr>)"
  "keeps_ids s0 s \<Longrightarrow> keeps_ids s0 (s\<lparr>teams := remove_by Team_id k (teams s)\<rparr>)"
  "keeps_ids s0 s \<Longrightarrow> keeps_ids s0 (s\<lparr>myInvites := remove_by OrgInvite_id k (myInvites s)\<rparr>)"
  by (simp_all add: keeps_ids_def ids_distinct_def distinct_remove_by)

lemma keeps_ids_step [simp]: "keeps_ids s s"
  by (simp add: keeps_ids_def)

text \<open>What an answer to an update means for the slice.\<close>

lemma updated_ids:
  assumes "updates_keep_ids E"
  shows "reply mapUpdateProjectResponse (snd (update_project (projectService E) i
        (mapUpdateProjectRequest \<lparr>UpdateProjectRequest_projectId = k, UpdateProjectRequest_name = n\<rparr>) w)) = Inr p \<Longrightarrow>
      Project_id (ProjectResponse_project p) = k"
    and "reply mapUpdateOrganizationResponse (snd (update_organization (organizationService E) i
        (mapUpdateOrganizationRequest \<lparr>UpdateOrganizationRequest_orgId = k, UpdateOrganizationRequest_name = n\<rparr>) w)) = Inr g \<Longrightarrow>
      Organization_id (OrganizationResponse_organization g) = k"
    and "reply mapUpdateTeamResponse (snd (update_team (teamService E) i
        (mapUpdateTeamRequest \<lparr>UpdateTeamRequest_teamId = k, UpdateTeamRequest_name = n\<rparr>) w)) = Inr t \<Longrightarrow>
      Team_id (TeamResponse_team t) = k"
proof -
  have ok: "\<exists>w' ok. m = (w', Inr (Ok ok)) \<and> x = f ok" if "reply (ok_map f) (snd m) = Inr x"
    for f :: "'x \<Rightarrow> 'y" and m :: "'w \<times> (string + 'x ApiResponse)" and x
    using that by (cases m; cases "snd m") (auto simp: reply_def ok_map_Inr)
  note E = assms [unfolded updates_keep_ids_def]
  show "reply mapUpdateProjectResponse (snd (update_project (projectService E) i
        (mapUpdateProjectRequest \<lparr>UpdateProjectRequest_projectId = k, UpdateProjectRequest_name = n\<rparr>) w)) = Inr p \<Longrightarrow>
      Project_id (ProjectResponse_project p) = k"
    unfolding mapUpdateProjectResponse_def using E
    by (auto dest!: ok simp: mapProjectResponse_def mapUpdateProjectRequest_def)
  show "reply mapUpdateOrganizationResponse (snd (update_organization (organizationService E) i
        (mapUpdateOrganizationRequest \<lparr>UpdateOrganizationRequest_orgId = k, UpdateOrganizationRequest_name = n\<rparr>) w)) = Inr g \<Longrightarrow>
      Organization_id (OrganizationResponse_organization g) = k"
    unfolding mapUpdateOrganizationResponse_def using E
    by (auto dest!: ok simp: mapOrganizationResponse_def mapUpdateOrganizationRequest_def)
  show "reply mapUpdateTeamResponse (snd (update_team (teamService E) i
        (mapUpdateTeamRequest \<lparr>UpdateTeamRequest_teamId = k, UpdateTeamRequest_name = n\<rparr>) w)) = Inr t \<Longrightarrow>
      Team_id (TeamResponse_team t) = k"
    unfolding mapUpdateTeamResponse_def using E
    by (auto dest!: ok simp: mapTeamResponse_def mapUpdateTeamRequest_def)
qed

lemma run_edit_obeys:
  assumes "updates_keep_ids E"
  shows "obeys keeps_ids (run_edit E e) (\<lambda>_ _. True)"
  by (rule obeysI, cases e)
    (auto simp: edit_defs rg_simps updated_ids [OF assms] intro!: keeps_ids_replace keeps_ids_remove split: sum.split)

text \<open>C8: No interleaving of updates and deletions of projects, organizations and teams and of declined
  invitations leaves two entries with the same id in a slice, whichever of them fail.\<close>

theorem edits_keep_ids_distinct:
  assumes "updates_keep_ids E" and "ids_distinct s"
    and "run (concurrently (\<lambda>_ _. ()) es (map (run_edit E) edits) ()) s w = (r, s', w')"
  shows "ids_distinct s'"
proof -
  let ?Qs = "map (\<lambda>_ _ _. True) edits :: (js_error + unit \<Rightarrow> AppSlice \<Rightarrow> bool) list"
  have "list_all2 (\<lambda>Q t. obeys keeps_ids t Q) ?Qs (map (run_edit E) edits)"
    by (simp add: list_all2_conv_all_nth run_edit_obeys [OF assms(1)])
  from obeys_run [OF obeys_concurrently [OF keeps_ids_refl keeps_ids_trans _ this]
      keeps_ids_refl keeps_ids_trans assms(3)] assms(2)
  show ?thesis by (auto simp: stable_def keeps_ids_def)
qed

section \<open>Edits of different entities are independent\<close>

type_synonym slices = "Project list \<times> Organization list \<times> Team list \<times> OrgInvite list"

definition slices_of :: "AppSlice \<Rightarrow> slices" where
  "slices_of s = (projects s, organizations s, teams s, myInvites s)"

text \<open>The entity an edit is about.\<close>

fun edit_target :: "slice_edit \<Rightarrow> nat \<times> string" where
  "edit_target (UpdateProject k name) = (0, k)"
| "edit_target (DeleteProject k) = (0, k)"
| "edit_target (UpdateOrganization k name) = (1, k)"
| "edit_target (DeleteOrganization k) = (1, k)"
| "edit_target (UpdateTeam k name) = (2, k)"
| "edit_target (DeleteTeam k) = (2, k)"
| "edit_target (DeclineInvite k) = (3, k)"

text \<open>What the backend's answer to an edit makes of the slices.\<close>

fun edit_effect :: "'w env \<Rightarrow> Identity \<Rightarrow> 'w \<Rightarrow> slice_edit \<Rightarrow> (slices \<Rightarrow> slices) list" where
  "edit_effect E i w (UpdateProject k name) =
     on_success (reply mapUpdateProjectResponse (snd (update_project (projectService E) i
       (mapUpdateProjectRequest \<lparr>UpdateProjectRequest_projectId = k, UpdateProjectRequest_name = name\<rparr>) w)))
       (\<lambda>res (ps, rest). (replace_by Project_id k (\<lambda>_. ProjectResponse_project res) ps, rest))"
| "edit_effect E i w (DeleteProject k) =
     on_success (reply mapDeleteProjectResponse (snd (delete_project (projectService E) i
       (mapDeleteProjectRequest \<lparr>DeleteProjectRequest_projectId = k\<rparr>) w)))
       (\<lambda>_ (ps, rest). (remove_by Project_id k ps, rest))"
| "edit_effect E i w (UpdateOrganization k name) =
     on_success (reply mapUpdateOrganizationResponse (snd (update_organization (organizationService E) i
       (mapUpdateOrganizationRequest \<lparr>UpdateOrganizationRequest_orgId = k, UpdateOrganizationRequest_name = name\<rparr>) w)))
       (\<lambda>res (ps, gs, rest). (ps, replace_by Organization_id k (\<lambda>_. OrganizationResponse_organization res) gs, rest))"
| "edit_effect E i w (DeleteOrganization k) =
     on_success (reply mapDeleteOrganizationResponse (snd (delete_organization (organizationService E) i
       (mapDeleteOrganizationRequest \<lparr>DeleteOrganizationRequest_orgId = k\<rparr>) w)))
       (\<lambda>_ (ps, gs, rest). (ps, remove_by Organization_id k gs, rest))"
| "edit_effect E i w (UpdateTeam k name) =
     on_success (reply mapUpdateTeamResponse (snd (update_team (teamService E) i
       (mapUpdateTeamRequest \<lparr>UpdateTeamRequest_teamId = k, UpdateTeamRequest_name = name\<rparr>) w)))
       (\<lambda>res (ps, gs, ts, is). (ps, gs, replace_by Team_id k (\<lambda>_. TeamResponse_team res) ts, is))"
| "edit_effect E i w (DeleteTeam k) =
     on_success (reply mapDeleteTeamResponse (snd (delete_team (teamService E) i
       (mapDeleteTeamRequest \<lparr>DeleteTeamRequest_teamId = k\<rparr>) w)))
       (\<lambda>_ (ps, gs, ts, is). (ps, gs, remove_by Team_id k ts, is))"
| "edit_effect E i w (DeclineInvite k) =
     on_success (reply mapDeclineOrgInviteResponse (snd (decline_org_invite (inviteService E) i
       (mapDeclineOrgInviteRequest \<lparr>DeclineOrgInviteRequest_inviteId = k\<rparr>) w)))
       (\<lambda>_ (ps, gs, ts, is). (ps, gs, ts, remove_by OrgInvite_id k is))"

text \<open>The answers do not depend on the order in which the requests are served.\<close>

definition steady_edits :: "'w env \<Rightarrow> bool" where
  "steady_edits E \<longleftrightarrow>
     steady (update_project (projectService E)) \<and> steady (delete_project (projectService E)) \<and>
     steady (update_organization (organizationService E)) \<and> steady (delete_organization (organizationService E)) \<and>
     steady (update_team (teamService E)) \<and> steady (delete_team (teamService E)) \<and>
     steady (decline_org_invite (inviteService E))"

lemma run_edit_steps:
  assumes "steady_edits E"
  shows "\<exists>r. steps slices_of (run_edit E e) r (edit_effect E i w e)"
  using assms unfolding steady_edits_def
  by (cases e) (simp_all only: run_edit.simps edit_effect.simps edit_defs,
    (rule steps_forget | rule steps_edit [rotated] | rule steps_set_then_ret | rule steps_set_state | blast |
      simp add: slices_of_def)+)

text \<open>The changes of two edits of different entities commute.\<close>

lemma edits_commute:
  assumes "updates_keep_ids E" and "edit_target e \<noteq> edit_target e'"
    and "f \<in> set (edit_effect E i w e)" and "g \<in> set (edit_effect E i w e')"
  shows "commute f g"
  using assms(2-4)
  by (cases e; cases e')
    (auto simp: commute_def on_success_def keyed_simps updated_ids [OF assms(1)] split: sum.splits)


section \<open>The edits at work\<close>

text \<open>A backend that carries out the updates and deletions of projects it is asked for.\<close>

definition echo_project :: "(nat, ApiUpdateProjectRequest, ApiProjectOk ApiResponse) canister_method" where
  "echo_project i q w =
     (Suc w, Inr (Ok \<lparr>ApiProjectOk_project =
        \<lparr>ApiProject_org_id = ''o1'', ApiProject_id = ApiUpdateProjectRequest_project_id q,
         ApiProject_name = ApiUpdateProjectRequest_name q,
         ApiProject_your_permissions = mapProjectPermissionsToApi emptyProjectPermissions\<rparr>\<rparr>))"

definition project_backend :: "nat env" where
  "project_backend = offline\<lparr>projectService := (projectService offline)\<lparr>update_project := echo_project,
     delete_project := answering (Ok ())\<rparr>\<rparr>"

definition sample_project :: "string \<Rightarrow> string \<Rightarrow> Project" where
  "sample_project k name = \<lparr>Project_id = k, Project_orgId = ''o1'', Project_name = name,
     Project_yourPermissions = emptyProjectPermissions\<rparr>"

definition project_session :: AppSlice where
  "project_session = user_session\<lparr>projects := [sample_project ''p1'' ''One'', sample_project ''p2'' ''Two'']\<rparr>"

definition sample_edits :: "slice_edit list" where
  "sample_edits = [UpdateProject ''p1'' ''Uno'', DeleteProject ''p2'', DeleteTeam ''t1'']"

lemmas no_edit_defs = offline_def no_ProjectService_def no_OrganizationService_def no_TeamService_def
  no_InviteService_def unreachable_def

lemma project_backend_keeps_ids: "updates_keep_ids project_backend"
  by (auto simp: updates_keep_ids_def project_backend_def echo_project_def no_edit_defs)

lemma project_backend_steady: "steady_edits project_backend"
  by (simp add: steady_edits_def steady_def project_backend_def echo_project_def answering_def no_edit_defs)

lemma project_session_distinct: "ids_distinct project_session"
  by (simp add: ids_distinct_def project_session_def sample_project_def user_session_def session_defs)

theorem edits_keep_ids_distinct_witness:
  "ids_distinct (fst (snd (run (concurrently (\<lambda>_ _. ()) [Serve 1, Serve 0, Resume 0]
     (map (run_edit project_backend) sample_edits) ()) project_session 0)))"
  by (rule edits_keep_ids_distinct [OF project_backend_keeps_ids project_session_distinct run_result])


section \<open>The selectors\<close>

lemma js_map_set_tabulated:
  assumes "distinct ks"
  shows "js_map_set k v (map (\<lambda>k. (k, f k)) ks) =
    (if k \<in> set ks then map (\<lambda>j. (j, if j = k then v else f j)) ks else map (\<lambda>k. (k, f k)) ks @ [(k, v)])"
  using assms by (induction ks) auto

lemma js_map_get_tabulated: "js_map_get k (map (\<lambda>k. (k, f k)) ks) = (if k \<in> set ks then Some (f k) else None)"
  unfolding js_map_get_def by (induction ks) auto

text \<open>The distinct elements of a list, in the order of their first occurrences.\<close>

definition firsts :: "'a list \<Rightarrow> 'a list" where
  "firsts xs = rev (remdups (rev xs))"

lemma firsts_snoc: "firsts (xs @ [x]) = (if x \<in> set xs then firsts xs else firsts xs @ [x])"
  by (simp add: firsts_def)

lemma set_firsts [simp]: "set (firsts xs) = set xs" and distinct_firsts [simp]: "distinct (firsts xs)"
  by (simp_all add: firsts_def)

lemma firsts_Nil [simp]: "firsts [] = []"
  by (simp add: firsts_def)

lemma index_by_lookup: "js_map_get k (index_by key xs) = List.find (\<lambda>x. key x = k) (rev xs)"
  by (induction xs rule: rev_induct) (simp_all add: index_by_def js_map_get_def [of _ "[]"])

definition project_groups :: "(string, Organization) js_map \<Rightarrow> Project list \<Rightarrow> string \<Rightarrow> OrgWithProjects" where
  "project_groups orgMap ps k =
     \<lparr>OrgWithProjects_id = k,
      OrgWithProjects_name = (case js_map_get k orgMap of Some org \<Rightarrow> Organization_name org | None \<Rightarrow> ''''),
      OrgWithProjects_projects = filter (\<lambda>p. Project_orgId p = k) ps\<rparr>"

lemma add_projects_groups:
  "foldl (add_project m) [] ps = map (\<lambda>k. (k, project_groups m ps k)) (firsts (map Project_orgId ps))"
proof (induction ps rule: rev_induct)
  case (snoc p ps)
  let ?k = "Project_orgId p" and ?ks = "firsts (map Project_orgId ps)"
  define acc where "acc = map (\<lambda>k. (k, project_groups m ps k)) ?ks"
  from snoc have acc: "foldl (add_project m) [] (ps @ [p]) = add_project m acc p"
    by (simp add: acc_def)
  have other: "project_groups m (ps @ [p]) j = project_groups m ps j" if "j \<noteq> ?k" for j
    using that by (simp add: project_groups_def)
  show ?case
  proof (cases "?k \<in> set ?ks")
    case True
    then have "js_map_get ?k acc = Some (project_groups m ps ?k)"
      by (simp add: acc_def js_map_get_tabulated)
    then have "add_project m acc p = js_map_set ?k (project_groups m (ps @ [p]) ?k) acc"
      by (simp add: add_project_def project_groups_def Let_def)
    also have "... = map (\<lambda>k. (k, project_groups m (ps @ [p]) k)) ?ks"
      using True by (auto simp: acc_def js_map_set_tabulated other)
    finally show ?thesis using True unfolding acc by (simp add: firsts_snoc)
  next
    case False
    then have "js_map_get ?k acc = None"
      by (simp add: acc_def js_map_get_tabulated)
    moreover from False have ne: "\<forall>q \<in> set ps. Project_orgId q \<noteq> ?k"
      by (metis image_eqI image_set set_firsts)
    from ne have "filter (\<lambda>q. Project_orgId q = ?k) ps = []"
      by (simp add: filter_empty_conv)
    ultimately have "add_project m acc p = js_map_set ?k (project_groups m (ps @ [p]) ?k) acc"
      by (simp add: add_project_def project_groups_def Let_def)
    also have "... = map (\<lambda>k. (k, project_groups m (ps @ [p]) k)) (?ks @ [?k])"
      using False ne by (auto simp: acc_def js_map_set_tabulated other)
    finally show ?thesis using False unfolding acc by (simp add: firsts_snoc)
  qed
qed simp

text \<open>The groups of the project switcher, in the order in which a project of theirs is first listed.\<close>

lemma orgs_with_projects:
  "selectOrgsWithProjects s =
     (if organizations s = [] then []
      else map (project_groups (selectOrgMap s) (projects s)) (firsts (map Project_orgId (projects s))))"
proof -
  have "length (index_by Organization_id gs) = 0 \<longleftrightarrow> gs = []" for gs :: "Organization list"
  proof (cases gs rule: rev_cases)
    case (snoc hs g)
    then have "js_map_has (Organization_id g) (index_by Organization_id gs)"
      by (simp add: index_by_def)
    with snoc show ?thesis by (auto simp: js_map_has_def)
  qed (simp add: index_by_def)
  then show ?thesis
    by (simp add: selectOrgsWithProjects_def selectOrgWithProjectsMap_def selectOrgMap_def Let_def
        js_map_values_def add_projects_groups comp_def)
qed

text \<open>The project switcher groups the projects by organization, the organizations in the order in
  which a project of theirs is first listed, each with all of its projects in their order; a project of
  an organization the user does not see is listed under an empty name, and without any organization there
  are no groups.\<close>

theorem selectOrgsWithProjects_groups:
  "selectOrgsWithProjects s =
     (if organizations s = [] then []
      else map (\<lambda>k. \<lparr>OrgWithProjects_id = k,
          OrgWithProjects_name = (case List.find (\<lambda>g. Organization_id g = k) (rev (organizations s)) of
            Some org \<Rightarrow> Organization_name org | None \<Rightarrow> ''''),
          OrgWithProjects_projects = filter (\<lambda>p. Project_orgId p = k) (projects s)\<rparr>)
        (firsts (map Project_orgId (projects s))))"
  by (simp add: orgs_with_projects project_groups_def selectOrgMap_def index_by_lookup)

end
