(* ===== verification/CanisterLaws.thy ===== *)
theory CanisterLaws
  imports CanisterStore OrgEdits "HOL-Library.Multiset"
begin

text \<open>
  What the operations of the canister and usage stores guarantee: refreshing several projects at once
  loses nothing, adding the backend as a controller sends the settings it should, the proposal to add a
  controller, and the sum of the usage of an organization. All of it is independent of the order in which
  the requests are served.
\<close>

section \<open>Refreshing projects at once\<close>

definition canister_lookup :: "AppSlice \<Rightarrow> string \<Rightarrow> Canister list option" where
  "canister_lookup s k = (case canisters s of Some m \<Rightarrow> js_map_get k m | None \<Rightarrow> None)"

lemma canister_lookup_update:
  "canister_lookup (s\<lparr>canisters := Some (js_map_set k cs (case canisters s of Some m \<Rightarrow> m | None \<Rightarrow> []))\<rparr>) =
     (canister_lookup s)(k \<mapsto> cs)"
  by (auto simp: canister_lookup_def fun_eq_iff js_map_get_def [of _ "[]"] split: option.splits)

lemma canister_lookup_other [simp]:
  "canister_lookup (s\<lparr>isCanistersLoading := b\<rparr>) = canister_lookup s"
  "canister_lookup (s\<lparr>isCanistersInitialized := b\<rparr>) = canister_lookup s"
  by (simp_all add: canister_lookup_def fun_eq_iff)

text \<open>The canisters the backend lists for a project.\<close>

definition listed_canisters :: "'w env \<Rightarrow> Identity \<Rightarrow> 'w \<Rightarrow> string \<Rightarrow> js_error + Canister list" where
  "listed_canisters E i w k = reply (mapListMyCanistersResponse E)
     (snd (list_my_canisters (canisterService E) i \<lparr>ApiListMyCanistersRequest_project_id = k\<rparr> w))"

lemma steps_refreshCanisters:
  assumes "steady (list_my_canisters (canisterService E))"
  shows "\<exists>r. steps canister_lookup (refreshCanisters E k) r
    (on_success (listed_canisters E i w k) (\<lambda>cs m. m(k \<mapsto> cs)))"
proof -
  let ?hs = "on_success (listed_canisters E i w k) (\<lambda>cs m. m(k \<mapsto> cs))"
  let ?t = "await (CanisterApi_listMyCanisters E \<lparr>ApiListMyCanistersRequest_project_id = k\<rparr>) (\<lambda>cs.
           set_state (\<lambda>s. s\<lparr>canisters :=
             Some (js_map_set k cs (case canisters s of Some m \<Rightarrow> m | None \<Rightarrow> []))\<rparr>))"
  have "\<exists>r. steps canister_lookup ?t r ?hs"
    unfolding CanisterApi_listMyCanisters_def listed_canisters_def
    by (rule steps_edit [OF assms]) (rule steps_set_state, rule canister_lookup_update)
  then obtain r where t: "steps canister_lookup ?t r ?hs" by blast
  have set: "steps canister_lookup (set_state (isCanistersLoading_update (\<lambda>_. b))) (Inr ()) []" for b
    by (rule steps_set_other) simp
  from steps_try_finally [OF t set] have "steps canister_lookup
      (try_finally ?t (set_state (\<lambda>s. s\<lparr>isCanistersLoading := False\<rparr>))) r ?hs" by simp
  from steps_await [OF set, of "\<lambda>_. _", OF this] show ?thesis
    unfolding refreshCanisters_def by auto
qed

text \<open>C9: Refreshing the canisters of several projects at once loses nothing: whatever the order in which
  the answers arrive, every project whose request succeeds ends with the canisters the backend listed, and
  every other project keeps the ones it had.\<close>

theorem refreshCanisters_concurrent:
  assumes "steady (list_my_canisters (canisterService E))"
    and "run (concurrently (\<lambda>_ _. ()) es (map (refreshCanisters E) ks) ()) s w = (r, s', w')"
  shows "canister_lookup s' k =
    (case listed_canisters E (agentIdentity s) w k of
       Inr cs \<Rightarrow> if k \<in> set ks then Some cs else canister_lookup s k
     | Inl _ \<Rightarrow> canister_lookup s k)"
proof -
  let ?listed = "listed_canisters E (agentIdentity s) w"
  let ?eff = "\<lambda>k. on_success (?listed k) (\<lambda>cs m. m(k \<mapsto> cs))"
  have "\<forall>k. \<exists>r. steps canister_lookup (refreshCanisters E k) r (?eff k)"
    using steps_refreshCanisters [OF assms(1)] by blast
  then obtain out where out: "\<And>k. steps canister_lookup (refreshCanisters E k) (out k) (?eff k)" by metis
  let ?plan = "map (\<lambda>k. (out k, ?eff k)) ks"
  have steps: "list_all2 (\<lambda>t (r, hs). steps canister_lookup t r hs) (map (refreshCanisters E) ks) ?plan"
    by (simp add: list_all2_conv_all_nth out)
  have "commute f g" if "f \<in> set (?eff j)" and "g \<in> set (?eff k)" for f g j k
  proof (cases "j = k")
    case True
    with that show ?thesis by (cases "?listed k") (simp_all add: commute_def on_success_def)
  next
    case False
    with that show ?thesis
      by (cases "?listed j"; cases "?listed k") (simp_all add: commute_def on_success_def fun_upd_twist)
  qed
  then have "apart (map ?eff ks)" by (auto simp: apart_def)
  with run_concurrently_steps [OF steps _ _ assms(2)]
  have final: "canister_lookup s' = apply_all (concat (map ?eff ks)) (canister_lookup s)"
    by (simp add: commute_def comp_def)
  have "apply_all (concat (map ?eff ks)) m k =
      (case ?listed k of Inr cs \<Rightarrow> if k \<in> set ks then Some cs else m k | Inl _ \<Rightarrow> m k)" for m
    by (induction ks arbitrary: m) (auto simp: on_success_def split: sum.splits)
  with final show ?thesis by simp
qed

section \<open>The usage of an organization\<close>

definition project_usage :: "'w env \<Rightarrow> string option \<Rightarrow> Identity \<Rightarrow> 'w \<Rightarrow> Project \<Rightarrow> js_error + ProjectUsage" where
  "project_usage E month i w p =
     (case reply (mapGetUsageResponse E) (snd (get_usage (canisterService E) i
        (mapGetUsageRequest \<lparr>GetUsageRequest_projectId = Project_id p, GetUsageRequest_billingMonth = month\<rparr>) w)) of
        Inl e \<Rightarrow> Inl e | Inr u \<Rightarrow> Inr (GetUsageResponse_project u))"

definition usage_toast :: "Project \<Rightarrow> js_error \<Rightarrow> string \<times> string" where
  "usage_toast p e = (''Failed to load usage for project '' @ Project_id p, error_message e)"

text \<open>The state but for the order of the toasts.\<close>

definition but_toast_order :: "AppSlice \<Rightarrow> AppSlice \<times> (string \<times> string) multiset" where
  "but_toast_order s = (s\<lparr>toasts := []\<rparr>, mset (toasts s))"

definition usage_effect :: "Project \<Rightarrow> js_error + ProjectUsage \<Rightarrow>
    (AppSlice \<times> (string \<times> string) multiset \<Rightarrow> AppSlice \<times> (string \<times> string) multiset) list" where
  "usage_effect p r = (case r of Inl e \<Rightarrow> [\<lambda>(s, ts). (s, add_mset (usage_toast p e) ts)] | Inr _ \<Rightarrow> [])"

definition usage_result :: "js_error + ProjectUsage \<Rightarrow> js_error + ProjectUsage option" where
  "usage_result r = (case r of Inl _ \<Rightarrow> Inr None | Inr u \<Rightarrow> Inr (Some u))"

lemma steps_project_usage:
  assumes "steady (get_usage (canisterService E))"
  shows "steps but_toast_order (project_usage_task E month p) (usage_result (project_usage E month i w p))
    (usage_effect p (project_usage E month i w p))"
proof -
  let ?m = "get_usage (canisterService E)" and ?f = "mapGetUsageResponse E"
  let ?q = "mapGetUsageRequest \<lparr>GetUsageRequest_projectId = Project_id p, GetUsageRequest_billingMonth = month\<rparr>"
  have same: "reply ?f (snd (?m j ?q u)) = reply ?f (snd (?m i ?q w))" for j u
    using assms by (metis steady_def)
  note call = steps_call_map [where f = ?f and m = ?m and q = ?q and r = "reply ?f (snd (?m i ?q w))"
      and v = but_toast_order, OF same]
  show ?thesis
  proof (cases "reply ?f (snd (?m i ?q w))")
    case (Inl e)
    let ?toast = "\<lambda>(s, ts). (s :: AppSlice, add_mset (usage_toast p e) ts)"
    let ?h = "\<lambda>err. await (showErrorToast (''Failed to load usage for project '' @ Project_id p) err) (\<lambda>_. ret None)"
    have "steps but_toast_order (?h e) (Inr None) [?toast]"
      unfolding showErrorToast_def
      by (rule steps_set_then_ret) (simp add: but_toast_order_def usage_toast_def)
    moreover from Inl call have "steps but_toast_order (call_map ?m ?q ?f) (Inl e) []" by simp
    then have "steps but_toast_order (await (call_map ?m ?q ?f) (\<lambda>u. ret (Some (GetUsageResponse_project u)))) (Inl e) []"
      by (rule steps_await_error)
    ultimately have "steps but_toast_order (try_catch (await (call_map ?m ?q ?f)
        (\<lambda>u. ret (Some (GetUsageResponse_project u)))) ?h) (Inr None) ([] @ [?toast])"
      by (intro steps_try_catch_error)
    then show ?thesis
      using Inl by (simp add: project_usage_task_def loadProjectUsage_def UsageApi_getUsage_def project_usage_def
        usage_result_def usage_effect_def)
  next
    case (Inr u)
    with call have "steps but_toast_order (call_map ?m ?q ?f) (Inr u) []" by simp
    from steps_await [of but_toast_order _ u "[]" "\<lambda>u. ret (Some (GetUsageResponse_project u))" _ "[]", OF this steps_ret]
    have "steps but_toast_order (await (call_map ?m ?q ?f) (\<lambda>u. ret (Some (GetUsageResponse_project u))))
        (Inr (Some (GetUsageResponse_project u))) []" by simp
    from steps_try_catch [OF this] show ?thesis
      using Inr by (simp add: project_usage_task_def loadProjectUsage_def UsageApi_getUsage_def project_usage_def
        usage_result_def usage_effect_def)
  qed
qed

definition usage_sum :: "'w env \<Rightarrow> string option \<Rightarrow> Identity \<Rightarrow> 'w \<Rightarrow> Project list \<Rightarrow> ProjectUsage" where
  "usage_sum E month i w ps = fold (\<lambda>p total.
     case project_usage E month i w p of Inl _ \<Rightarrow> total | Inr u \<Rightarrow> add_usage total u) ps zero_usage"

definition usage_failures :: "'w env \<Rightarrow> string option \<Rightarrow> Identity \<Rightarrow> 'w \<Rightarrow> Project list \<Rightarrow> (string \<times> string) list" where
  "usage_failures E month i w ps = concat (map (\<lambda>p.
     case project_usage E month i w p of Inl e \<Rightarrow> [usage_toast p e] | Inr _ \<Rightarrow> []) ps)"

lemma run_project_usages:
  assumes "steady (get_usage (canisterService E))"
    and "run (concurrently collect_usage es (map (project_usage_task E month) ps) zero_usage) s w = (r, s', w')"
  shows "r = Inr (usage_sum E month i w ps) \<and>
    but_toast_order s' = (s\<lparr>toasts := []\<rparr>, mset (toasts s @ usage_failures E month i w ps))"
proof -
  let ?use = "project_usage E month i w"
  let ?plan = "map (\<lambda>p. (usage_result (?use p), usage_effect p (?use p))) ps"
  have steps: "list_all2 (\<lambda>t (r, hs). steps but_toast_order t r hs) (map (project_usage_task E month) ps) ?plan"
    by (simp add: list_all2_conv_all_nth steps_project_usage [OF assms(1)])
  have "commute f g" if "f \<in> set (usage_effect p r)" and "g \<in> set (usage_effect q r')" for f g p q r r'
    using that by (auto simp: commute_def usage_effect_def split: sum.splits)
  then have "apart (map snd ?plan)" by (auto simp: apart_def)
  moreover have "commute (collect_usage r) (collect_usage q)" for r q
    by (auto simp: commute_def collect_usage_def add_usage_ac split: sum.splits option.splits)
  ultimately have "r = Inr (fold collect_usage (map fst ?plan) zero_usage)"
    and "but_toast_order s' = apply_all (concat (map snd ?plan)) (but_toast_order s)"
    using run_concurrently_steps [OF steps _ _ assms(2)] by blast+
  moreover have "fold collect_usage (map (\<lambda>p. usage_result (?use p)) ps) u = fold (\<lambda>p total.
      case ?use p of Inl _ \<Rightarrow> total | Inr u \<Rightarrow> add_usage total u) ps u" for u
    by (induction ps arbitrary: u) (auto simp: collect_usage_def usage_result_def split: sum.splits)
  moreover have "apply_all (concat (map (\<lambda>p. usage_effect p (?use p)) ps)) (t, m) =
      (t, m + mset (usage_failures E month i w ps))" for t m
    by (induction ps arbitrary: m) (auto simp: usage_effect_def usage_failures_def split: sum.splits)
  ultimately show ?thesis
    by (simp add: usage_sum_def but_toast_order_def comp_def)
qed

text \<open>C10: The usage of an organization is the sum over its projects of what the backend reports, a project
  whose request fails counting for nothing and shown as one error toast each: the total and the toasts do not
  depend on the order in which the requests are served, and nothing else of the store changes. Only a failure
  to list the projects makes the operation fail.\<close>

theorem loadOrgUsage_sum:
  assumes "steady (get_usage (canisterService E))"
    and "run (loadOrgUsage E es orgId month) s w = (r, s', w')"
  shows "case run (loadOrgProjects E orgId) s w of
     (Inl e, _) \<Rightarrow> r = Inl e \<and> s' = s
   | (Inr ps, _) \<Rightarrow> r = Inr (usage_sum E month i v ps) \<and> s'\<lparr>toasts := []\<rparr> = s\<lparr>toasts := []\<rparr> \<and>
       mset (toasts s') = mset (toasts s @ usage_failures E month i v ps)"
proof -
  have use: "\<And>p j u. project_usage E month i v p = project_usage E month j u p"
    using assms(1) unfolding project_usage_def by (metis steady_def)
  then have same: "usage_sum E month i v ps = usage_sum E month j u ps"
    "usage_failures E month i v ps = usage_failures E month j u ps" for ps j u
    by (simp_all only: usage_sum_def usage_failures_def use [of _ j u])
  obtain r1 s1 w1 where list: "run (loadOrgProjects E orgId) s w = (r1, s1, w1)"
    by (cases "run (loadOrgProjects E orgId) s w")
  have "leaves (\<lambda>s. s) (loadOrgProjects E orgId :: ('w, Project list) store_task)" for E :: "'w env" and orgId
    unfolding loadOrgProjects_def ProjectApi_listOrgProjects_def by (intro leaves_intros)
  from run_leaves [OF this list] have s1: "s1 = s" .
  show ?thesis
  proof (cases r1)
    case (Inl e)
    with assms(2) list s1 show ?thesis by (simp add: loadOrgUsage_def run_await)
  next
    case (Inr ps)
    with assms(2) list s1
    have "run (concurrently collect_usage es (map (project_usage_task E month) ps) zero_usage) s w1 = (r, s', w')"
      by (simp add: loadOrgUsage_def run_await)
    from run_project_usages [OF assms(1) this, of i] list Inr same [of ps i w1] show ?thesis
      by (simp add: but_toast_order_def)
  qed
qed

section \<open>The controllers of a canister\<close>

text \<open>The settings sent to change the controllers of a canister and nothing else.\<close>

definition controllers_request :: "principal \<Rightarrow> principal list \<Rightarrow> ApiUpdateSettingsRequest" where
  "controllers_request c cs =
     \<lparr>ApiUpdateSettingsRequest_canister_id = c,
      ApiUpdateSettingsRequest_settings =
        \<lparr>ApiCanisterSettings_controllers = [cs], ApiCanisterSettings_compute_allocation = [],
         ApiCanisterSettings_memory_allocation = [], ApiCanisterSettings_freezing_threshold = [],
         ApiCanisterSettings_reserved_cycles_limit = [], ApiCanisterSettings_log_visibility = [],
         ApiCanisterSettings_log_memory_limit = [], ApiCanisterSettings_wasm_memory_limit = [],
         ApiCanisterSettings_wasm_memory_threshold = [], ApiCanisterSettings_environment_variables = []\<rparr>,
      ApiUpdateSettingsRequest_sender_canister_version = []\<rparr>"

lemma map_throwing_append:
  "map_throwing f (xs @ ys) = and_then (map_throwing f xs) (\<lambda>as. and_then (map_throwing f ys) (\<lambda>bs. Inr (as @ bs)))"
  by (induction xs) (simp_all add: and_then_assoc, cases "map_throwing f ys", simp_all)

lemma fromText_toText_map: "principal_codec_ok P \<Longrightarrow> map_throwing (fromText P) (map (toText P) ps) = Inr ps"
  by (induction ps) (simp_all add: principal_codec_ok_def)

text \<open>C27: Making the backend a controller of a canister reads the canister's controllers and sends
  settings with these same controllers, the backend added at the end, and every other setting absent; the
  canisters of the project are refreshed only after the settings were accepted, and a refusal is the
  operation's error, with the store unchanged.\<close>

theorem addMissingController_keeps_controllers:
  assumes "principal_codec_ok E" and "fromText E canisterId = Inr c" and "fromText E (BACKEND_CANISTER_ID E) = Inr b"
    and "canister_status (otherCanisters E) (agentIdentity s) \<lparr>ApiCanisterStatusRequest_canister_id = c\<rparr> w = (v, Inr st)"
  shows "run (addMissingController E canisterId projectId) s w =
    (case update_settings (otherCanisters E) (agentIdentity s) (controllers_request c
        (ApiCanisterStatusSettings_controllers (ApiCanisterStatusResponse_settings st) @ [b])) v of
       (w2, Inl msg) \<Rightarrow> (Inl (LibraryError msg), s, w2)
     | (w2, Inr _) \<Rightarrow> run (refreshCanisters E projectId) s w2)"
  using assms
  by (auto simp: addMissingController_def ManagementCanisterApi_getCanisterStatus_def
      ManagementCanisterApi_updateSettings_def mapCanisterStatusRequest_def mapUpdateSettingsRequest_def
      controllers_only_def controllers_request_def opt_throwing_def map_throwing_append fromText_toText_map
      mapCanisterStatusResponse_def mapCanisterStatusSettings_def run_simps split: prod.splits sum.splits)

text \<open>The proposal to add a controller is made in the first project the backend lists, whichever
  project the canister is shown in; the project given is only the one that is refreshed afterwards.\<close>

theorem addController_first_project:
  assumes "list_my_projects (projectService E) (agentIdentity s) () w = (v, Inr (Ok ok))"
    and "ApiProjectsOk_projects ok = p # ps" and "fromText E canisterId = Inr c" and "fromText E controllerId = Inr d"
  shows "run (addController E canisterId controllerId projectId) s w =
    (case create_proposal (proposalService E) (agentIdentity s)
        \<lparr>ApiCreateProposalRequest_project_id = ApiProject_id p,
         ApiCreateProposalRequest_operation = [ApiAddCanisterController c d]\<rparr> v of
       (w2, Inl msg) \<Rightarrow> (Inl (LibraryError msg), s, w2)
     | (w2, Inr res) \<Rightarrow>
         (case proposal_outcome res of
            Inl e \<Rightarrow> (Inl e, s, w2)
          | Inr outcome \<Rightarrow>
              (case run (refreshCanisters E projectId) s w2 of
                 (Inl e, s', w') \<Rightarrow> (Inl e, s', w') | (Inr _, s', w') \<Rightarrow> (Inr outcome, s', w'))))"
  using assms
  by (auto simp: addController_def CanisterApi_addCanisterController_def run_simps split: prod.splits sum.splits)

section \<open>The operations at work\<close>

definition sample_api_canister :: "string \<Rightarrow> ApiCanister" where
  "sample_api_canister k = \<lparr>ApiCanister_id = k, ApiCanister_principal_id = ''a-'', ApiCanister_name = [],
     ApiCanister_state = ApiCanister_Inaccessible, ApiCanister_deleted_at = []\<rparr>"

text \<open>A backend with a canister in every project but \<open>p3\<close>, usage of \<open>p1\<close> only, and a canister \<open>a-\<close>.\<close>

definition list_sample_canisters :: "(nat, ApiListMyCanistersRequest, ApiCanister list ApiResponse) canister_method" where
  "list_sample_canisters i q w =
     (Suc w, if ApiListMyCanistersRequest_project_id q = ''p3'' then Inl ''offline''
             else Inr (Ok [sample_api_canister (ApiListMyCanistersRequest_project_id q)]))"

definition sample_usage :: ApiProjectUsage where
  "sample_usage = \<lparr>ApiProjectUsage_memory = 5, ApiProjectUsage_memory_bytes = 5, ApiProjectUsage_compute_allocation = 0,
     ApiProjectUsage_compute_allocation_percent = 0, ApiProjectUsage_ingress_induction = 0,
     ApiProjectUsage_ingress_induction_bytes_total = 0, ApiProjectUsage_instructions = 0,
     ApiProjectUsage_compute_time_seconds_total = 0, ApiProjectUsage_request_and_response_transmission = 0,
     ApiProjectUsage_transmission_bytes_total = 0, ApiProjectUsage_uninstall = 0,
     ApiProjectUsage_uninstalls_total = 0, ApiProjectUsage_http_outcalls = 0, ApiProjectUsage_burned_cycles = 7\<rparr>"

definition get_sample_usage :: "(nat, ApiGetUsageRequest, ApiGetUsageOk ApiResponse) canister_method" where
  "get_sample_usage i q w =
     (Suc w, if ApiGetUsageRequest_project_id q = ''p1''
             then Inr (Ok \<lparr>ApiGetUsageOk_project = sample_usage, ApiGetUsageOk_canisters = []\<rparr>)
             else Inl ''offline'')"

definition sample_status :: ApiCanisterStatusResponse where
  "sample_status =
     \<lparr>ApiCanisterStatusResponse_status = ApiCanister_Running, ApiCanisterStatusResponse_version = 1,
      ApiCanisterStatusResponse_ready_for_migration = False,
      ApiCanisterStatusResponse_settings =
        \<lparr>ApiCanisterStatusSettings_controllers = [Principal [2], Principal [3]],
         ApiCanisterStatusSettings_controller = Principal [2], ApiCanisterStatusSettings_compute_allocation = 0,
         ApiCanisterStatusSettings_memory_allocation = 0, ApiCanisterStatusSettings_freezing_threshold = 0,
         ApiCanisterStatusSettings_reserved_cycles_limit = 0,
         ApiCanisterStatusSettings_log_visibility = ApiLogVisibility_Controllers,
         ApiCanisterStatusSettings_log_memory_limit = 0, ApiCanisterStatusSettings_wasm_memory_limit = 0,
         ApiCanisterStatusSettings_wasm_memory_threshold = 0, ApiCanisterStatusSettings_environment_variables = []\<rparr>,
      ApiCanisterStatusResponse_module_hash = [], ApiCanisterStatusResponse_memory_size = 0,
      ApiCanisterStatusResponse_memory_metrics =
        \<lparr>ApiMemoryMetrics_wasm_memory_size = 0, ApiMemoryMetrics_stable_memory_size = 0,
         ApiMemoryMetrics_global_memory_size = 0, ApiMemoryMetrics_wasm_binary_size = 0,
         ApiMemoryMetrics_custom_sections_size = 0, ApiMemoryMetrics_canister_history_size = 0,
         ApiMemoryMetrics_wasm_chunk_store_size = 0, ApiMemoryMetrics_snapshots_size = 0\<rparr>,
      ApiCanisterStatusResponse_controller = Principal [2], ApiCanisterStatusResponse_freezing_threshold = 0,
      ApiCanisterStatusResponse_balance = [], ApiCanisterStatusResponse_cycles = 0,
      ApiCanisterStatusResponse_reserved_cycles = 0\<rparr>"

definition sample_api_project :: "string \<Rightarrow> ApiProject" where
  "sample_api_project k = \<lparr>ApiProject_org_id = ''o1'', ApiProject_id = k, ApiProject_name = k,
     ApiProject_your_permissions = mapProjectPermissionsToApi emptyProjectPermissions\<rparr>"

definition canister_backend :: "nat env" where
  "canister_backend = offline\<lparr>
     canisterService := (canisterService offline)\<lparr>list_my_canisters := list_sample_canisters, get_usage := get_sample_usage\<rparr>,
     projectService := (projectService offline)\<lparr>
       list_my_projects := answering (Ok \<lparr>ApiProjectsOk_projects = map sample_api_project [''p1'', ''p2'']\<rparr>),
       list_org_projects := answering (Ok \<lparr>ApiProjectsOk_projects = map sample_api_project [''p1'', ''p2'']\<rparr>)\<rparr>,
     otherCanisters := (otherCanisters offline)\<lparr>canister_status := answering sample_status\<rparr>\<rparr>"

lemmas canister_backend_simps = canister_backend_def list_sample_canisters_def get_sample_usage_def answering_def
  offline_def no_CanisterService_def no_ProjectService_def no_OtherCanisters_def no_ProposalService_def unreachable_def

theorem refreshCanisters_concurrent_witness:
  "canister_lookup (fst (snd (run (concurrently (\<lambda>_ _. ()) [Serve 2, Serve 1, Resume 1]
      (map (refreshCanisters canister_backend) [''p1'', ''p2'', ''p3'']) ()) user_session 0))) ''p2'' =
     Some [mapCanisterResponse canister_backend (sample_api_canister ''p2'')]"
proof -
  have steady: "steady (list_my_canisters (canisterService canister_backend))"
    by (simp add: steady_def canister_backend_simps)
  have listed: "listed_canisters canister_backend i w ''p2'' =
      Inr [mapCanisterResponse canister_backend (sample_api_canister ''p2'')]" for i w
    by (simp add: listed_canisters_def reply_def mapListMyCanistersResponse_def canister_backend_simps)
  have p2: "''p2'' \<in> set [''p1'', ''p2'', ''p3'']" by simp
  from refreshCanisters_concurrent [OF steady run_result, where k = "''p2''" and ks = "[''p1'', ''p2'', ''p3'']"]
  show ?thesis
    unfolding listed sum.case if_P [OF p2] by blast
qed

theorem loadOrgUsage_sum_witness:
  "fst (run (loadOrgUsage canister_backend [Serve 1, Resume 1] ''o1'' None) user_session 0) =
     Inr (add_usage zero_usage (mapProjectUsage sample_usage))"
proof -
  have steady: "steady (get_usage (canisterService canister_backend))"
    by (simp add: steady_def canister_backend_simps)
  have list: "run (loadOrgProjects canister_backend ''o1'') user_session 0 =
      (Inr (map (mapProjectResponse \<circ> sample_api_project) [''p1'', ''p2'']), user_session, 1)"
    by (simp add: loadOrgProjects_def ProjectApi_listOrgProjects_def mapListOrgProjectsResponse_def run_simps
        canister_backend_simps)
  have sum: "usage_sum canister_backend None AnonymousIdentity 0 (map (mapProjectResponse \<circ> sample_api_project) [''p1'', ''p2'']) =
      add_usage zero_usage (mapProjectUsage sample_usage)"
    by (simp add: usage_sum_def project_usage_def reply_def mapGetUsageRequest_def mapGetUsageResponse_def
        sample_api_project_def mapProjectResponse_def canister_backend_simps)
  from loadOrgUsage_sum [OF steady run_result, where month = None and orgId = "''o1''" and
      i = AnonymousIdentity and v = 0 and es = "[Serve 1, Resume 1]" and s = user_session and w = 0]
  show ?thesis
    unfolding list prod.case sum.case sum by blast
qed

theorem addMissingController_keeps_controllers_witness:
  "run (addMissingController canister_backend ''aaaa-'' ''p1'') user_session 0 =
     (Inl (LibraryError ''offline''), user_session, 2)"
proof -
  have codec: "principal_codec_ok canister_backend"
    using offline_codec by (simp add: principal_codec_ok_def canister_backend_def)
  have c: "fromText canister_backend ''aaaa-'' = Inr (Principal [4])"
    and b: "fromText canister_backend (BACKEND_CANISTER_ID canister_backend) = Inr (Principal [1])"
    by (simp_all add: canister_backend_def offline_def sample_fromText_def)
  show ?thesis
    by (subst addMissingController_keeps_controllers [OF codec c b, where v = 1 and st = sample_status])
      (simp_all add: canister_backend_simps numeral_2_eq_2)
qed

theorem addController_first_project_witness:
  "run (addController canister_backend ''aaaa-'' ''aa-'' ''p2'') user_session 0 =
     (Inl (LibraryError ''offline''), user_session, 2)"
  by (subst addController_first_project [where v = 1 and p = "sample_api_project ''p1''"
        and ps = "[sample_api_project ''p2'']" and c = "Principal [4]" and d = "Principal [2]"
        and ok = "\<lparr>ApiProjectsOk_projects = map sample_api_project [''p1'', ''p2'']\<rparr>"])
    (simp_all add: canister_backend_simps sample_fromText_def numeral_2_eq_2)

end
