(* ===== verification/AdminLaws.thy ===== *)
theory AdminLaws
  imports AdminStore Samples Steady
begin

text \<open>
  What the operations of the admin panel guarantee: the loop over the pages of canisters ends and
  collects every page, the canisters no user tracks are appended and counted, and what a page of
  organizations that arrives late does to a change made meanwhile.
\<close>

section \<open>The pages of canisters\<close>

definition page_answer :: "'w env \<Rightarrow> Identity \<Rightarrow> 'w \<Rightarrow> int \<Rightarrow> js_error + ListAllCanistersResponse" where
  "page_answer E i w p = reply mapListAllCanistersResponse (snd (admin_list_all_canisters (canisterService E) i
     \<lparr>ApiListAllCanistersRequest_limit = [CANISTERS_PAGE_SIZE], ApiListAllCanistersRequest_page = [p]\<rparr> w))"

lemma run_page:
  "run (CanisterApi_adminListAllCanisters E p CANISTERS_PAGE_SIZE) s w =
     (page_answer E (agentIdentity s) w p, s, fst (admin_list_all_canisters (canisterService E) (agentIdentity s)
       \<lparr>ApiListAllCanistersRequest_limit = [CANISTERS_PAGE_SIZE], ApiListAllCanistersRequest_page = [p]\<rparr> w))"
  by (auto simp: CanisterApi_adminListAllCanisters_def page_answer_def reply_def run_simps split: prod.splits sum.splits)

text \<open>C16: The loop over the pages ends: when no answer announces more than \<open>N\<close> pages, it makes at most
  \<open>N\<close> requests (one, if \<open>N\<close> is not positive), so that fuel for that many is never used up, and more fuel
  changes nothing.\<close>

theorem list_tracked_ends:
  assumes "\<And>i w p res. page_answer E i w p = Inr res \<Longrightarrow> ListAllCanistersResponse_totalPages res \<le> N"
    and "\<And>i w p. page_answer E i w p \<noteq> Inl out_of_fuel"
    and "0 < fuel" and "N \<le> int fuel"
  shows "fst (run (list_tracked E fuel 1 []) s w) \<noteq> Inl out_of_fuel \<and>
    run (list_tracked E (fuel + extra) 1 []) s w = run (list_tracked E fuel 1 []) s w"
proof -
  have "fst (run (list_tracked E fuel page cs) s w) \<noteq> Inl out_of_fuel \<and>
      run (list_tracked E (fuel + extra) page cs) s w = run (list_tracked E fuel page cs) s w"
    if "0 < fuel" and "N < page + int fuel" for page cs w
    using that
  proof (induction fuel arbitrary: page cs w)
    case (Suc n)
    show ?case
    proof (cases "page_answer E (agentIdentity s) w page")
      case (Inl e)
      then show ?thesis using assms(2) [of "agentIdentity s" w page] by (simp add: run_await run_page)
    next
      case (Inr res)
      show ?thesis
      proof (cases "page \<ge> ListAllCanistersResponse_totalPages res")
        case True
        with Inr show ?thesis by (simp add: run_await run_page run_ret)
      next
        case False
        with assms(1) [OF Inr] Suc.prems have "0 < n" and "N < (page + 1) + int n" by auto
        with Suc.IH False Inr show ?thesis by (simp add: run_await run_page)
      qed
    qed
  qed simp
  from this [of 1 "[]" w] assms(3,4) show ?thesis by simp
qed

section \<open>The rows of the table\<close>

text \<open>The canisters the history canister knows and nobody tracks.\<close>

definition untracked :: "CanisterWithOwner list \<Rightarrow> KnownCanister list \<Rightarrow> KnownCanister list" where
  "untracked cs known = filter (\<lambda>k. \<not> KnownCanister_isDeleted k \<and>
     KnownCanister_canisterId k \<notin> CanisterWithOwner_principal ` set cs) known"

lemma add_untracked_filter:
  "add_untracked P known (rows, n) =
     (let us = filter (\<lambda>k. \<not> KnownCanister_isDeleted k \<and> KnownCanister_canisterId k \<notin> P) known
      in (rows @ map untracked_row us, n + int (length us)))"
  by (induction known arbitrary: rows n) (simp_all add: Let_def)

lemma admin_rows_untracked:
  "admin_rows cs known =
     (map tracked_row cs @ map untracked_row (untracked cs known), int (length (untracked cs known)))"
  by (simp add: admin_rows_def add_untracked_filter untracked_def Let_def)

lemma run_list_tracked:
  assumes "\<And>i w p. page_answer E i w p = Inr (ans p)" and "\<And>p. ListAllCanistersResponse_totalPages (ans p) = N"
    and "0 < fuel" and "N < page + int fuel"
  shows "\<exists>w'. run (list_tracked E fuel page cs) s w =
    (Inr (cs @ concat (map (ListAllCanistersResponse_canisters \<circ> ans) [page..max page N])), s, w')"
  using assms(3,4)
proof (induction fuel arbitrary: page cs w)
  case (Suc n)
  have pages: "[page..max page N] = (if page \<ge> N then [page] else page # [page + 1..max (page + 1) N])"
    by (simp add: upto_rec1)
  show ?case
  proof (cases "page \<ge> N")
    case True
    then show ?thesis by (simp add: run_await run_page assms(1,2) run_ret pages)
  next
    case False
    with Suc.prems have "0 < n" and "N < (page + 1) + int n" by auto
    moreover from False have "[page..N] = page # [page + 1..N]" by (simp add: upto_rec1)
    ultimately show ?thesis
      using Suc.IH [of "page + 1" "cs @ ListAllCanistersResponse_canisters (ans page)"] False
      by (simp add: run_await run_page assms(1,2))
  qed
qed simp

text \<open>C17: When the backend answers every page of \<open>N\<close>, the table holds the canisters of all the pages in
  order, marked as tracked, followed by the known canisters that are neither deleted nor tracked by a user,
  in their order and marked as untracked; their number is the count shown, and the flags say that loading is
  over.\<close>

theorem initializeAdminCanisters_rows:
  assumes "isAuthenticated s" and "selectCanReadAllOrgs s"
    and "\<And>i w p. page_answer E i w p = Inr (ans p)" and "\<And>p. ListAllCanistersResponse_totalPages (ans p) = N"
    and "\<And>s :: AppSlice. \<And>w. fst (run (CanisterHistoryApi_listKnownCanisters E) s w) = Inr known"
    and "0 < fuel" and "N \<le> int fuel"
    and "run (initializeAdminCanisters E fuel) s w = (r, s', w')"
    and "cs = concat (map (ListAllCanistersResponse_canisters \<circ> ans) [1..max 1 N])"
  shows "r = Inr () \<and> s' = s\<lparr>adminCanisters := Some (map tracked_row cs @ map untracked_row (untracked cs known)),
    adminUntrackedCount := int (length (untracked cs known)),
    isAdminCanistersInitialized := True, isAdminCanistersLoading := False\<rparr>"
proof -
  let ?s1 = "s\<lparr>isAdminCanistersLoading := True\<rparr>"
  from run_list_tracked [OF assms(3,4,6), of 1 "[]" ?s1 w] assms(7)
  obtain w1 where tracked: "run (list_tracked E fuel 1 []) ?s1 w = (Inr cs, ?s1, w1)"
    unfolding assms(9) by auto
  obtain r2 s2 w2 where k: "run (CanisterHistoryApi_listKnownCanisters E) ?s1 w1 = (r2, s2, w2)"
    by (cases "run (CanisterHistoryApi_listKnownCanisters E) ?s1 w1")
  have "leaves (\<lambda>s. s) (CanisterHistoryApi_listKnownCanisters E :: ('w, KnownCanister list) store_task)" for E :: "'w env"
    unfolding CanisterHistoryApi_listKnownCanisters_def by (intro leaves_intros)
  from run_leaves [OF this k] assms(5) [of ?s1 w1] k
  have known: "run (CanisterHistoryApi_listKnownCanisters E) ?s1 w1 = (Inr known, ?s1, w2)" by simp
  from assms(1,2,8) show ?thesis
    by (simp add: initializeAdminCanisters_def run_simps tracked known admin_rows_untracked)
qed
section \<open>A page that arrives late\<close>

definition next_page :: "string \<Rightarrow> ApiListOrganizationsRequest" where
  "next_page c = \<lparr>ApiListOrganizationsRequest_after = [c], ApiListOrganizationsRequest_limit = [ORGS_PAGE_SIZE]\<rparr>"

definition plan_change :: "string \<Rightarrow> PlanTier \<Rightarrow> ApiSetOrgBillingPlanRequest" where
  "plan_change k tier = \<lparr>ApiSetOrgBillingPlanRequest_org_id = k,
     ApiSetOrgBillingPlanRequest_tier = mapPlanTierRequest tier\<rparr>"

lemma loadMoreAdminOrgs_next_page:
  "loadMoreAdminOrgs E = get_state (\<lambda>s0. case adminOrgsNextCursor s0 of None \<Rightarrow> ret () | Some c \<Rightarrow>
     await (call_map (admin_list_organizations (organizationService E)) (next_page c) mapListOrganizationsResponse)
       (\<lambda>res. set_state (\<lambda>s. s\<lparr>adminOrgs :=
                 Some ((case adminOrgs s0 of Some orgs \<Rightarrow> orgs | None \<Rightarrow> []) @
                       ListOrganizationsResponse_organizations res),
               adminOrgsNextCursor := ListOrganizationsResponse_nextCursor res\<rparr>)))"
  by (simp add: loadMoreAdminOrgs_def OrganizationApi_listOrganizations_def mapListOrganizationsRequest_def
      next_page_def cong: option.case_cong)

text \<open>A page of organizations that arrives late undoes what was changed while it was awaited: when the
  billing plan of a listed organization is changed between the request for the next page and its answer, the
  backend accepts the change, and yet the list that is shown ends as the list before the change, followed by
  the page.\<close>

theorem loadMoreAdminOrgs_undoes_plan:
  assumes "isAuthenticated s" and "selectCanWriteBilling s"
    and "adminOrgsNextCursor s = Some c" and "adminOrgs s = Some orgs"
    and "\<And>w. reply mapListOrganizationsResponse (snd (admin_list_organizations (organizationService E)
        (agentIdentity s) (next_page c) w)) = Inr res"
    and "\<And>w. reply mapSetOrgBillingPlanResponse (snd (admin_set_org_billing_plan (organizationService E)
        (agentIdentity s) (plan_change k tier) w)) = Inr ()"
    and "run (concurrently (\<lambda>_ _. ()) [Serve 1, Resume 1, Serve 0, Resume 0]
      [loadMoreAdminOrgs E, setAdminOrgPlan E k tier] ()) s w = (r, s', w')"
  shows "adminOrgs s' = Some (orgs @ ListOrganizationsResponse_organizations res)"
  using assms
  by (auto simp: concurrently_def start_all_def loadMoreAdminOrgs_next_page setAdminOrgPlan_def
      OrganizationApi_setOrgBillingPlan_def mapSetOrgBillingPlanRequest_def plan_change_def
      call_map_pending pending_def await_def settle_def get_state_def set_state_def ret_def)

section \<open>The operations at work\<close>

definition sample_owned :: "string \<Rightarrow> ApiCanisterWithOwner" where
  "sample_owned k = \<lparr>ApiCanisterWithOwner_id = k, ApiCanisterWithOwner_principal_id = k,
     ApiCanisterWithOwner_user_id = ''u1'', ApiCanisterWithOwner_email = [],
     ApiCanisterWithOwner_email_verified = False, ApiCanisterWithOwner_deleted_at = []\<rparr>"

text \<open>Two pages of one canister each (and further ones with the same content, which nobody asks for).\<close>

definition sample_pages :: "(nat, ApiListAllCanistersRequest, ApiListAllCanistersOk ApiResponse) canister_method" where
  "sample_pages i q w = (Suc w, Inr (Ok
     \<lparr>ApiListAllCanistersOk_canisters =
        [sample_owned (if ApiListAllCanistersRequest_page q = [1] then ''a-'' else ''aa-'')],
      ApiListAllCanistersOk_meta = \<lparr>ApiPaginationMetaResponse_limit = 50, ApiPaginationMetaResponse_page = 1,
        ApiPaginationMetaResponse_total_items = 2, ApiPaginationMetaResponse_total_pages = 2\<rparr>\<rparr>))"

definition admin_backend :: "nat env" where
  "admin_backend = offline\<lparr>
     canisterService := (canisterService offline)\<lparr>admin_list_all_canisters := sample_pages\<rparr>,
     organizationService := (organizationService offline)\<lparr>
       admin_list_organizations := answering (Ok \<lparr>ApiListOrganizationsOk_organizations = [],
         ApiListOrganizationsOk_next_cursor = []\<rparr>),
       admin_set_org_billing_plan := answering (Ok ())\<rparr>,
     otherCanisters := (otherCanisters offline)\<lparr>list_known_canisters := answering (Ok
       \<lparr>ApiListKnownCanistersOk_canisters =
          [\<lparr>ApiKnownCanister_canister_id = Principal [2], ApiKnownCanister_is_deleted = False\<rparr>,
           \<lparr>ApiKnownCanister_canister_id = Principal [3], ApiKnownCanister_is_deleted = False\<rparr>,
           \<lparr>ApiKnownCanister_canister_id = Principal [4], ApiKnownCanister_is_deleted = True\<rparr>]\<rparr>)\<rparr>\<rparr>"

lemmas admin_backend_simps = admin_backend_def sample_pages_def answering_def offline_def no_CanisterService_def
  no_OrganizationService_def no_OtherCanisters_def unreachable_def

definition sample_page :: "int \<Rightarrow> ListAllCanistersResponse" where
  "sample_page p =
     \<lparr>ListAllCanistersResponse_canisters = [mapCanisterWithOwner (sample_owned (if p = 1 then ''a-'' else ''aa-''))],
      ListAllCanistersResponse_totalPages = 2\<rparr>"

lemma admin_backend_pages: "page_answer admin_backend i w p = Inr (sample_page p)"
  by (simp add: page_answer_def reply_def mapListAllCanistersResponse_def sample_page_def admin_backend_simps)

theorem list_tracked_ends_witness:
  "fst (run (list_tracked admin_backend 2 1 []) admin_session 0) \<noteq> Inl out_of_fuel"
  using list_tracked_ends [of admin_backend 2 2 admin_session 0]
  by (simp add: admin_backend_pages sample_page_def)

theorem initializeAdminCanisters_rows_witness:
  "adminUntrackedCount (fst (snd (run (initializeAdminCanisters admin_backend 2) admin_session 0))) = 1"
proof -
  let ?known = "[\<lparr>KnownCanister_canisterId = ''aa-'', KnownCanister_isDeleted = False\<rparr>,
    \<lparr>KnownCanister_canisterId = ''aaa-'', KnownCanister_isDeleted = False\<rparr>,
    \<lparr>KnownCanister_canisterId = ''aaaa-'', KnownCanister_isDeleted = True\<rparr>]"
  have known: "fst (run (CanisterHistoryApi_listKnownCanisters admin_backend) s w) = Inr ?known" for s :: AppSlice and w
    by (simp add: CanisterHistoryApi_listKnownCanisters_def run_simps admin_backend_simps sample_toText_def
        numeral_eq_Suc)
  have "isAuthenticated admin_session" and "selectCanReadAllOrgs admin_session"
    by (simp_all add: session_defs selectCanReadAllOrgs_def selectIsAdmin_def)
  from initializeAdminCanisters_rows [OF this admin_backend_pages _ known _ _ run_result refl, of 2 2] show ?thesis
    by (simp add: sample_page_def untracked_def mapCanisterWithOwner_def sample_owned_def upto_rec1)
qed

definition admin_page_session :: AppSlice where
  "admin_page_session = admin_session\<lparr>adminOrgs := Some [\<lparr>AdminOrganization_id = ''o1'', AdminOrganization_name = ''Org'',
     AdminOrganization_tier = PlanTier_Free, AdminOrganization_memberCount = 1\<rparr>], adminOrgsNextCursor := Some ''o1''\<rparr>"

theorem loadMoreAdminOrgs_undoes_plan_witness:
  "adminOrgs (fst (snd (run (concurrently (\<lambda>_ _. ()) [Serve 1, Resume 1, Serve 0, Resume 0]
      [loadMoreAdminOrgs admin_backend, setAdminOrgPlan admin_backend ''o1'' PlanTier_Pro] ()) admin_page_session 0))) =
    Some [\<lparr>AdminOrganization_id = ''o1'', AdminOrganization_name = ''Org'', AdminOrganization_tier = PlanTier_Free,
      AdminOrganization_memberCount = 1\<rparr>]"
  by (subst loadMoreAdminOrgs_undoes_plan [OF _ _ _ _ _ _ run_result, where c = "''o1''" and
        orgs = "[\<lparr>AdminOrganization_id = ''o1'', AdminOrganization_name = ''Org'',
          AdminOrganization_tier = PlanTier_Free, AdminOrganization_memberCount = 1\<rparr>]" and
        res = "\<lparr>ListOrganizationsResponse_organizations = [], ListOrganizationsResponse_nextCursor = None\<rparr>"])
    (simp_all add: admin_page_session_def session_defs selectCanWriteBilling_def selectIsAdmin_def
      admin_backend_simps reply_def mapListOrganizationsResponse_def mapSetOrgBillingPlanResponse_def)

end
