(* ===== verification/UserLaws.thy ===== *)
theory UserLaws
  imports AdminStore Samples Steady
begin

text \<open>
  What the operations about users guarantee: whoever lacks the permission for a privileged operation
  gets an error and nothing is sent; and what becomes of the profile when the e-mail address is changed.
\<close>

section \<open>Privileged operations\<close>

text \<open>The operations of the admin panel that change something, with the permission each asks for.\<close>

datatype privileged =
    ActivateUser string
  | DeactivateUser string
  | GrantStaff string StaffPermissions
  | RevokeStaff string
  | CreatePartner CreateTrustedPartnerRequest
  | CreateTerms CreateTermsAndConditionsRequest
  | SetPlan string PlanTier

fun run_privileged :: "'w env \<Rightarrow> privileged \<Rightarrow> ('w, unit) store_task" where
  "run_privileged E (ActivateUser k) = activateUser E k"
| "run_privileged E (DeactivateUser k) = deactivateUser E k"
| "run_privileged E (GrantStaff k perms) = grantStaffPermissions E k perms"
| "run_privileged E (RevokeStaff k) = revokeStaffPermissions E k"
| "run_privileged E (CreatePartner req) = createTrustedPartner E req"
| "run_privileged E (CreateTerms req) = createTermsAndConditions E req"
| "run_privileged E (SetPlan k tier) = setAdminOrgPlan E k tier"

fun allowed :: "privileged \<Rightarrow> AppSlice \<Rightarrow> bool" where
  "allowed (ActivateUser k) s \<longleftrightarrow> selectCanManageUsers s"
| "allowed (DeactivateUser k) s \<longleftrightarrow> selectCanManageUsers s"
| "allowed (GrantStaff k perms) s \<longleftrightarrow> selectIsAdmin s"
| "allowed (RevokeStaff k) s \<longleftrightarrow> selectIsAdmin s"
| "allowed (CreatePartner req) s \<longleftrightarrow> selectIsAdmin s"
| "allowed (CreateTerms req) s \<longleftrightarrow> selectIsAdmin s"
| "allowed (SetPlan k tier) s \<longleftrightarrow> selectCanWriteBilling s"

lemmas privileged_defs = activateUser_def deactivateUser_def setUserStatus_def grantStaffPermissions_def
  revokeStaffPermissions_def createTrustedPartner_def createTermsAndConditions_def setAdminOrgPlan_def

lemma privileged_refused:
  assumes "\<not> (isAuthenticated s \<and> allowed p s)"
  shows "\<exists>msg. instant (run_privileged E p) s = Some (Inl (Error msg), s)"
  using assms by (cases p) (auto simp: privileged_defs)

text \<open>C13: Privileged operations started, at once, by a user who is not authenticated or has none of the
  permissions they ask for fail each with an error of their own: no request leaves the browser, and neither
  the store nor the outside world changes, under every schedule.\<close>

theorem privileged_ops_refused:
  assumes "\<And>p. p \<in> set ps \<Longrightarrow> \<not> (isAuthenticated s \<and> allowed p s)"
  shows "\<exists>errors. run (concurrently (\<lambda>r rs. rs @ [r]) es (map (run_privileged E) ps) []) s w =
    (Inr (map (\<lambda>msg. Inl (Error msg)) errors), s, w) \<and> length errors = length ps"
proof -
  have "\<exists>errors. instants (\<lambda>r rs. rs @ [r]) (map (run_privileged E) ps) (rs, s) =
      Some (rs @ map (\<lambda>msg. Inl (Error msg)) errors, s) \<and> length errors = length ps" for rs
    using assms
  proof (induction ps arbitrary: rs)
    case (Cons p ps)
    from Cons.prems privileged_refused [of s p E] obtain msg where
      p: "instant (run_privileged E p) s = Some (Inl (Error msg), s)" by auto
    from Cons.IH [of "rs @ [Inl (Error msg)]"] Cons.prems obtain errors where
      "instants (\<lambda>r rs. rs @ [r]) (map (run_privileged E) ps) (rs @ [Inl (Error msg)], s) =
        Some ((rs @ [Inl (Error msg)]) @ map (\<lambda>msg. Inl (Error msg)) errors, s) \<and> length errors = length ps" by auto
    with p show ?case by (intro exI [of _ "msg # errors"]) simp
  qed simp
  from this [of "[]"] show ?thesis by (auto dest: run_concurrently_instants)
qed

theorem privileged_ops_refused_witness:
  "\<exists>errors. run (concurrently (\<lambda>r rs. rs @ [r]) [Serve 0]
     (map (run_privileged offline) [ActivateUser ''u2'', RevokeStaff ''u2'', SetPlan ''o1'' PlanTier_Pro]) [])
     user_session 0 = (Inr (map (\<lambda>msg. Inl (Error msg)) errors), user_session, 0) \<and> length errors = 3"
proof -
  let ?ps = "[ActivateUser ''u2'', RevokeStaff ''u2'', SetPlan ''o1'' PlanTier_Pro]"
  have refused: "\<not> (isAuthenticated user_session \<and> allowed p user_session)" if "p \<in> set ?ps" for p
    using that by (auto simp: user_session_def session_defs selectCanManageUsers_def selectIsAdmin_def
      selectCanWriteBilling_def staff_bit_def)
  have "length ?ps = 3" by simp
  with privileged_ops_refused [OF refused, where es = "[Serve 0]" and E = offline and w = 0] show ?thesis by metis
qed

section \<open>The status of a user\<close>

text \<open>The status of a user shown changes only when the backend has accepted the change, and then only the
  status of the users with that id: every failure, of the guards, the connection or the backend, is reported
  and leaves the list as it was.\<close>

theorem setUserStatus_confirmed:
  assumes "run (setUserStatus E k status) s w = (r, s', w')"
  shows "case r of
      Inl _ \<Rightarrow> s' = s
    | Inr _ \<Rightarrow> isAuthenticated s \<and> selectCanManageUsers s \<and>
        (\<exists>u. admin_update_user_profile (userProfileService E) (agentIdentity s) (mapUpdateUserProfileRequest
            \<lparr>UpdateUserProfileRequest_userId = k, UpdateUserProfileRequest_status = Some status\<rparr>) w = (w', Inr (Ok u))) \<and>
        (\<exists>us. users s = Some us \<and> s' = s\<lparr>users := Some (map (\<lambda>user.
            if UserProfile_id user = k then user\<lparr>UserProfile_status := status\<rparr> else user) us)\<rparr>)"
  using assms
  by (auto simp: setUserStatus_def UserProfileApi_updateUserProfile_def run_simps replace_by_def mapOkResponse_Inr
      split: if_splits prod.splits sum.splits option.splits response.splits)

theorem setUserStatus_confirmed_witness:
  "fst (snd (run (setUserStatus offline ''u2'' Inactive) admin_session 0)) = admin_session"
proof -
  have "fst (run (setUserStatus offline ''u2'' Inactive) admin_session 0) = Inl (LibraryError ''offline'')"
    by (simp add: setUserStatus_def UserProfileApi_updateUserProfile_def run_simps session_defs offline_def
        no_UserProfileService_def unreachable_def selectCanManageUsers_def selectIsAdmin_def isNil_def)
  with setUserStatus_confirmed [OF run_result, of offline "''u2''" Inactive admin_session 0] show ?thesis by simp
qed

section \<open>The e-mail address\<close>

text \<open>Changing the e-mail address of a user whose address is verified leaves the new address marked as
  verified in the store, although nobody has verified it.\<close>

theorem setEmail_keeps_verified:
  assumes "isProfileInitialized s" and "isAuthenticated s" and "profile s = Some p"
    and "run (setEmail E email) s w = (Inr (), s', w')"
  shows "\<exists>p'. profile s' = Some p' \<and> UserProfile_email p' = Some email \<and>
    UserProfile_emailVerified p' = UserProfile_emailVerified p"
  using assms
  by (auto simp: setEmail_def UserProfileApi_updateMyUserProfile_def run_simps split: prod.splits sum.splits)

definition email_backend :: "nat env" where
  "email_backend = offline\<lparr>userProfileService := (userProfileService offline)\<lparr>update_my_user_profile := answering (Ok ())\<rparr>\<rparr>"

theorem setEmail_keeps_verified_witness:
  "map_option UserProfile_emailVerified (profile (fst (snd (run (setEmail email_backend ''new@example.com'')
     user_session 0)))) = Some True"
proof -
  have "fst (run (setEmail email_backend ''new@example.com'') user_session 0) = Inr ()"
    by (simp add: setEmail_def UserProfileApi_updateMyUserProfile_def run_simps user_session_def session_defs
        email_backend_def offline_def no_UserProfileService_def answering_def)
  then have "run (setEmail email_backend ''new@example.com'') user_session 0 =
      (Inr (), fst (snd (run (setEmail email_backend ''new@example.com'') user_session 0)),
       snd (snd (run (setEmail email_backend ''new@example.com'') user_session 0)))"
    by (metis run_result)
  from setEmail_keeps_verified [OF _ _ _ this] show ?thesis
    by (auto simp: user_session_def session_defs)
qed

end
