(* ===== verification/Format.thy ===== *)
theory Format
  imports JsBase
begin

text \<open>
  \<open>lib/format.ts\<close>: how byte counts, cycles, durations, e-mail addresses and byte strings are
  shown. A \<open>number\<close> is a double; the quotients the code prints are rounded twice, once by the
  division (to 53 bits) and once by \<open>toFixed\<close> (to the digits shown). Both are written out on
  integers: a positive double is \<open>m * 2 ^ k\<close> or \<open>m / 2 ^ k\<close>.
\<close>

section \<open>Quotients of doubles\<close>

datatype double = Scaled_up nat nat | Scaled_down nat nat

text \<open>The exponent of the leading bit.\<close>

fun floor_log2 :: "nat \<Rightarrow> nat" where
  "floor_log2 n = (if n < 2 then 0 else Suc (floor_log2 (n div 2)))"

declare floor_log2.simps [simp del]

lemma floor_log2_less: "n < 2 ^ Suc (floor_log2 n)"
proof (induction n rule: floor_log2.induct)
  case (1 n)
  show ?case
  proof (cases "n < 2")
    case False
    then have "floor_log2 n = Suc (floor_log2 (n div 2))" by (simp add: floor_log2.simps [of n])
    with "1" False show ?thesis by simp
  qed (simp add: floor_log2.simps [of n])
qed

lemma floor_log2_le: "0 < n \<Longrightarrow> 2 ^ floor_log2 n \<le> n"
proof (induction n rule: floor_log2.induct)
  case (1 n)
  show ?case
  proof (cases "n < 2")
    case True
    with "1.prems" show ?thesis by (simp add: floor_log2.simps [of n])
  next
    case False
    then have "0 < n div 2" by auto
    with "1.IH" False have "2 ^ floor_log2 (n div 2) \<le> n div 2" by simp
    then show ?thesis using False by (subst floor_log2.simps) simp
  qed
qed

lemma floor_log2_bound: "0 < n \<Longrightarrow> n < 2 ^ k \<Longrightarrow> floor_log2 n < k"
  using floor_log2_le [of n] by (metis le_less_trans power_less_imp_less_exp one_less_numeral_iff semiring_norm(76))

text \<open>\<open>a / b\<close> of two doubles with \<open>a \<ge> b > 0\<close>: 53 bits of the quotient, ties to the even one.\<close>

definition js_div :: "nat \<Rightarrow> nat \<Rightarrow> double" where
  "js_div a b =
     (let e = floor_log2 (a div b) in
      if e \<le> 52 then Scaled_down (round_half_even (a * 2 ^ (52 - e)) b) (52 - e)
      else Scaled_up (round_half_even a (b * 2 ^ (e - 52))) (e - 52))"

text \<open>
  \<open>x.toFixed(d)\<close>: the integer nearest to \<open>x * 10 ^ d\<close>, the larger of two, with the point before its
  last \<open>d\<close> digits. From \<open>10 ^ 21\<close> on \<open>toFixed\<close> switches to the exponent notation, which is not modelled:
  the quantities shown are below it.
\<close>

definition fixed_units :: "nat \<Rightarrow> double \<Rightarrow> nat" where
  "fixed_units d x =
     (case x of
        Scaled_up m k \<Rightarrow> m * 2 ^ k * 10 ^ d
      | Scaled_down m k \<Rightarrow> (2 * m * 10 ^ d + 2 ^ k) div (2 * 2 ^ k))"

definition with_point :: "nat \<Rightarrow> nat \<Rightarrow> string" where
  "with_point d u =
     (if d = 0 then decimal u
      else let f = decimal (u mod 10 ^ d) in
        decimal (u div 10 ^ d) @ ''.'' @ replicate (d - length f) CHR ''0'' @ f)"

definition toFixed :: "nat \<Rightarrow> double \<Rightarrow> string" where
  "toFixed d x = with_point d (fixed_units d x)"

definition js_isInteger :: "double \<Rightarrow> bool" where
  "js_isInteger x = (case x of Scaled_up m k \<Rightarrow> True | Scaled_down m k \<Rightarrow> 2 ^ k dvd m)"

text \<open>An integral double as it is printed (below \<open>10 ^ 21\<close>).\<close>

definition double_to_nat :: "double \<Rightarrow> nat" where
  "double_to_nat x = (case x of Scaled_up m k \<Rightarrow> m * 2 ^ k | Scaled_down m k \<Rightarrow> m div 2 ^ k)"

section \<open>Byte counts, cycles, durations\<close>

text \<open>
  \<open>Math.log\<close> is only approximated by an implementation; \<open>log_1024 n\<close> stands for
  \<open>Math.floor(Math.log(n) / Math.log(1024))\<close>.
\<close>

definition BYTE_UNITS :: "string list" where
  "BYTE_UNITS = [''B'', ''KB'', ''MB'', ''GB'', ''TB'']"

definition formatBytes :: "(nat \<Rightarrow> nat) \<Rightarrow> nat \<Rightarrow> string" where
  "formatBytes log_1024 bytes =
     (let n = number_of_nat bytes in
      if n = 0 then ''0 B''
      else
        let i = min (log_1024 n) (length BYTE_UNITS - 1);
            value = Scaled_down n (10 * i)
        in (if i = 0 then toFixed 0 value else toFixed 2 value) @ '' '' @ BYTE_UNITS ! i)"

definition CYCLE_THRESHOLDS :: "(nat \<times> string) list" where
  "CYCLE_THRESHOLDS =
     [(1000000000000, ''T''), (1000000000, ''B''), (1000000, ''M''), (1000, ''K'')]"

fun first_threshold :: "nat \<Rightarrow> (nat \<times> string) list \<Rightarrow> (nat \<times> string) option" where
  "first_threshold n [] = None"
| "first_threshold n ((t, label) # ts) = (if n \<ge> t then Some (t, label) else first_threshold n ts)"

definition formatCycles :: "nat \<Rightarrow> string" where
  "formatCycles cycles =
     (if cycles = 0 then ''0''
      else case first_threshold cycles CYCLE_THRESHOLDS of
          Some (threshold, suffix) \<Rightarrow> toFixed 2 (js_div (number_of_nat cycles) threshold) @ '' '' @ suffix
        | None \<Rightarrow> decimal cycles)"

definition DURATION_UNITS :: "(nat \<times> string) list" where
  "DURATION_UNITS =
     [(86400 * 365, ''y''), (86400 * 30, ''mo''), (86400 * 7, ''w''), (86400, ''d''), (3600, ''h''),
      (60, ''min''), (1, ''s'')]"

definition formatDuration :: "nat \<Rightarrow> string" where
  "formatDuration seconds =
     (let s = number_of_nat seconds in
      if s = 0 then ''0 s''
      else case first_threshold s DURATION_UNITS of
          Some (divisor, label) \<Rightarrow>
            (let value = js_div s divisor in
             (if js_isInteger value then decimal (double_to_nat value) else toFixed 1 value) @ '' '' @ label)
        | None \<Rightarrow> decimal s @ '' s'')"

text \<open>\<open>toLocaleString\<close> depends on the browser's locale and time zone: parameters.\<close>

definition formatNumber :: "(int \<Rightarrow> string) \<Rightarrow> int \<Rightarrow> string" where
  "formatNumber toLocaleString value = toLocaleString value"

definition formatTimestamp :: "(Date \<Rightarrow> string) \<Rightarrow> int \<Rightarrow> string" where
  "formatTimestamp toLocaleString nanos = toLocaleString (date_of_nanos nanos)"

section \<open>E-mail addresses and byte strings\<close>

text \<open>\<open>s[0]\<close> where \<open>s\<close> is not empty; \<open>-1\<close> as a result of \<open>indexOf\<close> is \<open>None\<close>.\<close>

definition maskEmail :: "string \<Rightarrow> string" where
  "maskEmail email =
     (case index_of CHR ''@'' email of
        None \<Rightarrow> email
      | Some at \<Rightarrow>
          if at < 1 \<or> at = length email - 1 then email
          else
            let local_part = take at email;
                domain = drop (at + 1) email;
                maskedDomain = (case last_index_of CHR ''.'' domain of
                    None \<Rightarrow> [domain ! 0] @ ''***''
                  | Some dot \<Rightarrow>
                      if dot < 1 then [domain ! 0] @ ''***''
                      else [domain ! 0] @ ''***'' @ drop dot domain)
            in [local_part ! 0] @ ''***@'' @ maskedDomain)"

definition formatHex :: "nat list \<Rightarrow> string" where
  "formatHex bytes = concat (map hex_byte bytes)"

section \<open>The digits shown are right\<close>

lemma round_half_even_bounds:
  assumes "0 < b"
  shows "2 * (round_half_even x b * b) \<le> 2 * x + b" and "2 * x \<le> 2 * (round_half_even x b * b) + b"
proof -
  have x: "x = x div b * b + x mod b" by simp
  have r: "x mod b < b" using assms by simp
  define q r where "q = x div b" and "r = x mod b"
  with x r have *: "x = q * b + r" "r < b" by auto
  have "round_half_even x b = q \<and> 2 * r \<le> b \<or> round_half_even x b = q + 1 \<and> b \<le> 2 * r"
    by (auto simp: round_half_even_def Let_def q_def r_def)
  with * show "2 * (round_half_even x b * b) \<le> 2 * x + b" and "2 * x \<le> 2 * (round_half_even x b * b) + b"
    by (auto simp: algebra_simps)
qed

text \<open>Both roundings together are off by at most one unit of the last digit.\<close>

lemma fixed_units_js_div:
  assumes b: "0 < b" and ge: "b \<le> a" and small: "a div b < 2 ^ n" and n: "n \<le> 53" and D: "10 ^ d \<le> (2::nat) ^ (53 - n)"
  shows "fixed_units d (js_div a b) * b \<le> 10 ^ d * a + b" and "10 ^ d * a \<le> fixed_units d (js_div a b) * b + b"
proof -
  define e K D where "e = floor_log2 (a div b)" and "K = (2::nat) ^ (52 - e)" and "D = (10::nat) ^ d"
  define m where "m = round_half_even (a * K) b"
  define u where "u = (2 * m * D + K) div (2 * K)"
  have "0 < a div b" using b ge by (simp add: div_greater_zero_iff)
  then have "e < n" unfolding e_def using small by (rule floor_log2_bound)
  with n have js: "js_div a b = Scaled_down m (52 - e)" and "53 - n \<le> 52 - e"
    by (simp_all add: js_div_def e_def [symmetric] K_def m_def)
  then have "(2::nat) ^ (53 - n) \<le> K" unfolding K_def by (intro power_increasing) auto
  with D have DK: "D \<le> K" unfolding D_def by (rule order_trans)
  have K: "0 < K" by (simp add: K_def)
  have u: "fixed_units d (js_div a b) = u"
    by (simp add: js fixed_units_def u_def K_def D_def)
  have "2 * K * u \<le> 2 * m * D + K" unfolding u_def by simp
  then have "2 * K * u * b \<le> (2 * m * D + K) * b" by simp
  also have "... = (2 * (m * b)) * D + K * b" by (simp add: algebra_simps)
  also have "... \<le> (2 * (a * K) + b) * D + K * b"
    using round_half_even_bounds(1) [OF b, of "a * K"] unfolding m_def by simp
  also have "... = 2 * K * (D * a) + (D * b + K * b)" by (simp add: algebra_simps)
  also have "... \<le> 2 * K * (D * a) + 2 * K * b" using DK by simp
  finally have "2 * K * (u * b) \<le> 2 * K * (D * a + b)" by (simp add: algebra_simps)
  with K show "fixed_units d (js_div a b) * b \<le> 10 ^ d * a + b" by (simp add: u D_def)
  have "2 * m * D + K < 2 * K * (u + 1)"
    unfolding u_def using dividend_less_times_div [of "2 * K" "2 * m * D + K"] K by (simp add: algebra_simps)
  then have "2 * m * D < 2 * K * u + K" by (simp add: algebra_simps)
  then have mub: "2 * m * D * b \<le> (2 * K * u + K) * b" by simp
  have "2 * K * (D * a) = 2 * (a * K) * D" by (simp add: algebra_simps)
  also have "... \<le> (2 * (m * b) + b) * D"
    using round_half_even_bounds(2) [OF b, of "a * K"] unfolding m_def by simp
  also have "... = 2 * m * D * b + D * b" by (simp add: algebra_simps)
  also have "... \<le> (2 * K * u + K) * b + K * b" using mub DK by (intro add_mono) simp_all
  finally have "2 * K * (D * a) \<le> 2 * K * (u * b + b)" by (simp add: algebra_simps)
  with K show "10 ^ d * a \<le> fixed_units d (js_div a b) * b + b" by (simp add: u D_def)
qed

text \<open>The unit chosen is the largest that fits, when the table is ordered.\<close>

lemma first_threshold_Some:
  assumes "first_threshold n ts = Some (t, label)" and "sorted_wrt (\<lambda>p q. fst q \<le> fst p) ts"
  shows "(t, label) \<in> set ts \<and> t \<le> n \<and> (\<forall>(t', _) \<in> set ts. t' \<le> n \<longrightarrow> t' \<le> t)"
  using assms by (induction n ts rule: first_threshold.induct) (auto split: if_splits)

lemma first_threshold_None: "first_threshold n ts = None \<longleftrightarrow> (\<forall>(t, _) \<in> set ts. n < t)"
  by (induction n ts rule: first_threshold.induct) auto

lemma number_of_nat_exact: "n < 2 ^ 53 \<Longrightarrow> number_of_nat n = n"
  by (simp add: number_of_nat_def round_half_even_def excess_bits.simps)

lemma decimal_0: "decimal 0 = ''0''"
  by code_simp



lemma sorted_duration: "sorted_wrt (\<lambda>p q. fst q \<le> fst p) DURATION_UNITS \<longleftrightarrow> True"
  by (simp add: DURATION_UNITS_def)

text \<open>A positive duration below \<open>2 ^ 53\<close> seconds is shown in the largest unit that fits, either as a
  whole number of units or with one decimal, and is within a tenth of a unit of the exact duration; the
  last line of the function is never reached.\<close>

theorem formatDuration_accurate:
  assumes "s < 2 ^ 53"
  shows "if s = 0 then formatDuration s = ''0 s''
    else \<exists>t label u. (t, label) \<in> set DURATION_UNITS \<and> t \<le> s \<and> (\<forall>(t', _) \<in> set DURATION_UNITS. t' \<le> s \<longrightarrow> t' \<le> t) \<and>
      (formatDuration s = with_point 1 u @ '' '' @ label \<or>
       (10 dvd u \<and> formatDuration s = decimal (u div 10) @ '' '' @ label)) \<and>
      u * t \<le> 10 * s + t \<and> 10 * s \<le> u * t + t"
proof (cases "s = 0")
  case True
  then show ?thesis by (simp add: formatDuration_def number_of_nat_exact)
next
  case False
  have "first_threshold s DURATION_UNITS \<noteq> None"
    using False unfolding first_threshold_None by (simp add: DURATION_UNITS_def)
  then obtain t label where f: "first_threshold s DURATION_UNITS = Some (t, label)" by auto
  have t: "(t, label) \<in> set DURATION_UNITS" "t \<le> s" and max: "\<forall>(t', _) \<in> set DURATION_UNITS. t' \<le> s \<longrightarrow> t' \<le> t"
    using first_threshold_Some [OF f] unfolding sorted_duration by blast+
  from max have "60 \<le> s \<Longrightarrow> 60 \<le> t" by (simp add: DURATION_UNITS_def)
  moreover have "0 < t" using t(1) by (auto simp: DURATION_UNITS_def)
  ultimately have "s div t < 2 ^ 48"
  proof (cases "60 \<le> s")
    case True
    then have "s div t \<le> s div 60" using \<open>60 \<le> s \<Longrightarrow> 60 \<le> t\<close> by (simp add: div_le_mono2)
    also have "... < 2 ^ 48" using assms by simp
    finally show ?thesis .
  next
    case False
    then have "s < 2 ^ 48" by simp
    with div_le_dividend [of s t] show ?thesis by (rule le_less_trans)
  qed
  define x where "x = js_div s t"
  from fixed_units_js_div [OF \<open>0 < t\<close> t(2) \<open>s div t < 2 ^ 48\<close>, of 1]
  have acc: "fixed_units 1 x * t \<le> 10 * s + t" "10 * s \<le> fixed_units 1 x * t + t" by (simp_all add: x_def)
  have shown: "formatDuration s = (if js_isInteger x then decimal (double_to_nat x) else toFixed 1 x) @ '' '' @ label"
    using False f by (simp add: formatDuration_def number_of_nat_exact [OF assms] x_def Let_def)
  have "(20 * (K * k) + K) div (2 * K) = 10 * k" if "0 < K" for K k :: nat
    using that by (intro div_nat_eqI) (simp_all add: algebra_simps)
  then have "js_isInteger x \<Longrightarrow> fixed_units 1 x = 10 * double_to_nat x"
    by (auto simp: js_isInteger_def fixed_units_def double_to_nat_def elim!: dvdE split: double.splits)
  then have "formatDuration s = with_point 1 (fixed_units 1 x) @ '' '' @ label \<or>
      10 dvd fixed_units 1 x \<and> formatDuration s = decimal (fixed_units 1 x div 10) @ '' '' @ label"
    by (simp add: shown toFixed_def)
  with False t max acc show ?thesis by auto
qed

lemma formatDuration_accurate_witness:
  "\<exists>t label u. (t, label) \<in> set DURATION_UNITS \<and> t \<le> 5400 \<and> u * t \<le> 10 * 5400 + t \<and> 10 * 5400 \<le> u * t + t \<and>
     (formatDuration 5400 = with_point 1 u @ '' '' @ label \<or>
      formatDuration 5400 = decimal (u div 10) @ '' '' @ label)"
  using formatDuration_accurate [of 5400] by auto

section \<open>What a masked address shows\<close>

text \<open>The part of a domain that stays: from its last dot on, unless the dot is its first character.\<close>

definition shown_suffix :: "string \<Rightarrow> string" where
  "shown_suffix domain =
     (case last_index_of CHR ''.'' domain of None \<Rightarrow> [] | Some dot \<Rightarrow> if dot < 1 then [] else drop dot domain)"

lemma last_index_of_set: "last_index_of c s = Some i \<Longrightarrow> c \<in> set s"
  by (metis last_index_of_None option.distinct(1))

lemma maskEmail_address:
  assumes "CHR ''@'' \<notin> set l" and "l \<noteq> []" and "d \<noteq> []"
  shows "maskEmail (l @ CHR ''@'' # d) = hd l # ''***@'' @ hd d # ''***'' @ shown_suffix d"
  using assms
  by (auto simp: maskEmail_def index_of_append shown_suffix_def nth_append hd_conv_nth Let_def
      dest: last_index_of_set split: option.split)

text \<open>A masked address reveals nothing of the local part but its first character and nothing of the
  domain but its first character and its last label: addresses that agree on these are masked alike.\<close>

theorem maskEmail_hides:
  assumes "CHR ''@'' \<notin> set l" "l \<noteq> []" "d \<noteq> []" and "CHR ''@'' \<notin> set l'" "l' \<noteq> []" "d' \<noteq> []"
    and "hd l = hd l'" "hd d = hd d'" "shown_suffix d = shown_suffix d'"
  shows "maskEmail (l @ CHR ''@'' # d) = maskEmail (l' @ CHR ''@'' # d')"
  using assms by (simp add: maskEmail_address)

lemma maskEmail_hides_witness:
  "maskEmail ''jane.doe@example.com'' = maskEmail ''jim@elsewhere.co.com''"
  using maskEmail_hides [of "''jane.doe''" "''example.com''" "''jim''" "''elsewhere.co.com''"]
  by (simp add: shown_suffix_def last_index_of_def)

section \<open>Hexadecimal\<close>

fun unhex :: "string \<Rightarrow> nat list" where
  "unhex (a # b # s) = (16 * hex_value a + hex_value b) # unhex s"
| "unhex _ = []"

text \<open>The hexadecimal form of a byte string has two digits per byte and can be read back.\<close>

theorem formatHex_roundtrip:
  assumes "\<forall>b \<in> set bytes. b < 256"
  shows "unhex (formatHex bytes) = bytes \<and> length (formatHex bytes) = 2 * length bytes"
proof -
  have "16 * hex_value (hex_digit (b div 16)) + hex_value (hex_digit (b mod 16)) = b" if "b < 256" for b
  proof -
    from that have "b div 16 < 16" "b mod 16 < 16" by auto
    then show ?thesis by (simp add: hex_value_digit)
  qed
  with assms show ?thesis by (induction bytes) (auto simp: formatHex_def hex_byte_def)
qed

lemma formatHex_roundtrip_witness: "unhex (formatHex [0, 10, 255]) = [0, 10, 255]"
  using formatHex_roundtrip [of "[0, 10, 255]"] by simp

end
