(* ===== verification/ProjectExport.thy ===== *)
theory ProjectExport
  imports ApiClients "HOL-Library.Multiset"
begin

text \<open>
  \<open>lib/project-export/build-zip.ts\<close>: the archive in which a project is handed out. The template
  files are those of \<open>lib/project-export/template\<close>, which the build tool collects; their contents are
  a parameter. The archive is the object \<open>files\<close> that is passed to \<open>zipSync\<close> of the \<open>fflate\<close> package, a
  map from paths to contents; turning it into bytes is that package's work.
\<close>

section \<open>Names\<close>

definition CANISTER_PATH_MARKER :: string where
  "CANISTER_PATH_MARKER = ''__CANISTER__''"

definition TOKEN_PROJECT :: string where
  "TOKEN_PROJECT = ''{{PROJECT}}''"

definition TOKEN_CANISTER :: string where
  "TOKEN_CANISTER = ''{{CANISTER}}''"

definition TOKEN_CANISTER_PRINCIPAL :: string where
  "TOKEN_CANISTER_PRINCIPAL = ''{{CANISTER_PRINCIPAL}}''"

definition TOKEN_ACCENT :: string where
  "TOKEN_ACCENT = ''{{ACCENT}}''"

definition ASSET_RECIPE :: string where
  "ASSET_RECIPE = ''@dfinity/asset-canister@v2.1.0''"

definition ACCENT_PALETTE :: "string list" where
  "ACCENT_PALETTE = [''#29A3DA'', ''#E51E79'', ''#E95A24'', ''#F3A83B'', ''#522780'', ''#e22f30'']"

text \<open>\<open>s.replace(/[^...]+/g, '-')\<close>: every maximal run of characters outside the class becomes one dash.\<close>

lemma dropWhile_shorter [termination_simp]: "length (dropWhile P s) < Suc (length s)"
  by (simp add: length_dropWhile_le less_Suc_eq_le)

fun squeeze :: "(char \<Rightarrow> bool) \<Rightarrow> string \<Rightarrow> string" where
  "squeeze ok [] = []"
| "squeeze ok (c # s) =
     (if ok c then c # squeeze ok s else CHR ''-'' # squeeze ok (dropWhile (\<lambda>x. \<not> ok x) s))"

text \<open>\<open>s.replace(/^-+|-+$/g, '')\<close>\<close>

definition strip_dashes :: "string \<Rightarrow> string" where
  "strip_dashes s = rev (dropWhile (\<lambda>c. c = CHR ''-'') (rev (dropWhile (\<lambda>c. c = CHR ''-'') s)))"

definition project_char :: "char \<Rightarrow> bool" where
  "project_char c \<longleftrightarrow> is_lower c \<or> is_digit c"

definition canister_char :: "char \<Rightarrow> bool" where
  "canister_char c \<longleftrightarrow> is_lower c \<or> is_digit c \<or> c = CHR ''_'' \<or> c = CHR ''-''"

definition slugifyProjectName :: "string \<Rightarrow> string" where
  "slugifyProjectName name =
     (let base = strip_dashes (squeeze project_char (toLowerCase name))
      in if base = [] then ''project'' else base)"

definition slugifyCanisterName :: "string \<Rightarrow> string" where
  "slugifyCanisterName name =
     (let base = strip_dashes (squeeze canister_char (toLowerCase name))
      in if base = [] then ''canister'' else base)"

section \<open>Canisters\<close>

record ExportedCanister =
  ExportedCanister_name :: string
  ExportedCanister_principal :: string
  ExportedCanister_accent :: string

text \<open>
  The loop that numbers a name until it is unused. It ends because \<open>base-suffix\<close> differs for every
  suffix and only finitely many names are used: that many candidates are ahead.
\<close>

definition numbered :: "string \<Rightarrow> nat \<Rightarrow> string" where
  "numbered base suffix = base @ ''-'' @ decimal suffix"

lemma numbered_inject [simp]: "numbered base m = numbered base n \<longleftrightarrow> m = n"
  by (simp add: numbered_def)

definition ahead :: "string list \<Rightarrow> string \<Rightarrow> nat \<Rightarrow> nat set" where
  "ahead usedNames base suffix = {n. suffix \<le> n \<and> numbered base n \<in> set usedNames}"

lemma finite_ahead: "finite (ahead usedNames base suffix)"
proof (rule finite_imageD)
  show "finite (numbered base ` ahead usedNames base suffix)"
    by (rule finite_subset [of _ "set usedNames"]) (auto simp: ahead_def)
qed (simp add: inj_on_def)

lemma ahead_step:
  "ahead usedNames base suffix =
     (if numbered base suffix \<in> set usedNames then insert suffix (ahead usedNames base (Suc suffix))
      else ahead usedNames base (Suc suffix))"
proof -
  have "suffix \<le> n \<longleftrightarrow> n = suffix \<or> Suc suffix \<le> n" for n by auto
  then show ?thesis unfolding ahead_def by auto
qed

lemma card_ahead:
  "card (ahead usedNames base suffix) =
     card (ahead usedNames base (Suc suffix)) + (if numbered base suffix \<in> set usedNames then 1 else 0)"
proof -
  have "suffix \<notin> ahead usedNames base (Suc suffix)" by (simp add: ahead_def)
  then show ?thesis by (subst ahead_step) (simp add: finite_ahead)
qed

function unused_name :: "string list \<Rightarrow> string \<Rightarrow> string \<Rightarrow> nat \<Rightarrow> string" where
  "unused_name usedNames base name suffix =
     (if name \<in> set usedNames then unused_name usedNames base (numbered base suffix) (suffix + 1) else name)"
  by pat_completeness auto
termination
proof (relation "measure (\<lambda>(used, base, name, suffix).
      card (ahead used base suffix) + (if name \<in> set used then 1 else 0))")
  fix used :: "string list" and base name :: string and suffix :: nat
  assume "name \<in> set used"
  then show "((used, base, numbered base suffix, suffix + 1), used, base, name, suffix) \<in>
    measure (\<lambda>(used, base, name, suffix). card (ahead used base suffix) + (if name \<in> set used then 1 else 0))"
    using card_ahead [of used base suffix] by simp
qed simp

declare unused_name.simps [simp del]

definition canister_base :: "Canister \<Rightarrow> string" where
  "canister_base c =
     (let trimmed = (case Canister_name c of Some n \<Rightarrow> trim n | None \<Rightarrow> []);
          raw = (if trimmed \<noteq> [] then trimmed else ''canister-'' @ take 8 (Canister_principal c))
      in slugifyCanisterName raw)"

text \<open>The loop: the names used so far are those exported, \<open>i\<close> is their number.\<close>

fun export_loop :: "ExportedCanister list \<Rightarrow> Canister list \<Rightarrow> ExportedCanister list" where
  "export_loop exported [] = exported"
| "export_loop exported (c # canisters) =
     (if availability (Canister_state c) = Availability_Deleted then export_loop exported canisters
      else
        let base = canister_base c;
            name = unused_name (map ExportedCanister_name exported) base base 2
        in export_loop
             (exported @ [\<lparr>ExportedCanister_name = name,
                ExportedCanister_principal = Canister_principal c,
                ExportedCanister_accent = ACCENT_PALETTE ! (length exported mod length ACCENT_PALETTE)\<rparr>])
             canisters)"

definition resolveCanisterNames :: "Canister list \<Rightarrow> ExportedCanister list" where
  "resolveCanisterNames canisters = export_loop [] canisters"

section \<open>Contents\<close>

definition rewritePlainPath :: "string \<Rightarrow> string" where
  "rewritePlainPath relPath = (if relPath = ''gitignore'' then ''.gitignore'' else relPath)"

definition rewriteCanisterPath :: "string \<Rightarrow> string \<Rightarrow> string" where
  "rewriteCanisterPath relPath canisterName =
     (let named = replace_all CANISTER_PATH_MARKER canisterName (rewritePlainPath relPath)
      in replace_first (canisterName @ ''/assets/'') (canisterName @ ''/dist/'') named)"

definition escapeHtml :: "string \<Rightarrow> string" where
  "escapeHtml value =
     replace_all [CHR 0x27] ''&#39;''
       (replace_all [CHR 0x22] ''&quot;''
         (replace_all ''>'' ''&gt;''
           (replace_all ''<'' ''&lt;''
             (replace_all ''&'' ''&amp;'' value))))"

definition renderContent :: "string \<Rightarrow> string \<Rightarrow> ExportedCanister option \<Rightarrow> string \<Rightarrow> string" where
  "renderContent content path canister projectName =
     (let rendersHtml = (ends_with ''.html'' path \<or> ends_with ''.md'' path);
          shown = (if rendersHtml then escapeHtml projectName else projectName);
          out = replace_all TOKEN_PROJECT shown content
      in case canister of
           None \<Rightarrow> out
         | Some c \<Rightarrow>
             replace_all TOKEN_CANISTER (ExportedCanister_name c)
               (replace_all TOKEN_ACCENT (ExportedCanister_accent c)
                 (replace_all TOKEN_CANISTER_PRINCIPAL (ExportedCanister_principal c) out)))"

definition newline :: string where
  "newline = [CHR 0x0A]"

definition join_with :: "string \<Rightarrow> string list \<Rightarrow> string" where
  "join_with sep parts = concat (case parts of [] \<Rightarrow> [] | p # ps \<Rightarrow> p # concat (map (\<lambda>q. [sep, q]) ps))"

definition yaml_entry :: "ExportedCanister \<Rightarrow> string" where
  "yaml_entry c =
     ''  - name: '' @ ExportedCanister_name c @ newline @
     ''    recipe:'' @ newline @
     ''      type: '' @ [CHR 0x22] @ ASSET_RECIPE @ [CHR 0x22] @ newline @
     ''      configuration:'' @ newline @
     ''        dir: src/'' @ ExportedCanister_name c @ ''/dist''"

definition renderIcpYaml :: "ExportedCanister list \<Rightarrow> string" where
  "renderIcpYaml canisters =
     (let entries = join_with newline (map yaml_entry canisters) in
      ''networks:'' @ newline @
      ''  - name: local'' @ newline @
      ''    mode: managed'' @ newline @
      ''    gateway:'' @ newline @
      ''      bind: 127.0.0.1'' @ newline @
      ''      port: 8765'' @ newline @
      newline @
      ''canisters:'' @ newline @
      entries @ newline)"

text \<open>
  The object the ids are collected in. Its properties are enumerated with the array indices first,
  in ascending order, then the others in the order of insertion; assigning a string to \<open>__proto__\<close>
  creates no property.
\<close>

definition is_array_index :: "string \<Rightarrow> bool" where
  "is_array_index s \<longleftrightarrow> list_all is_digit s \<and> s \<noteq> [] \<and> decimal (decimal_value s) = s \<and> decimal_value s < 2 ^ 32 - 1"

definition object_entries :: "(string, string) js_map \<Rightarrow> (string \<times> string) list" where
  "object_entries m =
     sort_key (\<lambda>p. decimal_value (fst p)) (filter (\<lambda>p. is_array_index (fst p)) m) @
     filter (\<lambda>p. \<not> is_array_index (fst p)) m"

definition ids_map :: "ExportedCanister list \<Rightarrow> (string, string) js_map" where
  "ids_map canisters =
     foldl (\<lambda>m c. if ExportedCanister_name c = ''__proto__'' then m
                  else js_map_set (ExportedCanister_name c) (ExportedCanister_principal c) m) [] canisters"

definition renderIdsJson :: "ExportedCanister list \<Rightarrow> string" where
  "renderIdsJson canisters =
     (let entries = object_entries (ids_map canisters) in
      (if entries = [] then ''{}''
       else ''{'' @ newline @
         join_with ('','' @ newline) (map (\<lambda>(k, v). ''  '' @ json_string k @ '': '' @ json_string v) entries) @
         newline @ ''}'') @ newline)"

section \<open>The archive\<close>

definition relative_path :: "string \<Rightarrow> string" where
  "relative_path absPath =
     (if starts_with ''./template/'' absPath then drop (length ''./template/'') absPath else absPath)"

definition add_template ::
    "string \<Rightarrow> ExportedCanister list \<Rightarrow> string \<Rightarrow> (string, string) js_map \<Rightarrow> string \<times> string \<Rightarrow> (string, string) js_map" where
  "add_template root exported projectName files file =
     (case file of (absPath, content) \<Rightarrow>
        let relPath = relative_path absPath in
        if js_includes CANISTER_PATH_MARKER relPath then
          foldl (\<lambda>files c.
            let path = root @ rewriteCanisterPath relPath (ExportedCanister_name c)
            in js_map_set path (renderContent content path (Some c) projectName) files) files exported
        else
          let path = root @ rewritePlainPath relPath
          in js_map_set path (renderContent content path None projectName) files)"

definition buildProjectZip ::
    "(string \<times> string) list \<Rightarrow> string \<Rightarrow> Canister list \<Rightarrow> js_error + (string, string) js_map" where
  "buildProjectZip templateFiles projectName canisters =
     (let exported = resolveCanisterNames canisters in
      if length exported = 0 then Inl (Error ''No canisters available to export.'')
      else
        let root = slugifyProjectName projectName @ ''/'';
            files = foldl (add_template root exported projectName) [] templateFiles;
            files = js_map_set (root @ ''icp.yaml'') (renderIcpYaml exported) files
        in Inr (js_map_set (root @ ''.icp/data/mappings/ic.ids.json'') (renderIdsJson exported) files))"

section \<open>Names are safe and distinct\<close>

lemma squeeze_chars: "c \<in> set (squeeze ok s) \<Longrightarrow> ok c \<or> c = CHR ''-''"
  by (induction ok s rule: squeeze.induct) (auto split: if_splits)

lemma set_strip_dashes: "set (strip_dashes s) \<subseteq> set s"
  by (auto simp: strip_dashes_def dest!: set_dropWhileD)

lemma strip_dashes_ends:
  "strip_dashes s \<noteq> [] \<Longrightarrow> hd (strip_dashes s) \<noteq> CHR ''-'' \<and> last (strip_dashes s) \<noteq> CHR ''-''"
proof -
  define P where "P = (\<lambda>c. c = CHR ''-'')"
  define u where "u = dropWhile P s"
  define v where "v = dropWhile P (rev u)"
  have sv: "strip_dashes s = rev v" by (simp add: strip_dashes_def P_def u_def v_def)
  assume "strip_dashes s \<noteq> []"
  then have v: "v \<noteq> []" by (simp add: sv)
  then have "\<not> P (hd v)" unfolding v_def by (rule hd_dropWhile)
  moreover have "last v = last (rev u)"
    using v unfolding v_def by (metis dropWhile_append last_append takeWhile_dropWhile_id)
  moreover have "u \<noteq> []" using v by (auto simp: v_def)
  then have "\<not> P (hd u)" unfolding u_def by (rule hd_dropWhile)
  ultimately show ?thesis using \<open>u \<noteq> []\<close> v by (simp add: sv hd_rev last_rev P_def)
qed

lemma squeeze_id: "list_all ok s \<Longrightarrow> squeeze ok s = s"
  by (induction s) auto

lemma strip_dashes_id: "s \<noteq> [] \<Longrightarrow> hd s \<noteq> CHR ''-'' \<Longrightarrow> last s \<noteq> CHR ''-'' \<Longrightarrow> strip_dashes s = s"
proof -
  assume s: "s \<noteq> []" and "hd s \<noteq> CHR ''-''" "last s \<noteq> CHR ''-''"
  have id: "dropWhile P xs = xs" if "xs \<noteq> []" "\<not> P (hd xs)" for P :: "char \<Rightarrow> bool" and xs
    using that by (cases xs) auto
  show ?thesis
    using s \<open>hd s \<noteq> CHR ''-''\<close> \<open>last s \<noteq> CHR ''-''\<close> by (simp add: strip_dashes_def id hd_rev)
qed

lemma lower_char_id: "is_lower c \<or> is_digit c \<or> c = CHR ''_'' \<or> c = CHR ''-'' \<Longrightarrow> lower_char c = c"
  by (auto simp: lower_char_def is_lower_def is_digit_def char_between_def Let_def)

definition safe_name :: "string \<Rightarrow> bool" where
  "safe_name s \<longleftrightarrow> s \<noteq> [] \<and> list_all canister_char s \<and> hd s \<noteq> CHR ''-'' \<and> last s \<noteq> CHR ''-''"

lemma canister_char_dash: "canister_char CHR ''-''"
  by (simp add: canister_char_def)

lemma safe_slugifyCanisterName: "safe_name (slugifyCanisterName name)"
proof -
  define base where "base = strip_dashes (squeeze canister_char (toLowerCase name))"
  have "list_all canister_char base"
    using set_strip_dashes squeeze_chars canister_char_dash by (fastforce simp: base_def list_all_iff)
  moreover have "safe_name ''canister''"
    by (simp add: safe_name_def canister_char_def is_lower_def char_between_def)
  ultimately show ?thesis
    using strip_dashes_ends [of "squeeze canister_char (toLowerCase name)"]
    by (auto simp: slugifyCanisterName_def Let_def safe_name_def base_def)
qed

lemma safe_slugifyProjectName: "safe_name (slugifyProjectName name)"
proof -
  define base where "base = strip_dashes (squeeze project_char (toLowerCase name))"
  have "list_all canister_char base"
    using set_strip_dashes squeeze_chars canister_char_dash
    by (fastforce simp: base_def list_all_iff project_char_def canister_char_def)
  moreover have "safe_name ''project''"
    by (simp add: safe_name_def canister_char_def is_lower_def char_between_def)
  ultimately show ?thesis
    using strip_dashes_ends [of "squeeze project_char (toLowerCase name)"]
    by (auto simp: slugifyProjectName_def Let_def safe_name_def base_def)
qed

lemma safe_name_fixed: "safe_name s \<Longrightarrow> slugifyCanisterName s = s"
proof -
  assume s: "safe_name s"
  then have "toLowerCase s = s"
    unfolding toLowerCase_def safe_name_def list_all_iff canister_char_def
    by (intro map_idI) (metis lower_char_id)
  with s show ?thesis
    by (simp add: slugifyCanisterName_def squeeze_id strip_dashes_id safe_name_def)
qed

text \<open>Whatever a canister or a project is called, the name made for the archive is not empty, consists
  of lower-case letters, digits, underscores and dashes, neither begins nor ends with a dash, and is not
  changed by making a name of it again.\<close>

theorem slug_safe:
  "safe_name (slugifyCanisterName name) \<and> slugifyCanisterName (slugifyCanisterName name) = slugifyCanisterName name \<and>
   safe_name (slugifyProjectName name) \<and> CHR ''/'' \<notin> set (slugifyProjectName name) \<and>
   CHR ''.'' \<notin> set (slugifyProjectName name)"
proof -
  have "CHR ''/'' \<notin> set s \<and> CHR ''.'' \<notin> set s" if "safe_name s" for s
    using that
    by (auto simp: safe_name_def list_all_iff canister_char_def is_lower_def is_digit_def char_between_def)
  then show ?thesis
    using safe_slugifyCanisterName safe_slugifyProjectName by (simp add: safe_name_fixed)
qed

text \<open>The name the numbering loop ends with.\<close>

lemma unused_name_fresh: "unused_name used base name suffix \<notin> set used"
  by (induction used base name suffix rule: unused_name.induct) (subst unused_name.simps; simp)

lemma unused_name_form:
  "unused_name used base name suffix = name \<or> (\<exists>n \<ge> suffix. unused_name used base name suffix = numbered base n)"
proof (induction used base name suffix rule: unused_name.induct)
  case (1 used base name suffix)
  show ?case
  proof (cases "name \<in> set used")
    case True
    then have "unused_name used base name suffix = unused_name used base (numbered base suffix) (suffix + 1)"
      by (subst unused_name.simps) simp
    with "1.IH" [OF True] show ?thesis by (metis add_leD1 order_refl)
  next
    case False
    then show ?thesis by (subst unused_name.simps) simp
  qed
qed

lemma safe_numbered: "safe_name base \<Longrightarrow> safe_name (numbered base n)"
proof -
  assume "safe_name base"
  moreover have "list_all canister_char (decimal n)"
    using decimal_digits by (auto simp: list_all_iff canister_char_def)
  moreover have "is_digit (last (decimal n))"
    by (rule decimal_digits [OF last_in_set [OF decimal_not_Nil]])
  then have "last (decimal n) \<noteq> CHR ''-''" by (auto simp: is_digit_def char_between_def)
  ultimately show ?thesis
    by (auto simp: safe_name_def numbered_def canister_char_dash)
qed

lemma safe_unused_name: "safe_name base \<Longrightarrow> safe_name (unused_name used base base suffix)"
  using unused_name_form [of used base base suffix] safe_numbered by auto

text \<open>What the loop adds to the exported canisters.\<close>

definition live :: "Canister \<Rightarrow> bool" where
  "live c \<longleftrightarrow> availability (Canister_state c) \<noteq> Availability_Deleted"

definition exported_ok :: "ExportedCanister list \<Rightarrow> bool" where
  "exported_ok es \<longleftrightarrow> distinct (map ExportedCanister_name es) \<and> (\<forall>e \<in> set es. safe_name (ExportedCanister_name e)) \<and>
     (\<forall>i < length es. ExportedCanister_accent (es ! i) = ACCENT_PALETTE ! (i mod length ACCENT_PALETTE))"

lemma export_loop_ok: "exported_ok es \<Longrightarrow> exported_ok (export_loop es cs)"
proof (induction es cs rule: export_loop.induct)
  case (2 es c cs)
  show ?case
  proof (cases "live c")
    case True
    let ?n = "unused_name (map ExportedCanister_name es) (canister_base c) (canister_base c) 2"
    have "safe_name (canister_base c)" by (simp add: canister_base_def Let_def safe_slugifyCanisterName)
    then have "safe_name ?n" by (rule safe_unused_name)
    moreover have "?n \<notin> ExportedCanister_name ` set es"
      using unused_name_fresh [of "map ExportedCanister_name es"] by simp
    ultimately have "exported_ok (es @ [\<lparr>ExportedCanister_name = ?n,
        ExportedCanister_principal = Canister_principal c,
        ExportedCanister_accent = ACCENT_PALETTE ! (length es mod length ACCENT_PALETTE)\<rparr>])"
      using "2.prems" by (auto simp: exported_ok_def nth_append less_Suc_eq)
    from "2.IH"(2) [OF _ refl refl this] True show ?thesis by (simp add: live_def Let_def)
  next
    case False
    with "2.IH"(1) "2.prems" show ?thesis by (simp add: live_def)
  qed
qed simp

lemma export_loop_principals:
  "map ExportedCanister_principal (export_loop es cs) =
     map ExportedCanister_principal es @ map Canister_principal (filter live cs)"
  by (induction es cs rule: export_loop.induct) (simp_all add: live_def Let_def)

lemma resolve_ok: "exported_ok (resolveCanisterNames cs)"
  unfolding resolveCanisterNames_def by (rule export_loop_ok) (simp add: exported_ok_def)

text \<open>C12: Exactly the canisters that are not deleted are exported, in their order; they get distinct safe
  names, however their names collide, and the accents of the palette in turn.\<close>

theorem resolveCanisterNames_correct:
  "map ExportedCanister_principal (resolveCanisterNames cs) = map Canister_principal (filter live cs) \<and>
   distinct (map ExportedCanister_name (resolveCanisterNames cs)) \<and>
   list_all safe_name (map ExportedCanister_name (resolveCanisterNames cs)) \<and>
   map ExportedCanister_accent (resolveCanisterNames cs) =
     map (\<lambda>i. ACCENT_PALETTE ! (i mod 6)) [0..<length (filter live cs)]"
proof -
  note ok = resolve_ok [of cs, unfolded exported_ok_def]
  have principals: "map ExportedCanister_principal (resolveCanisterNames cs) = map Canister_principal (filter live cs)"
    by (simp add: resolveCanisterNames_def export_loop_principals)
  then have "length (resolveCanisterNames cs) = length (filter live cs)"
    by (metis length_map)
  moreover have "length ACCENT_PALETTE = 6" by (simp add: ACCENT_PALETTE_def)
  ultimately show ?thesis
    using ok principals by (auto simp: list_all_iff intro!: nth_equalityI)
qed

section \<open>The project's name cannot inject markup\<close>

definition escape_char :: "char \<Rightarrow> string" where
  "escape_char c =
     (if c = CHR ''&'' then ''&amp;'' else if c = CHR ''<'' then ''&lt;'' else if c = CHR ''>'' then ''&gt;''
      else if c = CHR 0x22 then ''&quot;'' else if c = CHR 0x27 then ''&#39;'' else [c])"

lemma escapeHtml_one_pass: "escapeHtml v = concat (map escape_char v)"
  unfolding escapeHtml_def replace_all_char
  by (induction v) (auto simp: subst1_def escape_char_def)

definition markup_char :: "char \<Rightarrow> bool" where
  "markup_char c \<longleftrightarrow> c = CHR ''<'' \<or> c = CHR ''>'' \<or> c = CHR 0x22 \<or> c = CHR 0x27"

definition markup :: "string \<Rightarrow> string" where
  "markup s = filter markup_char s"

lemma markup_append [simp]: "markup (s @ t) = markup s @ markup t"
  by (simp add: markup_def)

lemma markup_Nil_iff: "markup s = [] \<longleftrightarrow> (\<forall>c \<in> set s. \<not> markup_char c)"
  by (simp add: markup_def filter_empty_conv)

lemma markup_escapeHtml: "markup (escapeHtml v) = []"
  unfolding escapeHtml_one_pass
  by (induction v) (auto simp: markup_def escape_char_def markup_char_def)

fun unescapeHtml :: "string \<Rightarrow> string" where
  "unescapeHtml [] = []"
| "unescapeHtml (c # s) =
     (if c \<noteq> CHR ''&'' then c # unescapeHtml s
      else if take 4 s = ''amp;'' then CHR ''&'' # unescapeHtml (drop 4 s)
      else if take 3 s = ''lt;'' then CHR ''<'' # unescapeHtml (drop 3 s)
      else if take 3 s = ''gt;'' then CHR ''>'' # unescapeHtml (drop 3 s)
      else if take 5 s = ''quot;'' then CHR 0x22 # unescapeHtml (drop 5 s)
      else if take 4 s = ''#39;'' then CHR 0x27 # unescapeHtml (drop 4 s)
      else c # unescapeHtml s)"

text \<open>The five replacements in a row amount to one pass: the escaped text contains no quote and no
  angle bracket, and a reader of HTML gets back the text that was escaped.\<close>

theorem escapeHtml_roundtrip:
  "escapeHtml v = concat (map escape_char v) \<and> markup (escapeHtml v) = [] \<and>
   unescapeHtml (escapeHtml v) = v"
proof -
  have "unescapeHtml (concat (map escape_char v)) = v"
    by (induction v) (auto simp: escape_char_def)
  then show ?thesis using escapeHtml_one_pass markup_escapeHtml by simp
qed

lemma starts_with_split: "starts_with p s \<Longrightarrow> s = p @ drop (length p) s"
  unfolding starts_with_def by (metis append_take_drop_id)

lemma markup_replace_all: "markup t = [] \<Longrightarrow> markup r = [] \<Longrightarrow> markup (replace_all t r s) = markup s"
proof (induction t r s rule: replace_all.induct)
  case (2 t r c s)
  show ?case
  proof (cases "t \<noteq> [] \<and> starts_with t (c # s)")
    case True
    then have "markup (c # s) = markup t @ markup (drop (length t) (c # s))"
      by (metis markup_append starts_with_split)
    with True 2 show ?thesis by simp
  next
    case False
    with 2 show ?thesis by (auto simp: markup_def)
  qed
qed (simp add: markup_def)

lemma markup_safe_name: "safe_name s \<Longrightarrow> markup s = []"
  by (auto simp: markup_Nil_iff safe_name_def list_all_iff canister_char_def is_lower_def is_digit_def
      char_between_def markup_char_def)

lemma markup_accent:
  assumes "exported_ok es" and "e \<in> set es"
  shows "markup (ExportedCanister_accent e) = []"
proof -
  from assms obtain i where "ExportedCanister_accent e = ACCENT_PALETTE ! (i mod length ACCENT_PALETTE)"
    by (metis exported_ok_def in_set_conv_nth)
  moreover have "ACCENT_PALETTE ! (i mod length ACCENT_PALETTE) \<in> set ACCENT_PALETTE"
    by (rule nth_mem) (simp add: ACCENT_PALETTE_def)
  moreover have "\<forall>a \<in> set ACCENT_PALETTE. markup a = []"
    by (simp add: ACCENT_PALETTE_def markup_def markup_char_def)
  ultimately show ?thesis by simp
qed

lemma markup_tokens:
  "markup TOKEN_PROJECT = []" "markup TOKEN_CANISTER = []" "markup TOKEN_CANISTER_PRINCIPAL = []"
  "markup TOKEN_ACCENT = []"
  by (simp_all add: markup_def markup_char_def TOKEN_PROJECT_def TOKEN_CANISTER_def
      TOKEN_CANISTER_PRINCIPAL_def TOKEN_ACCENT_def)


definition sample_canister :: "string option \<Rightarrow> Canister" where
  "sample_canister name =
     \<lparr>Canister_id = ''c'', Canister_principal = ''aaaaa-aa'', Canister_name = name,
      Canister_state = Inaccessible, Canister_deletedAt = None\<rparr>"

lemma resolve_sample:
  "safe_name n \<Longrightarrow> trim n = n \<Longrightarrow> resolveCanisterNames [sample_canister (Some n)] =
     [\<lparr>ExportedCanister_name = n, ExportedCanister_principal = ''aaaaa-aa'', ExportedCanister_accent = ''#29A3DA''\<rparr>]"
  by (simp add: resolveCanisterNames_def sample_canister_def canister_base_def safe_name_fixed
      unused_name.simps ACCENT_PALETTE_def safe_name_def Let_def)


section \<open>The files of the archive\<close>

text \<open>The files of the template directory, with their contents.\<close>

definition template_files :: "string \<Rightarrow> string \<Rightarrow> string \<Rightarrow> (string \<times> string) list" where
  "template_files readme gitignore index =
     [(''./template/README.md'', readme), (''./template/gitignore'', gitignore),
      (''./template/src/__CANISTER__/assets/index.html'', index)]"

lemma js_map_set_fresh: "k \<notin> fst ` set m \<Longrightarrow> js_map_set k v m = m @ [(k, v)]"
  by (induction k v m rule: js_map_set.induct) auto

lemma foldl_js_map_set:
  assumes "distinct (map p es)" and "\<forall>e \<in> set es. p e \<notin> fst ` set m"
  shows "foldl (\<lambda>m e. js_map_set (p e) (v e) m) m es = m @ map (\<lambda>e. (p e, v e)) es"
  using assms
proof (induction es arbitrary: m)
  case (Cons e es)
  then have "js_map_set (p e) (v e) m = m @ [(p e, v e)]" by (simp add: js_map_set_fresh)
  moreover have "\<forall>e' \<in> set es. p e' \<notin> fst ` set (m @ [(p e, v e)])"
    using Cons.prems by (auto simp: image_iff)
  ultimately show ?case
    using Cons.IH [of "m @ [(p e, v e)]"] Cons.prems by simp
qed simp

lemma safe_name_char: "safe_name s \<Longrightarrow> c \<in> set s \<Longrightarrow> c \<noteq> CHR ''/'' \<and> c \<noteq> CHR ''.''"
  by (auto simp: safe_name_def list_all_iff canister_char_def is_lower_def is_digit_def char_between_def)

text \<open>The first \<open>name/assets/\<close> in the canister's path is the one after \<open>src/\<close>.\<close>

lemma rewrite_index_path:
  assumes "safe_name n"
  shows "rewriteCanisterPath ''src/__CANISTER__/assets/index.html'' n = ''src/'' @ n @ ''/dist/index.html''"
proof -
  have named: "replace_all CANISTER_PATH_MARKER n (rewritePlainPath ''src/__CANISTER__/assets/index.html'') =
      ''src/'' @ n @ ''/assets/index.html''"
    by (simp add: CANISTER_PATH_MARKER_def rewritePlainPath_def starts_with_def)
  from assms have n: "n \<noteq> []" "CHR ''/'' \<notin> set n" using safe_name_char by (auto simp: safe_name_def)
  have no: "\<not> starts_with (n @ ''/assets/'') (drop i ''src/'' @ n @ ''/assets/index.html'')" if "i < 4" for i
  proof -
    from that have "i \<in> {0, 1, 2, 3}" by auto
    then show ?thesis
      using n by (cases n; cases "tl n"; cases "tl (tl n)"; cases "tl (tl (tl n))") (auto simp: starts_with_def)
  qed
  have at: "starts_with (n @ ''/assets/'') (n @ ''/assets/index.html'')"
    by (simp add: starts_with_def)
  have "replace_first (n @ ''/assets/'') (n @ ''/dist/'') (n @ ''/assets/index.html'') = n @ ''/dist/index.html''"
    using n(1) at by (cases n) simp_all
  then have "replace_first (n @ ''/assets/'') (n @ ''/dist/'') (''src/'' @ n @ ''/assets/index.html'') =
      ''src/'' @ n @ ''/dist/index.html''"
    using no [of 0] no [of 1] no [of 2] no [of 3] by simp
  with named show ?thesis by (simp add: rewriteCanisterPath_def)
qed

text \<open>C11: With the repository's template, the archive of a project with at least one canister that is
  not deleted holds, under a directory named after the project, the read-me, the ignore file, one page for
  each exported canister in the place where its recipe looks for it, the project file and the ids, and
  nothing else; a project without such a canister is refused.\<close>

theorem buildProjectZip_files:
  "buildProjectZip (template_files readme gitignore index) projectName cs =
     (let es = resolveCanisterNames cs; root = slugifyProjectName projectName @ ''/'';
          page = (\<lambda>e. root @ ''src/'' @ ExportedCanister_name e @ ''/dist/index.html'') in
      if filter live cs = [] then Inl (Error ''No canisters available to export.'')
      else Inr (
        [(root @ ''README.md'', renderContent readme (root @ ''README.md'') None projectName),
         (root @ ''.gitignore'', renderContent gitignore (root @ ''.gitignore'') None projectName)] @
        map (\<lambda>e. (page e, renderContent index (page e) (Some e) projectName)) es @
        [(root @ ''icp.yaml'', renderIcpYaml es),
         (root @ ''.icp/data/mappings/ic.ids.json'', renderIdsJson es)]))"
proof -
  define es where "es = resolveCanisterNames cs"
  define root where "root = slugifyProjectName projectName @ ''/''"
  define page where "page = (\<lambda>e :: ExportedCanister. root @ ''src/'' @ ExportedCanister_name e @ ''/dist/index.html'')"
  have ok: "exported_ok es" by (simp add: es_def resolve_ok)
  then have names: "distinct (map ExportedCanister_name es)" and safe: "\<forall>e \<in> set es. safe_name (ExportedCanister_name e)"
    by (simp_all add: exported_ok_def)
  have "map ExportedCanister_principal es = map Canister_principal (filter live cs)"
    by (simp add: es_def resolveCanisterNames_def export_loop_principals)
  then have none: "es = [] \<longleftrightarrow> filter live cs = []" by (metis map_is_Nil_conv)
  have path: "root @ rewriteCanisterPath ''src/__CANISTER__/assets/index.html'' (ExportedCanister_name e) = page e"
    if "e \<in> set es" for e
    using that safe by (simp add: page_def rewrite_index_path)
  have pages: "distinct (map page es)"
    using names by (simp add: page_def distinct_map inj_on_def)
  let ?plain = "[(root @ ''README.md'', renderContent readme (root @ ''README.md'') None projectName),
         (root @ ''.gitignore'', renderContent gitignore (root @ ''.gitignore'') None projectName)]"
  have canisters: "foldl (\<lambda>files c.
        let path = root @ rewriteCanisterPath ''src/__CANISTER__/assets/index.html'' (ExportedCanister_name c)
        in js_map_set path (renderContent index path (Some c) projectName) files) ?plain es =
      ?plain @ map (\<lambda>e. (page e, renderContent index (page e) (Some e) projectName)) es"
    (is "foldl ?f _ _ = _")
  proof -
    have "foldl ?f ?plain es = foldl (\<lambda>m e. js_map_set (page e) (renderContent index (page e) (Some e) projectName) m) ?plain es"
      by (rule foldl_cong) (simp_all add: path Let_def)
    also have "... = ?plain @ map (\<lambda>e. (page e, renderContent index (page e) (Some e) projectName)) es"
      by (rule foldl_js_map_set [OF pages]) (simp add: page_def)
    finally show ?thesis .
  qed
  have files: "foldl (add_template root es projectName) [] (template_files readme gitignore index) =
      ?plain @ map (\<lambda>e. (page e, renderContent index (page e) (Some e) projectName)) es"
    by (simp add: template_files_def add_template_def relative_path_def starts_with_def CANISTER_PATH_MARKER_def
        rewritePlainPath_def canisters [unfolded Let_def] Let_def)
  show ?thesis
    unfolding Let_def buildProjectZip_def es_def [symmetric] root_def [symmetric] files
    using none by (auto simp: js_map_set_fresh page_def image_iff)
qed

text \<open>The ids file: every exported canister but one.\<close>

lemma ids_map_filter:
  assumes "distinct (map ExportedCanister_name es)"
  shows "ids_map es = map (\<lambda>e. (ExportedCanister_name e, ExportedCanister_principal e))
    (filter (\<lambda>e. ExportedCanister_name e \<noteq> ''__proto__'') es)"
proof -
  have skip: "foldl (\<lambda>m c. if P c then m else f m c) m es = foldl f m (filter (\<lambda>c. \<not> P c) es)"
    for P and f :: "(string, string) js_map \<Rightarrow> ExportedCanister \<Rightarrow> (string, string) js_map" and m es
    by (induction es arbitrary: m) auto
  show ?thesis
    using foldl_js_map_set [of ExportedCanister_name "filter (\<lambda>e. ExportedCanister_name e \<noteq> ''__proto__'') es" "[]"
        ExportedCanister_principal] distinct_map_filter [OF assms]
    by (simp add: ids_map_def skip)
qed

lemma map_of_object_entries:
  fixes m :: "(string, string) js_map"
  assumes "distinct (map fst m)"
  shows "map_of (object_entries m) = map_of m"
proof -
  have "distinct (map fst (object_entries m))"
  proof -
    have "mset (object_entries m) = mset m" by (simp add: object_entries_def)
    then have "mset (map fst (object_entries m)) = mset (map fst m)" by simp
    with assms show ?thesis by (metis mset_eq_imp_distinct_iff)
  qed
  moreover have "set (object_entries m) = set m" by (auto simp: object_entries_def)
  ultimately show ?thesis using assms by (simp add: map_of_inject_set)
qed

text \<open>The ids file lists under every exported canister's name its principal, with one exception: a
  canister that is called \<open>__proto__\<close> is exported but has no entry.\<close>

theorem ids_complete:
  "map_of (object_entries (ids_map (resolveCanisterNames cs))) name =
     (if name = ''__proto__'' then None
      else map_of (map (\<lambda>e. (ExportedCanister_name e, ExportedCanister_principal e)) (resolveCanisterNames cs)) name)"
proof -
  define es where "es = resolveCanisterNames cs"
  have d: "distinct (map ExportedCanister_name es)"
    using resolve_ok [of cs] by (simp add: es_def exported_ok_def)
  then have "distinct (map fst (ids_map es))"
    by (simp add: ids_map_filter comp_def distinct_map_filter)
  then have "map_of (object_entries (ids_map es)) name = map_of (ids_map es) name"
    by (simp add: map_of_object_entries)
  moreover have "map_of (ids_map es) name = (if name = ''__proto__'' then None
      else map_of (map (\<lambda>e. (ExportedCanister_name e, ExportedCanister_principal e)) es) name)"
    unfolding ids_map_filter [OF d] by (induction es) auto
  ultimately show ?thesis by (simp add: es_def)
qed

lemma proto_exported:
  "map ExportedCanister_name (resolveCanisterNames [sample_canister (Some ''__proto__'')]) = [''__proto__''] \<and>
   ids_map (resolveCanisterNames [sample_canister (Some ''__proto__'')]) = []"
proof -
  have "safe_name ''__proto__''" "trim ''__proto__'' = ''__proto__''"
    by (simp_all add: safe_name_def canister_char_def is_lower_def char_between_def trim_def trim_start_def
        trim_end_def is_space_def)
  then show ?thesis by (simp add: resolve_sample ids_map_def)
qed

end
