(* ===== verification/MetricsProxy.thy ===== *)
theory MetricsProxy
  imports Backend Complex_Main
begin

text \<open>
  \<open>lib/api/metrics-proxy.ts\<close>: the client of the metrics proxy. A request needs a session token, which is
  minted by signing a challenge with the user's delegation and cached in the client; callers that ask
  while a token is being minted share that attempt. \<open>mintSession\<close> and the query itself are tasks on the
  client's private state; the sharing is the step relation \<open>proxy_step\<close>.
\<close>

section \<open>JSON and the schemas\<close>

text \<open>What \<open>JSON.parse\<close> yields (the numbers are finite doubles, hence rational).\<close>

datatype json =
    JNull | JBool bool | JNumber rat | JString string | JArray "json list" | JObject "(string \<times> json) list"

datatype MetricSlug = Memory_bytes | Compute_time_seconds | Burned_cycles

fun slug_text :: "MetricSlug \<Rightarrow> string" where
  "slug_text Memory_bytes = ''memory-bytes''"
| "slug_text Compute_time_seconds = ''compute-time-seconds''"
| "slug_text Burned_cycles = ''burned-cycles''"

record MetricPoint =
  MetricPoint_ts :: Date
  MetricPoint_value :: rat

record MetricRange =
  MetricRange_canisterId :: string
  MetricRange_metric :: MetricSlug
  MetricRange_unit :: string
  MetricRange_description :: string
  MetricRange_points :: "MetricPoint list"

record QueryRangeArgs =
  QueryRangeArgs_canisterId :: string
  QueryRangeArgs_metric :: MetricSlug
  QueryRangeArgs_from :: Date
  QueryRangeArgs_to :: Date
  QueryRangeArgs_step :: string

text \<open>A value that does not fit its schema makes \<open>parse\<close> throw a \<open>ZodError\<close>.\<close>

definition ZodError :: js_error where
  "ZodError = LibraryError ''ZodError''"

fun z_string :: "json \<Rightarrow> js_error + string" where
  "z_string (JString s) = Inr s"
| "z_string _ = Inl ZodError"

fun z_number :: "json \<Rightarrow> js_error + rat" where
  "z_number (JNumber n) = Inr n"
| "z_number _ = Inl ZodError"

fun z_array :: "(json \<Rightarrow> js_error + 'a) \<Rightarrow> json \<Rightarrow> js_error + 'a list" where
  "z_array f (JArray xs) = map_throwing f xs"
| "z_array f _ = Inl ZodError"

definition z_nullable :: "(json \<Rightarrow> js_error + 'a) \<Rightarrow> json \<Rightarrow> js_error + 'a option" where
  "z_nullable f j = (if j = JNull then Inr None else and_then (f j) (\<lambda>x. Inr (Some x)))"

fun z_field :: "string \<Rightarrow> (json \<Rightarrow> js_error + 'a) \<Rightarrow> json \<Rightarrow> js_error + 'a" where
  "z_field k f (JObject kvs) = (case map_of kvs k of None \<Rightarrow> Inl ZodError | Some j \<Rightarrow> f j)"
| "z_field k f _ = Inl ZodError"

definition metricSlugSchema :: "json \<Rightarrow> js_error + MetricSlug" where
  "metricSlugSchema j =
     and_then (z_string j) (\<lambda>s.
       if s = ''memory-bytes'' then Inr Memory_bytes
       else if s = ''compute-time-seconds'' then Inr Compute_time_seconds
       else if s = ''burned-cycles'' then Inr Burned_cycles
       else Inl ZodError)"

record RawResponse =
  raw_canister_id :: string
  raw_metric :: MetricSlug
  raw_unit :: string
  raw_description :: string
  raw_points :: "(rat \<times> rat) list option"

definition rawResponseSchema :: "json \<Rightarrow> js_error + RawResponse" where
  "rawResponseSchema j =
     and_then (z_field ''canister_id'' z_string j) (\<lambda>c.
     and_then (z_field ''metric'' metricSlugSchema j) (\<lambda>m.
     and_then (z_field ''unit'' z_string j) (\<lambda>u.
     and_then (z_field ''description'' z_string j) (\<lambda>d.
     and_then (z_field ''points'' (z_nullable (z_array (\<lambda>p.
         and_then (z_field ''ts'' z_number p) (\<lambda>ts.
         and_then (z_field ''value'' z_number p) (\<lambda>v. Inr (ts, v)))))) j) (\<lambda>ps.
       Inr \<lparr>raw_canister_id = c, raw_metric = m, raw_unit = u, raw_description = d, raw_points = ps\<rparr>)))))"

text \<open>\<open>z.string().min(1)\<close>\<close>

definition sessionResponseSchema :: "json \<Rightarrow> js_error + string \<times> rat" where
  "sessionResponseSchema j =
     and_then (z_field ''token'' z_string j) (\<lambda>t.
     if t = [] then Inl ZodError
     else and_then (z_field ''expires_at_ms'' z_number j) (\<lambda>e. Inr (t, e)))"

section \<open>URLs\<close>

definition is_alnum :: "char \<Rightarrow> bool" where
  "is_alnum c \<longleftrightarrow> is_lower c \<or> is_digit c \<or> char_between CHR ''A'' CHR ''Z'' c"

definition upper_hex :: "nat \<Rightarrow> char" where
  "upper_hex d = (if d < 10 then char_of (48 + d) else char_of (55 + d))"

definition percent :: "nat \<Rightarrow> string" where
  "percent b = [CHR ''%'', upper_hex (b div 16), upper_hex (b mod 16)]"

text \<open>A code unit below 256 has one or two bytes in UTF-8.\<close>

definition utf8_escape :: "char \<Rightarrow> string" where
  "utf8_escape c =
     (let n = of_char c :: nat in
      if n < 128 then percent n else percent (192 + n div 64) @ percent (128 + n mod 64))"

definition encodeURIComponent :: "string \<Rightarrow> string" where
  "encodeURIComponent s =
     concat (map (\<lambda>c. if is_alnum c \<or> c \<in> set ''-_.!~*()'' \<or> c = CHR 0x27 then [c] else utf8_escape c) s)"

text \<open>\<open>URLSearchParams\<close> writes a blank as a plus and leaves fewer characters alone.\<close>

definition form_encode :: "string \<Rightarrow> string" where
  "form_encode s =
     concat (map (\<lambda>c. if is_alnum c \<or> c \<in> set ''*-._'' then [c] else if c = CHR '' '' then ''+'' else utf8_escape c) s)"

definition METRICS_API_PREFIX :: string where
  "METRICS_API_PREFIX = ''/v0/metrics''"

definition SESSION_REFRESH_BUFFER_MS :: int where
  "SESSION_REFRESH_BUFFER_MS = 30000"

definition toHex :: "nat list \<Rightarrow> string" where
  "toHex bytes = foldl (\<lambda>s b. s @ hex_byte b) [] bytes"

section \<open>The client\<close>

text \<open>
  The world of the client: the clock, the digest, the keys of the user's delegation, \<open>fetch\<close>, the
  parser of JSON and the printer of dates. \<open>constructor_name\<close> is what a build calls an identity's class.
\<close>

record 'w proxy_env =
  rootUrl :: string
  now :: "'w \<Rightarrow> int"
  sha256 :: "nat list \<Rightarrow> nat list"
  delegation_publicKey :: "Identity \<Rightarrow> nat list"
  delegation_JSON :: "Identity \<Rightarrow> string"
  sign :: "Identity \<Rightarrow> string \<Rightarrow> 'w \<Rightarrow> 'w \<times> (string + nat list)"
  proxy_fetch :: "FetchRequest \<Rightarrow> 'w \<Rightarrow> 'w \<times> (string + FetchResponse)"
  parse_json :: "string \<Rightarrow> string + json"
  toISOString :: "Date \<Rightarrow> string"
  constructor_name :: "Identity \<Rightarrow> string"

record MetricsProxyState =
  session :: "(string \<times> rat) option"

type_synonym ('w, 'a) proxy_task = "(js_error, MetricsProxyState, 'w, 'a) task"

definition sha256Hex :: "'w proxy_env \<Rightarrow> nat list \<Rightarrow> string" where
  "sha256Hex E bytes = toHex (sha256 E bytes)"

definition response_error :: "string \<Rightarrow> FetchResponse \<Rightarrow> js_error" where
  "response_error prefix res =
     Error (prefix @ '' '' @ decimal (nat (FetchResponse_status res)) @ '' '' @ FetchResponse_statusText res @
            '': '' @ FetchResponse_text res)"

text \<open>\<open>schema.parse(await res.json())\<close>\<close>

definition parse_body :: "'w proxy_env \<Rightarrow> (json \<Rightarrow> js_error + 'a) \<Rightarrow> FetchResponse \<Rightarrow> js_error + 'a" where
  "parse_body E schema res =
     (case parse_json E (FetchResponse_text res) of Inl msg \<Rightarrow> Inl (LibraryError msg) | Inr j \<Rightarrow> schema j)"

definition session_challenge :: "'w proxy_env \<Rightarrow> Identity \<Rightarrow> int \<Rightarrow> string" where
  "session_challenge E i timestampMillis =
     ''POST'' @ [CHR 0x0A] @ METRICS_API_PREFIX @ ''/session'' @ [CHR 0x0A, CHR 0x0A] @
     decimal (nat timestampMillis) @ [CHR 0x0A] @ sha256Hex E (delegation_publicKey E i)"

definition session_request :: "'w proxy_env \<Rightarrow> Identity \<Rightarrow> int \<Rightarrow> nat list \<Rightarrow> FetchRequest" where
  "session_request E i timestampMillis sig =
     \<lparr>FetchRequest_url = rootUrl E @ METRICS_API_PREFIX @ ''/session'',
      FetchRequest_method = ''POST'',
      FetchRequest_headers =
        [(''X-IC-Delegation'', delegation_JSON E i), (''X-IC-Signature'', toHex sig),
         (''X-IC-Timestamp'', decimal (nat timestampMillis))],
      FetchRequest_body = None\<rparr>"

definition mintSession :: "'w proxy_env \<Rightarrow> Identity \<Rightarrow> ('w, string) proxy_task" where
  "mintSession E i =
     (case i of
        AnonymousIdentity \<Rightarrow>
          throw (Error (''metrics-proxy: expected DelegationIdentity, got '' @ constructor_name E i @
            ''; user must be logged in via II with an Ed25519 session key''))
      | DelegationIdentity _ \<Rightarrow>
          await (remote (\<lambda>w. (w, Inr (now E w)))) (\<lambda>timestampMillis.
          await (request (sign E i (session_challenge E i timestampMillis))) (\<lambda>sig.
          await (request (proxy_fetch E (session_request E i timestampMillis sig))) (\<lambda>res.
            if \<not> FetchResponse_ok res then throw (response_error ''metrics-proxy session'' res)
            else
              await (lift_sum (parse_body E sessionResponseSchema res)) (\<lambda>(token, expiresAtMs).
              await (set_state (\<lambda>s. s\<lparr>session := Some (token, expiresAtMs)\<rparr>)) (\<lambda>_.
                ret token))))))"

text \<open>The query, once a token is there. Aborting it makes \<open>fetch\<close> reject.\<close>

definition query_request :: "'w proxy_env \<Rightarrow> QueryRangeArgs \<Rightarrow> string \<Rightarrow> FetchRequest" where
  "query_request E args token =
     \<lparr>FetchRequest_url =
        rootUrl E @ METRICS_API_PREFIX @ ''/canisters/'' @ encodeURIComponent (QueryRangeArgs_canisterId args) @
        ''/metrics/'' @ encodeURIComponent (slug_text (QueryRangeArgs_metric args)) @
        ''?from='' @ form_encode (toISOString E (QueryRangeArgs_from args)) @
        ''&to='' @ form_encode (toISOString E (QueryRangeArgs_to args)) @
        ''&step='' @ form_encode (QueryRangeArgs_step args),
      FetchRequest_method = ''GET'',
      FetchRequest_headers = [(''Authorization'', ''Bearer '' @ token)],
      FetchRequest_body = None\<rparr>"

text \<open>\<open>new Date(ms)\<close> drops the fraction towards zero; the range of dates is not bounded here.\<close>

definition date_of_ms :: "rat \<Rightarrow> Date" where
  "date_of_ms ms = Date (if ms < 0 then ceiling ms else floor ms)"

definition metric_range :: "RawResponse \<Rightarrow> MetricRange" where
  "metric_range body =
     \<lparr>MetricRange_canisterId = raw_canister_id body, MetricRange_metric = raw_metric body,
      MetricRange_unit = raw_unit body, MetricRange_description = raw_description body,
      MetricRange_points = map (\<lambda>(ts, v). \<lparr>MetricPoint_ts = date_of_ms ts, MetricPoint_value = v\<rparr>)
        (case raw_points body of None \<Rightarrow> [] | Some ps \<Rightarrow> ps)\<rparr>"

definition queryRange_with :: "'w proxy_env \<Rightarrow> QueryRangeArgs \<Rightarrow> string \<Rightarrow> ('w, MetricRange) proxy_task" where
  "queryRange_with E args token =
     await (request (proxy_fetch E (query_request E args token))) (\<lambda>res.
       if \<not> FetchResponse_ok res then throw (response_error ''metrics-proxy'' res)
       else
         await (lift_sum (parse_body E rawResponseSchema res)) (\<lambda>body.
           ret (metric_range body)))"

section \<open>Sharing a session\<close>

text \<open>
  The client between two calls: its state, the attempt in flight (the rest of \<open>mintSession\<close> and the
  callers that wait for it), and what each caller of \<open>getSessionToken\<close> has got.
\<close>

record 'w proxy_config =
  proxy_state :: MetricsProxyState
  inflightSession :: "(('w, string) proxy_task \<times> nat list) option"
  answers :: "(nat \<times> (js_error + string)) list"
  world :: 'w

definition session_fresh :: "'w proxy_env \<Rightarrow> 'w proxy_config \<Rightarrow> string option" where
  "session_fresh E c =
     (case session (proxy_state c) of
        None \<Rightarrow> None
      | Some (token, expiresAtMs) \<Rightarrow>
          if of_int (now E (world c)) < expiresAtMs - of_int SESSION_REFRESH_BUFFER_MS then Some token else None)"

text \<open>\<open>getSessionToken(identity)\<close>, called by caller \<open>n\<close>.\<close>

definition getSessionToken :: "'w proxy_env \<Rightarrow> nat \<Rightarrow> Identity \<Rightarrow> 'w proxy_config \<Rightarrow> 'w proxy_config" where
  "getSessionToken E n i c =
     (case session_fresh E c of
        Some token \<Rightarrow> c\<lparr>answers := (n, Inr token) # answers c\<rparr>
      | None \<Rightarrow>
          (case inflightSession c of
             Some (t, waiting) \<Rightarrow> c\<lparr>inflightSession := Some (t, n # waiting)\<rparr>
           | None \<Rightarrow> c\<lparr>inflightSession := Some (mintSession E i, [n])\<rparr>))"

text \<open>
  What may happen next: a call, a change of the world, a step of the attempt in flight; when it has
  settled, \<open>finally\<close> removes it and those who waited get its outcome.
\<close>

datatype proxy_event = Call nat Identity | World | Proceed

inductive proxy_step :: "'w proxy_env \<Rightarrow> proxy_event \<Rightarrow> 'w proxy_config \<Rightarrow> 'w proxy_config \<Rightarrow> bool" for E where
  call: "proxy_step E (Call n i) c (getSessionToken E n i c)"
| world: "proxy_step E World c (c\<lparr>world := w\<rparr>)"
| segment: "inflightSession c = Some (Local m k, waiting) \<Longrightarrow>
    proxy_step E Proceed c
      (c\<lparr>proxy_state := m (proxy_state c), inflightSession := Some (k (proxy_state c), waiting)\<rparr>)"
| served: "inflightSession c = Some (Remote m k, waiting) \<Longrightarrow>
    proxy_step E Proceed c (c\<lparr>world := m (world c), inflightSession := Some (k (world c), waiting)\<rparr>)"
| settled: "inflightSession c = Some (Done r, waiting) \<Longrightarrow>
    proxy_step E Proceed c (c\<lparr>inflightSession := None, answers := map (\<lambda>n. (n, r)) waiting @ answers c\<rparr>)"

inductive_cases proxy_stepE: "proxy_step E ev c c'"

inductive proxy_reach :: "'w proxy_env \<Rightarrow> Identity set \<Rightarrow> 'w proxy_config \<Rightarrow> bool" for E I where
  start: "proxy_reach E I \<lparr>proxy_state = \<lparr>session = None\<rparr>, inflightSession = None, answers = [], world = w\<rparr>"
| step: "proxy_reach E I c \<Longrightarrow> proxy_step E ev c c' \<Longrightarrow> (\<forall>n i. ev = Call n i \<longrightarrow> i \<in> I) \<Longrightarrow> proxy_reach E I c'"

section \<open>Minting\<close>

text \<open>Minting makes no request for an anonymous user. When it fails, the cached session is untouched,
  so that the next caller tries again; when it succeeds, it returns a token that is not empty and has
  cached that token.\<close>

theorem mintSession_result:
  "case run (mintSession E i) s w of (r, s', w') \<Rightarrow>
     (case r of
        Inl e \<Rightarrow> s' = s
      | Inr token \<Rightarrow> token \<noteq> [] \<and> i \<noteq> AnonymousIdentity \<and> (\<exists>expiresAtMs. session s' = Some (token, expiresAtMs))) \<and>
     (i = AnonymousIdentity \<longrightarrow> w' = w)"
  by (auto simp: mintSession_def run_simps parse_body_def sessionResponseSchema_def sum_simps
      split: Identity.split prod.splits sum.splits if_splits)

text \<open>The tokens the proxy issues in answer to a request signed for \<open>i\<close>.\<close>

definition minted_for :: "'w proxy_env \<Rightarrow> Identity \<Rightarrow> string \<Rightarrow> bool" where
  "minted_for E i token \<longleftrightarrow>
     (\<exists>timestampMillis w0 w1 sig w w' res expiresAtMs.
        sign E i (session_challenge E i timestampMillis) w0 = (w1, Inr sig) \<and>
        proxy_fetch E (session_request E i timestampMillis sig) w = (w', Inr res) \<and> FetchResponse_ok res \<and>
        parse_body E sessionResponseSchema res = Inr (token, expiresAtMs))"

text \<open>A rest of the attempt that caches and returns only tokens in \<open>T\<close>.\<close>

definition cached_in :: "(string \<Rightarrow> bool) \<Rightarrow> MetricsProxyState \<Rightarrow> bool" where
  "cached_in T s \<longleftrightarrow> (\<forall>token e. session s = Some (token, e) \<longrightarrow> T token)"

primrec honest :: "(string \<Rightarrow> bool) \<Rightarrow> ('w, string) proxy_task \<Rightarrow> bool" where
  "honest T (Done r) \<longleftrightarrow> (\<forall>token. r = Inr token \<longrightarrow> T token)"
| "honest T (Local m k) \<longleftrightarrow>
     (\<forall>s. session (m s) = session s \<or> (\<exists>token e. session (m s) = Some (token, e) \<and> T token)) \<and> (\<forall>s. honest T (k s))"
| "honest T (Remote m k) \<longleftrightarrow> (\<forall>w. honest T (k w))"

lemma honest_throw: "honest T (throw e)"
  by (simp add: throw_def)

lemma honest_remote: "(\<And>w x. snd (f w) = Inr x \<Longrightarrow> honest T (k x)) \<Longrightarrow> honest T (await (remote f) k)"
  by (auto simp: await_def remote_def honest_throw split: sum.split)

lemma honest_request:
  "(\<And>w w' x. f w = (w', Inr x) \<Longrightarrow> honest T (k x)) \<Longrightarrow> honest T (await (request f) k)"
  unfolding request_def
  by (rule honest_remote) (auto simp: library_result_def split: sum.splits prod.splits, metis prod.collapse)

lemma honest_mint: "honest (minted_for E i) (mintSession E i)"
proof (cases i)
  case (DelegationIdentity p)
  have "honest (minted_for E i) (await (lift_sum (parse_body E sessionResponseSchema res)) (\<lambda>(token, expiresAtMs).
      await (set_state (\<lambda>s. s\<lparr>session := Some (token, expiresAtMs)\<rparr>)) (\<lambda>_. ret token)))"
    if "sign E i (session_challenge E i t) w0 = (w1, Inr sig)"
      and "proxy_fetch E (session_request E i t sig) w = (w', Inr res)" and "FetchResponse_ok res"
    for t w0 w1 sig w w' res
  proof (cases "parse_body E sessionResponseSchema res")
    case (Inr te)
    then obtain token e where "parse_body E sessionResponseSchema res = Inr (token, e)" by (cases te) simp
    with that have "minted_for E i token" unfolding minted_for_def by blast
    then show ?thesis
      unfolding \<open>parse_body E sessionResponseSchema res = Inr (token, e)\<close>
      by (simp add: lift_sum_def await_def set_state_def ret_def)
  qed (simp add: lift_sum_def await_def throw_def)
  then show ?thesis
    unfolding mintSession_def DelegationIdentity Identity.case
    by (intro honest_remote honest_request) (auto simp: honest_throw DelegationIdentity)
qed (simp add: mintSession_def honest_throw)

section \<open>What callers get\<close>

text \<open>The invariant: every token cached, returned or still to be returned was issued for one of the callers.\<close>

definition some_minted :: "'w proxy_env \<Rightarrow> Identity set \<Rightarrow> string \<Rightarrow> bool" where
  "some_minted E I token \<longleftrightarrow> (\<exists>i \<in> I. minted_for E i token)"

definition proxy_inv :: "'w proxy_env \<Rightarrow> Identity set \<Rightarrow> 'w proxy_config \<Rightarrow> bool" where
  "proxy_inv E I c \<longleftrightarrow>
     cached_in (some_minted E I) (proxy_state c) \<and>
     (\<forall>t waiting. inflightSession c = Some (t, waiting) \<longrightarrow> honest (some_minted E I) t) \<and>
     (\<forall>n token. (n, Inr token) \<in> set (answers c) \<longrightarrow> some_minted E I token)"

lemma honest_mono: "honest T t \<Longrightarrow> (\<And>x. T x \<Longrightarrow> U x) \<Longrightarrow> honest U t"
proof (induction t)
  case (Local m k)
  then show ?case by simp metis
qed auto

lemma proxy_inv_call:
  assumes inv: "proxy_inv E I c" and "i \<in> I"
  shows "proxy_inv E I (getSessionToken E n i c)"
proof -
  have "honest (some_minted E I) (mintSession E i)"
    by (rule honest_mono [OF honest_mint]) (use \<open>i \<in> I\<close> in \<open>auto simp: some_minted_def\<close>)
  moreover have "some_minted E I token" if "session_fresh E c = Some token" for token
    using inv that
    by (auto simp: session_fresh_def proxy_inv_def cached_in_def split: option.splits prod.splits if_splits)
  ultimately show ?thesis
    using inv by (auto simp: getSessionToken_def proxy_inv_def split: option.split)
qed

lemma proxy_inv_step:
  assumes "proxy_step E ev c c'" and "proxy_inv E I c" and "\<forall>n i. ev = Call n i \<longrightarrow> i \<in> I"
  shows "proxy_inv E I c'"
  using assms
proof (cases rule: proxy_step.cases)
  case (call n i)
  with assms show ?thesis by (simp add: proxy_inv_call)
next
  case (world w)
  with assms(2) show ?thesis by (simp add: proxy_inv_def)
next
  case (segment m k waiting)
  from assms(2) segment(3)
  have "session (m (proxy_state c)) = session (proxy_state c) \<or>
      (\<exists>token e. session (m (proxy_state c)) = Some (token, e) \<and> some_minted E I token)"
    by (auto simp: proxy_inv_def)
  then have "cached_in (some_minted E I) (m (proxy_state c))"
    using assms(2) unfolding proxy_inv_def by (metis cached_in_def option.inject prod.inject)
  with assms(2) segment show ?thesis by (simp add: proxy_inv_def)
next
  case (served m k waiting)
  with assms(2) show ?thesis by (auto simp: proxy_inv_def)
next
  case (settled r waiting)
  with assms(2) show ?thesis by (auto simp: proxy_inv_def)
qed

lemma proxy_reach_inv: "proxy_reach E I c \<Longrightarrow> proxy_inv E I c"
proof (induction rule: proxy_reach.induct)
  case (start w)
  show ?case by (simp add: proxy_inv_def cached_in_def)
next
  case (step c ev c')
  then show ?case by (metis proxy_inv_step)
qed

text \<open>C14: Every token a caller gets was issued by the proxy in answer to a request signed for one of the
  identities that have called, however calls, responses and the passing of time are interleaved; in
  particular a caller's own, when there is only one identity.\<close>

theorem tokens_are_minted:
  assumes "proxy_reach E I c" and "(n, Inr token) \<in> set (answers c)"
  shows "\<exists>i \<in> I. minted_for E i token"
  using proxy_reach_inv [OF assms(1)] assms(2) by (simp add: proxy_inv_def some_minted_def)

section \<open>Every attempt settles\<close>

text \<open>The steps of the attempt in flight alone.\<close>

inductive proceeds :: "'w proxy_env \<Rightarrow> 'w proxy_config \<Rightarrow> 'w proxy_config \<Rightarrow> bool" for E where
  refl: "proceeds E c c"
| proceed: "proxy_step E Proceed c c' \<Longrightarrow> proceeds E c' c'' \<Longrightarrow> proceeds E c c''"

lemma proceeds_run:
  "inflightSession c = Some (t, waiting) \<Longrightarrow> run t (proxy_state c) (world c) = (r, s', w') \<Longrightarrow>
     proceeds E c (c\<lparr>proxy_state := s', inflightSession := None, answers := map (\<lambda>n. (n, r)) waiting @ answers c,
       world := w'\<rparr>)"
proof (induction t arbitrary: c)
  case (Done q)
  then have "r = q" "s' = proxy_state c" "w' = world c" by simp_all
  then have "c\<lparr>proxy_state := s', inflightSession := None, answers := map (\<lambda>n. (n, r)) waiting @ answers c,
      world := w'\<rparr> = c\<lparr>inflightSession := None, answers := map (\<lambda>n. (n, q)) waiting @ answers c\<rparr>"
    by (cases c) simp
  with proceeds.proceed [OF proxy_step.settled [OF Done.prems(1)] proceeds.refl] show ?case by simp
next
  case (Local m k)
  let ?c = "c\<lparr>proxy_state := m (proxy_state c), inflightSession := Some (k (proxy_state c), waiting)\<rparr>"
  have "proxy_step E Proceed c ?c" using Local.prems(1) by (rule proxy_step.segment)
  then show ?case
    using Local.IH [of "k (proxy_state c)" ?c] Local.prems(2) proceeds.proceed by fastforce
next
  case (Remote m k)
  let ?c = "c\<lparr>world := m (world c), inflightSession := Some (k (world c), waiting)\<rparr>"
  have "proxy_step E Proceed c ?c" using Remote.prems(1) by (rule proxy_step.served)
  then show ?case
    using Remote.IH [of "k (world c)" ?c] Remote.prems(2) proceeds.proceed by fastforce
qed


section \<open>A sample proxy\<close>

text \<open>A proxy that issues to each identity a token of its own: the signature's digits.\<close>

definition sample_sig :: "Identity \<Rightarrow> nat list" where
  "sample_sig i = (case i of AnonymousIdentity \<Rightarrow> [] | DelegationIdentity p \<Rightarrow> principal_bytes p)"

definition sample_proxy :: "nat proxy_env" where
  "sample_proxy =
     \<lparr>rootUrl = ''http://proxy'', now = int, sha256 = id, delegation_publicKey = sample_sig,
      delegation_JSON = (\<lambda>i. ''{}''), sign = (\<lambda>i _ w. (w, Inr (sample_sig i))),
      proxy_fetch = (\<lambda>q w. (w, Inr \<lparr>FetchResponse_ok = True, FetchResponse_status = 200, FetchResponse_statusText = ''OK'',
        FetchResponse_text = snd (FetchRequest_headers q ! 1)\<rparr>)),
      parse_json = (\<lambda>s. Inr (JObject [(''token'', JString s), (''expires_at_ms'', JNumber 1000000)])),
      toISOString = (\<lambda>_. []), constructor_name = (\<lambda>_. [])\<rparr>"

definition alice :: Identity where "alice = DelegationIdentity (Principal [1])"

definition bob :: Identity where "bob = DelegationIdentity (Principal [2])"

lemma minted_sample: "minted_for sample_proxy i token \<Longrightarrow> token = toHex (sample_sig i)"
  by (auto simp: minted_for_def sample_proxy_def session_request_def parse_body_def sessionResponseSchema_def
      split: if_splits)

lemma proceeds_reach: "proceeds E c c' \<Longrightarrow> proxy_reach E I c \<Longrightarrow> proxy_reach E I c'"
  by (induction rule: proceeds.induct) (auto intro: proxy_reach.step)

lemma toHex_inject: "toHex [1] \<noteq> toHex [2]" and toHex_not_Nil: "toHex [1] \<noteq> []"
  by (simp_all add: toHex_def hex_byte_def hex_digit_def)

text \<open>Two of Alice's callers ask; the second waits for the attempt the first has started.\<close>

definition alice_waits :: "nat proxy_config" where
  "alice_waits = getSessionToken sample_proxy 1 alice (getSessionToken sample_proxy 0 alice
     \<lparr>proxy_state = \<lparr>session = None\<rparr>, inflightSession = None, answers = [], world = 0\<rparr>)"

lemma alice_waits_eq:
  "alice_waits = \<lparr>proxy_state = \<lparr>session = None\<rparr>, inflightSession = Some (mintSession sample_proxy alice, [1, 0]),
     answers = [], world = 0\<rparr>"
  by (simp add: alice_waits_def getSessionToken_def session_fresh_def)

lemma reach_alice_waits: "alice \<in> I \<Longrightarrow> proxy_reach sample_proxy I alice_waits"
  unfolding alice_waits_def by (intro proxy_reach.step [OF _ proxy_step.call] proxy_reach.start) auto

lemma run_mint_alice:
  "run (mintSession sample_proxy alice) s 0 = (Inr (toHex [1]), s\<lparr>session := Some (toHex [1], 1000000)\<rparr>, 0)"
  using toHex_not_Nil
  by (simp add: mintSession_def alice_def run_simps sample_proxy_def session_request_def parse_body_def
      sessionResponseSchema_def sample_sig_def)

definition alice_served :: "nat proxy_config" where
  "alice_served = \<lparr>proxy_state = \<lparr>session = Some (toHex [1], 1000000)\<rparr>, inflightSession = None,
     answers = [(1, Inr (toHex [1])), (0, Inr (toHex [1]))], world = 0\<rparr>"

lemma alice_proceeds: "proceeds sample_proxy alice_waits alice_served"
  using proceeds_run [of alice_waits "mintSession sample_proxy alice" "[1, 0]" _ _ _ sample_proxy]
  by (simp add: alice_waits_eq alice_served_def run_mint_alice)

lemma mintSession_result_witness:
  "toHex [1] \<noteq> [] \<and> snd (snd (run (mintSession sample_proxy AnonymousIdentity) \<lparr>session = None\<rparr> 0)) = 0"
proof -
  have "toHex [1] \<noteq> []"
    using mintSession_result [where E = sample_proxy and i = alice and s = "\<lparr>session = None\<rparr>" and w = 0] unfolding run_mint_alice by simp
  moreover have "snd (snd (run (mintSession sample_proxy AnonymousIdentity) \<lparr>session = None\<rparr> 0)) = 0"
    using mintSession_result [where E = sample_proxy and i = AnonymousIdentity and s = "\<lparr>session = None\<rparr>" and w = 0]
    by (cases "run (mintSession sample_proxy AnonymousIdentity) \<lparr>session = None\<rparr> 0") auto
  ultimately show ?thesis ..
qed

lemma tokens_are_minted_witness:
  "(0, Inr (toHex [1])) \<in> set (answers alice_served) \<and> minted_for sample_proxy alice (toHex [1])"
proof -
  have "proxy_reach sample_proxy {alice} alice_served"
    by (rule proceeds_reach [OF alice_proceeds reach_alice_waits]) simp
  then show ?thesis
    using tokens_are_minted [of sample_proxy "{alice}" alice_served 0 "toHex [1]"] by (simp add: alice_served_def)
qed


text \<open>The cached session is not bound to the identity it was minted for: a caller with another
  identity is answered with it while it is fresh. Here Bob's caller gets the token issued to Alice, which
  the proxy would not issue to Bob.\<close>

theorem session_not_bound:
  "\<exists>c. proxy_reach sample_proxy {alice} c \<and>
     (\<exists>token. answers (getSessionToken sample_proxy 2 bob c) = (2, Inr token) # answers c \<and>
        minted_for sample_proxy alice token \<and> \<not> minted_for sample_proxy bob token)"
proof -
  have r: "proxy_reach sample_proxy {alice} alice_served"
    by (rule proceeds_reach [OF alice_proceeds reach_alice_waits]) simp
  have "(0, Inr (toHex [1])) \<in> set (answers alice_served)" by (simp add: alice_served_def)
  then have "some_minted sample_proxy {alice} (toHex [1])"
    using proxy_reach_inv [OF r] unfolding proxy_inv_def by blast
  then have "minted_for sample_proxy alice (toHex [1])" by (simp add: some_minted_def)
  moreover have "\<not> minted_for sample_proxy bob (toHex [1])"
    using minted_sample [of bob "toHex [1]"] toHex_inject by (auto simp: bob_def sample_sig_def)
  moreover have "session_fresh sample_proxy alice_served = Some (toHex [1])"
    by (simp add: session_fresh_def alice_served_def sample_proxy_def SESSION_REFRESH_BUFFER_MS_def)
  then have "answers (getSessionToken sample_proxy 2 bob alice_served) = (2, Inr (toHex [1])) # answers alice_served"
    by (simp add: getSessionToken_def)
  ultimately show ?thesis using r by blast
qed

section \<open>Requests\<close>

lemma upper_hex_alnum: "d < 16 \<Longrightarrow> is_alnum (upper_hex d)"
  by (auto simp: upper_hex_def is_alnum_def is_digit_def char_between_def of_char_of)

lemma set_percent: "b < 256 \<Longrightarrow> c \<in> set (percent b) \<Longrightarrow> c = CHR ''%'' \<or> is_alnum c"
  by (auto simp: percent_def intro!: upper_hex_alnum)

lemma set_utf8_escape:
  assumes "c \<in> set (utf8_escape x)"
  shows "c = CHR ''%'' \<or> is_alnum c"
proof -
  define n where "n = (of_char x :: nat)"
  have "n < 256" by (simp add: n_def)
  then have "n div 64 < 4" "n mod 64 < 64" by auto
  show ?thesis
  proof (cases "n < 128")
    case True
    with assms \<open>n < 256\<close> show ?thesis by (intro set_percent [of n]) (simp_all add: utf8_escape_def n_def Let_def)
  next
    case False
    with assms have "c \<in> set (percent (192 + n div 64)) \<or> c \<in> set (percent (128 + n mod 64))"
      by (simp add: utf8_escape_def n_def Let_def)
    with \<open>n div 64 < 4\<close> \<open>n mod 64 < 64\<close> show ?thesis
      using set_percent [of "192 + n div 64" c] set_percent [of "128 + n mod 64" c] by auto
  qed
qed

definition separator :: "char \<Rightarrow> bool" where
  "separator c \<longleftrightarrow> c \<in> set ''/?#&= ''"

lemma encodeURIComponent_chars: "c \<in> set (encodeURIComponent s) \<Longrightarrow> \<not> separator c"
  by (auto simp: encodeURIComponent_def separator_def is_alnum_def is_lower_def is_digit_def char_between_def
      dest!: set_utf8_escape split: if_splits)

lemma form_encode_chars: "c \<in> set (form_encode s) \<Longrightarrow> \<not> separator c"
  by (auto simp: form_encode_def separator_def is_alnum_def is_lower_def is_digit_def char_between_def
      dest!: set_utf8_escape split: if_splits)

lemma encode_slug: "encodeURIComponent (slug_text m) = slug_text m"
  by (cases m) (simp_all add: encodeURIComponent_def is_alnum_def is_lower_def char_between_def)

text \<open>Whatever the canister's id, the dates and the step are, the request goes to exactly one canister's
  metric with exactly three parameters: what is inserted contains no character that separates the parts of a
  URL, and the metric's name is sent as it is.\<close>

theorem query_url_shape:
  "\<exists>c f t st. FetchRequest_url (query_request E args token) =
     rootUrl E @ ''/v0/metrics/canisters/'' @ c @ ''/metrics/'' @ slug_text (QueryRangeArgs_metric args) @
     ''?from='' @ f @ ''&to='' @ t @ ''&step='' @ st \<and>
     list_all (\<lambda>x. \<not> separator x) (c @ f @ t @ st) \<and>
     FetchRequest_headers (query_request E args token) = [(''Authorization'', ''Bearer '' @ token)]"
proof -
  let ?c = "encodeURIComponent (QueryRangeArgs_canisterId args)"
    and ?f = "form_encode (toISOString E (QueryRangeArgs_from args))"
    and ?t = "form_encode (toISOString E (QueryRangeArgs_to args))"
    and ?st = "form_encode (QueryRangeArgs_step args)"
  have "list_all (\<lambda>x. \<not> separator x) (?c @ ?f @ ?t @ ?st)"
    using encodeURIComponent_chars form_encode_chars by (auto simp: list_all_iff)
  moreover have "FetchRequest_url (query_request E args token) =
     rootUrl E @ ''/v0/metrics/canisters/'' @ ?c @ ''/metrics/'' @ slug_text (QueryRangeArgs_metric args) @
     ''?from='' @ ?f @ ''&to='' @ ?t @ ''&step='' @ ?st"
    by (simp add: query_request_def METRICS_API_PREFIX_def encode_slug)
  moreover have "FetchRequest_headers (query_request E args token) = [(''Authorization'', ''Bearer '' @ token)]"
    by (simp add: query_request_def)
  ultimately show ?thesis by blast
qed

lemma z_string_Inr [sum_simps]: "z_string j = Inr s \<longleftrightarrow> j = JString s"
  by (cases j) auto

lemma z_number_Inr [sum_simps]: "z_number j = Inr n \<longleftrightarrow> j = JNumber n"
  by (cases j) auto

lemma z_array_Inr [sum_simps]:
  "z_array f j = Inr ys \<longleftrightarrow> (\<exists>xs. j = JArray xs \<and> list_all2 (\<lambda>x y. f x = Inr y) xs ys)"
  by (cases j) (auto simp: map_throwing_Inr)

lemma z_nullable_Inr [sum_simps]:
  "z_nullable f j = Inr y \<longleftrightarrow> (case y of None \<Rightarrow> j = JNull | Some x \<Rightarrow> j \<noteq> JNull \<and> f j = Inr x)"
  by (auto simp: z_nullable_def and_then_eq_Inr split: option.split)

lemma z_field_Inr [sum_simps]:
  "z_field k f j = Inr x \<longleftrightarrow> (\<exists>kvs v. j = JObject kvs \<and> map_of kvs k = Some v \<and> f v = Inr x)"
  by (cases j) (auto split: option.splits)

lemma metricSlugSchema_Inr [sum_simps]: "metricSlugSchema j = Inr m \<longleftrightarrow> j = JString (slug_text m)"
  by (cases j; cases m) (simp_all add: metricSlugSchema_def)

definition point_schema :: "json \<Rightarrow> js_error + rat \<times> rat" where
  "point_schema p =
     and_then (z_field ''ts'' z_number p) (\<lambda>ts.
     and_then (z_field ''value'' z_number p) (\<lambda>v. Inr (ts, v)))"

lemma point_schema_Inr:
  "point_schema p = Inr q \<longleftrightarrow> (case q of (ts, v) \<Rightarrow>
     \<exists>f. p = JObject f \<and> map_of f ''ts'' = Some (JNumber ts) \<and> map_of f ''value'' = Some (JNumber v))"
  by (cases q) (auto simp: point_schema_def sum_simps)

text \<open>A response is accepted only when it has the announced shape; then its points are handed on in
  their order, none for a null list.\<close>

theorem rawResponseSchema_accepts:
  "rawResponseSchema j = Inr body \<longleftrightarrow>
     (\<exists>kvs. j = JObject kvs \<and> map_of kvs ''canister_id'' = Some (JString (raw_canister_id body)) \<and>
        map_of kvs ''metric'' = Some (JString (slug_text (raw_metric body))) \<and>
        map_of kvs ''unit'' = Some (JString (raw_unit body)) \<and>
        map_of kvs ''description'' = Some (JString (raw_description body)) \<and>
        (case raw_points body of
           None \<Rightarrow> map_of kvs ''points'' = Some JNull
         | Some ps \<Rightarrow> \<exists>js. map_of kvs ''points'' = Some (JArray js) \<and>
             list_all2 (\<lambda>p (ts, v). \<exists>f. p = JObject f \<and> map_of f ''ts'' = Some (JNumber ts) \<and>
               map_of f ''value'' = Some (JNumber v)) js ps))"
proof -
  have "rawResponseSchema j = Inr body \<longleftrightarrow>
      z_field ''canister_id'' z_string j = Inr (raw_canister_id body) \<and>
      z_field ''metric'' metricSlugSchema j = Inr (raw_metric body) \<and>
      z_field ''unit'' z_string j = Inr (raw_unit body) \<and>
      z_field ''description'' z_string j = Inr (raw_description body) \<and>
      z_field ''points'' (z_nullable (z_array point_schema)) j = Inr (raw_points body)"
    unfolding rawResponseSchema_def point_schema_def [symmetric] and_then_eq_Inr by (cases body) auto
  then show ?thesis
    unfolding z_field_Inr z_string_Inr metricSlugSchema_Inr z_nullable_Inr z_array_Inr point_schema_Inr
    by (cases "raw_points body") auto
qed

end
