(* ===== verification/UI.thy ===== *)
theory UI
  imports AppState Schedules Steady Format
begin

text \<open>
  The vocabulary the pages of the console are modelled with. A component has a local state (its
  \<open>useState\<close> variables, a record), handlers, which are tasks over the local state and the store, and a
  view, the tree its JSX denotes: elements named as in the source, texts, and the attributes that are
  computed or that react to the user. Class names, sizes, fixed variants, icons and accessibility labels
  are left out; a child component appears, as in JSX, as an element with its props. Events are values of
  a data type of the component, so that a view says what each control does and the handlers say what that
  means.
\<close>

section \<open>Views\<close>

datatype 'ev attr =
    Attr string string
  | Flag string bool
  | On string 'ev
  | OnText string "string \<Rightarrow> 'ev"

datatype 'ev view =
    Text string
  | Elem string "'ev attr list" "'ev view list"

text \<open>\<open>cond && element\<close>, and the two characters outside Latin-1 the texts use, stood in by their codes in
  the extension of Latin-1 that Windows uses.\<close>

definition given :: "bool \<Rightarrow> 'ev view list \<Rightarrow> 'ev view list" where
  "given b vs = (if b then vs else [])"

definition ellipsis :: string where
  "ellipsis = [CHR 0x85]"

definition em_dash :: string where
  "em_dash = [CHR 0x97]"

lemma given_simps [simp]: "given True vs = vs" "given False vs = []"
  by (simp_all add: given_def)

text \<open>
  A control is disabled by its \<open>disabled\<close> prop. A \<open>LoadingButton\<close> passes \<open>isLoading\<close> as that prop and then the
  props it was given, so that a \<open>disabled\<close> of its own takes the place of \<open>isLoading\<close>. \<open>enabled\<close> lists the
  events of the enabled controls of a view.
\<close>

definition disabled :: "'ev attr list \<Rightarrow> bool" where
  "disabled as \<longleftrightarrow> Flag ''disabled'' True \<in> set as \<or>
     (Flag ''isLoading'' True \<in> set as \<and> Flag ''disabled'' False \<notin> set as)"

lemma disabled_prop [simp]: "disabled [Flag ''isLoading'' a, Flag ''disabled'' b, On k ev] \<longleftrightarrow> b"
  by (cases b) (simp_all add: disabled_def)

fun attr_events :: "'ev attr \<Rightarrow> 'ev list" where
  "attr_events (On k ev) = [ev]"
| "attr_events _ = []"

fun enabled :: "'ev view \<Rightarrow> 'ev list" where
  "enabled (Text s) = []"
| "enabled (Elem k as vs) =
     (if disabled as then [] else concat (map attr_events as)) @ concat (map enabled vs)"

text \<open>
  What the pages leave to the browser: \<open>Math.floor(Math.log(n) / Math.log(1024))\<close>, and numbers and times in the
  notation of its locale. The decimal notation of a \<open>bigint\<close>.
\<close>

record Browser =
  floorLog1024 :: "nat \<Rightarrow> nat"
  numberToLocale :: "int \<Rightarrow> string"
  dateToLocale :: "Date \<Rightarrow> string"
  dayToLocale :: "Date \<Rightarrow> string"

definition bigint_text :: "int \<Rightarrow> string" where
  "bigint_text i = (if 0 \<le> i then decimal (nat i) else ''-'' @ decimal (nat (- i)))"

text \<open>\<open>Breadcrumbs\<close>: the items but the last are links, where they have a target.\<close>

definition Breadcrumbs :: "(string \<times> string option) list \<Rightarrow> 'ev view" where
  "Breadcrumbs items =
     Elem ''nav'' [] (map (\<lambda>(index, label, target).
       let isLast = (index = length items - 1); href = (case target of Some t \<Rightarrow> t | None \<Rightarrow> []) in
       Elem ''Fragment'' []
         (given (index > 0) [Elem ''ChevronRight'' [] []] @
          [if href \<noteq> [] \<and> \<not> isLast then Elem ''Link'' [Attr ''to'' href] [Text label]
           else Elem ''span'' [Flag ''aria-current'' isLast] [Text label]])) (enumerate 0 items))"

text \<open>The texts directly inside the elements of one kind, in the order they are shown.\<close>

fun own_text :: "'ev view \<Rightarrow> string" where
  "own_text (Text s) = s"
| "own_text (Elem k as vs) = []"

fun texts_of :: "string \<Rightarrow> 'ev view \<Rightarrow> string list" where
  "texts_of k (Text s) = []"
| "texts_of k (Elem k' as vs) = (if k' = k then [concat (map own_text vs)] else []) @ concat (map (texts_of k) vs)"

text \<open>Renaming events keeps what is enabled.\<close>

lemma disabled_map [simp]: "disabled (map (map_attr f) as) \<longleftrightarrow> disabled as"
proof -
  have flag: "Flag k b = map_attr f a \<longleftrightarrow> Flag k b = a" for a k b by (cases a) auto
  have "Flag k b \<in> map_attr f ` set as \<longleftrightarrow> Flag k b \<in> set as" for k b
    by (simp add: image_iff flag)
  then show ?thesis by (simp add: disabled_def)
qed

lemma attr_events_map: "attr_events (map_attr f a) = map f (attr_events a)"
  by (cases a) simp_all

lemma enabled_map: "enabled (map_view f v) = map f (enabled v)"
proof (induction v rule: enabled.induct)
  case (2 k as vs)
  then show ?case by (simp add: map_concat attr_events_map o_def cong: map_cong)
qed simp

lemma enabled_Breadcrumbs [simp]: "enabled (Breadcrumbs items) = []"
  by (auto simp: Breadcrumbs_def disabled_def given_def Let_def)

section \<open>Components and the store\<close>

text \<open>A task of the store as a part of a component's handler: it leaves the local state alone.\<close>

primrec on_store :: "('e, 's, 'w, 'a) task \<Rightarrow> ('e, 'l \<times> 's, 'w, 'a) task" where
  "on_store (Done r) = Done r"
| "on_store (Local m k) = Local (\<lambda>(l, s). (l, m s)) (\<lambda>ls. on_store (k (snd ls)))"
| "on_store (Remote m k) = Remote m (\<lambda>w. on_store (k w))"

definition set_local :: "('l \<Rightarrow> 'l) \<Rightarrow> ('e, 'l \<times> 's, 'w, unit) task" where
  "set_local f = set_state (\<lambda>(l, s). (f l, s))"

type_synonym ('l, 'w, 'a) page_task = "(js_error, 'l \<times> AppSlice, 'w, 'a) task"

text \<open>A task of a page as a part of the handler of a component on it, which has a state \<open>'c\<close> of its own.\<close>

primrec on_page :: "('e, 'l \<times> 's, 'w, 'a) task \<Rightarrow> ('e, ('c \<times> 'l) \<times> 's, 'w, 'a) task" where
  "on_page (Done r) = Done r"
| "on_page (Local m k) = Local (\<lambda>((c, l), s). ((c, fst (m (l, s))), snd (m (l, s)))) (\<lambda>((c, l), s). on_page (k (l, s)))"
| "on_page (Remote m k) = Remote m (\<lambda>w. on_page (k w))"

text \<open>\<open>showSuccessToast\<close> of \<open>lib/toast.ts\<close>; an absent description is the empty string.\<close>

definition showSuccessToast :: "string \<Rightarrow> string \<Rightarrow> ('w, unit) store_task" where
  "showSuccessToast title description = set_state (toasts_update (\<lambda>ts. ts @ [(title, description)]))"

definition error_toast :: "string \<Rightarrow> js_error \<Rightarrow> ('l, 'w, unit) page_task" where
  "error_toast title err = on_store (showErrorToast title err)"

definition success_toast :: "string \<Rightarrow> ('l, 'w, unit) page_task" where
  "success_toast title = on_store (showSuccessToast title [])"

text \<open>
  What the pages use of the router and of the form library. A page that navigates keeps the paths it sent the user
  to, the latest last. A submitted form gives its values, as the schema transforms them, to the handler of the page
  if the schema accepts them, and otherwise shows messages of its own. A form whose values are not those it was
  last reset to is dirty.
\<close>

record Page =
  visits :: "string list"

definition navigate :: "string \<Rightarrow> ('l Page_scheme, 'w, unit) page_task" where
  "navigate path = set_local (visits_update (\<lambda>v. v @ [path]))"

definition handleSubmit :: "('v \<Rightarrow> 'd option) \<Rightarrow> ('d \<Rightarrow> ('l, 'w, unit) page_task) \<Rightarrow> 'v \<Rightarrow> ('l, 'w, unit) page_task" where
  "handleSubmit schema onSubmit v = (case schema v of None \<Rightarrow> ret () | Some d \<Rightarrow> onSubmit d)"

record 'v Form =
  form_values :: 'v
  form_defaults :: 'v

definition form_reset :: "'v \<Rightarrow> 'v Form" where
  "form_reset v = \<lparr>form_values = v, form_defaults = v\<rparr>"

definition form_dirty :: "'v Form \<Rightarrow> bool" where
  "form_dirty f \<longleftrightarrow> form_values f \<noteq> form_defaults f"

text \<open>\<open>z.string().trim().min(1).max(100)\<close>, the schema of every name.\<close>

definition name_schema :: "string \<Rightarrow> string option" where
  "name_schema v = (let t = trim v in if 1 \<le> length t \<and> length t \<le> 100 then Some t else None)"

lemma run_navigate [run_simps]: "run (navigate path) ls w = (Inr (), (visits_update (\<lambda>v. v @ [path]) (fst ls), snd ls), w)"
  by (simp add: navigate_def set_local_def run_set_state split_beta)

lemma run_on_store [run_simps]:
  "run (on_store t) ls w = (case run t (snd ls) w of (r, s', w') \<Rightarrow> (r, (fst ls, s'), w'))"
proof (induction t arbitrary: ls w)
  case (Local m k)
  then show ?case by (simp add: split_beta)
qed simp_all

lemma run_on_page [run_simps]:
  "run (on_page t) cls w = (case run t (snd (fst cls), snd cls) w of (r, ls', w') \<Rightarrow> (r, ((fst (fst cls), fst ls'), snd ls'), w'))"
proof (induction t arbitrary: cls w)
  case (Local m k)
  then show ?case by (simp add: split_beta)
qed (simp_all add: split_beta)

lemma run_set_local [run_simps]: "run (set_local f) ls w = (Inr (), (f (fst ls), snd ls), w)"
  by (simp add: set_local_def run_set_state split_beta)

lemma run_error_toast [run_simps]:
  "run (error_toast title err) ls w =
     (Inr (), (fst ls, toasts_update (\<lambda>ts. ts @ [(title, error_message err)]) (snd ls)), w)"
  by (simp add: error_toast_def showErrorToast_def run_simps)

lemma run_success_toast [run_simps]:
  "run (success_toast title) ls w = (Inr (), (fst ls, toasts_update (\<lambda>ts. ts @ [(title, [])]) (snd ls)), w)"
  by (simp add: success_toast_def showSuccessToast_def run_simps)

lemma add_toast: "toasts_update (\<lambda>ts. ts @ xs) (s :: AppSlice) = s\<lparr>toasts := toasts s @ xs\<rparr>"
  by (cases s) simp

text \<open>What a store task guarantees it guarantees inside a handler, whatever other handlers do to local states.\<close>

definition of_store :: "('s \<Rightarrow> 's \<Rightarrow> bool) \<Rightarrow> 'l \<times> 's \<Rightarrow> 'l \<times> 's \<Rightarrow> bool" where
  "of_store C ls ls' \<longleftrightarrow> C (snd ls) (snd ls')"

lemma of_store_refl: "reflp C \<Longrightarrow> reflp (of_store C)" and of_store_trans: "transp C \<Longrightarrow> transp (of_store C)"
  by (auto simp: of_store_def reflp_def transp_def)

lemma rg_on_store:
  "rg C t Q (snd ls0) (snd ls) \<Longrightarrow> (\<And>r s0 s l0 l. Q r s0 s \<Longrightarrow> Q' r (l0, s0) (l, s)) \<Longrightarrow>
     rg (of_store C) (on_store t) Q' ls0 ls"
proof (induction t arbitrary: ls0 ls)
  case (Done r)
  then show ?case by (cases ls0; cases ls) simp
next
  case (Local m k)
  then show ?case by (cases ls) simp
next
  case (Remote m k)
  then show ?case by (auto simp: of_store_def)
qed

lemma leaves_on_store: "leaves fst (on_store t)"
  by (induction t) auto

lemma obeys_on_store: "obeys C t Q \<Longrightarrow> obeys (of_store C) (on_store t) (\<lambda>r ls. Q r (snd ls))"
  by (rule obeysI, rule rg_on_store [OF obeysD]) (auto simp: of_store_def)



end
