(* ===== verification/UserTable.thy ===== *)
theory UserTable
  imports UI Samples AdminStore Format "HOL-Library.List_Lexorder" "HOL-Library.Multiset"
begin

text \<open>
  The table of the users in the admin panel, \<open>routes/admin/user-table.tsx\<close>, with the cells it is made of
  (\<open>admin-email.tsx\<close>, \<open>user-status-badge.tsx\<close>, \<open>user-status-toggle.tsx\<close>): search, filter, sort order, pages,
  selection, and the change of the status of all selected users at once.
\<close>

section \<open>Sorting\<close>

text \<open>
  \<open>Array.prototype.sort\<close>: the sort is stable, which for a consistent comparison determines its result;
  here the elements are inserted from the last to the first.
\<close>

fun insert_sorted :: "('a \<Rightarrow> 'a \<Rightarrow> int) \<Rightarrow> 'a \<Rightarrow> 'a list \<Rightarrow> 'a list" where
  "insert_sorted cmp x [] = [x]"
| "insert_sorted cmp x (y # ys) = (if cmp x y \<le> 0 then x # y # ys else y # insert_sorted cmp x ys)"

definition js_sort :: "('a \<Rightarrow> 'a \<Rightarrow> int) \<Rightarrow> 'a list \<Rightarrow> 'a list" where
  "js_sort cmp xs = foldr (insert_sorted cmp) xs []"

section \<open>State and events\<close>

datatype SortKey = SortKey_id | SortKey_email | SortKey_status

datatype SortDirection = Ascending | Descending

datatype StatusFilter = Filter_all | Filter_status UserStatus | Filter_stale

definition PAGE_SIZE :: nat where
  "PAGE_SIZE = 20"

text \<open>The selection is a \<open>Set\<close>, a list of distinct ids in the order of their insertion.\<close>

record UserTableState =
  search :: string
  statusFilter :: StatusFilter
  sortKey :: SortKey
  sortDirection :: SortDirection
  page :: nat
  selectedIds :: "string list"
  isBulkSaving :: bool

definition UserTable_initial :: UserTableState where
  "UserTable_initial =
     \<lparr>search = [], statusFilter = Filter_all, sortKey = SortKey_id, sortDirection = Ascending,
      page = 0, selectedIds = [], isBulkSaving = False\<rparr>"

datatype UserTableEvent =
    SearchChanged string
  | FilterSelected StatusFilter
  | ToggleSort SortKey
  | ToggleSelected string
  | TogglePageSelection
  | ApplyBulkStatus UserStatus
  | ClearSelection
  | PreviousPage
  | NextPage

section \<open>The rows\<close>

fun status_text :: "UserStatus \<Rightarrow> string" where
  "status_text Active = ''Active''"
| "status_text Inactive = ''Inactive''"

definition email_text :: "UserProfile \<Rightarrow> string" where
  "email_text user = (case UserProfile_email user of Some e \<Rightarrow> e | None \<Rightarrow> [])"

definition is_stale :: "AppSlice \<Rightarrow> UserProfile \<Rightarrow> bool" where
  "is_stale s user \<longleftrightarrow> (case staleUserIds s of Some ids \<Rightarrow> UserProfile_id user \<in> ids | None \<Rightarrow> False)"

definition user_matches :: "AppSlice \<Rightarrow> UserTableState \<Rightarrow> UserProfile \<Rightarrow> bool" where
  "user_matches s l user \<longleftrightarrow>
     (let needle = toLowerCase (trim (search l)) in
      (case statusFilter l of
         Filter_stale \<Rightarrow> is_stale s user
       | Filter_all \<Rightarrow> True
       | Filter_status st \<Rightarrow> UserProfile_status user = st) \<and>
      (needle = [] \<or> js_includes needle (toLowerCase (UserProfile_id user @ '' '' @ email_text user))))"

definition filtered :: "AppSlice \<Rightarrow> UserTableState \<Rightarrow> UserProfile list" where
  "filtered s l = (case users s of None \<Rightarrow> [] | Some us \<Rightarrow> filter (user_matches s l) us)"

definition sortValue :: "UserProfile \<Rightarrow> SortKey \<Rightarrow> string" where
  "sortValue user key =
     (case key of
        SortKey_id \<Rightarrow> UserProfile_id user
      | SortKey_email \<Rightarrow> toLowerCase (email_text user)
      | SortKey_status \<Rightarrow> status_text (UserProfile_status user))"

definition user_compare :: "UserTableState \<Rightarrow> UserProfile \<Rightarrow> UserProfile \<Rightarrow> int" where
  "user_compare l a b =
     (let dir = (if sortDirection l = Ascending then 1 else -1);
          av = sortValue a (sortKey l);
          bv = sortValue b (sortKey l)
      in if av < bv then -1 * dir else if av > bv then 1 * dir else 0)"

definition sorted_users :: "AppSlice \<Rightarrow> UserTableState \<Rightarrow> UserProfile list" where
  "sorted_users s l = js_sort (user_compare l) (filtered s l)"

definition pageCount :: "AppSlice \<Rightarrow> UserTableState \<Rightarrow> nat" where
  "pageCount s l = max 1 ((length (sorted_users s l) + PAGE_SIZE - 1) div PAGE_SIZE)"

definition safePage :: "AppSlice \<Rightarrow> UserTableState \<Rightarrow> nat" where
  "safePage s l = min (page l) (pageCount s l - 1)"

definition pageRows :: "AppSlice \<Rightarrow> UserTableState \<Rightarrow> UserProfile list" where
  "pageRows s l = take PAGE_SIZE (drop (safePage s l * PAGE_SIZE) (sorted_users s l))"

definition pageIds :: "AppSlice \<Rightarrow> UserTableState \<Rightarrow> string list" where
  "pageIds s l = map UserProfile_id (pageRows s l)"

definition allOnPageSelected :: "AppSlice \<Rightarrow> UserTableState \<Rightarrow> bool" where
  "allOnPageSelected s l \<longleftrightarrow> length (pageIds s l) > 0 \<and> list_all (\<lambda>uid. uid \<in> set (selectedIds l)) (pageIds s l)"

definition someOnPageSelected :: "AppSlice \<Rightarrow> UserTableState \<Rightarrow> bool" where
  "someOnPageSelected s l \<longleftrightarrow> \<not> allOnPageSelected s l \<and> list_ex (\<lambda>uid. uid \<in> set (selectedIds l)) (pageIds s l)"

section \<open>Handlers\<close>

definition set_add :: "'a \<Rightarrow> 'a list \<Rightarrow> 'a list" where
  "set_add x xs = (if x \<in> set xs then xs else xs @ [x])"

definition set_delete :: "'a \<Rightarrow> 'a list \<Rightarrow> 'a list" where
  "set_delete x xs = filter (\<lambda>y. y \<noteq> x) xs"

definition toggleSort :: "SortKey \<Rightarrow> UserTableState \<Rightarrow> UserTableState" where
  "toggleSort key l =
     (if sortKey l = key then
        l\<lparr>sortDirection := (if sortDirection l = Ascending then Descending else Ascending)\<rparr>
      else l\<lparr>sortKey := key, sortDirection := Ascending\<rparr>)"

definition toggleSelected :: "string \<Rightarrow> UserTableState \<Rightarrow> UserTableState" where
  "toggleSelected uid l =
     l\<lparr>selectedIds := (if uid \<in> set (selectedIds l) then set_delete uid (selectedIds l)
                       else set_add uid (selectedIds l))\<rparr>"

definition togglePageSelection :: "AppSlice \<Rightarrow> UserTableState \<Rightarrow> UserTableState" where
  "togglePageSelection s l =
     l\<lparr>selectedIds := (if allOnPageSelected s l then fold set_delete (pageIds s l) (selectedIds l)
                       else fold set_add (pageIds s l) (selectedIds l))\<rparr>"

definition resetToFirstPage :: "UserTableState \<Rightarrow> UserTableState" where
  "resetToFirstPage l = l\<lparr>page := 0\<rparr>"

text \<open>\<open>es\<close> is the schedule under which the requests of the selected users are served.\<close>

definition applyBulkStatus :: "'w env \<Rightarrow> event list \<Rightarrow> UserStatus \<Rightarrow> (UserTableState, 'w, unit) page_task" where
  "applyBulkStatus E es status =
     get_state (\<lambda>(l, _).
       if length (selectedIds l) = 0 then ret ()
       else
         await (set_local (\<lambda>l. l\<lparr>isBulkSaving := True\<rparr>)) (\<lambda>_.
         try_finally
           (try_catch
             (await (promise_all es (map (\<lambda>uid. on_store (setUserStatus E uid status)) (selectedIds l))) (\<lambda>_.
                set_local (\<lambda>l. l\<lparr>selectedIds := []\<rparr>)))
             (error_toast ''Failed to update selected users''))
           (set_local (\<lambda>l. l\<lparr>isBulkSaving := False\<rparr>))))"

text \<open>The updates that need no request are functions of the state shown.\<close>

fun UserTable_update :: "UserTableEvent \<Rightarrow> AppSlice \<Rightarrow> UserTableState \<Rightarrow> UserTableState" where
  "UserTable_update (SearchChanged v) s l = resetToFirstPage (l\<lparr>search := v\<rparr>)"
| "UserTable_update (FilterSelected v) s l = resetToFirstPage (l\<lparr>statusFilter := v\<rparr>)"
| "UserTable_update (ToggleSort key) s l = toggleSort key l"
| "UserTable_update (ToggleSelected uid) s l = toggleSelected uid l"
| "UserTable_update TogglePageSelection s l = togglePageSelection s l"
| "UserTable_update ClearSelection s l = l\<lparr>selectedIds := []\<rparr>"
| "UserTable_update PreviousPage s l = l\<lparr>page := page l - 1\<rparr>"
| "UserTable_update NextPage s l = l\<lparr>page := min (pageCount s l - 1) (page l + 1)\<rparr>"
| "UserTable_update (ApplyBulkStatus st) s l = l"

definition UserTable_handle :: "'w env \<Rightarrow> event list \<Rightarrow> UserTableEvent \<Rightarrow> (UserTableState, 'w, unit) page_task" where
  "UserTable_handle E es ev =
     (case ev of
        ApplyBulkStatus status \<Rightarrow> applyBulkStatus E es status
      | _ \<Rightarrow> set_state (\<lambda>(l, s). (UserTable_update ev s l, s)))"

section \<open>Views\<close>

text \<open>An address as the admin panel shows it: masked as long as the switch says so.\<close>

definition AdminEmail :: "AdminPrivacyState \<Rightarrow> string \<Rightarrow> string option \<Rightarrow> 'ev view" where
  "AdminEmail privacy fallback email =
     (case email of
        None \<Rightarrow> Elem ''span'' [] [Text fallback]
      | Some e \<Rightarrow>
          if e = [] then Elem ''span'' [] [Text fallback]
          else
            let display = (if censorEmails privacy then maskEmail e else e) in
            Elem ''span'' (if censorEmails privacy then [] else [Attr ''title'' e]) [Text display])"

text \<open>\<open>WidthLock\<close> lays all its children over each other and shows the one whose key is active.\<close>

definition WidthLock :: "string \<Rightarrow> (string \<times> 'ev view) list \<Rightarrow> 'ev view" where
  "WidthLock activeId children =
     Elem ''span'' [] (map (\<lambda>(key, child). Elem ''span'' [Flag ''aria-hidden'' (key \<noteq> activeId)] [child]) children)"

definition UserStatusBadge :: "UserProfile \<Rightarrow> 'ev view" where
  "UserStatusBadge user =
     (let isActive = (UserProfile_status user = Active) in
      Elem ''Badge'' [Attr ''variant'' (if isActive then ''success'' else ''secondary'')]
        [WidthLock (if isActive then ''active'' else ''inactive'')
          [(''active'', Elem ''span'' [] [Text ''Active'']),
           (''inactive'', Elem ''span'' [] [Text ''Inactive''])]])"

text \<open>The toggle has the one local state \<open>isSaving\<close>; its event carries the id of its user.\<close>

definition UserStatusToggle_onButtonClicked :: "'w env \<Rightarrow> UserProfile \<Rightarrow> (bool, 'w, unit) page_task" where
  "UserStatusToggle_onButtonClicked E user =
     await (set_local (\<lambda>_. True)) (\<lambda>_.
     try_finally
       (try_catch
         (if UserProfile_status user = Active then on_store (deactivateUser E (UserProfile_id user))
          else on_store (activateUser E (UserProfile_id user)))
         (error_toast ''Failed to set user status''))
       (set_local (\<lambda>_. False)))"

definition UserStatusToggle :: "bool \<Rightarrow> UserProfile \<Rightarrow> unit view" where
  "UserStatusToggle isSaving user =
     (let isActive = (UserProfile_status user = Active) in
      Elem ''LoadingButton''
        [Attr ''variant'' (if isActive then ''destructive'' else ''outline''), On ''click'' (),
         Flag ''isLoading'' isSaving]
        [WidthLock (if isActive then ''deactivate'' else ''activate'')
          [(''activate'', Elem ''span'' [] [Text ''Activate'']),
           (''deactivate'', Elem ''span'' [] [Text ''Deactivate''])]])"

definition StatusFilterButton :: "StatusFilter \<Rightarrow> StatusFilter \<Rightarrow> string \<Rightarrow> UserTableEvent view" where
  "StatusFilterButton current v label =
     Elem ''Button'' [Attr ''variant'' (if current = v then ''secondary'' else ''ghost''), On ''click'' (FilterSelected v)]
       [Text label]"

definition SortableHead :: "UserTableState \<Rightarrow> SortKey \<Rightarrow> string \<Rightarrow> UserTableEvent view" where
  "SortableHead l key label =
     Elem ''TableHead'' []
       [Elem ''button'' [On ''click'' (ToggleSort key)]
         [Text label,
          Elem (if sortKey l = key then (if sortDirection l = Ascending then ''ArrowUp'' else ''ArrowDown'')
                else ''ArrowUpDown'') [] []]]"

definition UserTable_toolbar :: "AppSlice \<Rightarrow> UserTableState \<Rightarrow> UserTableEvent view" where
  "UserTable_toolbar s l =
     Elem ''div'' []
       [Elem ''Input'' [Attr ''placeholder'' ''Search by email or principal...'', Attr ''value'' (search l),
          OnText ''change'' SearchChanged] [],
        Elem ''div'' []
          [StatusFilterButton (statusFilter l) Filter_all ''All'',
           StatusFilterButton (statusFilter l) (Filter_status Active) ''Active'',
           StatusFilterButton (statusFilter l) (Filter_status Inactive) ''Inactive'',
           StatusFilterButton (statusFilter l) Filter_stale ''Stale''],
        Elem ''span'' [] [Text (decimal (length (sorted_users s l)) @ '' '' @
          (if length (sorted_users s l) = 1 then ''user'' else ''users''))]]"

definition UserTable_bulk :: "UserTableState \<Rightarrow> UserTableEvent view" where
  "UserTable_bulk l =
     Elem ''div'' []
       [Elem ''span'' [] [Text (decimal (length (selectedIds l)) @ '' selected'')],
        Elem ''Button'' [Flag ''disabled'' (isBulkSaving l), On ''click'' (ApplyBulkStatus Active)] [Text ''Activate''],
        Elem ''Button'' [Flag ''disabled'' (isBulkSaving l), On ''click'' (ApplyBulkStatus Inactive)] [Text ''Deactivate''],
        Elem ''Button'' [Flag ''disabled'' (isBulkSaving l), On ''click'' ClearSelection] [Text ''Clear'']]"

definition UserTable_header :: "AppSlice \<Rightarrow> UserTableState \<Rightarrow> UserTableEvent view" where
  "UserTable_header s l =
     Elem ''TableHeader'' []
       [Elem ''TableRow'' []
         [Elem ''TableHead'' []
           [Elem ''Checkbox'' [Flag ''checked'' (allOnPageSelected s l), Flag ''indeterminate'' (someOnPageSelected s l),
              On ''checkedChange'' TogglePageSelection, Flag ''disabled'' (length (pageIds s l) = 0)] []],
          SortableHead l SortKey_id ''Principal'',
          SortableHead l SortKey_email ''Email'',
          SortableHead l SortKey_status ''Status'',
          Elem ''TableHead'' [] []]]"

definition UserTable_row :: "AdminPrivacyState \<Rightarrow> AppSlice \<Rightarrow> UserTableState \<Rightarrow> UserProfile \<Rightarrow> UserTableEvent view" where
  "UserTable_row privacy s l user =
     (let selected = (UserProfile_id user \<in> set (selectedIds l)); url = ''/admin/users/'' @ UserProfile_id user in
      Elem ''TableRow'' (if selected then [Attr ''data-state'' ''selected''] else [])
        [Elem ''TableCell'' []
           [Elem ''Checkbox'' [Flag ''checked'' selected, On ''checkedChange'' (ToggleSelected (UserProfile_id user))] []],
         Elem ''TableCell'' []
           [Elem ''div'' []
             (Elem ''Link'' [Attr ''to'' url] [Text (UserProfile_id user)] #
              given (is_stale s user)
                [Elem ''Badge'' [Attr ''title'' ''No canisters, sole org/team member, no pending invites, not staff'']
                   [Text ''Stale'']])],
         Elem ''TableCell'' []
           [Elem ''div'' []
             (AdminEmail privacy ''None provided'' (UserProfile_email user) #
              given (email_text user \<noteq> [])
                [Elem ''Badge'' [Attr ''variant'' (if UserProfile_emailVerified user then ''success'' else ''secondary'')]
                   [Text (if UserProfile_emailVerified user then ''Verified'' else ''Unverified'')]])],
         Elem ''TableCell'' [] [UserStatusBadge user],
         Elem ''TableCell'' []
           [Elem ''div'' []
             [Elem ''Link'' [Attr ''to'' url] [Elem ''Button'' [] [Text ''View'']],
              Elem ''UserStatusToggle'' [Attr ''user'' (UserProfile_id user)] []]]])"

definition UserTable_pages :: "AppSlice \<Rightarrow> UserTableState \<Rightarrow> UserTableEvent view" where
  "UserTable_pages s l =
     Elem ''div'' []
       [Elem ''span'' [] [Text (''Page '' @ decimal (safePage s l + 1) @ '' of '' @ decimal (pageCount s l))],
        Elem ''Button'' [Flag ''disabled'' (safePage s l = 0), On ''click'' PreviousPage] [],
        Elem ''Button'' [Flag ''disabled'' (safePage s l \<ge> pageCount s l - 1), On ''click'' NextPage] []]"

definition UserTable :: "AdminPrivacyState \<Rightarrow> AppSlice \<Rightarrow> UserTableState \<Rightarrow> UserTableEvent view" where
  "UserTable privacy s l =
     Elem ''div'' []
       ([UserTable_toolbar s l] @
        given (length (selectedIds l) > 0) [UserTable_bulk l] @
        [Elem ''Table'' []
          [UserTable_header s l,
           Elem ''TableBody'' []
             (if length (pageRows s l) = 0 then
                [Elem ''TableRow'' [] [Elem ''TableCell'' [] [Text ''No users match the current filters.'']]]
              else map (UserTable_row privacy s l) (pageRows s l))]] @
        given (pageCount s l > 1) [UserTable_pages s l])"

section \<open>Every matching user is on exactly one page\<close>

lemma mset_js_sort [simp]: "mset (js_sort cmp xs) = mset xs"
proof -
  have ins: "mset (insert_sorted cmp x ys) = add_mset x (mset ys)" for x ys
    by (induction ys) auto
  have "mset (foldr (insert_sorted cmp) xs []) = mset xs"
    by (induction xs) (simp_all add: ins)
  then show ?thesis by (simp add: js_sort_def)
qed

lemma sorted_js_sort:
  assumes total: "\<And>a b. cmp a b > 0 \<Longrightarrow> cmp b a \<le> (0 :: int)"
    and trans: "\<And>a b c. cmp a b \<le> 0 \<Longrightarrow> cmp b c \<le> 0 \<Longrightarrow> cmp a c \<le> 0"
  shows "sorted_wrt (\<lambda>a b. cmp a b \<le> 0) (js_sort cmp xs)"
proof -
  have set: "set (insert_sorted cmp x ys) = insert x (set ys)" for x ys
    by (induction ys) auto
  have "sorted_wrt (\<lambda>a b. cmp a b \<le> 0) (insert_sorted cmp x ys)"
    if "sorted_wrt (\<lambda>a b. cmp a b \<le> 0) ys" for x ys
    using that
  proof (induction ys)
    case (Cons y ys)
    then show ?case by (cases "cmp x y \<le> 0") (auto simp: set intro: trans total)
  qed simp
  then have "sorted_wrt (\<lambda>a b. cmp a b \<le> 0) (foldr (insert_sorted cmp) xs [])"
    by (induction xs) simp_all
  then show ?thesis by (simp add: js_sort_def)
qed

lemma sorted_user_compare: "sorted_wrt (\<lambda>a b. user_compare l a b \<le> 0) (sorted_users s l)"
  unfolding sorted_users_def
  by (rule sorted_js_sort) (auto simp: user_compare_def Let_def split: if_splits)

lemma concat_pages: "concat (map (\<lambda>p. take n (drop (p * n) xs)) [0..<m]) = take (m * n) xs"
proof (induction m)
  case (Suc m)
  have "take (Suc m * n) xs = take (m * n + n) xs" by (simp add: add.commute)
  also have "... = take (m * n) xs @ take n (drop (m * n) xs)" by (rule take_add)
  finally have "take (Suc m * n) xs = take (m * n) xs @ take n (drop (m * n) xs)" .
  with Suc show ?case by simp
qed simp

lemma page_irrelevant [simp]:
  "filtered s (l\<lparr>page := p\<rparr>) = filtered s l"
  "sorted_users s (l\<lparr>page := p\<rparr>) = sorted_users s l"
  "pageCount s (l\<lparr>page := p\<rparr>) = pageCount s l"
proof -
  have "user_matches s (l\<lparr>page := p\<rparr>) u = user_matches s l u" for u
    by (simp add: user_matches_def)
  then show filtered: "filtered s (l\<lparr>page := p\<rparr>) = filtered s l"
    by (auto simp: filtered_def split: option.split intro: filter_cong)
  have "user_compare (l\<lparr>page := p\<rparr>) = user_compare l"
    by (intro ext) (simp add: user_compare_def)
  with filtered show "sorted_users s (l\<lparr>page := p\<rparr>) = sorted_users s l"
    unfolding sorted_users_def by simp
  then show "pageCount s (l\<lparr>page := p\<rparr>) = pageCount s l" by (simp add: pageCount_def)
qed

lemma pages_enough: "length (sorted_users s l) \<le> pageCount s l * PAGE_SIZE"
  by (auto simp: pageCount_def PAGE_SIZE_def)

lemma pages_needed: "1 < pageCount s l \<Longrightarrow> (pageCount s l - 1) * PAGE_SIZE < length (sorted_users s l)"
  by (auto simp: pageCount_def PAGE_SIZE_def)

text \<open>C25: The pages of the table, put together, are the users that match the search and the filter, each as
  often as it is listed, sorted as asked for; and the page shown is empty only when no user matches.\<close>

theorem pages_show_all_matches:
  "concat (map (\<lambda>p. pageRows s (l\<lparr>page := p\<rparr>)) [0..<pageCount s l]) = sorted_users s l \<and>
   mset (sorted_users s l) = mset (filtered s l) \<and>
   sorted_wrt (\<lambda>a b. user_compare l a b \<le> 0) (sorted_users s l) \<and>
   (pageRows s l = [] \<longleftrightarrow> filtered s l = [])"
proof (intro conjI)
  have "map (\<lambda>p. pageRows s (l\<lparr>page := p\<rparr>)) [0..<pageCount s l] =
      map (\<lambda>p. take PAGE_SIZE (drop (p * PAGE_SIZE) (sorted_users s l))) [0..<pageCount s l]"
    by (rule map_cong) (auto simp: pageRows_def safePage_def)
  then show "concat (map (\<lambda>p. pageRows s (l\<lparr>page := p\<rparr>)) [0..<pageCount s l]) = sorted_users s l"
    by (simp only: concat_pages) (simp add: pages_enough)
  show mset: "mset (sorted_users s l) = mset (filtered s l)"
    by (simp add: sorted_users_def)
  show "sorted_wrt (\<lambda>a b. user_compare l a b \<le> 0) (sorted_users s l)"
    by (rule sorted_user_compare)
  have inside: "safePage s l * PAGE_SIZE < length (sorted_users s l)" if "sorted_users s l \<noteq> []"
  proof (cases "1 < pageCount s l")
    case True
    have "safePage s l \<le> pageCount s l - 1" by (simp add: safePage_def)
    then have "safePage s l * PAGE_SIZE \<le> (pageCount s l - 1) * PAGE_SIZE" by (rule mult_le_mono1)
    then show ?thesis using pages_needed [OF True] by (rule le_less_trans)
  next
    case False
    with that show ?thesis by (simp add: safePage_def)
  qed
  have "pageRows s l = [] \<longleftrightarrow> sorted_users s l = []"
  proof (cases "sorted_users s l = []")
    case False
    with inside [OF False] show ?thesis by (simp add: pageRows_def PAGE_SIZE_def)
  qed (simp add: pageRows_def)
  also have "... \<longleftrightarrow> filtered s l = []" using mset by (metis mset_zero_iff)
  finally show "pageRows s l = [] \<longleftrightarrow> filtered s l = []" .
qed

section \<open>Turning pages\<close>

text \<open>On a page there is, a button that is enabled turns exactly one page. (Where the list has shrunk
  below the page it was on, the last page is shown but remembered as the old one, and the button for the
  previous page does nothing at first.)\<close>

theorem page_buttons_turn:
  assumes "page l < pageCount s l" and "ev \<in> set (enabled (UserTable_pages s l))"
  shows "ev = PreviousPage \<and> safePage s (UserTable_update ev s l) + 1 = safePage s l \<or>
    ev = NextPage \<and> safePage s (UserTable_update ev s l) = safePage s l + 1 \<and>
      safePage s (UserTable_update ev s l) < pageCount s l"
proof -
  have shown: "safePage s l = page l" using assms(1) by (simp add: safePage_def)
  from assms(2) consider "ev = PreviousPage" "page l \<noteq> 0" | "ev = NextPage" "page l < pageCount s l - 1"
    by (auto simp: UserTable_pages_def disabled_def shown split: if_splits)
  then show ?thesis
    using assms(1) by cases (auto simp: safePage_def)
qed

lemma stale_page_stays:
  assumes "pageCount s l \<le> page l - 1" and "0 < page l"
  shows "safePage s (UserTable_update PreviousPage s l) = safePage s l"
  using assms by (auto simp: safePage_def)

section \<open>Changing the status of many users\<close>

text \<open>What the concurrent requests may do to the store: change the status of selected users to the new one.\<close>

definition status_change :: "string list \<Rightarrow> UserStatus \<Rightarrow> UserProfile \<Rightarrow> UserProfile \<Rightarrow> bool" where
  "status_change ids st u u' \<longleftrightarrow>
     u' = u \<or> UserProfile_id u \<in> set ids \<and> u' = u\<lparr>UserProfile_status := st\<rparr>"

definition bulk_change :: "string list \<Rightarrow> UserStatus \<Rightarrow> AppSlice \<Rightarrow> AppSlice \<Rightarrow> bool" where
  "bulk_change ids st s s' \<longleftrightarrow>
     (\<exists>us. s' = s\<lparr>users := us\<rparr> \<and> rel_option (list_all2 (status_change ids st)) (users s) us)"

lemma bulk_change_step:
  "rel_option (list_all2 (status_change ids st)) (users s) us \<Longrightarrow> bulk_change ids st s (s\<lparr>users := us\<rparr>)"
  by (auto simp: bulk_change_def)

lemma bulk_change_refl: "reflp (bulk_change ids st)"
proof (rule reflpI)
  fix s :: AppSlice
  have "rel_option (list_all2 (status_change ids st)) (users s) (users s)"
    by (auto simp: status_change_def intro!: option.rel_refl list_all2_refl)
  from bulk_change_step [OF this] show "bulk_change ids st s s" by simp
qed

lemma bulk_change_trans: "transp (bulk_change ids st)"
proof (rule transpI)
  fix s s' s'' :: AppSlice
  assume "bulk_change ids st s s'" and "bulk_change ids st s' s''"
  then obtain us us' where s: "s'' = s\<lparr>users := us'\<rparr>"
    and rel: "rel_option (list_all2 (status_change ids st)) (users s) us"
      "rel_option (list_all2 (status_change ids st)) us us'"
    by (auto simp: bulk_change_def)
  have "transp (status_change ids st)" by (auto simp: status_change_def transp_def)
  then have "transp (rel_option (list_all2 (status_change ids st)))"
    by (intro option.rel_transp list.rel_transp)
  with rel have "rel_option (list_all2 (status_change ids st)) (users s) us'" by (blast dest: transpD)
  with s show "bulk_change ids st s s''" by (simp add: bulk_change_step)
qed

lemma setUserStatus_obeys:
  assumes "k \<in> set ids"
  shows "obeys (bulk_change ids st) (setUserStatus E k st) (\<lambda>_ _. True)"
proof (rule obeysI)
  fix s
  have refl: "bulk_change ids st s' s'" for s'
    using bulk_change_refl by (rule reflpD)
  have change: "bulk_change ids st s' (s'\<lparr>users := Some (replace_by UserProfile_id k
      (\<lambda>user. user\<lparr>UserProfile_status := st\<rparr>) us)\<rparr>)" if "users s' = Some us" for s' us
    by (rule bulk_change_step)
      (use that assms in \<open>auto simp: replace_by_def list_all2_conv_all_nth status_change_def\<close>)
  show "rg (bulk_change ids st) (setUserStatus E k st) (\<lambda>r s0 s. bulk_change ids st s0 s \<and> True) s s"
    by (auto simp: setUserStatus_def UserProfileApi_updateUserProfile_def rg_simps refl change
        split: sum.split option.split)
qed

lemma bulk_requests:
  assumes "run (promise_all es (map (\<lambda>uid. on_store (setUserStatus E uid st)) ids)) ls w = (r, ls', w')"
  shows "bulk_change ids st (snd ls) (snd ls')"
proof -
  let ?C = "of_store (bulk_change ids st) :: 'l \<times> AppSlice \<Rightarrow> 'l \<times> AppSlice \<Rightarrow> bool"
  let ?Qs = "map (\<lambda>_ _ _. True) ids :: (js_error + unit \<Rightarrow> 'l \<times> AppSlice \<Rightarrow> bool) list"
  have "list_all2 (\<lambda>Q t. obeys ?C t Q) ?Qs (map (\<lambda>uid. on_store (setUserStatus E uid st)) ids)"
    by (auto simp: list_all2_conv_all_nth intro!: obeys_mono [OF obeys_on_store [OF setUserStatus_obeys]])
  from obeys_promise_all [OF of_store_refl [OF bulk_change_refl] of_store_trans [OF bulk_change_trans] _ this, of es]
  have "obeys ?C (promise_all es (map (\<lambda>uid. on_store (setUserStatus E uid st)) ids)) (\<lambda>_ s. \<forall>Q \<in> set ?Qs. \<exists>r. Q r s)"
    by (auto simp: stable_def)
  from obeys_run [OF this of_store_refl [OF bulk_change_refl] of_store_trans [OF bulk_change_trans] assms]
  show ?thesis by (simp add: of_store_def)
qed

text \<open>C20: Changing the status of the selected users, whatever the order in which their requests are served and
  whichever of them fail, changes nothing in the store but the status of selected users, and that only to
  the one asked for; it ends with the selection cleared, or kept and one message that it failed.\<close>

theorem bulk_status_changes_selected:
  assumes "run (applyBulkStatus E es st) (l, s) w = (r, (l', s'), w')" and "\<not> isBulkSaving l"
  shows "r = Inr () \<and>
    (\<exists>us messages. s' = s\<lparr>users := us, toasts := toasts s @ messages\<rparr> \<and>
       rel_option (list_all2 (status_change (selectedIds l) st)) (users s) us \<and>
       (messages = [] \<and> l' = l\<lparr>selectedIds := []\<rparr> \<or>
        l' = l \<and> (\<exists>why. messages = [(''Failed to update selected users'', why)])))"
proof (cases "selectedIds l = []")
  case True
  have "rel_option (list_all2 (status_change [] st)) (users s) (users s)"
    by (auto simp: status_change_def intro!: option.rel_refl list_all2_refl)
  with True assms show ?thesis
    by (auto simp: applyBulkStatus_def run_simps intro!: exI [of _ "users s"] exI [of _ "[]"])
next
  case False
  let ?all = "promise_all es (map (\<lambda>uid. on_store (setUserStatus E uid st)) (selectedIds l))
    :: (UserTableState, 'a, unit) page_task"
  obtain r1 l1 s1 w1 where all: "run ?all (l\<lparr>isBulkSaving := True\<rparr>, s) w = (r1, (l1, s1), w1)"
    by (metis prod.collapse)
  from bulk_requests [OF all] obtain us where s1: "s1 = s\<lparr>users := us\<rparr>"
    and us: "rel_option (list_all2 (status_change (selectedIds l) st)) (users s) us"
    by (auto simp: bulk_change_def)
  have "leaves fst ?all" by (auto intro!: leaves_promise_all leaves_on_store)
  from run_leaves [OF this all] have l1: "l1 = l\<lparr>isBulkSaving := True\<rparr>" by simp
  have saved: "l\<lparr>isBulkSaving := False\<rparr> = l" using assms(2) by simp
  show ?thesis
  proof (cases r1)
    case (Inl err)
    with False assms(1) all s1 l1 have "r = Inr ()" "l' = l\<lparr>isBulkSaving := False\<rparr>"
      "s' = s\<lparr>users := us, toasts := toasts s @ [(''Failed to update selected users'', error_message err)]\<rparr>"
      by (auto simp: applyBulkStatus_def run_simps)
    with us saved show ?thesis by auto
  next
    case (Inr u)
    with False assms(1) all s1 l1 have "r = Inr ()" "l' = l\<lparr>isBulkSaving := False\<rparr>\<lparr>selectedIds := []\<rparr>"
      "s' = s\<lparr>users := us, toasts := toasts s @ []\<rparr>"
      by (auto simp: applyBulkStatus_def run_simps)
    with us saved show ?thesis by (intro conjI exI [of _ us] exI [of _ "[]"]) auto
  qed
qed

definition selecting :: "string list \<Rightarrow> UserTableState" where
  "selecting uids = UserTable_initial\<lparr>selectedIds := uids\<rparr>"

theorem bulk_status_changes_selected_witness:
  "users (snd (fst (snd (run (applyBulkStatus offline [Serve 1, Resume 1] Inactive)
     (selecting [''u2'', ''u3''], admin_session\<lparr>users := Some [sample_profile True]\<rparr>) 0)))) =
   Some [sample_profile True]"
proof -
  let ?s = "admin_session\<lparr>users := Some [sample_profile True]\<rparr>"
  have l: "\<not> isBulkSaving (selecting [''u2'', ''u3''])" and sel: "selectedIds (selecting [''u2'', ''u3'']) = [''u2'', ''u3'']"
    by (simp_all add: selecting_def UserTable_initial_def)
  obtain r l' s' w' where run: "run (applyBulkStatus offline [Serve 1, Resume 1] Inactive)
      (selecting [''u2'', ''u3''], ?s) 0 = (r, (l', s'), w')"
    by (metis prod.collapse)
  from bulk_status_changes_selected [OF run l] obtain us messages where
    "s' = ?s\<lparr>users := us, toasts := toasts ?s @ messages\<rparr>"
    and us: "rel_option (list_all2 (status_change [''u2'', ''u3''] Inactive)) (users ?s) us"
    unfolding sel by blast
  moreover from us have "us = Some [sample_profile True]"
    by (auto simp: option_rel_Some1 list_all2_Cons1 status_change_def sample_profile_def)
  ultimately show ?thesis using run by simp
qed

text \<open>21 users make two pages, and from the first only the button for the next page is enabled.\<close>

definition two_pages :: AppSlice where
  "two_pages = admin_session\<lparr>users := Some (replicate 21 (sample_profile True))\<rparr>"

theorem page_buttons_turn_witness:
  "safePage two_pages (UserTable_update NextPage two_pages UserTable_initial) = 1"
proof -
  have "user_matches two_pages UserTable_initial u" for u
    by (simp add: user_matches_def UserTable_initial_def trim_def trim_start_def trim_end_def toLowerCase_def)
  then have "filtered two_pages UserTable_initial = replicate 21 (sample_profile True)"
    by (simp add: filtered_def two_pages_def)
  then have "length (sorted_users two_pages UserTable_initial) = 21"
    by (metis sorted_users_def mset_js_sort size_mset length_replicate)
  then have count: "pageCount two_pages UserTable_initial = 2" by (simp add: pageCount_def PAGE_SIZE_def)
  have shown: "safePage two_pages UserTable_initial = 0" by (simp add: safePage_def UserTable_initial_def)
  have "NextPage \<in> set (enabled (UserTable_pages two_pages UserTable_initial))"
    by (simp add: UserTable_pages_def disabled_def shown count)
  moreover have "page UserTable_initial < pageCount two_pages UserTable_initial"
    unfolding count by (simp add: UserTable_initial_def)
  ultimately show ?thesis using page_buttons_turn [of UserTable_initial two_pages NextPage] shown by auto
qed

end
