(* ===== verification/LinkedIdentities.thy ===== *)
theory LinkedIdentities
  imports UI Samples OrgStore
begin

text \<open>
  The page of the principals linked to an account, \<open>routes/account/linked-identities.tsx\<close>: the list of
  the linked ones with their names, the pending link code, and the card that makes a new code. Each card
  has its own state; the operations a card gets as props are arguments of its handlers.
\<close>

section \<open>The page\<close>

text \<open>\<open>es\<close> is the schedule under which the two requests are served.\<close>

definition LinkedIdentities_refresh :: "'w env \<Rightarrow> event list \<Rightarrow> (bool, 'w, unit) page_task" where
  "LinkedIdentities_refresh E es =
     promise_all es
       [try_catch (on_store (loadLinkedPrincipals E)) (error_toast ''Failed to load linked identities''),
        try_catch (on_store (loadPendingLinkCode E)) (error_toast ''Failed to load pending link code'')]"

definition LinkedIdentities_handleRefresh :: "'w env \<Rightarrow> event list \<Rightarrow> (bool, 'w, unit) page_task" where
  "LinkedIdentities_handleRefresh E es =
     await (set_local (\<lambda>_. True)) (\<lambda>_.
     try_finally (LinkedIdentities_refresh E es) (set_local (\<lambda>_. False)))"

definition currentPrincipal :: "'w env \<Rightarrow> AppSlice \<Rightarrow> string option" where
  "currentPrincipal E s =
     (case identity s of
        Some (DelegationIdentity p) \<Rightarrow> Some (toText E p)
      | Some AnonymousIdentity \<Rightarrow> Some ''2vxsx-fae''
      | None \<Rightarrow> None)"

definition LinkedIdentities :: "bool \<Rightarrow> unit view" where
  "LinkedIdentities isRefreshing =
     Elem ''div'' []
       [Elem ''div'' []
         [Elem ''div'' []
           [Elem ''h1'' [] [Text ''Linked identities''],
            Elem ''p'' [] [Text (''Sign in to this account from any of these principals. Useful for '' @
              ''attaching a dfx CLI identity.'')]],
          Elem ''Button'' [On ''click'' (), Flag ''disabled'' isRefreshing] [Text ''Refresh'']],
        Elem ''CurrentlyLinkedCard'' [] [],
        Elem ''PendingCodeCard'' [] [],
        Elem ''AddIdentityCard'' [] []]"

section \<open>The linked principals\<close>

record CurrentlyLinkedState =
  busyPrincipal :: "string option"
  confirmPrincipal :: "string option"

definition handleUnlink ::
    "(string \<Rightarrow> ('w, unit) store_task) \<Rightarrow> ('w, unit) store_task \<Rightarrow> string \<Rightarrow> (CurrentlyLinkedState, 'w, unit) page_task" where
  "handleUnlink onUnlink onAfterUnlink p =
     get_state (\<lambda>(l, _).
       if confirmPrincipal l \<noteq> Some p then set_local (\<lambda>l. l\<lparr>confirmPrincipal := Some p\<rparr>)
       else
         await (set_local (\<lambda>l. l\<lparr>busyPrincipal := Some p\<rparr>)) (\<lambda>_.
         try_finally
           (try_catch
             (await (on_store (onUnlink p)) (\<lambda>_.
              await (success_toast ''Identity unlinked'') (\<lambda>_.
              on_store onAfterUnlink)))
             (error_toast ''Failed to unlink identity''))
           (set_local (\<lambda>l. l\<lparr>busyPrincipal := None, confirmPrincipal := None\<rparr>))))"

text \<open>The card passes a row the task \<open>onRename\<close> for its principal, an argument of the row's handler.\<close>

datatype RowEvent = Unlink string

definition CurrentlyLinkedCard ::
    "LinkedPrincipal list option \<Rightarrow> string option \<Rightarrow> CurrentlyLinkedState \<Rightarrow> RowEvent view" where
  "CurrentlyLinkedCard linked current l =
     Elem ''Card'' []
       [Elem ''CardHeader'' [] [Elem ''CardTitle'' [] [Text ''Currently linked'']],
        Elem ''CardContent'' []
         [case linked of
            None \<Rightarrow> Elem ''div'' [] [Elem ''Skeleton'' [] [], Elem ''Skeleton'' [] []]
          | Some entries \<Rightarrow>
              if length entries = 0 then Elem ''p'' [] [Text ''No principals linked yet.'']
              else
                Elem ''ul'' [] (map (\<lambda>entry.
                  let p = LinkedPrincipal_principal entry in
                  Elem ''LinkedPrincipalRow''
                    [Attr ''entry'' p, Flag ''isCurrent'' (Some p = current),
                     Flag ''isUnlinkBusy'' (busyPrincipal l = Some p),
                     Flag ''isConfirmingUnlink'' (confirmPrincipal l = Some p),
                     On ''unlink'' (Unlink p)] []) entries)]]"

text \<open>A row and the name it edits.\<close>

definition MAX_PRINCIPAL_NAME_LENGTH :: nat where
  "MAX_PRINCIPAL_NAME_LENGTH = 64"

record LinkedPrincipalRowState =
  isEditing :: bool
  draft :: string
  isSaving :: bool

definition name_text :: "LinkedPrincipal \<Rightarrow> string" where
  "name_text entry = (case LinkedPrincipal_name entry of Some n \<Rightarrow> n | None \<Rightarrow> [])"

definition LinkedPrincipalRow_initial :: "LinkedPrincipal \<Rightarrow> LinkedPrincipalRowState" where
  "LinkedPrincipalRow_initial entry = \<lparr>isEditing = False, draft = name_text entry, isSaving = False\<rparr>"

definition startEdit :: "LinkedPrincipal \<Rightarrow> LinkedPrincipalRowState \<Rightarrow> LinkedPrincipalRowState" where
  "startEdit entry l = l\<lparr>draft := name_text entry, isEditing := True\<rparr>"

definition cancelEdit :: "LinkedPrincipal \<Rightarrow> LinkedPrincipalRowState \<Rightarrow> LinkedPrincipalRowState" where
  "cancelEdit entry l = l\<lparr>isEditing := False, draft := name_text entry\<rparr>"

definition saveEdit ::
    "(string option \<Rightarrow> ('w, unit) store_task) \<Rightarrow> LinkedPrincipal \<Rightarrow> (LinkedPrincipalRowState, 'w, unit) page_task" where
  "saveEdit onRename entry =
     get_state (\<lambda>(l, _).
       let trimmed = trim (draft l);
           next_name = (if length trimmed = 0 then None else Some trimmed)
       in
       if next_name = LinkedPrincipal_name entry then set_local (\<lambda>l. l\<lparr>isEditing := False\<rparr>)
       else
         await (set_local (\<lambda>l. l\<lparr>isSaving := True\<rparr>)) (\<lambda>_.
         try_finally
           (try_catch
             (await (on_store (onRename next_name)) (\<lambda>_.
              await (success_toast ''Principal name updated'') (\<lambda>_.
              set_local (\<lambda>l. l\<lparr>isEditing := False\<rparr>))))
             (error_toast ''Failed to update name''))
           (set_local (\<lambda>l. l\<lparr>isSaving := False\<rparr>))))"

datatype LinkedPrincipalRowEvent = StartEdit | CancelEdit | SaveEdit | DraftChanged string | UnlinkClicked

definition LinkedPrincipalRow ::
    "LinkedPrincipal \<Rightarrow> bool \<Rightarrow> bool \<Rightarrow> bool \<Rightarrow> LinkedPrincipalRowState \<Rightarrow> LinkedPrincipalRowEvent view" where
  "LinkedPrincipalRow entry isCurrent isUnlinkBusy isConfirmingUnlink l =
     Elem ''li'' []
       [Elem ''div'' []
         ((if isEditing l then
             Elem ''div'' []
               [Elem ''Input'' [Attr ''value'' (draft l), OnText ''change'' DraftChanged, On ''Enter'' SaveEdit,
                  On ''Escape'' CancelEdit, Attr ''maxLength'' (decimal MAX_PRINCIPAL_NAME_LENGTH),
                  Attr ''placeholder'' ''Name this principal'', Flag ''disabled'' (isSaving l)] [],
                Elem ''LoadingButton'' [Flag ''isLoading'' (isSaving l), On ''click'' SaveEdit] [],
                Elem ''Button'' [On ''click'' CancelEdit, Flag ''disabled'' (isSaving l)] []]
           else
             Elem ''div'' []
               [Elem ''p'' [] [Text (case LinkedPrincipal_name entry of Some n \<Rightarrow> n | None \<Rightarrow> ''Unnamed'')],
                Elem ''Button'' [On ''click'' StartEdit] []]) #
          Elem ''p'' [] [Text (LinkedPrincipal_principal entry)] #
          given isCurrent [Elem ''p'' [] [Text ''This device'']]),
        Elem ''LoadingButton''
          [Attr ''variant'' (if isConfirmingUnlink then ''destructive'' else ''outline''),
           Flag ''isLoading'' isUnlinkBusy, On ''click'' UnlinkClicked]
          [Text (if isConfirmingUnlink then ''Click again to confirm'' else ''Unlink'')]]"

section \<open>Time left\<close>

text \<open>
  \<open>now\<close> is what \<open>Date.now()\<close> was when the component was mounted or at the last tick of its timer, which runs
  while there is an expiry.
\<close>

definition useExpiryCountdown :: "int option \<Rightarrow> int \<Rightarrow> int option" where
  "useExpiryCountdown expiresAt now = (case expiresAt of None \<Rightarrow> None | Some t \<Rightarrow> Some (max 0 (t - now)))"

definition expiry_tick :: "int \<Rightarrow> int option \<Rightarrow> int \<Rightarrow> int" where
  "expiry_tick date_now expiresAt now = (case expiresAt of None \<Rightarrow> now | Some _ \<Rightarrow> date_now)"

text \<open>\<open>Math.ceil(ms / 1000)\<close> of a whole number below \<open>2 ^ 53\<close>; \<open>padStart(2, '0')\<close>.\<close>

definition formatRemaining :: "nat \<Rightarrow> string" where
  "formatRemaining ms =
     (let totalSeconds = (ms + 999) div 1000;
          minutes = totalSeconds div 60;
          seconds = totalSeconds mod 60
      in decimal minutes @ '':'' @ replicate (2 - length (decimal seconds)) CHR ''0'' @ decimal seconds)"

definition millis_of_nanos :: "int \<Rightarrow> int" where
  "millis_of_nanos nanos = js_Number (bigint_div nanos 1000000)"

section \<open>The pending code\<close>

definition handleRevoke :: "('w, unit) store_task \<Rightarrow> (bool, 'w, unit) page_task" where
  "handleRevoke onRevoke =
     await (set_local (\<lambda>_. True)) (\<lambda>_.
     try_finally
       (try_catch
         (await (on_store onRevoke) (\<lambda>_. success_toast ''Link code revoked''))
         (error_toast ''Failed to revoke link code''))
       (set_local (\<lambda>_. False)))"

definition PendingCodeCard :: "PendingLinkCode option \<Rightarrow> bool \<Rightarrow> unit view" where
  "PendingCodeCard pend isBusy =
     Elem ''Card'' []
       [Elem ''CardHeader'' [] [Elem ''CardTitle'' [] [Text ''Pending link code'']],
        Elem ''CardContent'' []
         [case pend of
            None \<Rightarrow> Elem ''p'' [] [Text ''No pending code. Generate one below to attach a new identity.'']
          | Some code \<Rightarrow> Elem ''ul'' [] [Elem ''PendingCodeRow''
              [Attr ''pending'' (PendingLinkCode_code code), Flag ''isBusy'' isBusy, On ''revoke'' ()] []]]]"

definition PendingCodeRow :: "PendingLinkCode \<Rightarrow> bool \<Rightarrow> int \<Rightarrow> unit view" where
  "PendingCodeRow pend isBusy now =
     (let remainingMs = useExpiryCountdown (Some (millis_of_nanos (PendingLinkCode_expiresAtNanos pend))) now;
          isExpired = (case remainingMs of Some ms \<Rightarrow> ms \<le> 0 | None \<Rightarrow> False)
      in
      Elem ''li'' []
        [Elem ''div'' []
          [Elem ''code'' [] [Text (PendingLinkCode_code pend)],
           Elem ''p'' [] [Text (''For '' @ PendingLinkCode_targetPrincipal pend)],
           Elem ''p'' [] [Text
             (if isExpired then ''Expired''
              else case remainingMs of Some ms \<Rightarrow> ''Expires in '' @ formatRemaining (nat ms) | None \<Rightarrow> [])]],
         Elem ''LoadingButton'' [Flag ''isLoading'' isBusy, On ''click'' ()] [Text ''Revoke'']])"

section \<open>A new code\<close>

record AddIdentityState =
  targetPrincipal :: string
  generatedCode :: "string option"
  codeExpiresAtMs :: "int option"
  isGenerating :: bool

text \<open>The effect that runs when the code shown or the pending code of the store has changed.\<close>

definition clear_stale_code :: "PendingLinkCode option \<Rightarrow> AddIdentityState \<Rightarrow> AddIdentityState" where
  "clear_stale_code pend l =
     (case generatedCode l of
        None \<Rightarrow> l
      | Some code \<Rightarrow>
          if map_option PendingLinkCode_code pend = Some code then l
          else l\<lparr>generatedCode := None, codeExpiresAtMs := None\<rparr>)"

definition handleGenerate ::
    "'w env \<Rightarrow> (string \<Rightarrow> ('w, string \<times> int) store_task) \<Rightarrow> (AddIdentityState, 'w, unit) page_task" where
  "handleGenerate E create =
     get_state (\<lambda>(l, _).
       let trimmedTarget = trim (targetPrincipal l) in
       case fromText E trimmedTarget of
         Inl err \<Rightarrow> error_toast ''Invalid principal'' err
       | Inr p \<Rightarrow>
           let parsedTarget = toText E p in
           await (set_local (\<lambda>l. l\<lparr>isGenerating := True\<rparr>)) (\<lambda>_.
           try_finally
             (try_catch
               (await (on_store (create parsedTarget)) (\<lambda>(code, expiresAtNanos).
                set_local (\<lambda>l. l\<lparr>generatedCode := Some code, codeExpiresAtMs := Some (millis_of_nanos expiresAtNanos)\<rparr>)))
               (error_toast ''Failed to generate link code''))
             (set_local (\<lambda>l. l\<lparr>isGenerating := False\<rparr>))))"

definition dfxLinkCommand :: "'w env \<Rightarrow> string \<Rightarrow> string" where
  "dfxLinkCommand E code =
     ''dfx canister call '' @ BACKEND_CANISTER_ID E @ '' link_my_principal '' @ [CHR 0x27] @
     ''(record { code = '' @ [CHR 0x22] @ code @ [CHR 0x22] @ '' })'' @ [CHR 0x27]"

text \<open>The clipboard belongs to the browser: a parameter.\<close>

type_synonym 'w clipboard = "string \<Rightarrow> 'w \<Rightarrow> 'w \<times> (js_error + unit)"

definition handleCopy :: "'w clipboard \<Rightarrow> (AddIdentityState, 'w, unit) page_task" where
  "handleCopy writeText =
     get_state (\<lambda>(l, _).
       case generatedCode l of
         None \<Rightarrow> ret ()
       | Some code \<Rightarrow>
           try_catch
             (await (remote (writeText code)) (\<lambda>_. success_toast ''Code copied to clipboard''))
             (error_toast ''Failed to copy code''))"

definition handleCopyDfxCommand :: "'w env \<Rightarrow> 'w clipboard \<Rightarrow> (AddIdentityState, 'w, unit) page_task" where
  "handleCopyDfxCommand E writeText =
     get_state (\<lambda>(l, _).
       case generatedCode l of
         None \<Rightarrow> ret ()
       | Some code \<Rightarrow>
           let command = dfxLinkCommand E code in
           try_catch
             (await (remote (writeText command)) (\<lambda>_. success_toast ''Command copied to clipboard''))
             (error_toast ''Failed to copy command''))"

datatype AddIdentityEvent = TargetChanged string | Generate | CopyCode | CopyDfxCommand

definition AddIdentityCard_code :: "int \<Rightarrow> AddIdentityState \<Rightarrow> string \<Rightarrow> AddIdentityEvent view" where
  "AddIdentityCard_code now l code =
     (let remainingMs = useExpiryCountdown (codeExpiresAtMs l) now in
      Elem ''div'' []
        [Elem ''code'' [] [Text code],
         Elem ''Button'' [On ''click'' CopyCode] [],
         Elem ''span'' [] [Text
           (case remainingMs of
              Some ms \<Rightarrow> if ms > 0 then ''Expires in '' @ formatRemaining (nat ms) else ''Expired''
            | None \<Rightarrow> ''Expired'')],
         Elem ''LoadingButton'' [Flag ''isLoading'' (isGenerating l), On ''click'' Generate] [Text ''Regenerate'']])"

definition AddIdentityCard_dfx :: "'w env \<Rightarrow> string \<Rightarrow> AddIdentityEvent view" where
  "AddIdentityCard_dfx E code =
     Elem ''div'' []
       [Elem ''div'' [] [Elem ''h4'' [] [Text ''Link via dfx'']],
        Elem ''p'' []
          [Text ''Run this from a shell where your dfx identity is selected (e.g. '',
           Elem ''code'' [] [Text ''dfx identity use ...''],
           Text (''). The selected identity's principal must match the target you '' @ ''entered above.'')],
        Elem ''div'' []
          [Elem ''pre'' [] [Text (dfxLinkCommand E code)],
           Elem ''Button'' [On ''click'' CopyDfxCommand] []]]"

definition AddIdentityCard :: "'w env \<Rightarrow> int \<Rightarrow> AddIdentityState \<Rightarrow> AddIdentityEvent view" where
  "AddIdentityCard E now l =
     Elem ''Card'' []
       [Elem ''CardHeader'' [] [Elem ''CardTitle'' [] [Text ''Add another identity'']],
        Elem ''CardContent'' []
         [Elem ''section'' []
           ([Elem ''h3'' [] [Text ''Generate a link code''],
             Elem ''p'' []
               [Text ''Enter the principal you want to attach (for example, the output of '',
                Elem ''code'' [] [Text ''dfx identity get-principal''],
                Text (''), then generate a code. The code only works when redeemed by that exact '' @ ''principal.'')],
             Elem ''Input'' [Attr ''value'' (targetPrincipal l), OnText ''change'' TargetChanged,
               Attr ''placeholder'' ''aaaaa-aa...'', Flag ''disabled'' (generatedCode l \<noteq> None)] [],
             (case generatedCode l of
                None \<Rightarrow>
                  Elem ''LoadingButton'' [Flag ''isLoading'' (isGenerating l),
                    Flag ''disabled'' (length (trim (targetPrincipal l)) = 0), On ''click'' Generate] [Text ''Generate code'']
              | Some code \<Rightarrow> AddIdentityCard_code now l code)] @
            (case generatedCode l of None \<Rightarrow> [] | Some code \<Rightarrow> [AddIdentityCard_dfx E code]))]]"

section \<open>Unlinking is confirmed\<close>

text \<open>Clicks on the buttons of the rows, each handled before the next.\<close>

primrec unlink_clicks ::
    "(string \<Rightarrow> ('w, unit) store_task) \<Rightarrow> ('w, unit) store_task \<Rightarrow> string list \<Rightarrow> (CurrentlyLinkedState, 'w, unit) page_task" where
  "unlink_clicks onUnlink onAfterUnlink [] = ret ()"
| "unlink_clicks onUnlink onAfterUnlink (p # ps) =
     await (handleUnlink onUnlink onAfterUnlink p) (\<lambda>_. unlink_clicks onUnlink onAfterUnlink ps)"

lemma run_handleUnlink_ask:
  "confirmPrincipal l \<noteq> Some p \<Longrightarrow>
     run (handleUnlink onUnlink onAfterUnlink p) (l, s) w = (Inr (), (l\<lparr>confirmPrincipal := Some p\<rparr>, s), w)"
  by (simp add: handleUnlink_def run_simps)

lemma run_handleUnlink_confirmed:
  assumes "confirmPrincipal l = Some p"
  shows "\<exists>s' w'. run (handleUnlink onUnlink onAfterUnlink p) (l, s) w =
      (Inr (), (l\<lparr>busyPrincipal := None, confirmPrincipal := None\<rparr>, s'), w') \<and>
    (case run (onUnlink p) s w of
       (Inl err, s1, w1) \<Rightarrow> s' = toasts_update (\<lambda>ts. ts @ [(''Failed to unlink identity'', error_message err)]) s1 \<and> w' = w1
     | (Inr _, s1, w1) \<Rightarrow>
        (case run onAfterUnlink (toasts_update (\<lambda>ts. ts @ [(''Identity unlinked'', [])]) s1) w1 of
           (Inl err, s2, w2) \<Rightarrow> s' = toasts_update (\<lambda>ts. ts @ [(''Failed to unlink identity'', error_message err)]) s2 \<and> w' = w2
         | (Inr _, s2, w2) \<Rightarrow> s' = s2 \<and> w' = w2))"
  using assms by (simp add: handleUnlink_def run_simps split: prod.split sum.split)

lemma run_unlink_clicks:
  "distinct_adj (p # ps) \<Longrightarrow> confirmPrincipal l \<noteq> Some p \<Longrightarrow>
     run (unlink_clicks onUnlink onAfterUnlink (p # ps)) (l, s) w =
       (Inr (), (l\<lparr>confirmPrincipal := Some (last (p # ps))\<rparr>, s), w)"
proof (induction ps arbitrary: p l)
  case Nil
  then show ?case by (simp add: run_simps run_handleUnlink_ask)
next
  case (Cons q ps)
  from Cons.prems have "distinct_adj (q # ps)" and "q \<noteq> p" by auto
  from Cons.IH [OF this(1), of "l\<lparr>confirmPrincipal := Some p\<rparr>"] this(2) Cons.prems(2) show ?case
    by (simp add: run_simps run_handleUnlink_ask)
qed

text \<open>C22: However many rows are clicked, nothing is requested as long as no row is clicked twice in a row;
  a click on the row clicked last unlinks that principal, and whatever comes of it, the card waits for
  two clicks again.\<close>

theorem unlink_needs_two_clicks:
  assumes "distinct_adj (p # ps)" and "confirmPrincipal l \<noteq> Some p"
  shows "run (unlink_clicks onUnlink onAfterUnlink (p # ps)) (l, s) w =
      (Inr (), (l\<lparr>confirmPrincipal := Some (last (p # ps))\<rparr>, s), w) \<and>
    (\<exists>s' w'. run (handleUnlink onUnlink onAfterUnlink (last (p # ps))) (l\<lparr>confirmPrincipal := Some (last (p # ps))\<rparr>, s) w =
        (Inr (), (l\<lparr>busyPrincipal := None, confirmPrincipal := None\<rparr>, s'), w') \<and>
      (case run (onUnlink (last (p # ps))) s w of
         (Inl err, s1, w1) \<Rightarrow> s' = toasts_update (\<lambda>ts. ts @ [(''Failed to unlink identity'', error_message err)]) s1 \<and> w' = w1
       | (Inr _, s1, w1) \<Rightarrow>
          (case run onAfterUnlink (toasts_update (\<lambda>ts. ts @ [(''Identity unlinked'', [])]) s1) w1 of
             (Inl err, s2, w2) \<Rightarrow>
               s' = toasts_update (\<lambda>ts. ts @ [(''Failed to unlink identity'', error_message err)]) s2 \<and> w' = w2
           | (Inr _, s2, w2) \<Rightarrow> s' = s2 \<and> w' = w2)))"
  using run_unlink_clicks [OF assms, of onUnlink onAfterUnlink s w]
    run_handleUnlink_confirmed [of "l\<lparr>confirmPrincipal := Some (last (p # ps))\<rparr>" "last (p # ps)" onUnlink onAfterUnlink s w]
  by simp

definition no_card_state :: CurrentlyLinkedState where
  "no_card_state = \<lparr>busyPrincipal = None, confirmPrincipal = None\<rparr>"

theorem unlink_needs_two_clicks_witness:
  "snd (snd (run (unlink_clicks (unlinkMyPrincipal offline) (loadLinkedPrincipals offline) [''a-'', ''b-'', ''a-''])
     (no_card_state, admin_session) 0)) = 0"
  using unlink_needs_two_clicks [of "''a-''" "[''b-'', ''a-'']" no_card_state "unlinkMyPrincipal offline"
      "loadLinkedPrincipals offline" admin_session 0]
  by (simp add: no_card_state_def)

section \<open>The time shown\<close>

text \<open>The time left is shown as minutes and two digits of seconds, below 60, and is the least whole number of
  seconds that is not less than the time left.\<close>

theorem formatRemaining_least:
  "\<exists>minutes d e. formatRemaining ms = decimal minutes @ '':'' @ [d, e] \<and> decimal_value [d, e] < 60 \<and>
     ms \<le> 1000 * (60 * minutes + decimal_value [d, e]) \<and> 1000 * (60 * minutes + decimal_value [d, e]) < ms + 1000"
proof -
  define t where "t = (ms + 999) div 1000"
  have two: "\<exists>d e. replicate (2 - length (decimal n)) CHR ''0'' @ decimal n = [d, e] \<and> decimal_value [d, e] = n"
    if "n < 60" for n :: nat
  proof (cases "n < 10")
    case True
    then have "decimal n = [char_of (48 + n)]" by (simp add: decimal.simps [of n])
    with True show ?thesis by (simp add: decimal_value_def of_char_of)
  next
    case False
    with that have "decimal n = [char_of (48 + n div 10), char_of (48 + n mod 10)]"
      by (simp add: decimal.simps [of n] decimal.simps [of "n div 10"])
    with that show ?thesis by (simp add: decimal_value_def of_char_of)
  qed
  from two [of "t mod 60"] obtain d e where
    de: "replicate (2 - length (decimal (t mod 60))) CHR ''0'' @ decimal (t mod 60) = [d, e]"
    and v: "decimal_value [d, e] = t mod 60" by auto
  have "formatRemaining ms = decimal (t div 60) @ '':'' @ [d, e]"
    by (simp add: formatRemaining_def t_def [symmetric] Let_def de [simplified])
  moreover have "60 * (t div 60) + t mod 60 = t" by simp
  moreover have "ms \<le> 1000 * t \<and> 1000 * t < ms + 1000" unfolding t_def by linarith
  moreover have "t mod 60 < 60" by simp
  ultimately show ?thesis using v by metis
qed

section \<open>The code shown is the pending one\<close>

lemma run_createLinkCode:
  "run (createLinkCode E target) s w = (r, s', w') \<Longrightarrow>
     (\<exists>e. r = Inl e \<and> s' = s) \<or>
     (\<exists>code expires. r = Inr (code, expires) \<and> s' = s\<lparr>pendingLinkCode := Some
        \<lparr>PendingLinkCode_code = code, PendingLinkCode_expiresAtNanos = expires, PendingLinkCode_targetPrincipal = target\<rparr>\<rparr>)"
  by (auto simp: createLinkCode_def PrincipalLinkApi_registerLinkCode_def run_simps Let_def
      split: prod.splits sum.splits)

text \<open>Making a code ends with the card showing the code, and the time it expires, that the store has as the
  pending one, for the principal entered, so that the card keeps showing it; or it ends with a message and
  nothing else, and when the principal entered is none, without any request.\<close>

theorem handleGenerate_shows_pending:
  assumes "run (handleGenerate E (createLinkCode E)) (l, s) w = (r, (l', s'), w')" and "\<not> isGenerating l"
  shows "r = Inr () \<and>
    ((\<exists>msg. l' = l \<and> s' = s\<lparr>toasts := toasts s @ [msg]\<rparr> \<and> (isl (fromText E (trim (targetPrincipal l))) \<longrightarrow> w' = w)) \<or>
     (\<exists>p pend. fromText E (trim (targetPrincipal l)) = Inr p \<and> s' = s\<lparr>pendingLinkCode := Some pend\<rparr> \<and>
        PendingLinkCode_targetPrincipal pend = toText E p \<and>
        l' = l\<lparr>generatedCode := Some (PendingLinkCode_code pend),
          codeExpiresAtMs := Some (millis_of_nanos (PendingLinkCode_expiresAtNanos pend))\<rparr> \<and>
        clear_stale_code (pendingLinkCode s') l' = l'))"
proof (cases "fromText E (trim (targetPrincipal l))")
  case (Inl e)
  with assms show ?thesis by (auto simp: handleGenerate_def run_simps Let_def add_toast)
next
  case (Inr p)
  have same: "l\<lparr>isGenerating := False\<rparr> = l" using assms(2) by simp
  obtain r1 s1 w1 where create: "run (createLinkCode E (toText E p)) s w = (r1, s1, w1)"
    by (metis prod.collapse)
  from run_createLinkCode [OF create] show ?thesis
  proof (elim disjE exE conjE)
    fix e
    assume "r1 = Inl e" and "s1 = s"
    with assms(1) create Inr have "r = Inr ()" "l' = l\<lparr>isGenerating := False\<rparr>"
      "s' = s\<lparr>toasts := toasts s @ [(''Failed to generate link code'', error_message e)]\<rparr>"
      by (auto simp: handleGenerate_def run_simps Let_def add_toast)
    with same Inr show ?thesis by auto
  next
    fix code expires
    let ?pend = "\<lparr>PendingLinkCode_code = code, PendingLinkCode_expiresAtNanos = expires,
      PendingLinkCode_targetPrincipal = toText E p\<rparr>"
    assume "r1 = Inr (code, expires)" and "s1 = s\<lparr>pendingLinkCode := Some ?pend\<rparr>"
    with assms(1) create Inr have "r = Inr ()" "s' = s\<lparr>pendingLinkCode := Some ?pend\<rparr>"
      "l' = l\<lparr>isGenerating := False\<rparr>\<lparr>generatedCode := Some code, codeExpiresAtMs := Some (millis_of_nanos expires)\<rparr>"
      by (auto simp: handleGenerate_def run_simps Let_def)
    with same Inr show ?thesis
      by (intro conjI disjI2 exI [of _ p] exI [of _ ?pend]) (simp_all add: clear_stale_code_def)
  qed
qed

definition add_identity :: "string \<Rightarrow> AddIdentityState" where
  "add_identity target = \<lparr>targetPrincipal = target, generatedCode = None, codeExpiresAtMs = None, isGenerating = False\<rparr>"

theorem handleGenerate_shows_pending_witness:
  "fst (run (handleGenerate offline (createLinkCode offline)) (add_identity ''a-'', admin_session) 0) = Inr ()"
proof -
  have "\<not> isGenerating (add_identity ''a-'')" by (simp add: add_identity_def)
  moreover obtain r l' s' w' where run: "run (handleGenerate offline (createLinkCode offline))
      (add_identity ''a-'', admin_session) 0 = (r, (l', s'), w')" by (metis prod.collapse)
  ultimately have "r = Inr ()" using handleGenerate_shows_pending [OF run] by blast
  with run show ?thesis by simp
qed

end
