(* ===== verification/CanisterDetail.thy ===== *)
theory CanisterDetail
  imports UI Samples CanisterStore OrgStore
begin

text \<open>
  The page of a canister, \<open>routes/canisters/canister-detail.tsx\<close>, and the parts it is put together from:
  its name, power, settings, history and usage, and the calls to action beside it
  (\<open>add-missing-canister-controller-cta.tsx\<close>, \<open>deleted-canister-cta.tsx\<close>, \<open>usage-metrics-grid.tsx\<close>).
\<close>

section \<open>Rows and sections\<close>

fun statusBadgeVariant :: "CanisterStatus \<Rightarrow> string" where
  "statusBadgeVariant Running = ''success''"
| "statusBadgeVariant Stopping = ''outline''"
| "statusBadgeVariant Stopped = ''destructive''"

fun canister_status_text :: "CanisterStatus \<Rightarrow> string" where
  "canister_status_text Running = ''Running''"
| "canister_status_text Stopping = ''Stopping''"
| "canister_status_text Stopped = ''Stopped''"

definition StatRow :: "string \<Rightarrow> string \<Rightarrow> 'ev view" where
  "StatRow label val = Elem ''div'' [] [Elem ''span'' [] [Text label], Elem ''span'' [] [Text val]]"

definition SectionCard :: "'ev view \<Rightarrow> 'ev view list \<Rightarrow> 'ev view option \<Rightarrow> 'ev view" where
  "SectionCard title children footer =
     Elem ''Card'' []
       ([Elem ''CardHeader'' [] [Elem ''CardTitle'' [] [title]],
         Elem ''CardContent'' [] children] @
        (case footer of None \<Rightarrow> [] | Some f \<Rightarrow> [Elem ''CardFooter'' [] [f]]))"

section \<open>The name\<close>

record RenameState =
  draft :: string
  isSaving :: bool
  isClearing :: bool

definition canister_name :: "Canister \<Rightarrow> string" where
  "canister_name c = (case Canister_name c of Some n \<Rightarrow> n | None \<Rightarrow> [])"

definition RenameCanisterCard_initial :: "Canister \<Rightarrow> RenameState" where
  "RenameCanisterCard_initial c = \<lparr>draft = canister_name c, isSaving = False, isClearing = False\<rparr>"

text \<open>The effect that runs when the name of the canister has changed.\<close>

definition reset_draft :: "Canister \<Rightarrow> RenameState \<Rightarrow> RenameState" where
  "reset_draft c l = l\<lparr>draft := canister_name c\<rparr>"

definition canSave :: "Canister \<Rightarrow> RenameState \<Rightarrow> bool" where
  "canSave c l \<longleftrightarrow>
     (let trimmed = trim (draft l); hasChanges = (trimmed \<noteq> canister_name c)
      in hasChanges \<and> length trimmed > 0)"

definition onSave :: "'w env \<Rightarrow> Canister \<Rightarrow> string \<Rightarrow> (RenameState, 'w, unit) page_task" where
  "onSave E c projectId =
     get_state (\<lambda>(l, _).
       if \<not> canSave c l then ret ()
       else
         await (set_local (\<lambda>l. l\<lparr>isSaving := True\<rparr>)) (\<lambda>_.
         try_finally
           (try_catch
             (await (on_store (updateCanisterName E (Canister_id c) projectId (Some (trim (draft l))))) (\<lambda>_.
              success_toast ''Canister name updated''))
             (error_toast ''Failed to update canister name''))
           (set_local (\<lambda>l. l\<lparr>isSaving := False\<rparr>))))"

definition onClear :: "'w env \<Rightarrow> Canister \<Rightarrow> string \<Rightarrow> (RenameState, 'w, unit) page_task" where
  "onClear E c projectId =
     await (set_local (\<lambda>l. l\<lparr>isClearing := True\<rparr>)) (\<lambda>_.
     try_finally
       (try_catch
         (await (on_store (updateCanisterName E (Canister_id c) projectId None)) (\<lambda>_.
          success_toast ''Canister name cleared''))
         (error_toast ''Failed to clear canister name''))
       (set_local (\<lambda>l. l\<lparr>isClearing := False\<rparr>)))"

datatype RenameEvent = NameChanged string | SaveName | ClearName

definition RenameCanisterCard :: "Canister \<Rightarrow> RenameState \<Rightarrow> RenameEvent view" where
  "RenameCanisterCard c l =
     SectionCard (Text ''Name'')
       [Elem ''div'' []
         [Elem ''Input'' [Attr ''value'' (draft l), Attr ''placeholder'' ''Unnamed canister'', Attr ''maxLength'' ''100'',
            OnText ''change'' NameChanged, Flag ''disabled'' (isSaving l \<or> isClearing l)] [],
          Elem ''div'' []
            (Elem ''LoadingButton'' [Flag ''isLoading'' (isSaving l),
               Flag ''disabled'' (\<not> canSave c l \<or> isClearing l), On ''click'' SaveName] [Text ''Save''] #
             given (Canister_name c \<noteq> None)
               [Elem ''LoadingButton'' [Flag ''isLoading'' (isClearing l), Flag ''disabled'' (isSaving l),
                  On ''click'' ClearName] [Text ''Clear'']])]] None"

section \<open>Power\<close>

definition onToggle :: "'w env \<Rightarrow> Canister \<Rightarrow> CanisterStatus \<Rightarrow> string \<Rightarrow> (bool, 'w, unit) page_task" where
  "onToggle E c status projectId =
     (let isRunning = (status = Running) in
      await (set_local (\<lambda>_. True)) (\<lambda>_.
      try_finally
        (try_catch
          (if isRunning then
             await (on_store (stopCanister E (Canister_id c) projectId)) (\<lambda>_. success_toast ''Canister stopping'')
           else
             await (on_store (startCanister E (Canister_id c) projectId)) (\<lambda>_. success_toast ''Canister started''))
          (error_toast (if isRunning then ''Failed to stop canister'' else ''Failed to start canister'')))
        (set_local (\<lambda>_. False))))"

definition CanisterPowerCard :: "CanisterStatus \<Rightarrow> bool \<Rightarrow> unit view" where
  "CanisterPowerCard status isBusy =
     (let isRunning = (status = Running); isTransitioning = (status = Stopping) in
      SectionCard (Text ''Power'')
        [Elem ''div'' []
          [Elem ''p'' [] [Text
             (if isRunning then ''Stop this canister to take it offline. It can be started again at any time.''
              else if isTransitioning then
                ''The canister is stopping; wait for it to finish before starting it again.''
              else ''Start this canister to bring it back online.'')],
           Elem ''LoadingButton'' [Attr ''variant'' (if isRunning then ''destructive'' else ''default''),
             Flag ''isLoading'' isBusy, Flag ''disabled'' isTransitioning, On ''click'' ()]
             [Text (if isRunning then ''Stop'' else ''Start'')]]] None)"

section \<open>Settings, memory, queries\<close>

definition bytes_text :: "Browser \<Rightarrow> int \<Rightarrow> string" where
  "bytes_text B n = formatBytes (floorLog1024 B) (nat n)"

definition logVisibilityLabel :: "LogVisibility \<Rightarrow> string" where
  "logVisibilityLabel v =
     (case v of
        LogVisibility_controllers \<Rightarrow> ''Controllers only''
      | LogVisibility_public \<Rightarrow> ''Public''
      | LogVisibility_viewers vs \<Rightarrow> decimal (length vs) @ '' allowed viewer(s)'')"

definition named :: "string option \<Rightarrow> string \<Rightarrow> 'ev view list" where
  "named name k =
     (case name of
        Some n \<Rightarrow> [Elem ''span'' [] [Text n, Text '' ''], Elem ''span'' [] [Text (''('' @ k @ '')'')]]
      | None \<Rightarrow> [Elem ''span'' [] [Text k]])"

definition CanisterInfoSections_settings ::
    "Browser \<Rightarrow> string \<Rightarrow> CanisterInfo \<Rightarrow> (string, string) js_map \<Rightarrow> 'ev view" where
  "CanisterInfoSections_settings B canisterPrincipal info names =
     (let settings = CanisterInfo_settings info in
      SectionCard (Text ''Settings'')
        ([StatRow ''Compute Allocation''
            (if CanisterInfoSettings_computeAllocation settings = 0 then ''Best effort''
             else bigint_text (CanisterInfoSettings_computeAllocation settings) @ ''%''),
          StatRow ''Memory Allocation''
            (if CanisterInfoSettings_memoryAllocation settings = 0 then ''Unlimited''
             else bytes_text B (CanisterInfoSettings_memoryAllocation settings)),
          StatRow ''Log Visibility'' (logVisibilityLabel (CanisterInfoSettings_logVisibility settings)),
          StatRow ''Wasm Memory Limit''
            (if CanisterInfoSettings_wasmMemoryLimit settings = 0 then ''Unlimited''
             else bytes_text B (CanisterInfoSettings_wasmMemoryLimit settings)),
          StatRow ''Wasm Memory Threshold''
            (if CanisterInfoSettings_wasmMemoryThreshold settings = 0 then ''None''
             else bytes_text B (CanisterInfoSettings_wasmMemoryThreshold settings)),
          Elem ''div'' []
            [Elem ''div'' [] [Text ''Controllers''],
             if length (CanisterInfoSettings_controllers settings) > 0 then
               Elem ''div'' [] (map (\<lambda>c. Elem ''p'' [] (named (js_map_get c names) c))
                 (CanisterInfoSettings_controllers settings))
             else Elem ''p'' [] [Text ''No controllers.'']]] @
         given (length (CanisterInfoSettings_environmentVariables settings) > 0)
           [Elem ''div'' []
             [Elem ''div'' [] [Text ''Environment Variables''],
              Elem ''div'' [] (map (\<lambda>e. Elem ''div'' []
                [Elem ''span'' [] [Text (EnvironmentVariable_name e)],
                 Elem ''span'' [] [Text (EnvironmentVariable_value e)]])
                (CanisterInfoSettings_environmentVariables settings))]])
        (Some (Elem ''AddControllerForm'' [Attr ''canisterId'' canisterPrincipal] [])))"

definition CanisterInfoSections_overview :: "CanisterInfo \<Rightarrow> 'ev view" where
  "CanisterInfoSections_overview info =
     SectionCard (Text ''Overview'')
       [StatRow ''Status'' (canister_status_text (CanisterInfo_status info)),
        StatRow ''Version'' (bigint_text (CanisterInfo_version info)),
        StatRow ''Module Hash''
          (case CanisterInfo_moduleHash info of
             None \<Rightarrow> ''None'' | Some h \<Rightarrow> take 16 (formatHex h) @ ''...''),
        StatRow ''Ready for Migration'' (if CanisterInfo_readyForMigration info then ''Yes'' else ''No'')] None"

definition CanisterInfoSections_memory :: "Browser \<Rightarrow> CanisterInfo \<Rightarrow> 'ev view" where
  "CanisterInfoSections_memory B info =
     (let m = CanisterInfo_memoryMetrics info in
      SectionCard (Text ''Memory'')
        [StatRow ''Total'' (bytes_text B (CanisterInfo_memorySize info)),
         StatRow ''Wasm'' (bytes_text B (MemoryMetrics_wasmMemorySize m)),
         StatRow ''Stable'' (bytes_text B (MemoryMetrics_stableMemorySize m)),
         StatRow ''Global'' (bytes_text B (MemoryMetrics_globalMemorySize m)),
         StatRow ''Wasm Binary'' (bytes_text B (MemoryMetrics_wasmBinarySize m)),
         StatRow ''Custom Sections'' (bytes_text B (MemoryMetrics_customSectionsSize m)),
         StatRow ''Canister History'' (bytes_text B (MemoryMetrics_canisterHistorySize m)),
         StatRow ''Chunk Store'' (bytes_text B (MemoryMetrics_wasmChunkStoreSize m)),
         StatRow ''Snapshots'' (bytes_text B (MemoryMetrics_snapshotsSize m))] None)"

definition CanisterInfoSections_queries :: "Browser \<Rightarrow> CanisterInfo \<Rightarrow> 'ev view" where
  "CanisterInfoSections_queries B info =
     (let q = CanisterInfo_queryStats info in
      SectionCard (Text ''Query Stats'')
        [StatRow ''Total Calls'' (formatNumber (numberToLocale B) (QueryStats_numCallsTotal q)),
         StatRow ''Total Instructions'' (formatNumber (numberToLocale B) (QueryStats_numInstructionsTotal q)),
         StatRow ''Request Bytes'' (bytes_text B (QueryStats_requestPayloadBytesTotal q)),
         StatRow ''Response Bytes'' (bytes_text B (QueryStats_responsePayloadBytesTotal q))] None)"

definition CanisterInfoSections ::
    "Browser \<Rightarrow> string \<Rightarrow> string \<Rightarrow> CanisterInfo \<Rightarrow> (string, string) js_map \<Rightarrow> 'ev view" where
  "CanisterInfoSections B canisterPrincipal projectPrincipal info names =
     Elem ''div'' []
       [CanisterInfoSections_settings B canisterPrincipal info names,
        CanisterInfoSections_overview info,
        Elem ''CanisterUsageMetrics'' [Attr ''projectId'' projectPrincipal, Attr ''canisterId'' canisterPrincipal] [],
        CanisterInfoSections_memory B info,
        CanisterInfoSections_queries B info]"

section \<open>History\<close>

definition changeLabel :: "CanisterChange \<Rightarrow> string" where
  "changeLabel change =
     (case CanisterChange_details change of
        None \<Rightarrow> ''Unknown''
      | Some d \<Rightarrow>
          (case d of
             Details_creation controllers \<Rightarrow> ''Created''
           | Details_codeUninstall \<Rightarrow> ''Code Uninstall''
           | Details_codeDeployment mode hash \<Rightarrow>
               (if mode = Some Mode_install then ''Code Install''
                else if mode = Some Mode_reinstall then ''Code Reinstall''
                else if mode = Some Mode_upgrade then ''Code Upgrade''
                else ''Code Deployment'')
           | Details_controllersChange controllers \<Rightarrow> ''Controllers Changed''
           | Details_loadSnapshot \<Rightarrow> ''Snapshot Loaded''))"

record CanisterHistoryState =
  changes :: "CanisterChange list option"
  isDeleted :: bool

definition CanisterHistory_load :: "'w env \<Rightarrow> string \<Rightarrow> (CanisterHistoryState, 'w, unit) page_task" where
  "CanisterHistory_load E canisterPrincipal =
     try_catch
       (await (on_store (CanisterHistoryApi_listCanisterChanges E canisterPrincipal)) (\<lambda>res.
          set_local (\<lambda>l. l\<lparr>changes := Some (ListCanisterChangesResponse_changes res),
            isDeleted := ListCanisterChangesResponse_isDeleted res\<rparr>)))
       (\<lambda>_. set_local (\<lambda>l. l\<lparr>changes := Some []\<rparr>))"

definition change_origin :: "(string, string) js_map \<Rightarrow> CanisterChangeOrigin \<Rightarrow> 'ev view" where
  "change_origin names origin =
     (case origin of
        Origin_user userId \<Rightarrow> Elem ''span'' [] (named None userId)
      | Origin_canister canisterId version \<Rightarrow> Elem ''span'' [] (named (js_map_get canisterId names) canisterId))"

definition CanisterHistory :: "Browser \<Rightarrow> (string, string) js_map \<Rightarrow> CanisterHistoryState \<Rightarrow> 'ev view" where
  "CanisterHistory B names l =
     SectionCard
       (Elem ''div'' [] (Text ''History'' # given (isDeleted l) [Elem ''Badge'' [] [Text ''Deleted'']]))
       [case changes l of
          None \<Rightarrow> Elem ''p'' [] [Text ''Loading...'']
        | Some cs \<Rightarrow>
            if length cs = 0 then Elem ''p'' [] [Text ''No history available.'']
            else
              Elem ''div'' [] (map (\<lambda>change.
                Elem ''div'' []
                  [Elem ''div'' []
                    (Elem ''span'' [] [Text (changeLabel change)] #
                     (case CanisterChange_origin change of None \<Rightarrow> [] | Some or' \<Rightarrow> [change_origin names or'])),
                   Elem ''div'' []
                    [Elem ''div'' [] [Text (formatTimestamp (dateToLocale B) (CanisterChange_timestampNanos change))],
                     Elem ''div'' [] [Text (''v'' @ bigint_text (CanisterChange_canisterVersion change))]]]) cs)] None"

section \<open>Usage\<close>

record CanisterUsageState =
  usage :: "ProjectUsage option"
  isLoading :: bool

definition usage_of_canister :: "CanisterUsage \<Rightarrow> ProjectUsage" where
  "usage_of_canister c =
     \<lparr>ProjectUsage_memory = CanisterUsage_memory c,
      ProjectUsage_memoryBytes = CanisterUsage_memoryBytes c,
      ProjectUsage_computeAllocation = CanisterUsage_computeAllocation c,
      ProjectUsage_computeAllocationPercent = CanisterUsage_computeAllocationPercent c,
      ProjectUsage_ingressInduction = CanisterUsage_ingressInduction c,
      ProjectUsage_ingressInductionBytesTotal = CanisterUsage_ingressInductionBytesTotal c,
      ProjectUsage_instructions = CanisterUsage_instructions c,
      ProjectUsage_computeTimeSecondsTotal = CanisterUsage_computeTimeSecondsTotal c,
      ProjectUsage_requestAndResponseTransmission = CanisterUsage_requestAndResponseTransmission c,
      ProjectUsage_transmissionBytesTotal = CanisterUsage_transmissionBytesTotal c,
      ProjectUsage_uninstall = CanisterUsage_uninstall c,
      ProjectUsage_uninstallsTotal = CanisterUsage_uninstallsTotal c,
      ProjectUsage_httpOutcalls = CanisterUsage_httpOutcalls c,
      ProjectUsage_burnedCycles = CanisterUsage_burnedCycles c\<rparr>"

definition CanisterUsageMetrics_load :: "'w env \<Rightarrow> string \<Rightarrow> string \<Rightarrow> (CanisterUsageState, 'w, unit) page_task" where
  "CanisterUsageMetrics_load E projectId canisterId =
     await (set_local (\<lambda>l. l\<lparr>isLoading := True\<rparr>)) (\<lambda>_.
     try_finally
       (try_catch
         (await (on_store (UsageApi_getUsage E
             \<lparr>GetUsageRequest_projectId = projectId, GetUsageRequest_billingMonth = None\<rparr>)) (\<lambda>res.
            set_local (\<lambda>l. l\<lparr>usage := map_option usage_of_canister
              (List.find (\<lambda>c. CanisterUsage_canisterId c = canisterId) (GetUsageResponse_canisters res))\<rparr>)))
         (error_toast ''Failed to load canister usage metrics''))
       (set_local (\<lambda>l. l\<lparr>isLoading := False\<rparr>)))"

definition CanisterUsageMetrics :: "(ProjectUsage \<Rightarrow> 'ev view) \<Rightarrow> CanisterUsageState \<Rightarrow> 'ev view" where
  "CanisterUsageMetrics grid l =
     SectionCard (Text ''Usage Metrics'')
       [if isLoading l then Elem ''div'' [] [Elem ''RefreshCw'' [] []]
        else case usage l of
            Some u \<Rightarrow> grid u
          | None \<Rightarrow> Elem ''p'' [] [Text ''No usage metrics available for this canister.'']] None"

definition metric :: "string \<Rightarrow> string \<Rightarrow> 'ev view" where
  "metric label val = Elem ''div'' [] [Elem ''span'' [] [Text label], Elem ''span'' [] [Text val]]"

definition cycles_text :: "int \<Rightarrow> string" where
  "cycles_text n = formatCycles (nat n)"

definition UsageMetricsGrid :: "Browser \<Rightarrow> ProjectUsage \<Rightarrow> 'ev view" where
  "UsageMetricsGrid B u =
     Elem ''div'' []
       [metric ''Memory'' (cycles_text (ProjectUsage_memory u)),
        metric ''Memory (Byte Seconds)'' (formatNumber (numberToLocale B) (ProjectUsage_memoryBytes u) @ '' byte-s''),
        metric ''Compute Allocation'' (cycles_text (ProjectUsage_computeAllocation u)),
        metric ''Compute Allocation (Percent Seconds)''
          (formatNumber (numberToLocale B) (ProjectUsage_computeAllocationPercent u) @ '' %-s''),
        metric ''Ingress Induction'' (cycles_text (ProjectUsage_ingressInduction u)),
        metric ''Ingress Induction (Bytes)'' (bytes_text B (ProjectUsage_ingressInductionBytesTotal u)),
        metric ''Req/Res Transmission'' (cycles_text (ProjectUsage_requestAndResponseTransmission u)),
        metric ''Transmission (Bytes)'' (bytes_text B (ProjectUsage_transmissionBytesTotal u)),
        metric ''Uninstall'' (cycles_text (ProjectUsage_uninstall u)),
        metric ''Uninstalls Total'' (formatNumber (numberToLocale B) (ProjectUsage_uninstallsTotal u) @ '' times''),
        metric ''Instructions'' (cycles_text (ProjectUsage_instructions u)),
        metric ''Compute Time'' (formatDuration (nat (ProjectUsage_computeTimeSecondsTotal u))),
        metric ''Burned Cycles'' (cycles_text (ProjectUsage_burnedCycles u)),
        metric ''HTTP Outcalls'' (cycles_text (ProjectUsage_httpOutcalls u))]"

section \<open>Calls to action\<close>

definition onFixClicked :: "'w env \<Rightarrow> string \<Rightarrow> string \<Rightarrow> (bool, 'w, unit) page_task" where
  "onFixClicked E canisterId projectId =
     await (set_local (\<lambda>_. True)) (\<lambda>_.
     try_finally
       (try_catch (on_store (addMissingController E canisterId projectId))
         (error_toast ''Failed to add missing controller''))
       (set_local (\<lambda>_. False)))"

definition AddMissingCanisterControllerCta :: "bool \<Rightarrow> unit view" where
  "AddMissingCanisterControllerCta isAddingController =
     Elem ''Alert'' []
       [Elem ''AlertTitle'' [] [Text ''Missing Controller''],
        Elem ''AlertDescription'' [] [Text (''The Swiss Subnet Console Canister must be added as a controller of this '' @
          ''canister.'')],
        Elem ''AlertAction'' []
          [Elem ''LoadingButton'' [On ''click'' (), Flag ''isLoading'' isAddingController] [Text ''Fix'']]]"

definition onRemoveClicked :: "'w env \<Rightarrow> string \<Rightarrow> string \<Rightarrow> (bool, 'w, unit) page_task" where
  "onRemoveClicked E canisterRecordId projectId =
     await (set_local (\<lambda>_. True)) (\<lambda>_.
     try_finally
       (try_catch (on_store (removeCanister E canisterRecordId projectId))
         (error_toast ''Failed to remove canister''))
       (set_local (\<lambda>_. False)))"

definition DeletedCanisterCta :: "string \<Rightarrow> bool \<Rightarrow> unit view" where
  "DeletedCanisterCta canisterPrincipal isRemoving =
     Elem ''Alert'' []
       [Elem ''AlertTitle'' [] [Text ''Canister no longer exists''],
        Elem ''AlertDescription'' []
          [Text (''Canister '' @ canisterPrincipal @ '' was deleted from the network. You can '' @
             ''remove it from this dashboard.'')],
        Elem ''AlertAction'' []
          [Elem ''LoadingButton'' [On ''click'' (), Flag ''isLoading'' isRemoving] [Text ''Remove'']]]"

section \<open>The page\<close>

text \<open>The profiles of controllers found so far: the local state of the page.\<close>

type_synonym profile_map = "(string, UserProfileBrief option) js_map"

definition project_canisters :: "AppSlice \<Rightarrow> string \<Rightarrow> Canister list" where
  "project_canisters s projectId =
     (case canisters s of None \<Rightarrow> [] | Some m \<Rightarrow> (case js_map_get projectId m of Some cs \<Rightarrow> cs | None \<Rightarrow> []))"

definition shown_canister :: "AppSlice \<Rightarrow> string \<Rightarrow> string \<Rightarrow> Canister option" where
  "shown_canister s projectId canisterId = List.find (\<lambda>c. Canister_id c = canisterId) (project_canisters s projectId)"

definition controllerPrincipals :: "Canister option \<Rightarrow> string list" where
  "controllerPrincipals c =
     (case map_option Canister_state c of
        Some (Accessible info) \<Rightarrow> CanisterInfoSettings_controllers (CanisterInfo_settings info)
      | _ \<Rightarrow> [])"

definition resolve_controllers :: "'w env \<Rightarrow> string \<Rightarrow> string list \<Rightarrow> (profile_map, 'w, unit) page_task" where
  "resolve_controllers E projectId principals =
     get_state (\<lambda>(userProfiles, _).
       let unknown = filter (\<lambda>p. \<not> js_map_has p userProfiles) principals in
       if length unknown = 0 then ret ()
       else
         try_catch
           (await (on_store (getUserProfilesByPrincipals E projectId unknown)) (\<lambda>entries.
              set_local (\<lambda>prev. foldl (\<lambda>m e. js_map_set (UserProfileByPrincipal_principal e)
                (UserProfileByPrincipal_profile e) m) prev entries)))
           (error_toast ''Failed to resolve controller profiles''))"

definition profile_email :: "UserProfileBrief option \<Rightarrow> string" where
  "profile_email prof = (case Option.bind prof UserProfileBrief_email of Some e \<Rightarrow> e | None \<Rightarrow> [])"

definition controllerNames :: "'w env \<Rightarrow> Canister list \<Rightarrow> profile_map \<Rightarrow> (string, string) js_map" where
  "controllerNames E cs userProfiles =
     (let m = js_map_set (BACKEND_CANISTER_ID E) ''Swiss Subnet Console'' [];
          m = foldl (\<lambda>m c. case Canister_name c of Some n \<Rightarrow> js_map_set (Canister_principal c) n m | None \<Rightarrow> m) m cs
      in foldl (\<lambda>m (principal, prof).
           if js_map_has principal m then m
           else if profile_email prof \<noteq> [] then js_map_set principal (profile_email prof) m
           else m) m userProfiles)"

definition canisterLabel :: "Canister option \<Rightarrow> string" where
  "canisterLabel canister =
     (case canister of
        None \<Rightarrow> ''Canister''
      | Some c \<Rightarrow>
          (case Canister_name c of
             Some n \<Rightarrow> n
           | None \<Rightarrow> take 5 (Canister_principal c) @ ''...'' @
               drop (length (Canister_principal c) - 3) (Canister_principal c)))"

definition CanisterDetail_crumbs :: "AppSlice \<Rightarrow> string \<Rightarrow> string \<Rightarrow> (string \<times> string option) list" where
  "CanisterDetail_crumbs s projectId label =
     (let project = js_map_get projectId (selectProjectMap s);
          organization = Option.bind project (\<lambda>p. js_map_get (Project_orgId p) (selectOrgMap s))
      in (case organization of
            Some org \<Rightarrow> [(Organization_name org, Some (''/organizations/'' @ Organization_id org @ ''/settings''))]
          | None \<Rightarrow> []) @
         [(case project of Some p \<Rightarrow> Project_name p | None \<Rightarrow> ''Project'', Some (''/projects/'' @ projectId @ ''/canisters'')),
          (label, None)])"

datatype CanisterDetailEvent = RefreshClicked

definition CanisterDetail_canister :: "string \<Rightarrow> Canister \<Rightarrow> CanisterDetailEvent view" where
  "CanisterDetail_canister projectId c =
     (let avail = availability (Canister_state c); principal = Canister_principal c in
      Elem ''div'' []
        ([Elem ''div'' []
           (Elem ''p'' [] [Text principal] #
            (case Canister_state c of
               Accessible info \<Rightarrow>
                 [Elem ''Badge'' [Attr ''variant'' (statusBadgeVariant (CanisterInfo_status info))]
                   [Text (canister_status_text (CanisterInfo_status info))]]
             | _ \<Rightarrow> []) @
            given (avail = Availability_Deleted) [Elem ''Badge'' [Attr ''variant'' ''destructive''] [Text ''Deleted'']]),
          Elem ''RenameCanisterCard'' [Attr ''canister'' (Canister_id c), Attr ''projectId'' projectId] []] @
         given (avail = Availability_Accessible)
           [Elem ''CanisterPowerCard'' [Attr ''canister'' (Canister_id c), Attr ''projectId'' projectId] []] @
         [if avail = Availability_Accessible then
            Elem ''CanisterInfoSections'' [Attr ''canisterPrincipal'' principal, Attr ''projectPrincipal'' projectId] []
          else if avail = Availability_Deleted then
            Elem ''DeletedCanisterCta'' [Attr ''canisterRecordId'' (Canister_id c), Attr ''canisterPrincipal'' principal] []
          else Elem ''AddMissingCanisterControllerCta'' [Attr ''canisterId'' principal] [],
          Elem ''CanisterMetricsChart'' [Attr ''canisterPrincipal'' principal] [],
          Elem ''CanisterHistory'' [Attr ''canisterPrincipal'' principal] []]))"

definition CanisterDetail :: "AppSlice \<Rightarrow> string \<Rightarrow> string \<Rightarrow> CanisterDetailEvent view" where
  "CanisterDetail s projectId canisterId =
     (let canister = shown_canister s projectId canisterId;
          loading = (isCanistersLoading s \<or> \<not> isCanistersInitialized s)
      in
      Elem ''Fragment'' []
        [Breadcrumbs (CanisterDetail_crumbs s projectId (canisterLabel canister)),
         Elem ''div'' []
           [Elem ''H1'' [] [Text (case Option.bind canister Canister_name of Some n \<Rightarrow> n | None \<Rightarrow> ''Canister'')],
            Elem ''Button'' [Flag ''disabled'' (isCanistersLoading s), On ''click'' RefreshClicked] []],
         if loading then
           Elem ''div'' [] [Elem ''Skeleton'' [] [], Elem ''Skeleton'' [] [], Elem ''Skeleton'' [] []]
         else case canister of
             None \<Rightarrow> Elem ''p'' [] [Text ''Canister not found.'']
           | Some c \<Rightarrow> CanisterDetail_canister projectId c])"

section \<open>Renaming\<close>

text \<open>Saving renames the canister exactly when the draft, without the white space around it, is neither empty
  nor the name the canister has, and then to that; otherwise nothing happens. Either way the draft is kept
  and the card does not stay busy.\<close>

theorem onSave_trimmed:
  assumes "run (onSave E c projectId) (l, s) w = (r, (l', s'), w')" and "\<not> isSaving l"
  shows "r = Inr () \<and> l' = l \<and>
    (if trim (draft l) = [] \<or> trim (draft l) = canister_name c then s' = s \<and> w' = w
     else
       (case run (updateCanisterName E (Canister_id c) projectId (Some (trim (draft l)))) s w of
          (Inl err, s1, w1) \<Rightarrow>
            s' = s1\<lparr>toasts := toasts s1 @ [(''Failed to update canister name'', error_message err)]\<rparr> \<and> w' = w1
        | (Inr _, s1, w1) \<Rightarrow> s' = s1\<lparr>toasts := toasts s1 @ [(''Canister name updated'', [])]\<rparr> \<and> w' = w1))"
proof -
  have same: "l\<lparr>isSaving := False\<rparr> = l" using assms(2) by simp
  obtain r1 s1 w1 where upd: "run (updateCanisterName E (Canister_id c) projectId (Some (trim (draft l)))) s w = (r1, s1, w1)"
    by (metis prod.collapse)
  with assms(1) same show ?thesis
    by (cases r1) (auto simp: onSave_def canSave_def Let_def run_simps add_toast split: if_splits)
qed

definition renamed_canister :: Canister where
  "renamed_canister = \<lparr>Canister_id = ''c1'', Canister_principal = ''aaaaa-bbbbb-cai'', Canister_name = Some ''web'',
     Canister_state = Inaccessible, Canister_deletedAt = None\<rparr>"

theorem onSave_trimmed_witness:
  "run (onSave offline renamed_canister ''p1'') (\<lparr>draft = '' web '', isSaving = False, isClearing = False\<rparr>, admin_session) 0 =
    (Inr (), (\<lparr>draft = '' web '', isSaving = False, isClearing = False\<rparr>, admin_session), 0)"
proof -
  let ?l = "\<lparr>draft = '' web '', isSaving = False, isClearing = False\<rparr>"
  have same: "trim (draft ?l) = canister_name renamed_canister"
    by (simp add: trim_def trim_start_def trim_end_def is_space_def canister_name_def renamed_canister_def)
  obtain r l' s' w' where run: "run (onSave offline renamed_canister ''p1'') (?l, admin_session) 0 = (r, (l', s'), w')"
    by (metis prod.collapse)
  from onSave_trimmed [OF run] same have "r = Inr () \<and> l' = ?l \<and> s' = admin_session \<and> w' = 0" by simp
  with run show ?thesis by simp
qed

text \<open>While a new name is being saved the button that saves stays enabled: its own \<open>disabled\<close> prop takes the
  place of the one \<open>LoadingButton\<close> derives from \<open>isLoading\<close>, so the name can be sent again.\<close>

theorem save_enabled_while_saving:
  "SaveName \<in> set (enabled (RenameCanisterCard c l)) \<longleftrightarrow> canSave c l \<and> \<not> isClearing l"
  by (auto simp: RenameCanisterCard_def SectionCard_def disabled_def given_def)

section \<open>Names of controllers\<close>

lemma js_map_get_simps [simp]:
  "js_map_get k [] = None" "js_map_get k ((k', v) # m) = (if k = k' then Some v else js_map_get k m)"
  by (simp_all add: js_map_get_def)

text \<open>The name a list of canisters gives a principal: that of the last one with a name.\<close>

definition name_among :: "Canister list \<Rightarrow> string \<Rightarrow> string option" where
  "name_among cs p = Option.bind (List.find (\<lambda>c. Canister_principal c = p \<and> Canister_name c \<noteq> None) (rev cs)) Canister_name"

lemma find_append: "List.find P (xs @ ys) = (case List.find P xs of Some x \<Rightarrow> Some x | None \<Rightarrow> List.find P ys)"
  by (induction xs) auto

lemma names_of_canisters:
  "js_map_get p (foldl (\<lambda>m c. case Canister_name c of Some n \<Rightarrow> js_map_set (Canister_principal c) n m | None \<Rightarrow> m) m cs) =
     (case name_among cs p of Some n \<Rightarrow> Some n | None \<Rightarrow> js_map_get p m)"
  by (induction cs arbitrary: m rule: rev_induct)
    (auto simp: name_among_def js_map_get_set split: option.split)

lemma names_of_profiles:
  "js_map_wf ps \<Longrightarrow>
     js_map_get p (foldl (\<lambda>m (principal, prof). if js_map_has principal m then m
         else if profile_email prof \<noteq> [] then js_map_set principal (profile_email prof) m else m) m ps) =
       (case js_map_get p m of
          Some n \<Rightarrow> Some n
        | None \<Rightarrow> (case js_map_get p ps of
            Some prof \<Rightarrow> if profile_email prof \<noteq> [] then Some (profile_email prof) else None
          | None \<Rightarrow> None))"
proof (induction ps arbitrary: m)
  case (Cons pp ps)
  obtain q prof where pp: "pp = (q, prof)" by force
  from Cons.prems pp have wf: "js_map_wf ps" and fresh: "q \<notin> fst ` set ps" by (auto simp: js_map_wf_def)
  from fresh have "js_map_get q ps = None" by (auto simp: js_map_get_def map_of_eq_None_iff)
  with Cons.IH [OF wf] show ?case
    by (auto simp: pp js_map_has_get js_map_get_set split: option.split)
qed (simp split: option.split)

text \<open>A controller is shown under the name of the canister that has its principal, else, if it is the backend,
  as the console, else under the e-mail address of its user, and without a name otherwise.\<close>

theorem controllerNames_priority:
  assumes "js_map_wf profiles"
  shows "js_map_get p (controllerNames E cs profiles) =
    (case name_among cs p of
       Some n \<Rightarrow> Some n
     | None \<Rightarrow>
         if p = BACKEND_CANISTER_ID E then Some ''Swiss Subnet Console''
         else case js_map_get p profiles of
             Some prof \<Rightarrow> if profile_email prof \<noteq> [] then Some (profile_email prof) else None
           | None \<Rightarrow> None)"
  unfolding controllerNames_def Let_def names_of_profiles [OF assms] names_of_canisters
  by (auto split: option.split)

theorem controllerNames_priority_witness:
  "js_map_get ''a-'' (controllerNames offline [renamed_canister] [(''b-'', None)]) = Some ''Swiss Subnet Console''"
  using controllerNames_priority [of "[(''b-'', None)]" "''a-''" offline "[renamed_canister]"]
  by (simp add: js_map_wf_def name_among_def renamed_canister_def offline_def)

end
