(* ===== verification/ProposalPages.thy ===== *)
theory ProposalPages
  imports UI Samples CanisterStore OrgStore
begin

text \<open>
  The pages of the proposals of a project: \<open>routes/proposals/proposal-detail.tsx\<close>, \<open>proposal-list.tsx\<close> and
  \<open>proposal-status-badge.tsx\<close>.
\<close>

section \<open>Status badge\<close>

definition badgeVariant :: "ProposalStatusKind option \<Rightarrow> string" where
  "badgeVariant kind =
     (case kind of
        None \<Rightarrow> ''secondary''
      | Some k \<Rightarrow>
          (case k of
             Kind_Executed \<Rightarrow> ''success''
           | Kind_Failed \<Rightarrow> ''destructive''
           | Kind_Rejected \<Rightarrow> ''destructive''
           | Kind_Cancelled \<Rightarrow> ''destructive''
           | Kind_Open \<Rightarrow> ''outline''
           | Kind_PendingApproval \<Rightarrow> ''outline''
           | Kind_Executing \<Rightarrow> ''outline''))"

definition ProposalStatusBadge :: "ProposalStatus option \<Rightarrow> 'ev view" where
  "ProposalStatusBadge status =
     Elem ''Badge'' [Attr ''variant'' (badgeVariant (map_option status_kind status))] [Text (proposalStatusLabel status)]"

section \<open>Texts of a proposal\<close>

definition shortenPrincipal :: "string \<Rightarrow> string" where
  "shortenPrincipal p = (if length p \<le> 16 then p else take 8 p @ ellipsis @ drop (length p - 6) p)"

definition updatedAtLabel :: "ProposalStatus option \<Rightarrow> string" where
  "updatedAtLabel status =
     (if status = None \<or> map_option status_kind status = Some Kind_Open \<or>
         map_option status_kind status = Some Kind_PendingApproval
      then ''Last activity'' else ''Decided'')"

definition describeOperation :: "Proposal \<Rightarrow> string" where
  "describeOperation p =
     (case Proposal_operation p of
        None \<Rightarrow> ''Unknown operation''
      | Some CreateCanister \<Rightarrow> ''Create a new canister in this project.''
      | Some (AddCanisterController canisterId controllerId) \<Rightarrow>
          ''Add '' @ shortenPrincipal controllerId @ '' as a controller of '' @ shortenPrincipal canisterId @ ''.'')"

definition renderProfileLabel :: "string \<Rightarrow> UserProfileBrief option \<Rightarrow> string" where
  "renderProfileLabel uid brief =
     (case Option.bind brief UserProfileBrief_email of
        Some e \<Rightarrow> if e \<noteq> [] then e else shortenPrincipal uid
      | None \<Rightarrow> shortenPrincipal uid)"

section \<open>The page of a proposal\<close>

type_synonym profile_map = "(string, UserProfileBrief option) js_map"

record ProposalDetailState =
  proposal :: "Proposal option"
  isLoading :: bool
  profileMap :: profile_map
  pendingVote :: "Vote option"
  isCancelling :: bool

definition ProposalDetail_load :: "'w env \<Rightarrow> string \<Rightarrow> (ProposalDetailState, 'w, unit) page_task" where
  "ProposalDetail_load E proposalId =
     await (set_local (\<lambda>l. l\<lparr>isLoading := True\<rparr>)) (\<lambda>_.
     try_finally
       (try_catch
         (await (on_store (getProposal E proposalId)) (\<lambda>p. set_local (\<lambda>l. l\<lparr>proposal := Some p\<rparr>)))
         (error_toast ''Failed to load proposal''))
       (set_local (\<lambda>l. l\<lparr>isLoading := False\<rparr>)))"

text \<open>The ids asked for: a \<open>Set\<close>, in the order of insertion.\<close>

definition unresolved :: "Proposal option \<Rightarrow> profile_map \<Rightarrow> string list" where
  "unresolved p profiles =
     (case Option.bind p Proposal_status of
        Some (Status_PendingApproval threshold approvers votes) \<Rightarrow>
          fold (\<lambda>uid ids. if js_map_has uid profiles \<or> uid \<in> set ids then ids else ids @ [uid])
            (approvers @ map ProposalVoteRecord_voter votes) []
      | _ \<Rightarrow> [])"

definition add_briefs :: "UserProfileBrief list \<Rightarrow> profile_map \<Rightarrow> profile_map" where
  "add_briefs briefs prev = foldl (\<lambda>m brief. js_map_set (UserProfileBrief_id brief) (Some brief) m) prev briefs"

text \<open>
  The effect that looks up the profiles of the voters. It depends on the map, and a successful lookup sets a
  new \<open>Map\<close> object, so that it runs again; it returns whether it does. \<open>resolve_rounds n\<close> are the first \<open>n\<close>
  runs of the effect; they return whether the last of them was not followed by another.
\<close>

definition resolve_profiles :: "'w env \<Rightarrow> string \<Rightarrow> (ProposalDetailState, 'w, bool) page_task" where
  "resolve_profiles E projectId =
     get_state (\<lambda>(l, _).
       let userIds = unresolved (proposal l) (profileMap l) in
       if length userIds = 0 then ret False
       else
         try_catch
           (await (on_store (getUserProfilesByUserIds E projectId userIds)) (\<lambda>briefs.
            await (set_local (\<lambda>l. l\<lparr>profileMap := add_briefs briefs (profileMap l)\<rparr>)) (\<lambda>_.
            ret True)))
           (\<lambda>err. await (error_toast ''Failed to resolve voter profiles'' err) (\<lambda>_. ret False)))"

primrec resolve_rounds :: "nat \<Rightarrow> 'w env \<Rightarrow> string \<Rightarrow> (ProposalDetailState, 'w, bool) page_task" where
  "resolve_rounds 0 E projectId = ret False"
| "resolve_rounds (Suc n) E projectId =
     await (resolve_profiles E projectId) (\<lambda>again. if again then resolve_rounds n E projectId else ret True)"

definition my_user_id :: "AppSlice \<Rightarrow> string option" where
  "my_user_id s = map_option UserProfile_id (profile s)"

definition canVote :: "AppSlice \<Rightarrow> string \<Rightarrow> Proposal option \<Rightarrow> bool" where
  "canVote s projectId p \<longleftrightarrow>
     (case Option.bind p Proposal_status of
        Some (Status_PendingApproval threshold approvers votes) \<Rightarrow>
          (case js_map_get projectId (selectProjectMap s) of
             Some project \<Rightarrow> proposalApprove (Project_yourPermissions project) | None \<Rightarrow> False) \<and>
          (case my_user_id s of
             Some uid \<Rightarrow> uid \<noteq> [] \<and> uid \<in> set approvers \<and> \<not> list_ex (\<lambda>v. ProposalVoteRecord_voter v = uid) votes
           | None \<Rightarrow> False)
      | _ \<Rightarrow> False)"

definition canCancel :: "AppSlice \<Rightarrow> string \<Rightarrow> Proposal option \<Rightarrow> bool" where
  "canCancel s projectId p \<longleftrightarrow>
     (let isProposer = (case profile s of
              Some me \<Rightarrow> (case p of Some q \<Rightarrow> Proposal_proposerId q = Some (UserProfile_id me) | None \<Rightarrow> False)
            | None \<Rightarrow> False);
          isProjectAdmin = (case js_map_get projectId (selectProjectMap s) of
              Some project \<Rightarrow> projectAdmin (Project_yourPermissions project) | None \<Rightarrow> False)
      in (isProposer \<or> isProjectAdmin) \<and> isProposalActionable (Option.bind p Proposal_status))"

text \<open>An id that is the empty string counts as none.\<close>

definition onVote :: "'w env \<Rightarrow> string \<Rightarrow> Vote \<Rightarrow> (ProposalDetailState, 'w, unit) page_task" where
  "onVote E proposalId vote =
     (if proposalId = [] then ret ()
      else
        await (set_local (\<lambda>l. l\<lparr>pendingVote := Some vote\<rparr>)) (\<lambda>_.
        try_finally
          (try_catch
            (await (on_store (voteProposal E proposalId vote)) (\<lambda>updated.
             await (set_local (\<lambda>l. l\<lparr>proposal := Some updated\<rparr>)) (\<lambda>_.
             on_store (showSuccessToast (if vote = Approve then ''Approved'' else ''Rejected'') ''Your vote was recorded.''))))
            (error_toast ''Failed to record vote''))
          (set_local (\<lambda>l. l\<lparr>pendingVote := None\<rparr>))))"

definition onCancel :: "'w env \<Rightarrow> string \<Rightarrow> (ProposalDetailState, 'w, unit) page_task" where
  "onCancel E proposalId =
     (if proposalId = [] then ret ()
      else
        await (set_local (\<lambda>l. l\<lparr>isCancelling := True\<rparr>)) (\<lambda>_.
        try_finally
          (try_catch
            (await (on_store (cancelProposal E proposalId)) (\<lambda>updated.
             await (set_local (\<lambda>l. l\<lparr>proposal := Some updated\<rparr>)) (\<lambda>_.
             success_toast ''Proposal cancelled'')))
            (error_toast ''Failed to cancel proposal''))
          (set_local (\<lambda>l. l\<lparr>isCancelling := False\<rparr>))))"

datatype ProposalDetailEvent = VoteClicked Vote | CancelClicked

definition row_of :: "string \<Rightarrow> 'ev view list \<Rightarrow> 'ev view" where
  "row_of label vs = Elem ''div'' [] [Elem ''dt'' [] [Text label], Elem ''dd'' [] vs]"

definition ProposalDetail_facts :: "Browser \<Rightarrow> Proposal \<Rightarrow> 'ev view" where
  "ProposalDetail_facts B p =
     Elem ''dl'' []
       ([row_of ''Proposer'' [Text (case Proposal_proposerId p of Some k \<Rightarrow> k | None \<Rightarrow> em_dash)],
         row_of ''ID'' [Text (Proposal_id p)],
         row_of ''Created'' [Text
           (case Proposal_createdAtNanos p of Some t \<Rightarrow> formatTimestamp (dateToLocale B) t | None \<Rightarrow> em_dash)]] @
        (case Proposal_updatedAtNanos p of
           Some t \<Rightarrow> given (Proposal_updatedAtNanos p \<noteq> Proposal_createdAtNanos p)
             [row_of (updatedAtLabel (Proposal_status p)) [Text (formatTimestamp (dateToLocale B) t)]]
         | None \<Rightarrow> []) @
        (case Proposal_status p of Some (Status_Failed message) \<Rightarrow> [row_of ''Reason'' [Text message]] | _ \<Rightarrow> []))"

definition ProposalDetail_actions :: "bool \<Rightarrow> bool \<Rightarrow> ProposalDetailState \<Rightarrow> ProposalDetailEvent view list" where
  "ProposalDetail_actions may_vote may_cancel l =
     given (may_vote \<or> may_cancel)
       [Elem ''div'' []
         (given may_vote
           [Elem ''LoadingButton'' [Flag ''isLoading'' (pendingVote l = Some Approve),
              Flag ''disabled'' (pendingVote l \<noteq> None \<or> isCancelling l), On ''click'' (VoteClicked Approve)] [Text ''Approve''],
            Elem ''LoadingButton'' [Flag ''isLoading'' (pendingVote l = Some Reject),
              Flag ''disabled'' (pendingVote l \<noteq> None \<or> isCancelling l), On ''click'' (VoteClicked Reject)] [Text ''Reject'']] @
          given may_cancel
           [Elem ''LoadingButton'' [Flag ''isLoading'' (isCancelling l),
              Flag ''disabled'' (isCancelling l \<or> pendingVote l \<noteq> None), On ''click'' CancelClicked]
              [Text ''Cancel proposal'']])]"

definition count_votes :: "Vote \<Rightarrow> ProposalVoteRecord list \<Rightarrow> nat" where
  "count_votes v votes = length (filter (\<lambda>r. ProposalVoteRecord_vote r = v) votes)"

definition ProposalDetail_approvals ::
    "string option \<Rightarrow> profile_map \<Rightarrow> int \<Rightarrow> string list \<Rightarrow> ProposalVoteRecord list \<Rightarrow> 'ev view" where
  "ProposalDetail_approvals me profiles threshold approvers votes =
     Elem ''Card'' []
       [Elem ''CardHeader'' []
         [Elem ''CardTitle'' []
           [Text ''Approvals'', Text '' '',
            Elem ''span'' [] [Text (decimal (count_votes Approve votes)), Text '' / '', Text (bigint_text threshold)],
            Elem ''span'' []
              [Text ''Rejections'', Text '' '', Text (decimal (count_votes Reject votes)), Text '' / '',
               Text (bigint_text (max (int (length approvers) - threshold) 0))]]],
        Elem ''CardContent'' []
         [Elem ''Table'' []
           [Elem ''TableHeader'' []
             [Elem ''TableRow'' [] [Elem ''TableHead'' [] [Text ''Approver''], Elem ''TableHead'' [] [Text ''Vote'']]],
            Elem ''TableBody'' [] (map (\<lambda>userId.
              let vote = map_option ProposalVoteRecord_vote (List.find (\<lambda>v. ProposalVoteRecord_voter v = userId) votes) in
              Elem ''TableRow'' []
                [Elem ''TableCell'' []
                  (Elem ''span'' [] [Text (renderProfileLabel userId (case js_map_get userId profiles of Some b \<Rightarrow> b | None \<Rightarrow> None))] #
                   given (Some userId = me) [Elem ''span'' [] [Text ''(you)'']]),
                 Elem ''TableCell'' []
                  [if vote = Some Approve then Elem ''Badge'' [Attr ''variant'' ''success''] [Text ''Approved'']
                   else if vote = Some Reject then Elem ''Badge'' [Attr ''variant'' ''destructive''] [Text ''Rejected'']
                   else Elem ''Badge'' [Attr ''variant'' ''outline''] [Text ''Pending'']]]) approvers)]]]"

definition project_crumbs :: "AppSlice \<Rightarrow> string \<Rightarrow> (string \<times> string option) list" where
  "project_crumbs s projectId =
     (let project = js_map_get projectId (selectProjectMap s);
          organization = Option.bind project (\<lambda>p. js_map_get (Project_orgId p) (selectOrgMap s))
      in (case organization of
            Some org \<Rightarrow> [(Organization_name org, Some (''/organizations/'' @ Organization_id org @ ''/settings''))]
          | None \<Rightarrow> []) @
         [(case project of Some p \<Rightarrow> Project_name p | None \<Rightarrow> ''Project'', None)])"

definition ProposalDetail_card ::
    "Browser \<Rightarrow> AppSlice \<Rightarrow> string \<Rightarrow> ProposalDetailState \<Rightarrow> Proposal \<Rightarrow> ProposalDetailEvent view" where
  "ProposalDetail_card B s projectId l p =
     Elem ''Card'' []
       [Elem ''CardHeader'' [] [Elem ''CardTitle'' [] [Text ''Operation'']],
        Elem ''CardContent'' []
         ([Elem ''div'' []
            [Elem ''p'' [] [Text (proposalOperationLabel (Proposal_operation p))],
             Elem ''p'' [] [Text (describeOperation p)]],
           ProposalDetail_facts B p] @
          ProposalDetail_actions (canVote s projectId (Some p)) (canCancel s projectId (Some p)) l)]"

definition ProposalDetail ::
    "Browser \<Rightarrow> AppSlice \<Rightarrow> string \<Rightarrow> string option \<Rightarrow> ProposalDetailState \<Rightarrow> ProposalDetailEvent view" where
  "ProposalDetail B s projectId proposalId l =
     (case proposalId of
        None \<Rightarrow> Elem ''p'' [] [Text ''Missing proposal id.'']
      | Some pid \<Rightarrow>
          Elem ''Fragment'' []
            [Breadcrumbs (project_crumbs s projectId @
               [(''Proposals'', Some (''/projects/'' @ projectId @ ''/proposals'')), (shortenPrincipal pid, None)]),
             Elem ''div'' []
               (Elem ''H1'' [] [Text ''Proposal''] #
                (case proposal l of Some p \<Rightarrow> [ProposalStatusBadge (Proposal_status p)] | None \<Rightarrow> [])),
             case proposal l of
               None \<Rightarrow> Elem ''p'' [] [Text (if isLoading l then ''Loading'' @ ellipsis else ''Proposal not found.'')]
             | Some p \<Rightarrow>
                 Elem ''div'' []
                   (ProposalDetail_card B s projectId l p #
                    (case Proposal_status p of
                       Some (Status_PendingApproval threshold approvers votes) \<Rightarrow>
                         [ProposalDetail_approvals (my_user_id s) (profileMap l) threshold approvers votes]
                     | _ \<Rightarrow> []))])"

section \<open>The list of proposals\<close>

definition PROPOSALS_PAGE_SIZE :: int where
  "PROPOSALS_PAGE_SIZE = 25"

datatype FilterTab = Tab_all | Tab_open | Tab_closed

definition FILTER_TABS :: "(FilterTab \<times> string \<times> ProposalStatusKind list option) list" where
  "FILTER_TABS =
     [(Tab_all, ''All'', None), (Tab_open, ''Open'', Some PROPOSAL_OPEN_FILTER),
      (Tab_closed, ''Closed'', Some PROPOSAL_CLOSED_FILTER)]"

definition tab_filter :: "FilterTab \<Rightarrow> ProposalStatusKind list option" where
  "tab_filter tab = (case List.find (\<lambda>(t, _). t = tab) FILTER_TABS of Some (_, _, f) \<Rightarrow> f | None \<Rightarrow> None)"

definition shorten :: "string \<Rightarrow> string" where
  "shorten k = (if length k \<le> 10 then k else take 6 k @ ellipsis @ drop (length k - 4) k)"

record ProposalListState =
  activeTab :: FilterTab
  proposals :: "Proposal list"
  nextCursor :: "string option"
  isLoadingList :: bool
  isLoadingMore :: bool

definition ProposalList_initial :: ProposalListState where
  "ProposalList_initial =
     \<lparr>activeTab = Tab_all, proposals = [], nextCursor = None, isLoadingList = False, isLoadingMore = False\<rparr>"

definition page_request :: "string \<Rightarrow> FilterTab \<Rightarrow> string option \<Rightarrow> ListProjectProposalsRequest" where
  "page_request projectId tab after =
     \<lparr>ListProjectProposalsRequest_projectId = projectId, ListProjectProposalsRequest_statusFilter = tab_filter tab,
      ListProjectProposalsRequest_after = after, ListProjectProposalsRequest_limit = Some PROPOSALS_PAGE_SIZE\<rparr>"

text \<open>The effect that follows a change of the tab; the filter is the one of the tab it ran for.\<close>

definition loadFirstPage :: "'w env \<Rightarrow> string \<Rightarrow> FilterTab \<Rightarrow> (ProposalListState, 'w, unit) page_task" where
  "loadFirstPage E projectId tab =
     await (set_local (\<lambda>l. l\<lparr>isLoadingList := True, proposals := [], nextCursor := None\<rparr>)) (\<lambda>_.
     try_finally
       (try_catch
         (await (on_store (listProjectProposals E (page_request projectId tab None))) (\<lambda>res.
          set_local (\<lambda>l. l\<lparr>proposals := ListProjectProposalsResponse_proposals res,
            nextCursor := ListProjectProposalsResponse_nextCursor res\<rparr>)))
         (error_toast ''Failed to load proposals''))
       (set_local (\<lambda>l. l\<lparr>isLoadingList := False\<rparr>)))"

definition select_tab :: "'w env \<Rightarrow> string \<Rightarrow> FilterTab \<Rightarrow> (ProposalListState, 'w, unit) page_task" where
  "select_tab E projectId tab =
     await (set_local (\<lambda>l. l\<lparr>activeTab := tab\<rparr>)) (\<lambda>_. loadFirstPage E projectId tab)"

definition onLoadMore :: "'w env \<Rightarrow> string \<Rightarrow> (ProposalListState, 'w, unit) page_task" where
  "onLoadMore E projectId =
     get_state (\<lambda>(l, _).
       case nextCursor l of
         None \<Rightarrow> ret ()
       | Some cursor \<Rightarrow>
           await (set_local (\<lambda>l. l\<lparr>isLoadingMore := True\<rparr>)) (\<lambda>_.
           try_finally
             (try_catch
               (await (on_store (listProjectProposals E (page_request projectId (activeTab l) (Some cursor)))) (\<lambda>res.
                set_local (\<lambda>l. l\<lparr>proposals := proposals l @ ListProjectProposalsResponse_proposals res,
                  nextCursor := ListProjectProposalsResponse_nextCursor res\<rparr>)))
               (error_toast ''Failed to load more proposals''))
             (set_local (\<lambda>l. l\<lparr>isLoadingMore := False\<rparr>))))"

datatype ProposalListEvent = TabSelected FilterTab | OpenDetail string | LoadMore

text \<open>Where the row of a proposal leads.\<close>

definition openDetail :: "string \<Rightarrow> string \<Rightarrow> string" where
  "openDetail projectId proposalId = ''/projects/'' @ projectId @ ''/proposals/'' @ proposalId"

definition ProposalList_row :: "Browser \<Rightarrow> Proposal \<Rightarrow> ProposalListEvent view" where
  "ProposalList_row B p =
     Elem ''TableRow'' [On ''click'' (OpenDetail (Proposal_id p))]
       [Elem ''TableCell'' [] [ProposalStatusBadge (Proposal_status p)],
        Elem ''TableCell'' [] [Text (proposalOperationLabel (Proposal_operation p))],
        Elem ''TableCell'' [] [Text (case Proposal_proposerId p of Some k \<Rightarrow> shorten k | None \<Rightarrow> em_dash)],
        Elem ''TableCell'' [] [Text
          (case Proposal_createdAtNanos p of Some t \<Rightarrow> formatTimestamp (dateToLocale B) t | None \<Rightarrow> em_dash)],
        Elem ''TableCell'' [] [Text (shorten (Proposal_id p))]]"

definition ProposalList :: "Browser \<Rightarrow> AppSlice \<Rightarrow> string \<Rightarrow> ProposalListState \<Rightarrow> ProposalListEvent view" where
  "ProposalList B s projectId l =
     Elem ''Fragment'' []
       ([Breadcrumbs (project_crumbs s projectId @ [(''Proposals'', None)]),
         Elem ''H1'' [] [Text ''Proposals''],
         Elem ''div'' [] (map (\<lambda>(tab, label, _).
           Elem ''Button'' [Attr ''variant'' (if tab = activeTab l then ''secondary'' else ''ghost''),
             Flag ''aria-selected'' (tab = activeTab l), On ''click'' (TabSelected tab)] [Text label]) FILTER_TABS),
         Elem ''Table'' []
           [Elem ''TableHeader'' []
             [Elem ''TableRow'' []
               (map (\<lambda>h. Elem ''TableHead'' [] [Text h]) [''Status'', ''Operation'', ''Proposer'', ''Created'', ''ID''])],
            Elem ''TableBody'' []
             (if isLoadingList l \<and> length (proposals l) = 0 then
                [Elem ''TableRow'' [] [Elem ''TableCell'' [] [Text (''Loading proposals'' @ ellipsis)]]]
              else if length (proposals l) = 0 then
                [Elem ''TableRow'' [] [Elem ''TableCell'' [] [Text ''No proposals to show.'']]]
              else map (ProposalList_row B) (proposals l))]] @
        (case nextCursor l of
           Some c \<Rightarrow> given (c \<noteq> [])
             [Elem ''div'' []
               [Elem ''LoadingButton'' [Flag ''isLoading'' (isLoadingMore l), On ''click'' LoadMore] [Text ''Load more'']]]
         | None \<Rightarrow> []))"

section \<open>Who may vote and cancel\<close>

lemma enabled_actions:
  "ev \<in> set (concat (map enabled (ProposalDetail_actions a b l))) \<longleftrightarrow>
     pendingVote l = None \<and> \<not> isCancelling l \<and> (case ev of VoteClicked v \<Rightarrow> a | CancelClicked \<Rightarrow> b)"
proof (cases "pendingVote l = None \<and> \<not> isCancelling l")
  case True
  then have free: "pendingVote l = None" "\<not> isCancelling l" by simp_all
  have "ev \<in> {VoteClicked Approve, VoteClicked Reject, CancelClicked}"
    by (cases ev; (use Vote.exhaust in blast)?)
  with free show ?thesis
    by (cases a; cases b) (auto simp: ProposalDetail_actions_def disabled_def [of "[]"])
next
  case False
  then have "pendingVote l \<noteq> None \<or> isCancelling l" "isCancelling l \<or> pendingVote l \<noteq> None" by auto
  then have "concat (map enabled (ProposalDetail_actions a b l)) = []"
    by (auto simp: ProposalDetail_actions_def given_def disabled_def [of "[]"])
  with False show ?thesis by auto
qed

text \<open>C21: The buttons of a proposal that are enabled are, while no vote and no cancellation is under way: those to
  vote, for a member with the permission to approve who is one of the approvers and has not voted yet, and
  the one to cancel, for the proposer and for administrators of the project as long as the proposal is open
  or waits for approval.\<close>

theorem proposal_buttons:
  "ev \<in> set (enabled (ProposalDetail_card B s projectId l p)) \<longleftrightarrow>
     pendingVote l = None \<and> \<not> isCancelling l \<and>
     (case ev of
        VoteClicked v \<Rightarrow>
          (\<exists>threshold approvers votes uid project. Proposal_status p = Some (Status_PendingApproval threshold approvers votes) \<and>
             my_user_id s = Some uid \<and> uid \<noteq> [] \<and> uid \<in> set approvers \<and> uid \<notin> ProposalVoteRecord_voter ` set votes \<and>
             js_map_get projectId (selectProjectMap s) = Some project \<and> proposalApprove (Project_yourPermissions project))
      | CancelClicked \<Rightarrow>
          (Proposal_proposerId p \<noteq> None \<and> Proposal_proposerId p = my_user_id s \<or>
           (\<exists>project. js_map_get projectId (selectProjectMap s) = Some project \<and>
              projectAdmin (Project_yourPermissions project))) \<and>
          map_option status_kind (Proposal_status p) \<in> {Some Kind_Open, Some Kind_PendingApproval})"
proof -
  have facts: "enabled (ProposalDetail_facts B p) = ([] :: ProposalDetailEvent list)"
    by (auto simp: ProposalDetail_facts_def row_of_def given_def disabled_def split: option.split ProposalStatus.split)
  have "ev \<in> set (enabled (ProposalDetail_card B s projectId l p)) \<longleftrightarrow>
      pendingVote l = None \<and> \<not> isCancelling l \<and>
      (case ev of VoteClicked v \<Rightarrow> canVote s projectId (Some p) | CancelClicked \<Rightarrow> canCancel s projectId (Some p))"
    using enabled_actions [of ev "canVote s projectId (Some p)" "canCancel s projectId (Some p)" l]
    by (simp add: ProposalDetail_card_def facts disabled_def)
  moreover have "canVote s projectId (Some p) \<longleftrightarrow>
      (\<exists>threshold approvers votes uid project. Proposal_status p = Some (Status_PendingApproval threshold approvers votes) \<and>
         my_user_id s = Some uid \<and> uid \<noteq> [] \<and> uid \<in> set approvers \<and> uid \<notin> ProposalVoteRecord_voter ` set votes \<and>
         js_map_get projectId (selectProjectMap s) = Some project \<and> proposalApprove (Project_yourPermissions project))"
    by (auto simp: canVote_def list_ex_iff split: option.splits ProposalStatus.splits)
  moreover have "canCancel s projectId (Some p) \<longleftrightarrow>
      (Proposal_proposerId p \<noteq> None \<and> Proposal_proposerId p = my_user_id s \<or>
       (\<exists>project. js_map_get projectId (selectProjectMap s) = Some project \<and> projectAdmin (Project_yourPermissions project))) \<and>
      map_option status_kind (Proposal_status p) \<in> {Some Kind_Open, Some Kind_PendingApproval}"
    by (auto simp: canCancel_def my_user_id_def isProposalActionable_def split: option.splits)
  ultimately show ?thesis by (simp split: ProposalDetailEvent.split)
qed

section \<open>The lookup of profiles\<close>

lemma js_map_has_add_briefs:
  "js_map_has k (add_briefs briefs m) \<longleftrightarrow> k \<in> UserProfileBrief_id ` set briefs \<or> js_map_has k m"
  unfolding add_briefs_def by (induction briefs arbitrary: m) auto

lemma set_unresolved:
  "set (unresolved p profiles) =
     (case Option.bind p Proposal_status of
        Some (Status_PendingApproval threshold approvers votes) \<Rightarrow>
          {uid \<in> set approvers \<union> ProposalVoteRecord_voter ` set votes. \<not> js_map_has uid profiles}
      | _ \<Rightarrow> {})"
proof -
  have "set (fold (\<lambda>uid ids. if js_map_has uid profiles \<or> uid \<in> set ids then ids else ids @ [uid]) xs ids) =
      set ids \<union> {uid \<in> set xs. \<not> js_map_has uid profiles}" for xs ids
    by (induction xs arbitrary: ids) auto
  then show ?thesis by (auto simp: unresolved_def split: option.split ProposalStatus.split)
qed

lemma unresolved_after:
  "unresolved p (add_briefs briefs m) = [] \<longleftrightarrow> set (unresolved p m) \<subseteq> UserProfileBrief_id ` set briefs"
proof -
  have "unresolved p (add_briefs briefs m) = [] \<longleftrightarrow> set (unresolved p (add_briefs briefs m)) = {}" by simp
  then show ?thesis
    unfolding set_unresolved by (auto simp: js_map_has_add_briefs split: option.split ProposalStatus.split)
qed

lemma run_lookup:
  "run (getUserProfilesByUserIds E projectId ids) s w =
     (case get_user_profiles_by_user_ids (userProfileService E) (agentIdentity s)
        \<lparr>ApiGetUserProfilesByUserIdsRequest_project_id = projectId, ApiGetUserProfilesByUserIdsRequest_user_ids = ids\<rparr> w of
        (w', Inl msg) \<Rightarrow> (Inl (LibraryError msg), s, w')
      | (w', Inr res) \<Rightarrow> (mapGetUserProfilesByUserIdsResponse res, s, w'))"
  by (simp add: getUserProfilesByUserIds_def UserProfileApi_getUserProfilesByUserIds_def run_simps
      mapGetUserProfilesByUserIdsRequest_def)

lemma brief_ids:
  "mapGetUserProfilesByUserIdsResponse (Ok ok) = Inr briefs \<Longrightarrow>
     UserProfileBrief_id ` set briefs = ApiUserProfileBrief_id ` set (ApiUserProfilesByUserIds_profiles ok)"
  by (auto simp: mapGetUserProfilesByUserIdsResponse_def ok_map_Inr image_image)

lemma run_resolve_profiles:
  "run (resolve_profiles E projectId) (l, s) w =
     (let ids = unresolved (proposal l) (profileMap l) in
      if ids = [] then (Inr False, (l, s), w)
      else case run (getUserProfilesByUserIds E projectId ids) s w of
          (Inl e, s', w') \<Rightarrow> (Inr False, (l, toasts_update (\<lambda>ts. ts @ [(''Failed to resolve voter profiles'', error_message e)]) s'), w')
        | (Inr briefs, s', w') \<Rightarrow> (Inr True, (l\<lparr>profileMap := add_briefs briefs (profileMap l)\<rparr>, s'), w'))"
  by (simp add: resolve_profiles_def Let_def run_simps split: prod.split sum.split)


text \<open>C24: Where the backend leaves out an approver, as it does for users who are not members of the project, the
  effect never comes to rest: after any number of runs, each with a request of its own, it runs again.\<close>

theorem resolve_profiles_repeats:
  assumes "\<And>i q v. \<exists>ok. get_user_profiles_by_user_ids (userProfileService E) i q v = (Suc v, Inr (Ok ok)) \<and>
      uid \<notin> ApiUserProfileBrief_id ` set (ApiUserProfilesByUserIds_profiles ok)"
    and "proposal l = Some p" and "Proposal_status p = Some (Status_PendingApproval threshold approvers votes)"
    and "uid \<in> set approvers" and "\<not> js_map_has uid (profileMap l)"
  shows "\<exists>ls. run (resolve_rounds n E projectId) (l, s) w = (Inr False, ls, w + n)"
  using assms(2,5)
proof (induction n arbitrary: l w)
  case (Suc n)
  let ?ids = "unresolved (proposal l) (profileMap l)"
  have "uid \<in> set ?ids"
    unfolding set_unresolved using Suc.prems assms(3,4) by simp
  then have some: "?ids \<noteq> []" by auto
  obtain ok where
    ans: "get_user_profiles_by_user_ids (userProfileService E) (agentIdentity s)
      \<lparr>ApiGetUserProfilesByUserIdsRequest_project_id = projectId, ApiGetUserProfilesByUserIdsRequest_user_ids = ?ids\<rparr> w =
      (Suc w, Inr (Ok ok))" and left_out: "uid \<notin> ApiUserProfileBrief_id ` set (ApiUserProfilesByUserIds_profiles ok)"
    using assms(1) by blast
  obtain briefs where briefs: "mapGetUserProfilesByUserIdsResponse (Ok ok) = Inr briefs"
    by (auto simp: mapGetUserProfilesByUserIdsResponse_def ok_map_Inr)
  let ?l = "l\<lparr>profileMap := add_briefs briefs (profileMap l)\<rparr>"
  have "\<not> js_map_has uid (profileMap ?l)"
    using left_out Suc.prems(2) by (simp add: js_map_has_add_briefs brief_ids [OF briefs])
  from Suc.IH [OF _ this, of "Suc w"] Suc.prems(1) obtain ls where
    "run (resolve_rounds n E projectId) (?l, s) (Suc w) = (Inr False, ls, Suc w + n)" by auto
  then show ?case
    by (simp add: run_simps run_resolve_profiles run_lookup some ans briefs)
qed (simp add: run_simps)

section \<open>Two tabs\<close>

text \<open>C26: When the tab is changed while the list of another tab is still being loaded, and the answer for the old tab
  comes last, the page ends with the new tab active and the proposals of the old one.\<close>

theorem stale_tab_wins:
  assumes "\<And>i q v. reply (mapListProjectProposalsResponse E) (snd (list_project_proposals (proposalService E) i q v)) = Inr (answer q)"
    and "run (concurrently fin [Serve 1, Resume 1, Serve 0, Resume 0]
      [select_tab E projectId old_tab, select_tab E projectId new_tab] c) (l, s) w = (r, (l', s'), w')"
  shows "activeTab l' = new_tab \<and> isLoadingList l' = False \<and>
    proposals l' = ListProjectProposalsResponse_proposals
      (answer (mapListProjectProposalsRequest (page_request projectId old_tab None)))"
  using assms(2)
  by (auto simp: concurrently_def start_all_def upt_rec select_tab_def loadFirstPage_def listProjectProposals_def
      ProposalApi_listProjectProposals_def call_map_pending pending_def get_state_def set_local_def set_state_def
      await_def try_finally_def try_catch_def ret_def throw_def settle_def assms(1))

text \<open>Without a change of the tab, more of the list is added to what is shown, and a failure changes nothing, so that
  it can be tried again.\<close>

lemma onLoadMore_appends:
  assumes "run (onLoadMore E projectId) (l, s) w = (r, (l', s'), w')" and "\<not> isLoadingMore l"
  shows "r = Inr () \<and>
    (l' = l \<or> (\<exists>res :: ListProjectProposalsResponse. l' = l\<lparr>proposals := proposals l @ ListProjectProposalsResponse_proposals res,
       nextCursor := ListProjectProposalsResponse_nextCursor res\<rparr> \<and> s' = s))"
proof (cases "nextCursor l")
  case None
  with assms(1) show ?thesis by (simp add: onLoadMore_def run_simps)
next
  case (Some cursor)
  obtain r1 s1 w1 where more: "run (listProjectProposals E (page_request projectId (activeTab l) (Some cursor))) s w =
    (r1, s1, w1)" by (metis prod.collapse)
  have same: "s1 = s"
    using more by (auto simp: listProjectProposals_def ProposalApi_listProjectProposals_def run_simps
        split: prod.splits sum.splits)
  show ?thesis
  proof (cases r1)
    case (Inl e)
    with Some more assms show ?thesis by (cases l) (simp add: onLoadMore_def run_simps)
  next
    case (Inr res)
    with Some more assms same have "r = Inr ()" "s' = s"
      "l' = l\<lparr>proposals := proposals l @ ListProjectProposalsResponse_proposals res,
        nextCursor := ListProjectProposalsResponse_nextCursor res\<rparr>"
      by (cases l, simp add: onLoadMore_def run_simps)+
    then show ?thesis by (intro conjI disjI2 exI [of _ res])
  qed
qed

section \<open>Concrete runs\<close>

text \<open>A backend that counts its calls and leaves everybody out of its answers.\<close>

definition silent_backend :: "nat env" where
  "silent_backend = offline\<lparr>userProfileService := (userProfileService offline)
     \<lparr>get_user_profiles_by_user_ids := answering (Ok \<lparr>ApiUserProfilesByUserIds_profiles = []\<rparr>)\<rparr>,
     proposalService := (proposalService offline)
     \<lparr>list_project_proposals := answering (Ok \<lparr>ApiListProjectProposalsOk_proposals = [], ApiListProjectProposalsOk_next_cursor = []\<rparr>)\<rparr>\<rparr>"

definition waiting_proposal :: Proposal where
  "waiting_proposal = \<lparr>Proposal_id = ''p'', Proposal_projectId = ''p1'', Proposal_proposerId = None,
     Proposal_status = Some (Status_PendingApproval 1 [''u2''] []), Proposal_operation = None,
     Proposal_createdAtNanos = None, Proposal_updatedAtNanos = None\<rparr>"

definition waiting_page :: ProposalDetailState where
  "waiting_page = \<lparr>proposal = Some waiting_proposal, isLoading = False, profileMap = [], pendingVote = None,
     isCancelling = False\<rparr>"


theorem resolve_profiles_repeats_witness:
  "\<exists>ls. run (resolve_rounds 1000 silent_backend ''p1'') (waiting_page, admin_session) 0 = (Inr False, ls, 1000)"
  using resolve_profiles_repeats [of silent_backend "''u2''" waiting_page waiting_proposal 1 "[''u2'']" "[]" 1000 "''p1''" admin_session 0]
  by (simp add: silent_backend_def answering_def waiting_page_def waiting_proposal_def js_map_has_def)

theorem stale_tab_wins_witness:
  "activeTab (fst (fst (snd (run (concurrently (\<lambda>_ c. c) [Serve 1, Resume 1, Serve 0, Resume 0]
     [select_tab silent_backend ''p1'' Tab_open, select_tab silent_backend ''p1'' Tab_closed] ())
     (ProposalList_initial, admin_session) 0)))) = Tab_closed"
proof -
  obtain r l' s' w' where run: "run (concurrently (\<lambda>_ c. c) [Serve 1, Resume 1, Serve 0, Resume 0]
     [select_tab silent_backend ''p1'' Tab_open, select_tab silent_backend ''p1'' Tab_closed] ())
     (ProposalList_initial, admin_session) 0 = (r, (l', s'), w')" by (metis prod.collapse)
  have "reply (mapListProjectProposalsResponse silent_backend)
      (snd (list_project_proposals (proposalService silent_backend) i q v)) =
      Inr \<lparr>ListProjectProposalsResponse_proposals = [], ListProjectProposalsResponse_nextCursor = None\<rparr>" for i q v
    by (simp add: silent_backend_def answering_def reply_def mapListProjectProposalsResponse_def ok_map_def
        mapOkResponse_def fromCandidOpt_def)
  from stale_tab_wins [OF this run] have "activeTab l' = Tab_closed" by simp
  with run show ?thesis by simp
qed

end
