(* ===== verification/Editors.thy ===== *)
theory Editors
  imports UI Samples ProposalModels
begin

text \<open>
  The two editors that the settings of teams and projects are made with: of permissions,
  \<open>components/permissions-editor.tsx\<close>, and of approval policies, \<open>components/approval-policy-editor.tsx\<close>. Both
  edit a draft and give it to the task \<open>onSave\<close> their page passes them, which acts on the state \<open>'b\<close> of the page.
\<close>

section \<open>Permissions\<close>

text \<open>A field of a permission record: its label, its description, and how it is read and written.\<close>

record 'p permission_field =
  field_key :: string
  field_label :: string
  field_description :: string
  field_get :: "'p \<Rightarrow> bool"
  field_set :: "bool \<Rightarrow> 'p \<Rightarrow> 'p"

definition field_of ::
    "string \<Rightarrow> string \<Rightarrow> string \<Rightarrow> ('p \<Rightarrow> bool) \<Rightarrow> ((bool \<Rightarrow> bool) \<Rightarrow> 'p \<Rightarrow> 'p) \<Rightarrow> 'p permission_field" where
  "field_of key label description get update =
     \<lparr>field_key = key, field_label = label, field_description = description, field_get = get,
      field_set = (\<lambda>b. update (\<lambda>_. b))\<rparr>"

definition orgPermissionFields :: "OrgPermissions permission_field list" where
  "orgPermissionFields =
     [field_of ''orgAdmin'' ''Organization admin''
        ''Rename and delete the organization, and edit teams' organization permissions.'' orgAdmin orgAdmin_update,
      field_of ''memberManage'' ''Manage members''
        ''Invite, add, and remove organization members.'' memberManage memberManage_update,
      field_of ''teamManage'' ''Manage teams''
        ''Create, rename, and delete teams.'' teamManage teamManage_update,
      field_of ''projectCreate'' ''Create projects''
        ''Create new projects in the organization.'' projectCreate projectCreate_update,
      field_of ''billingManage'' ''Manage billing''
        ''View and change billing settings.'' billingManage billingManage_update]"

definition projectPermissionFields :: "ProjectPermissions permission_field list" where
  "projectPermissionFields =
     [field_of ''projectAdmin'' ''Project admin''
        (''Rename and delete the project, attach and detach teams, and edit '' @ ''teams' project permissions.'')
        projectAdmin projectAdmin_update,
      field_of ''projectSettings'' ''Edit settings''
        ''Rename the project and change settings.'' projectSettings projectSettings_update,
      field_of ''canisterManage'' ''Manage canisters''
        ''Create and remove canisters.'' canisterManage canisterManage_update,
      field_of ''canisterOperate'' ''Operate canisters''
        ''Start, stop, and install canisters.'' canisterOperate canisterOperate_update,
      field_of ''canisterRead'' ''Read canisters''
        ''View canister status and history.'' canisterRead canisterRead_update,
      field_of ''proposalCreate'' ''Create proposals''
        ''Create canister operation proposals.'' proposalCreate proposalCreate_update,
      field_of ''proposalApprove'' ''Approve proposals''
        ''Approve canister operation proposals.'' proposalApprove proposalApprove_update,
      field_of ''approvalPolicyManage'' ''Manage approval policy''
        ''Change the approval policy.'' approvalPolicyManage approvalPolicyManage_update]"

record 'p PermissionsEditorState =
  permissionsDraft :: 'p
  isSavingPermissions :: bool

text \<open>The effect that runs when the value has changed.\<close>

definition reset_permissions :: "'p \<Rightarrow> 'p PermissionsEditorState \<Rightarrow> 'p PermissionsEditorState" where
  "reset_permissions val l = l\<lparr>permissionsDraft := val\<rparr>"

definition permissions_dirty :: "'p permission_field list \<Rightarrow> 'p \<Rightarrow> 'p \<Rightarrow> bool" where
  "permissions_dirty fds draft val \<longleftrightarrow> list_ex (\<lambda>f. field_get f draft \<noteq> field_get f val) fds"

definition permission_toggle :: "'p permission_field \<Rightarrow> 'p PermissionsEditorState \<Rightarrow> 'p PermissionsEditorState" where
  "permission_toggle f l =
     l\<lparr>permissionsDraft := field_set f (\<not> field_get f (permissionsDraft l)) (permissionsDraft l)\<rparr>"

definition PermissionsEditor_handleSave ::
    "string \<Rightarrow> ('p \<Rightarrow> ('b, 'w, unit) page_task) \<Rightarrow> ('p PermissionsEditorState \<times> 'b, 'w, unit) page_task" where
  "PermissionsEditor_handleSave errorToastTitle onSave =
     await (set_local (apfst (\<lambda>l. l\<lparr>isSavingPermissions := True\<rparr>))) (\<lambda>_.
     try_finally
       (try_catch (get_state (\<lambda>((l, _), _). on_page (onSave (permissionsDraft l)))) (error_toast errorToastTitle))
       (set_local (apfst (\<lambda>l. l\<lparr>isSavingPermissions := False\<rparr>))))"

datatype PermissionsEditorEvent = PermissionToggled string | SavePermissions

definition PermissionsEditor ::
    "'p \<Rightarrow> 'p permission_field list \<Rightarrow> bool \<Rightarrow> 'p PermissionsEditorState \<Rightarrow> PermissionsEditorEvent view" where
  "PermissionsEditor val fds locked l =
     Elem ''div'' []
       [Elem ''div'' [] (map (\<lambda>f.
          Elem ''div'' []
            [Elem ''input'' [Flag ''disabled'' (locked \<or> isSavingPermissions l),
               Flag ''checked'' (field_get f (permissionsDraft l)), On ''change'' (PermissionToggled (field_key f))] [],
             Elem ''div'' []
               (Elem ''Label'' [] [Text (field_label f)] #
                given (field_description f \<noteq> []) [Elem ''p'' [] [Text (field_description f)]])]) fds),
        Elem ''LoadingButton''
          [Flag ''isLoading'' (isSavingPermissions l),
           Flag ''disabled'' (\<not> permissions_dirty fds (permissionsDraft l) val \<or> locked), On ''click'' SavePermissions]
          [Text ''Save Permissions'']]"

section \<open>Approval policies\<close>

text \<open>\<open>Number.parseInt(s, 10)\<close>: leading white space, a sign, digits; the rest is ignored; \<open>None\<close> is \<open>NaN\<close>.\<close>

definition parse_int :: "string \<Rightarrow> int option" where
  "parse_int s =
     (let t = trim_start s;
          negative = (take 1 t = ''-'');
          u = (if take 1 t = ''-'' \<or> take 1 t = ''+'' then drop 1 t else t);
          digits = takeWhile is_digit u
      in if digits = [] then None
         else let n = js_Number (int (decimal_value digits)) in Some (if negative then - n else n))"

datatype DraftKind = Draft_AutoApprove | Draft_FixedQuorum

record ApprovalPolicyEditorState =
  draftKind :: DraftKind
  thresholdText :: string
  isSavingPolicy :: bool

fun kind_of_policy :: "ApprovalPolicyType \<Rightarrow> DraftKind" where
  "kind_of_policy AutoApprove = Draft_AutoApprove"
| "kind_of_policy (FixedQuorum threshold) = Draft_FixedQuorum"

fun threshold_text :: "ApprovalPolicyType \<Rightarrow> string" where
  "threshold_text AutoApprove = ''1''"
| "threshold_text (FixedQuorum threshold) = bigint_text threshold"

definition ApprovalPolicyEditor_initial :: "ApprovalPolicyType \<Rightarrow> ApprovalPolicyEditorState" where
  "ApprovalPolicyEditor_initial val =
     \<lparr>draftKind = kind_of_policy val, thresholdText = threshold_text val, isSavingPolicy = False\<rparr>"

definition reset_policy :: "ApprovalPolicyType \<Rightarrow> ApprovalPolicyEditorState \<Rightarrow> ApprovalPolicyEditorState" where
  "reset_policy val l = l\<lparr>draftKind := kind_of_policy val, thresholdText := threshold_text val\<rparr>"

definition thresholdValid :: "ApprovalPolicyEditorState \<Rightarrow> bool" where
  "thresholdValid l \<longleftrightarrow> (case parse_int (thresholdText l) of Some t \<Rightarrow> t > 0 | None \<Rightarrow> False)"

text \<open>The draft: a threshold that is not a number is \<open>None\<close>.\<close>

datatype PolicyDraft = PolicyDraft_Auto | PolicyDraft_Quorum "int option"

definition policy_draft :: "ApprovalPolicyEditorState \<Rightarrow> PolicyDraft" where
  "policy_draft l =
     (if draftKind l = Draft_AutoApprove then PolicyDraft_Auto
      else PolicyDraft_Quorum (parse_int (thresholdText l)))"

definition policy_dirty :: "ApprovalPolicyType \<Rightarrow> ApprovalPolicyEditorState \<Rightarrow> bool" where
  "policy_dirty val l \<longleftrightarrow>
     draftKind l \<noteq> kind_of_policy val \<or>
     (case (policy_draft l, val) of
        (PolicyDraft_Quorum t, FixedQuorum threshold) \<Rightarrow> t \<noteq> Some threshold
      | _ \<Rightarrow> False)"

definition canSubmitPolicy :: "ApprovalPolicyType \<Rightarrow> bool \<Rightarrow> ApprovalPolicyEditorState \<Rightarrow> bool" where
  "canSubmitPolicy val locked l \<longleftrightarrow>
     \<not> locked \<and> policy_dirty val l \<and> (draftKind l = Draft_AutoApprove \<or> thresholdValid l)"

text \<open>Only a draft that can be submitted, whose threshold is a number, is given to \<open>onSave\<close>.\<close>

fun policy_of_draft :: "PolicyDraft \<Rightarrow> ApprovalPolicyType" where
  "policy_of_draft PolicyDraft_Auto = AutoApprove"
| "policy_of_draft (PolicyDraft_Quorum (Some t)) = FixedQuorum t"
| "policy_of_draft (PolicyDraft_Quorum None) = FixedQuorum 0"

definition ApprovalPolicyEditor_handleSave ::
    "(ApprovalPolicyType \<Rightarrow> ('b, 'w, ApprovalPolicy) page_task) \<Rightarrow> ApprovalPolicyType \<Rightarrow> bool \<Rightarrow>
     (ApprovalPolicyEditorState \<times> 'b, 'w, unit) page_task" where
  "ApprovalPolicyEditor_handleSave onSave val locked =
     get_state (\<lambda>((l, _), _).
       if \<not> canSubmitPolicy val locked l then ret ()
       else
         await (set_local (apfst (\<lambda>l. l\<lparr>isSavingPolicy := True\<rparr>))) (\<lambda>_.
         try_finally
           (try_catch
             (await (on_page (onSave (policy_of_draft (policy_draft l)))) (\<lambda>_. ret ()))
             (error_toast ''Failed to update approval policy''))
           (set_local (apfst (\<lambda>l. l\<lparr>isSavingPolicy := False\<rparr>)))))"

datatype ApprovalPolicyEditorEvent = KindSelected DraftKind | ThresholdChanged string | SavePolicy

definition ApprovalPolicyEditor ::
    "ApprovalOperationType \<Rightarrow> ApprovalPolicyType \<Rightarrow> bool \<Rightarrow> ApprovalPolicyEditorState \<Rightarrow> ApprovalPolicyEditorEvent view" where
  "ApprovalPolicyEditor operationType val locked l =
     Elem ''div'' []
       [Elem ''p'' [] [Text (approvalOperationLabel operationType)],
        Elem ''div'' []
         [Elem ''div'' []
           [Elem ''input'' [Flag ''disabled'' (locked \<or> isSavingPolicy l), Flag ''checked'' (draftKind l = Draft_AutoApprove),
              On ''change'' (KindSelected Draft_AutoApprove)] [],
            Elem ''div'' []
             [Elem ''Label'' [] [Text ''Auto-approve''],
              Elem ''p'' [] [Text ''Proposals execute immediately without a vote.'']]],
          Elem ''div'' []
           [Elem ''input'' [Flag ''disabled'' (locked \<or> isSavingPolicy l), Flag ''checked'' (draftKind l = Draft_FixedQuorum),
              On ''change'' (KindSelected Draft_FixedQuorum)] [],
            Elem ''div'' []
             (Elem ''div'' []
               [Elem ''Label'' [] [Text ''Require approvals''],
                Elem ''p'' [] [Text (''Proposals enter pending approval and execute once the threshold '' @
                  ''of approvers is reached.'')]] #
              given (draftKind l = Draft_FixedQuorum)
               [Elem ''div'' []
                 [Elem ''Label'' [] [Text ''Threshold''],
                  Elem ''Input'' [Flag ''disabled'' (locked \<or> isSavingPolicy l), Attr ''value'' (thresholdText l),
                    OnText ''change'' ThresholdChanged] []]])]],
        Elem ''LoadingButton''
          [Flag ''isLoading'' (isSavingPolicy l), Flag ''disabled'' (\<not> canSubmitPolicy val locked l), On ''click'' SavePolicy]
          [Text ''Save Policy'']]"

section \<open>Every permission is shown\<close>

lemmas field_simps = field_of_def permissions_dirty_def orgPermissionFields_def projectPermissionFields_def

text \<open>The editor counts a draft as changed exactly when it differs from the saved permissions: no permission is
  missing from the editor, for organizations as for projects, and switching one changes that one only.\<close>

theorem permissions_dirty_iff:
  "(permissions_dirty orgPermissionFields d p \<longleftrightarrow> d \<noteq> p) \<and> (permissions_dirty projectPermissionFields e q \<longleftrightarrow> e \<noteq> q) \<and>
   list_all (\<lambda>f. list_all (\<lambda>g. field_get g (field_set f b d) = (if field_key g = field_key f then b else field_get g d))
     orgPermissionFields) orgPermissionFields \<and>
   list_all (\<lambda>f. list_all (\<lambda>g. field_get g (field_set f b e) = (if field_key g = field_key f then b else field_get g e))
     projectPermissionFields) projectPermissionFields"
proof (intro conjI)
  show "permissions_dirty orgPermissionFields d p \<longleftrightarrow> d \<noteq> p"
    by (cases d; cases p) (auto simp: field_simps)
  show "permissions_dirty projectPermissionFields e q \<longleftrightarrow> e \<noteq> q"
    by (cases e; cases q) (auto simp: field_simps)
  show "list_all (\<lambda>f. list_all (\<lambda>g. field_get g (field_set f b d) = (if field_key g = field_key f then b else field_get g d))
     orgPermissionFields) orgPermissionFields"
    by (simp add: field_simps)
  show "list_all (\<lambda>f. list_all (\<lambda>g. field_get g (field_set f b e) = (if field_key g = field_key f then b else field_get g e))
     projectPermissionFields) projectPermissionFields"
    by (simp add: field_simps)
qed

lemma permissions_dirty_same [simp]: "\<not> permissions_dirty fds d d"
  by (simp add: permissions_dirty_def list_ex_iff)

section \<open>Only valid policies are saved\<close>

lemma takeWhile_digits: "takeWhile is_digit (decimal n) = decimal n"
  by (simp add: takeWhile_eq_all_conv decimal_digits)

lemma digit_not_space: "is_digit c \<Longrightarrow> \<not> is_space c"
  by (auto simp: is_digit_def char_between_def is_space_def)

lemma parse_int_decimal:
  assumes "n < 2 ^ 53"
  shows "parse_int (decimal n) = Some (int n)"
proof -
  obtain c cs where d: "decimal n = c # cs" by (cases "decimal n") auto
  then have c: "is_digit c" using decimal_digits [of c n] by simp
  then have trim: "trim_start (c # cs) = c # cs" and "c \<noteq> CHR ''-''" "c \<noteq> CHR ''+''"
    by (auto simp: trim_start_def digit_not_space is_digit_def char_between_def)
  moreover have digits: "takeWhile is_digit (c # cs) = c # cs" and "decimal_value (c # cs) = n"
    using takeWhile_digits [of n] decimal_value_decimal [of n] by (simp_all only: d)
  moreover have "js_Number (int n) = int n" using assms by (intro js_Number_exact) simp
  ultimately show ?thesis
    by (simp add: parse_int_def Let_def d trim)
qed

text \<open>An editor that was opened and not touched offers nothing to save, as long as the threshold is a positive
  number that a \<open>number\<close> can hold.\<close>

theorem untouched_policy_clean:
  assumes "case val of AutoApprove \<Rightarrow> True | FixedQuorum t \<Rightarrow> 0 < t \<and> t < 2 ^ 53"
  shows "\<not> canSubmitPolicy val locked (ApprovalPolicyEditor_initial val)"
proof (cases val)
  case AutoApprove
  then show ?thesis
    by (simp add: canSubmitPolicy_def policy_dirty_def ApprovalPolicyEditor_initial_def policy_draft_def)
next
  case (FixedQuorum t)
  with assms have "0 < t" and "nat t < 2 ^ 53" by (simp_all add: nat_less_iff)
  then have "parse_int (bigint_text t) = Some t"
    using parse_int_decimal [of "nat t"] by (simp only: bigint_text_def) simp
  with FixedQuorum show ?thesis
    by (simp add: canSubmitPolicy_def policy_dirty_def ApprovalPolicyEditor_initial_def policy_draft_def)
qed

theorem untouched_policy_clean_witness: "\<not> canSubmitPolicy (FixedQuorum 3) False (ApprovalPolicyEditor_initial (FixedQuorum 3))"
  using untouched_policy_clean [of "FixedQuorum 3" False] by simp

text \<open>C29: What the editor saves is a policy other than the current one, with a positive threshold if it has one;
  everything else it drops without a request. It keeps its draft and does not stay busy, and reports a failure.\<close>

theorem saved_policy_valid:
  assumes "run (ApprovalPolicyEditor_handleSave onSave val locked) ((l, b), s) w = (r, ((l', b'), s'), w')"
    and "\<not> isSavingPolicy l"
  shows "r = Inr () \<and> l' = l \<and>
    (b' = b \<and> s' = s \<and> w' = w \<or>
     (\<exists>p. p \<noteq> val \<and> (case p of AutoApprove \<Rightarrow> True | FixedQuorum t \<Rightarrow> 0 < t) \<and>
        (case run (onSave p) (b, s) w of
           (Inl err, (b1, s1), w1) \<Rightarrow> b' = b1 \<and>
             s' = s1\<lparr>toasts := toasts s1 @ [(''Failed to update approval policy'', error_message err)]\<rparr> \<and> w' = w1
         | (Inr _, (b1, s1), w1) \<Rightarrow> b' = b1 \<and> s' = s1 \<and> w' = w1)))"
proof (cases "canSubmitPolicy val locked l")
  case False
  with assms(1) show ?thesis by (simp add: ApprovalPolicyEditor_handleSave_def run_simps)
next
  case True
  define p where "p = policy_of_draft (policy_draft l)"
  have valid: "p \<noteq> val \<and> (case p of AutoApprove \<Rightarrow> True | FixedQuorum t \<Rightarrow> 0 < t)"
    using True unfolding p_def canSubmitPolicy_def policy_dirty_def policy_draft_def thresholdValid_def
    by (cases val; cases "draftKind l") (auto split: option.splits)
  have same: "l\<lparr>isSavingPolicy := False\<rparr> = l" using assms(2) by simp
  obtain r1 b1 s1 w1 where saved: "run (onSave p) (b, s) w = (r1, (b1, s1), w1)" by (metis prod.collapse)
  have "run (ApprovalPolicyEditor_handleSave onSave val locked) ((l, b), s) w =
      (Inr (), ((l, b1), case r1 of
          Inl err \<Rightarrow> s1\<lparr>toasts := toasts s1 @ [(''Failed to update approval policy'', error_message err)]\<rparr>
        | Inr _ \<Rightarrow> s1), w1)"
    using True same saved
    by (cases r1) (simp_all add: ApprovalPolicyEditor_handleSave_def run_simps p_def [symmetric] add_toast)
  with assms(1) have eqs: "r = Inr ()" "l' = l" "b' = b1" "w' = w1"
    "s' = (case r1 of Inl err \<Rightarrow> s1\<lparr>toasts := toasts s1 @ [(''Failed to update approval policy'', error_message err)]\<rparr>
       | Inr _ \<Rightarrow> s1)" by simp_all
  then have "(case run (onSave p) (b, s) w of
         (Inl err, (b1, s1), w1) \<Rightarrow> b' = b1 \<and>
           s' = s1\<lparr>toasts := toasts s1 @ [(''Failed to update approval policy'', error_message err)]\<rparr> \<and> w' = w1
       | (Inr _, (b1, s1), w1) \<Rightarrow> b' = b1 \<and> s' = s1 \<and> w' = w1)"
    by (cases r1) (simp_all add: saved)
  with valid eqs(1,2) show ?thesis by (intro conjI disjI2 exI [of _ p]) simp_all
qed

definition refusing_save :: "ApprovalPolicyType \<Rightarrow> (unit, nat, ApprovalPolicy) page_task" where
  "refusing_save p = throw (Error ''refused'')"

theorem saved_policy_valid_witness:
  "fst (fst (fst (snd (run (ApprovalPolicyEditor_handleSave refusing_save AutoApprove False)
     ((\<lparr>draftKind = Draft_FixedQuorum, thresholdText = ''0'', isSavingPolicy = False\<rparr>, ()), admin_session) 0)))) =
   \<lparr>draftKind = Draft_FixedQuorum, thresholdText = ''0'', isSavingPolicy = False\<rparr>"
proof -
  let ?l = "\<lparr>draftKind = Draft_FixedQuorum, thresholdText = ''0'', isSavingPolicy = False\<rparr>"
  obtain r l' b' s' w' where run: "run (ApprovalPolicyEditor_handleSave refusing_save AutoApprove False)
      ((?l, ()), admin_session) 0 = (r, ((l', b'), s'), w')" by (metis prod.collapse)
  from saved_policy_valid [OF run] have "l' = ?l" by simp
  with run show ?thesis by simp
qed

end
