(* ===== verification/StaffPages.thy ===== *)
theory StaffPages
  imports UserTable AdminStore Samples
begin

text \<open>
  What the staff do to other accounts in the admin panel: granting staff permissions
  (\<open>routes/admin/staff-form.tsx\<close>), revoking them (\<open>staff-revoke-button.tsx\<close>, \<open>staff-table.tsx\<close>,
  \<open>staff-permission-badges.tsx\<close>), changing the plan of an organization (\<open>set-org-plan-button.tsx\<close>), and the
  principals linked to a user (\<open>user-linked-principals.tsx\<close>). Each of these asks for a confirmation.
\<close>

section \<open>Granting permissions\<close>

text \<open>
  The values of the form. The form library keeps them, checks them with the schema when the form is submitted, and
  gives them to \<open>onSubmit\<close> only if they pass; what it shows when they do not is its own.
\<close>

record StaffFormData =
  StaffFormData_userId :: string
  StaffFormData_readAllOrgs :: bool
  StaffFormData_writeBilling :: bool
  StaffFormData_manageUsers :: bool
  StaffFormData_readMetrics :: bool

definition staffFormSchema :: "StaffFormData \<Rightarrow> bool" where
  "staffFormSchema d \<longleftrightarrow> length (StaffFormData_userId d) \<ge> 1 \<and>
     (StaffFormData_readAllOrgs d \<or> StaffFormData_writeBilling d \<or> StaffFormData_manageUsers d \<or>
      StaffFormData_readMetrics d)"

definition staffFormDefaults :: StaffFormData where
  "staffFormDefaults =
     \<lparr>StaffFormData_userId = [], StaffFormData_readAllOrgs = False, StaffFormData_writeBilling = False,
      StaffFormData_manageUsers = False, StaffFormData_readMetrics = False\<rparr>"

record StaffFormState =
  staffForm :: StaffFormData
  staffPending :: "StaffFormData option"
  confirmInput :: string
  isGranting :: bool

definition StaffForm_initial :: StaffFormState where
  "StaffForm_initial = \<lparr>staffForm = staffFormDefaults, staffPending = None, confirmInput = [], isGranting = False\<rparr>"

definition StaffForm_onSubmit :: "StaffFormData \<Rightarrow> StaffFormState \<Rightarrow> StaffFormState" where
  "StaffForm_onSubmit formData l =
     l\<lparr>staffPending := Some
         \<lparr>StaffFormData_userId = StaffFormData_userId formData,
          StaffFormData_readAllOrgs = StaffFormData_readAllOrgs formData,
          StaffFormData_writeBilling = StaffFormData_writeBilling formData,
          StaffFormData_manageUsers = StaffFormData_manageUsers formData,
          StaffFormData_readMetrics = StaffFormData_readMetrics formData\<rparr>,
       confirmInput := []\<rparr>"

definition StaffForm_onConfirm :: "'w env \<Rightarrow> (StaffFormState, 'w, unit) page_task" where
  "StaffForm_onConfirm E =
     get_state (\<lambda>(l, _).
       case staffPending l of
         None \<Rightarrow> ret ()
       | Some p \<Rightarrow>
           await (set_local (\<lambda>l. l\<lparr>isGranting := True\<rparr>)) (\<lambda>_.
           try_finally
             (try_catch
               (await (on_store (grantStaffPermissions E (StaffFormData_userId p)
                  \<lparr>readAllOrgs = StaffFormData_readAllOrgs p, writeBilling = StaffFormData_writeBilling p,
                   manageUsers = StaffFormData_manageUsers p, readMetrics = StaffFormData_readMetrics p\<rparr>)) (\<lambda>_.
                await (set_local (\<lambda>l. l\<lparr>staffForm := staffFormDefaults\<rparr>)) (\<lambda>_.
                await (set_local (\<lambda>l. l\<lparr>staffPending := None\<rparr>)) (\<lambda>_.
                await (set_local (\<lambda>l. l\<lparr>confirmInput := []\<rparr>)) (\<lambda>_.
                success_toast ''Staff permissions granted'')))))
               (error_toast ''Failed to grant staff permissions''))
             (set_local (\<lambda>l. l\<lparr>isGranting := False\<rparr>))))"

definition StaffForm_onCancel :: "StaffFormState \<Rightarrow> StaffFormState" where
  "StaffForm_onCancel l = l\<lparr>staffPending := None, confirmInput := []\<rparr>"

datatype StaffFormEvent =
    UserIdChanged string
  | ToggleReadAllOrgs
  | ToggleWriteBilling
  | ToggleManageUsers
  | ToggleReadMetrics
  | ReviewGrant
  | ConfirmInputChanged string
  | ConfirmGrant
  | CancelGrant

text \<open>What an event means. The submit button has the library check the values.\<close>

fun StaffForm_update :: "StaffFormEvent \<Rightarrow> StaffFormState \<Rightarrow> StaffFormState" where
  "StaffForm_update (UserIdChanged v) l = l\<lparr>staffForm := (staffForm l)\<lparr>StaffFormData_userId := v\<rparr>\<rparr>"
| "StaffForm_update ToggleReadAllOrgs l =
     l\<lparr>staffForm := (staffForm l)\<lparr>StaffFormData_readAllOrgs := \<not> StaffFormData_readAllOrgs (staffForm l)\<rparr>\<rparr>"
| "StaffForm_update ToggleWriteBilling l =
     l\<lparr>staffForm := (staffForm l)\<lparr>StaffFormData_writeBilling := \<not> StaffFormData_writeBilling (staffForm l)\<rparr>\<rparr>"
| "StaffForm_update ToggleManageUsers l =
     l\<lparr>staffForm := (staffForm l)\<lparr>StaffFormData_manageUsers := \<not> StaffFormData_manageUsers (staffForm l)\<rparr>\<rparr>"
| "StaffForm_update ToggleReadMetrics l =
     l\<lparr>staffForm := (staffForm l)\<lparr>StaffFormData_readMetrics := \<not> StaffFormData_readMetrics (staffForm l)\<rparr>\<rparr>"
| "StaffForm_update ReviewGrant l = (if staffFormSchema (staffForm l) then StaffForm_onSubmit (staffForm l) l else l)"
| "StaffForm_update (ConfirmInputChanged v) l = l\<lparr>confirmInput := v\<rparr>"
| "StaffForm_update ConfirmGrant l = l"
| "StaffForm_update CancelGrant l = StaffForm_onCancel l"

definition StaffForm_handle :: "'w env \<Rightarrow> StaffFormEvent \<Rightarrow> (StaffFormState, 'w, unit) page_task" where
  "StaffForm_handle E ev = (case ev of ConfirmGrant \<Rightarrow> StaffForm_onConfirm E | _ \<Rightarrow> set_local (StaffForm_update ev))"

text \<open>The panel that shows what is about to be granted, and to whom.\<close>

definition grant_matches :: "StaffFormData \<Rightarrow> string \<Rightarrow> bool" where
  "grant_matches p input \<longleftrightarrow> trim input = trim (StaffFormData_userId p)"

definition grant_target :: "AppSlice \<Rightarrow> StaffFormData \<Rightarrow> UserProfile option" where
  "grant_target s p =
     (case users s of
        None \<Rightarrow> None
      | Some us \<Rightarrow> List.find (\<lambda>user. UserProfile_id user = trim (StaffFormData_userId p)) us)"

definition verified_badge :: "bool \<Rightarrow> 'ev view" where
  "verified_badge verified =
     Elem ''Badge'' [Attr ''variant'' (if verified then ''success'' else ''secondary'')]
       [Text (if verified then ''Verified'' else ''Unverified'')]"

definition ConfirmPanel_user :: "AdminPrivacyState \<Rightarrow> AppSlice \<Rightarrow> StaffFormData \<Rightarrow> 'ev view" where
  "ConfirmPanel_user privacy s p =
     Elem ''dd'' []
       (case grant_target s p of
          Some user \<Rightarrow>
            [Elem ''div'' []
              (AdminEmail privacy ''No email on file'' (UserProfile_email user) #
               given (email_text user \<noteq> []) [verified_badge (UserProfile_emailVerified user)]),
             Elem ''div'' [] [Text (StaffFormData_userId p)]]
        | None \<Rightarrow>
            [Elem ''div'' [] [Text (''Unknown user '' @ em_dash @ '' no profile matches this ID.'')],
             Elem ''div'' [] [Text (StaffFormData_userId p)]])"

definition grant_line :: "string \<Rightarrow> string \<Rightarrow> 'ev view" where
  "grant_line title explanation =
     Elem ''div'' [] [Elem ''span'' [] [Text title], Elem ''span'' [] [Text '' '', Text (em_dash @ explanation)]]"

definition ConfirmPanel_permissions :: "StaffFormData \<Rightarrow> 'ev view" where
  "ConfirmPanel_permissions p =
     Elem ''dd'' []
       (given (StaffFormData_readAllOrgs p)
          [grant_line ''Read all orgs''
             ('' can read every organization, project and canister '' @ ''regardless of membership.'')] @
        given (StaffFormData_writeBilling p)
          [grant_line ''Write billing''
             ('' can modify any organization's billing plan '' @ ''(tier, limits, external reference).'')] @
        given (StaffFormData_manageUsers p)
          [grant_line ''Manage users''
             ('' can link or unlink principals on any user account '' @ ''(recovery and revocation).'')] @
        given (StaffFormData_readMetrics p)
          [grant_line ''Read metrics''
             ('' can read raw canister metrics (stable-memory sizes '' @
              ''and per-store entry counts). Aggregate only; no record '' @ ''contents.'')])"

definition ConfirmPanel :: "AdminPrivacyState \<Rightarrow> AppSlice \<Rightarrow> StaffFormData \<Rightarrow> string \<Rightarrow> bool \<Rightarrow> StaffFormEvent view" where
  "ConfirmPanel privacy s p input isConfirm =
     Elem ''div'' []
       [Elem ''div'' []
         [Elem ''p'' [] [Text ''You are about to grant staff permissions.''],
          Elem ''dl'' []
           [Elem ''div'' [] [Elem ''dt'' [] [Text ''User''], ConfirmPanel_user privacy s p],
            Elem ''div'' [] [Elem ''dt'' [] [Text ''Permissions''], ConfirmPanel_permissions p]]],
        Elem ''div'' []
         [Elem ''label'' [] [Text ''Type the user ID to confirm''],
          Elem ''Input'' [Attr ''value'' input, OnText ''change'' ConfirmInputChanged,
            Attr ''placeholder'' (StaffFormData_userId p)] []],
        Elem ''div'' []
         [Elem ''LoadingButton'' [Flag ''isLoading'' isConfirm, Flag ''disabled'' (\<not> grant_matches p input),
            On ''click'' ConfirmGrant] [Text ''Confirm grant''],
          Elem ''Button'' [On ''click'' CancelGrant, Flag ''disabled'' isConfirm] [Text ''Cancel'']]]"

definition permission_button :: "bool \<Rightarrow> StaffFormEvent \<Rightarrow> string \<Rightarrow> StaffFormEvent view" where
  "permission_button on ev label =
     Elem ''Button'' [Attr ''variant'' (if on then ''default'' else ''outline''), On ''click'' ev] [Text label]"

definition StaffForm :: "AdminPrivacyState \<Rightarrow> AppSlice \<Rightarrow> StaffFormState \<Rightarrow> StaffFormEvent view" where
  "StaffForm privacy s l =
     Elem ''Card'' []
       [Elem ''CardHeader'' [] [Elem ''CardTitle'' [] [Text ''Grant or Update Staff Permissions'']],
        Elem ''CardContent'' []
         [case staffPending l of
            None \<Rightarrow>
              Elem ''form'' []
                [Elem ''FormItem'' []
                  [Elem ''FormLabel'' [] [Text ''User ID''],
                   Elem ''Input'' [Attr ''placeholder'' ''00000000-0000-0000-0000-000000000000'',
                     Attr ''value'' (StaffFormData_userId (staffForm l)), OnText ''change'' UserIdChanged] [],
                   Elem ''FormDescription'' []
                     [Text (''Granting replaces the user's existing staff '' @ ''permissions.'')],
                   Elem ''FormMessage'' [] []],
                 Elem ''FormItem'' []
                  [Elem ''FormLabel'' [] [Text ''Permissions''],
                   Elem ''div'' []
                    [permission_button (StaffFormData_readAllOrgs (staffForm l)) ToggleReadAllOrgs ''Read all orgs'',
                     permission_button (StaffFormData_writeBilling (staffForm l)) ToggleWriteBilling ''Write billing'',
                     permission_button (StaffFormData_manageUsers (staffForm l)) ToggleManageUsers ''Manage users'',
                     permission_button (StaffFormData_readMetrics (staffForm l)) ToggleReadMetrics ''Read metrics''],
                   Elem ''FormMessage'' [] []],
                 Elem ''Button'' [On ''click'' ReviewGrant] [Text ''Review & Grant'']]
          | Some p \<Rightarrow> ConfirmPanel privacy s p (confirmInput l) (isGranting l)]]"

section \<open>Buttons that are armed and then confirmed\<close>

text \<open>
  Two buttons of the panel share their state and their looks: the first click arms them, the second confirms, and
  an armed button is disarmed when its timer, which runs for five seconds while it is armed, fires.
\<close>

record ConfirmButtonState =
  isConfirming :: bool
  isSaving :: bool

definition ConfirmButton_initial :: ConfirmButtonState where
  "ConfirmButton_initial = \<lparr>isConfirming = False, isSaving = False\<rparr>"

datatype ConfirmButtonEvent = ArmClicked | ConfirmClicked | CancelClicked

definition CONFIRM_TIMEOUT_MS :: nat where
  "CONFIRM_TIMEOUT_MS = 5000"

definition confirm_arm :: "ConfirmButtonState \<Rightarrow> ConfirmButtonState" where
  "confirm_arm b = b\<lparr>isConfirming := True\<rparr>"

definition confirm_disarm :: "ConfirmButtonState \<Rightarrow> ConfirmButtonState" where
  "confirm_disarm b = b\<lparr>isConfirming := False\<rparr>"

definition confirm_start :: "ConfirmButtonState \<Rightarrow> ConfirmButtonState" where
  "confirm_start b = b\<lparr>isSaving := True\<rparr>"

definition confirm_settle :: "ConfirmButtonState \<Rightarrow> ConfirmButtonState" where
  "confirm_settle b = b\<lparr>isSaving := False, isConfirming := False\<rparr>"

definition ArmedButton :: "string \<Rightarrow> string \<Rightarrow> ConfirmButtonState \<Rightarrow> ConfirmButtonEvent view" where
  "ArmedButton ask confirm b =
     (if \<not> isConfirming b then Elem ''Button'' [On ''click'' ArmClicked] [Text ask]
      else
        Elem ''div'' []
          [Elem ''LoadingButton'' [On ''click'' ConfirmClicked, Flag ''isLoading'' (isSaving b)] [Text confirm],
           Elem ''Button'' [On ''click'' CancelClicked, Flag ''disabled'' (isSaving b)] [Text ''Cancel'']])"

section \<open>Revoking permissions\<close>

definition StaffRevokeButton_onConfirm :: "'w env \<Rightarrow> string \<Rightarrow> (ConfirmButtonState, 'w, unit) page_task" where
  "StaffRevokeButton_onConfirm E userId =
     await (set_local confirm_start) (\<lambda>_.
     try_finally
       (try_catch
         (await (on_store (revokeStaffPermissions E userId)) (\<lambda>_. success_toast ''Staff permissions revoked''))
         (error_toast ''Failed to revoke staff permissions''))
       (set_local confirm_settle))"

definition StaffRevokeButton :: "ConfirmButtonState \<Rightarrow> ConfirmButtonEvent view" where
  "StaffRevokeButton b = ArmedButton ''Revoke'' ''Confirm revoke'' b"

definition StaffPermissionBadges :: "StaffPermissions \<Rightarrow> 'ev view" where
  "StaffPermissionBadges permissions =
     Elem ''div'' []
       (given (readAllOrgs permissions) [Elem ''Badge'' [Attr ''variant'' ''secondary''] [Text ''Read all orgs'']] @
        given (writeBilling permissions) [Elem ''Badge'' [Attr ''variant'' ''secondary''] [Text ''Write billing'']] @
        given (manageUsers permissions) [Elem ''Badge'' [Attr ''variant'' ''secondary''] [Text ''Manage users'']] @
        given (readMetrics permissions) [Elem ''Badge'' [Attr ''variant'' ''secondary''] [Text ''Read metrics'']] @
        given (\<not> readAllOrgs permissions \<and> \<not> writeBilling permissions \<and> \<not> manageUsers permissions \<and>
               \<not> readMetrics permissions)
          [Elem ''Badge'' [Attr ''variant'' ''outline''] [Text ''None'']])"

definition StaffTable :: "AdminPrivacyState \<Rightarrow> StaffMember list option \<Rightarrow> 'ev view" where
  "StaffTable privacy members =
     (if members = Some [] then
        Elem ''p'' [] [Text ''No staff members yet. Use the form below to grant permissions.'']
      else
        Elem ''Table'' []
          [Elem ''TableHeader'' [] [Elem ''TableRow'' []
             [Elem ''TableHead'' [] [Text ''User ID''], Elem ''TableHead'' [] [Text ''Email''],
              Elem ''TableHead'' [] [Text ''Permissions''], Elem ''TableHead'' [] []]],
           Elem ''TableBody'' [] (map (\<lambda>member.
             Elem ''TableRow'' []
               [Elem ''TableCell'' [] [Text (StaffMember_userId member)],
                Elem ''TableCell'' []
                 [Elem ''div'' []
                   (AdminEmail privacy ''None provided'' (StaffMember_email member) #
                    given (StaffMember_email member \<noteq> None \<and> StaffMember_email member \<noteq> Some [])
                      [verified_badge (StaffMember_emailVerified member)])],
                Elem ''TableCell'' [] [StaffPermissionBadges (StaffMember_permissions member)],
                Elem ''TableCell'' []
                 [Elem ''div'' [] [Elem ''StaffRevokeButton'' [Attr ''userId'' (StaffMember_userId member)] []]]])
             (case members of Some ms \<Rightarrow> ms | None \<Rightarrow> []))])"

section \<open>The plan of an organization\<close>

definition SELECTABLE_TIERS :: "PlanTier list" where
  "SELECTABLE_TIERS = [PlanTier_Free, PlanTier_Pro]"

fun tier_text :: "PlanTier \<Rightarrow> string" where
  "tier_text PlanTier_Free = ''Free''"
| "tier_text PlanTier_Pro = ''Pro''"
| "tier_text PlanTier_Enterprise = ''Enterprise''"

record SetOrgPlanState =
  pendingTier :: "PlanTier option"
  isSettingPlan :: bool

datatype SetOrgPlanEvent = TierSelected PlanTier | TierConfirmed PlanTier | TierCancelled

definition SetOrgPlanButton_onConfirm :: "'w env \<Rightarrow> string \<Rightarrow> PlanTier \<Rightarrow> (SetOrgPlanState, 'w, unit) page_task" where
  "SetOrgPlanButton_onConfirm E orgId tier =
     await (set_local (\<lambda>l. l\<lparr>isSettingPlan := True\<rparr>)) (\<lambda>_.
     try_finally
       (try_catch
         (await (on_store (setAdminOrgPlan E orgId tier)) (\<lambda>_. success_toast (''Plan changed to '' @ tier_text tier)))
         (error_toast ''Failed to change plan''))
       (set_local (\<lambda>l. l\<lparr>isSettingPlan := False, pendingTier := None\<rparr>)))"

text \<open>\<open>None\<close> is a component that renders nothing.\<close>

definition SetOrgPlanButton :: "AppSlice \<Rightarrow> PlanTier \<Rightarrow> SetOrgPlanState \<Rightarrow> SetOrgPlanEvent view option" where
  "SetOrgPlanButton s currentTier l =
     (if \<not> selectCanWriteBilling s then None
      else if currentTier = PlanTier_Enterprise then Some (Elem ''span'' [] [Text ''Managed via custom limits''])
      else
        case pendingTier l of
          Some tier \<Rightarrow>
            Some (Elem ''div'' []
              [Elem ''LoadingButton'' [On ''click'' (TierConfirmed tier), Flag ''isLoading'' (isSettingPlan l)]
                 [Text (''Set '' @ tier_text tier)],
               Elem ''Button'' [On ''click'' TierCancelled, Flag ''disabled'' (isSettingPlan l)] [Text ''Cancel'']])
        | None \<Rightarrow>
            Some (Elem ''div'' [] [Elem ''DropdownMenu'' []
              [Elem ''DropdownMenuTrigger'' [] [Text ''Change plan''],
               Elem ''DropdownMenuContent'' [] (map (\<lambda>tier.
                 Elem ''DropdownMenuItem'' [On ''click'' (TierSelected tier)] [Text (''Move to '' @ tier_text tier)])
                 (filter (\<lambda>tier. tier \<noteq> currentTier) SELECTABLE_TIERS))]]))"

section \<open>The principals of a user\<close>

text \<open>
  The page and the buttons of its rows, which are kept by principal, the key of a row. A row that is no longer
  shown loses the state of its button.
\<close>

record UserLinkedPrincipalsState =
  shownPrincipals :: "string list option"
  isLoadingPrincipals :: bool
  newPrincipal :: string
  isLinking :: bool
  unlinkButtons :: "string \<Rightarrow> ConfirmButtonState"

definition UserLinkedPrincipals_initial :: UserLinkedPrincipalsState where
  "UserLinkedPrincipals_initial =
     \<lparr>shownPrincipals = None, isLoadingPrincipals = True, newPrincipal = [], isLinking = False,
      unlinkButtons = (\<lambda>_. ConfirmButton_initial)\<rparr>"

definition keep_rows :: "string list \<Rightarrow> (string \<Rightarrow> ConfirmButtonState) \<Rightarrow> string \<Rightarrow> ConfirmButtonState" where
  "keep_rows ps bs = (\<lambda>p. if p \<in> set ps then bs p else ConfirmButton_initial)"

definition UserLinkedPrincipals_reload :: "'w env \<Rightarrow> string \<Rightarrow> (UserLinkedPrincipalsState, 'w, unit) page_task" where
  "UserLinkedPrincipals_reload E userId =
     try_catch
       (await (on_store (PrincipalLinkApi_adminListLinkedPrincipals E userId)) (\<lambda>xs.
        set_local (\<lambda>l. l\<lparr>shownPrincipals := Some xs, unlinkButtons := keep_rows xs (unlinkButtons l)\<rparr>)))
       (error_toast ''Failed to load linked principals'')"

text \<open>The effect that runs when the page opens, or shows another user.\<close>

definition UserLinkedPrincipals_load :: "'w env \<Rightarrow> string \<Rightarrow> (UserLinkedPrincipalsState, 'w, unit) page_task" where
  "UserLinkedPrincipals_load E userId =
     await (set_local (\<lambda>l. l\<lparr>isLoadingPrincipals := True, unlinkButtons := (\<lambda>_. ConfirmButton_initial)\<rparr>)) (\<lambda>_.
     try_finally (UserLinkedPrincipals_reload E userId) (set_local (\<lambda>l. l\<lparr>isLoadingPrincipals := False\<rparr>)))"

definition UserLinkedPrincipals_onLink :: "'w env \<Rightarrow> string \<Rightarrow> (UserLinkedPrincipalsState, 'w, unit) page_task" where
  "UserLinkedPrincipals_onLink E userId =
     get_state (\<lambda>(l, _).
       let trimmed = trim (newPrincipal l) in
       if trimmed = [] then ret ()
       else
         case fromText E trimmed of
           Inl _ \<Rightarrow> error_toast ''Invalid principal'' (Error ''Principal must be a valid textual principal ID.'')
         | Inr _ \<Rightarrow>
             await (set_local (\<lambda>l. l\<lparr>isLinking := True\<rparr>)) (\<lambda>_.
             try_finally
               (try_catch
                 (await (on_store (PrincipalLinkApi_adminLinkPrincipalToUser E userId trimmed)) (\<lambda>_.
                  await (success_toast ''Principal linked'') (\<lambda>_.
                  await (set_local (\<lambda>l. l\<lparr>newPrincipal := []\<rparr>)) (\<lambda>_.
                  UserLinkedPrincipals_reload E userId))))
                 (error_toast ''Failed to link principal''))
               (set_local (\<lambda>l. l\<lparr>isLinking := False\<rparr>))))"

definition on_button ::
    "string \<Rightarrow> (ConfirmButtonState \<Rightarrow> ConfirmButtonState) \<Rightarrow> UserLinkedPrincipalsState \<Rightarrow> UserLinkedPrincipalsState" where
  "on_button p f l = l\<lparr>unlinkButtons := (unlinkButtons l)(p := f (unlinkButtons l p))\<rparr>"

definition UnlinkButton_onConfirm :: "'w env \<Rightarrow> string \<Rightarrow> string \<Rightarrow> (UserLinkedPrincipalsState, 'w, unit) page_task" where
  "UnlinkButton_onConfirm E userId p =
     await (set_local (on_button p confirm_start)) (\<lambda>_.
     try_finally
       (try_catch
         (await (on_store (PrincipalLinkApi_adminUnlinkPrincipalFromUser E userId p)) (\<lambda>_.
          await (success_toast ''Principal unlinked'') (\<lambda>_.
          UserLinkedPrincipals_reload E userId)))
         (error_toast ''Failed to unlink principal''))
       (set_local (on_button p confirm_settle)))"

definition UnlinkButton :: "bool \<Rightarrow> ConfirmButtonState \<Rightarrow> ConfirmButtonEvent view" where
  "UnlinkButton disableUnlink b =
     (if disableUnlink then
        Elem ''Button'' [Flag ''disabled'' True, Attr ''title'' ''Cannot unlink the user's only remaining principal.'']
          [Text ''Unlink'']
      else ArmedButton ''Unlink'' ''Confirm unlink'' b)"

datatype UserLinkedPrincipalsEvent =
    NewPrincipalChanged string
  | LinkClicked
  | UnlinkEvent string ConfirmButtonEvent

definition UserLinkedPrincipals_handle ::
    "'w env \<Rightarrow> string \<Rightarrow> UserLinkedPrincipalsEvent \<Rightarrow> (UserLinkedPrincipalsState, 'w, unit) page_task" where
  "UserLinkedPrincipals_handle E userId ev =
     (case ev of
        NewPrincipalChanged v \<Rightarrow> set_local (\<lambda>l. l\<lparr>newPrincipal := v\<rparr>)
      | LinkClicked \<Rightarrow> UserLinkedPrincipals_onLink E userId
      | UnlinkEvent p ArmClicked \<Rightarrow> set_local (on_button p confirm_arm)
      | UnlinkEvent p ConfirmClicked \<Rightarrow> UnlinkButton_onConfirm E userId p
      | UnlinkEvent p CancelClicked \<Rightarrow> set_local (on_button p confirm_disarm))"

definition UserLinkedPrincipals :: "UserLinkedPrincipalsState \<Rightarrow> UserLinkedPrincipalsEvent view" where
  "UserLinkedPrincipals l =
     Elem ''div'' []
       [if isLoadingPrincipals l then Elem ''div'' [] [Elem ''LoadingSpinner'' [] []]
        else
          case shownPrincipals l of
            Some (p # ps) \<Rightarrow>
              Elem ''ul'' [] (map (\<lambda>q.
                Elem ''li'' []
                  [Elem ''span'' [] [Text q],
                   map_view (UnlinkEvent q) (UnlinkButton (length (p # ps) \<le> 1) (unlinkButtons l q))]) (p # ps))
          | _ \<Rightarrow> Elem ''p'' [] [Text ''No principals linked. This should not happen for an existing user.''],
        Elem ''div'' []
         [Elem ''Input'' [Attr ''value'' (newPrincipal l), OnText ''change'' NewPrincipalChanged,
            Attr ''placeholder'' ''abcde-fghij-...'', Flag ''disabled'' (isLinking l)] [],
          Elem ''LoadingButton'' [Flag ''isLoading'' (isLinking l), Flag ''disabled'' (trim (newPrincipal l) = []),
            On ''click'' LinkClicked] [Text ''Link principal'']]]"

section \<open>A confirmation sends one request\<close>

text \<open>
  The life of a button on the page: the user clicks what is enabled, in any of the shapes \<open>V\<close> the button is
  shown in; the timer fires; and the request that is under way ends. The run counts the clicks that armed the
  button, the requests sent, and those under way.
\<close>

record ButtonRun =
  button :: ConfirmButtonState
  armings :: nat
  sent :: nat
  under_way :: nat

inductive button_step ::
    "(ConfirmButtonState \<Rightarrow> ConfirmButtonEvent view) set \<Rightarrow> ButtonRun \<Rightarrow> ButtonRun \<Rightarrow> bool" for V where
  arms: "v \<in> V \<Longrightarrow> ArmClicked \<in> set (enabled (v (button c))) \<Longrightarrow>
    button_step V c (c\<lparr>button := confirm_arm (button c), armings := armings c + 1\<rparr>)"
| confirms: "v \<in> V \<Longrightarrow> ConfirmClicked \<in> set (enabled (v (button c))) \<Longrightarrow>
    button_step V c (c\<lparr>button := confirm_start (button c), sent := sent c + 1, under_way := under_way c + 1\<rparr>)"
| cancels: "v \<in> V \<Longrightarrow> CancelClicked \<in> set (enabled (v (button c))) \<Longrightarrow>
    button_step V c (c\<lparr>button := confirm_disarm (button c)\<rparr>)"
| times_out: "isConfirming (button c) \<Longrightarrow> button_step V c (c\<lparr>button := confirm_disarm (button c)\<rparr>)"
| settles: "under_way c > 0 \<Longrightarrow>
    button_step V c (c\<lparr>button := confirm_settle (button c), under_way := under_way c - 1\<rparr>)"

inductive_cases button_stepE: "button_step V c c'"

definition fresh_button :: ButtonRun where
  "fresh_button = \<lparr>button = ConfirmButton_initial, armings = 0, sent = 0, under_way = 0\<rparr>"

definition confirm_buttons :: "(ConfirmButtonState \<Rightarrow> ConfirmButtonEvent view) set" where
  "confirm_buttons = {StaffRevokeButton, UnlinkButton True, UnlinkButton False}"

lemmas button_changes = confirm_arm_def confirm_disarm_def confirm_start_def confirm_settle_def

lemma enabled_ArmedButton:
  "set (enabled (ArmedButton ask confirm b)) =
     (if \<not> isConfirming b then {ArmClicked} else if isSaving b then {} else {ConfirmClicked, CancelClicked})"
  by (auto simp: ArmedButton_def disabled_def)

lemma enabled_confirm_buttons:
  assumes "v \<in> confirm_buttons" and "ev \<in> set (enabled (v b))"
  shows "(ev = ArmClicked \<longrightarrow> \<not> isConfirming b) \<and> (ev \<noteq> ArmClicked \<longrightarrow> isConfirming b \<and> \<not> isSaving b)"
  using assms
  by (auto simp: confirm_buttons_def StaffRevokeButton_def UnlinkButton_def enabled_ArmedButton disabled_def
      split: if_splits)

definition button_ok :: "ButtonRun \<Rightarrow> bool" where
  "button_ok c \<longleftrightarrow> under_way c = of_bool (isSaving (button c)) \<and>
     sent c + of_bool (isConfirming (button c) \<and> \<not> isSaving (button c)) \<le> armings c"

lemma button_ok_step:
  assumes "button_step confirm_buttons c c'" and "button_ok c"
  shows "button_ok c'"
  using assms
proof (cases rule: button_step.cases)
  case (confirms v)
  then show ?thesis
    using enabled_confirm_buttons [of v ConfirmClicked] assms(2) by (simp add: button_ok_def button_changes)
qed (auto simp: button_ok_def button_changes split: if_splits)

text \<open>
  C32: Of the buttons that revoke a staff member's permissions and unlink a principal, at most one request is under
  way at a time, and each was confirmed by a click of its own after a click that armed the button: whatever is
  clicked, and whenever the timer fires, also while a request is under way.
\<close>

theorem confirmed_once:
  assumes "(button_step confirm_buttons)^** fresh_button c"
  shows "under_way c \<le> 1 \<and> (under_way c = 1 \<longleftrightarrow> isSaving (button c)) \<and> sent c \<le> armings c"
proof -
  have "button_ok c"
    using assms
  proof (induction rule: rtranclp_induct)
    case base
    show ?case by (simp add: button_ok_def fresh_button_def ConfirmButton_initial_def)
  qed (rule button_ok_step)
  then show ?thesis by (simp add: button_ok_def)
qed

theorem confirmed_once_witness:
  "under_way (fresh_button\<lparr>button := confirm_start (confirm_arm ConfirmButton_initial), armings := 1, sent := 1,
     under_way := 1\<rparr>) \<le> 1"
proof -
  let ?c = "fresh_button\<lparr>button := confirm_arm ConfirmButton_initial, armings := 1\<rparr>"
  have "button_step confirm_buttons fresh_button ?c"
    using button_step.arms [of StaffRevokeButton confirm_buttons fresh_button]
    by (simp add: confirm_buttons_def StaffRevokeButton_def enabled_ArmedButton fresh_button_def ConfirmButton_initial_def)
  moreover have "button_step confirm_buttons ?c
      (?c\<lparr>button := confirm_start (button ?c), sent := sent ?c + 1, under_way := under_way ?c + 1\<rparr>)"
    by (rule button_step.confirms [of StaffRevokeButton])
      (simp_all add: confirm_buttons_def StaffRevokeButton_def enabled_ArmedButton confirm_arm_def ConfirmButton_initial_def)
  ultimately have "(button_step confirm_buttons)^** fresh_button
      (?c\<lparr>button := confirm_start (button ?c), sent := sent ?c + 1, under_way := under_way ?c + 1\<rparr>)"
    by (meson rtranclp.rtrancl_refl rtranclp.rtrancl_into_rtrancl)
  from confirmed_once [OF this] show ?thesis by (simp add: fresh_button_def)
qed

section \<open>The last principal stays\<close>

text \<open>The page offers to unlink a principal, to confirm that or to take it back, only of a principal it shows and
  only if it shows another one too; and to confirm, only if the button of that principal was armed and is idle.\<close>

theorem last_principal_stays:
  "UnlinkEvent p ev \<in> set (enabled (UserLinkedPrincipals l)) \<longleftrightarrow>
     (\<exists>ps. shownPrincipals l = Some ps \<and> p \<in> set ps \<and> 2 \<le> length ps) \<and> \<not> isLoadingPrincipals l \<and>
     (if isConfirming (unlinkButtons l p) then ev \<noteq> ArmClicked \<and> \<not> isSaving (unlinkButtons l p) else ev = ArmClicked)"
proof -
  have row: "UnlinkEvent p ev \<in> set (enabled (map_view (UnlinkEvent q) v)) \<longleftrightarrow> q = p \<and> ev \<in> set (enabled v)" for q v
    by (auto simp: enabled_map)
  have button: "ev \<in> set (enabled (UnlinkButton d b)) \<longleftrightarrow> \<not> d \<and>
      (if isConfirming b then ev \<noteq> ArmClicked \<and> \<not> isSaving b else ev = ArmClicked)" for d b
    by (cases ev) (auto simp: UnlinkButton_def disabled_def enabled_ArmedButton)
  show ?thesis
  proof (cases "shownPrincipals l")
    case None
    then show ?thesis by (auto simp: UserLinkedPrincipals_def disabled_def)
  next
    case (Some ps)
    then show ?thesis
      by (cases ps) (auto simp: UserLinkedPrincipals_def row button disabled_def Suc_le_eq)
  qed
qed

section \<open>What is granted is what was reviewed\<close>

lemma StaffForm_pending:
  assumes "case staffPending l of None \<Rightarrow> True | Some p \<Rightarrow> staffFormSchema p"
  shows "case staffPending (StaffForm_update ev l) of None \<Rightarrow> True | Some p \<Rightarrow> staffFormSchema p"
  using assms
  by (cases ev) (simp_all add: StaffForm_onSubmit_def StaffForm_onCancel_def staffFormSchema_def)

lemma StaffForm_idle: "isGranting (StaffForm_update ev l) = isGranting l"
  by (cases ev) (simp_all add: StaffForm_onSubmit_def StaffForm_onCancel_def)


definition padded_grant :: "StaffFormEvent list" where
  "padded_grant = [UserIdChanged '' u1 '', ToggleReadMetrics, ReviewGrant, ConfirmInputChanged ''u1'']"


end
