(* ===== verification/AccountPages.thy ===== *)
theory AccountPages
  imports UI AuthStore
begin

text \<open>
  The pages of one's own account: the home page with its prompts (\<open>routes/home/\<close>), the pages that the links in
  emails open (\<open>routes/verify/verify.tsx\<close>, \<open>routes/recover/recover.tsx\<close>), and the terms and conditions a user has
  to accept (\<open>routes/terms-and-conditions/\<close>). \<open>es\<close> is the schedule under which the requests of a login, or of a
  reload of all data, are served.
\<close>

section \<open>The links in emails\<close>

definition verifyErrorMessage :: "js_error \<Rightarrow> string" where
  "verifyErrorMessage err =
     (case err of
        ApiCallError code apiMessage reason \<Rightarrow>
          (case reason of
             Some Expired \<Rightarrow>
               ''This verification link has expired. Request a new one and open it within 15 minutes.''
           | Some EmailMismatch \<Rightarrow>
               ''This link verifies a different email than the one on your account. Sign in with the right account, or request a new link.''
           | Some Invalid \<Rightarrow> ''This verification link is not valid. Please request a new one.''
           | _ \<Rightarrow> if apiMessage \<noteq> [] then apiMessage else ''Failed to verify email, please try again.'')
      | _ \<Rightarrow> ''Failed to verify email, please try again.'')"

definition recoverErrorMessage :: "js_error \<Rightarrow> string" where
  "recoverErrorMessage err =
     (case err of
        ApiCallError code apiMessage reason \<Rightarrow>
          (case reason of
             Some Expired \<Rightarrow>
               ''This recovery link has expired. Request a new one and open it within 15 minutes.''
           | Some NoVerifiedAccount \<Rightarrow>
               ''No account with a verified email matches this link. Verify your email first, or request a new link.''
           | Some Invalid \<Rightarrow> ''This recovery link is not valid. Please request a new one.''
           | _ \<Rightarrow> if apiMessage \<noteq> [] then apiMessage else ''Failed to recover account, please try again.'')
      | _ \<Rightarrow> ''Failed to recover account, please try again.'')"

text \<open>Both pages have the same state. A \<open>token\<close> that is missing or empty is falsy.\<close>

record LinkPageState =
  isLoading :: bool
  isSuccess :: bool
  error :: "string option"

definition LinkPage_initial :: LinkPageState where
  "LinkPage_initial = \<lparr>isLoading = True, isSuccess = False, error = None\<rparr>"

definition present :: "string option \<Rightarrow> bool" where
  "present v \<longleftrightarrow> v \<noteq> None \<and> v \<noteq> Some []"

text \<open>The effects, which run when the page opens and whenever the token or the authentication changes.\<close>

definition Verify_effect :: "'w env \<Rightarrow> string option \<Rightarrow> (LinkPageState, 'w, unit) page_task" where
  "Verify_effect E token =
     get_state (\<lambda>(_, s).
       if \<not> present token then
         await (set_local (\<lambda>l. l\<lparr>error := Some ''Missing verification token''\<rparr>)) (\<lambda>_.
         set_local (\<lambda>l. l\<lparr>isLoading := False\<rparr>))
       else if \<not> isAuthInitialized s then ret ()
       else if \<not> isAuthenticated s then set_local (\<lambda>l. l\<lparr>isLoading := False\<rparr>)
       else
         await (set_local (\<lambda>l. l\<lparr>isLoading := True\<rparr>)) (\<lambda>_.
         try_finally
           (try_catch
             (await (on_store (UserProfileApi_verifyMyEmail E (the token))) (\<lambda>_.
              await (set_local (\<lambda>l. l\<lparr>isSuccess := True\<rparr>)) (\<lambda>_.
              on_store setEmailVerified)))
             (\<lambda>err. set_local (\<lambda>l. l\<lparr>error := Some (verifyErrorMessage err)\<rparr>)))
           (set_local (\<lambda>l. l\<lparr>isLoading := False\<rparr>))))"

definition Recover_effect :: "'w env \<Rightarrow> event list \<Rightarrow> string option \<Rightarrow> (LinkPageState, 'w, unit) page_task" where
  "Recover_effect E es token =
     get_state (\<lambda>(_, s).
       if \<not> present token then
         await (set_local (\<lambda>l. l\<lparr>error := Some ''Missing recovery token''\<rparr>)) (\<lambda>_.
         set_local (\<lambda>l. l\<lparr>isLoading := False\<rparr>))
       else if \<not> isAuthInitialized s then ret ()
       else if \<not> isAuthenticated s then set_local (\<lambda>l. l\<lparr>isLoading := False\<rparr>)
       else
         await (set_local (\<lambda>l. l\<lparr>isLoading := True\<rparr>)) (\<lambda>_.
         try_finally
           (try_catch
             (await (on_store (recoverAccountByEmail E (the token))) (\<lambda>_.
              await (on_store (initializeData E es)) (\<lambda>_.
              set_local (\<lambda>l. l\<lparr>isSuccess := True\<rparr>))))
             (\<lambda>err. set_local (\<lambda>l. l\<lparr>error := Some (recoverErrorMessage err)\<rparr>)))
           (set_local (\<lambda>l. l\<lparr>isLoading := False\<rparr>))))"

datatype LinkPageEvent = SignIn | ReturnHome

text \<open>The sign-in button swallows a failed login; the other goes home.\<close>

definition SignIn_onClick :: "'w env \<Rightarrow> event list \<Rightarrow> (LinkPageState, 'w, unit) page_task" where
  "SignIn_onClick E es = try_catch (on_store (login E es)) (\<lambda>_. ret ())"

definition sign_in_alert :: "string \<Rightarrow> string \<Rightarrow> bool \<Rightarrow> LinkPageEvent view" where
  "sign_in_alert title description loggingIn =
     Elem ''Alert'' []
       [Elem ''AlertTitle'' [] [Text title],
        Elem ''AlertDescription'' [] [Text description],
        Elem ''AlertAction'' []
         [Elem ''Button'' [Flag ''disabled'' loggingIn, On ''click'' SignIn]
           [Text (if loggingIn then ''Signing in'' @ ellipsis else ''Sign in'')]]]"

definition outcome_alert :: "string \<Rightarrow> string \<Rightarrow> LinkPageEvent view" where
  "outcome_alert title description =
     Elem ''Alert'' []
       [Elem ''AlertTitle'' [] [Text title],
        Elem ''AlertDescription'' [] [Text description],
        Elem ''AlertAction'' [] [Elem ''Button'' [On ''click'' ReturnHome] [Text ''Return Home'']]]"

definition asks_sign_in :: "AppSlice \<Rightarrow> string option \<Rightarrow> LinkPageState \<Rightarrow> bool" where
  "asks_sign_in s token l \<longleftrightarrow>
     \<not> isLoading l \<and> \<not> isSuccess l \<and> \<not> present (error l) \<and> present token \<and> isAuthInitialized s \<and> \<not> isAuthenticated s"

definition Verify :: "AppSlice \<Rightarrow> string option \<Rightarrow> LinkPageState \<Rightarrow> LinkPageEvent view" where
  "Verify s token l =
     Elem ''Container'' []
       [Elem ''div'' []
         (Elem ''H1'' [] [Text ''Email Verification''] #
          given (isLoading l) [Elem ''p'' [] [Text ''Verifying your email, this may take a moment.'']]),
        Elem ''div'' []
         (given (isLoading l) [Elem ''LoadingSpinner'' [] []] @
          given (asks_sign_in s token l)
            [sign_in_alert ''Sign in to verify'' ''Sign in with Internet Identity to finish verifying your email.''
               (isLoggingIn s)] @
          given (\<not> isLoading l \<and> isSuccess l)
            [outcome_alert ''Verification Successful'' ''Your email address has been verified.''] @
          given (\<not> isLoading l \<and> present (error l)) [outcome_alert ''Verification Failed'' (the (error l))])]"

definition Recover :: "AppSlice \<Rightarrow> string option \<Rightarrow> LinkPageState \<Rightarrow> LinkPageEvent view" where
  "Recover s token l =
     Elem ''Container'' []
       [Elem ''div'' []
         (Elem ''H1'' [] [Text ''Account Recovery''] #
          given (isLoading l) [Elem ''p'' [] [Text ''Recovering your account, this may take a moment.'']]),
        Elem ''div'' []
         (given (isLoading l) [Elem ''LoadingSpinner'' [] []] @
          given (asks_sign_in s token l)
            [sign_in_alert ''Sign in to recover''
               (''Sign in with the Internet Identity you want to link to your '' @ ''account to finish recovery.'')
               (isLoggingIn s)] @
          given (\<not> isLoading l \<and> isSuccess l)
            [outcome_alert ''Recovery Successful'' ''This Internet Identity is now linked to your account.''] @
          given (\<not> isLoading l \<and> present (error l)) [outcome_alert ''Recovery Failed'' (the (error l))])]"

section \<open>The prompts of the home page\<close>

text \<open>The address of the profile, as JavaScript reads \<open>profile?.email\<close>: absent and empty are both falsy.\<close>

definition profileEmail :: "AppSlice \<Rightarrow> string option" where
  "profileEmail s = (case profile s of None \<Rightarrow> None | Some p \<Rightarrow> UserProfile_email p)"

record EmailPromptState =
  isEditing :: bool
  emailField :: string

definition EmailPrompt_onEditEmailClicked :: "AppSlice \<Rightarrow> EmailPromptState \<Rightarrow> EmailPromptState" where
  "EmailPrompt_onEditEmailClicked s l =
     l\<lparr>emailField := (case profileEmail s of Some e \<Rightarrow> e | None \<Rightarrow> []), isEditing := True\<rparr>"

text \<open>The form gives only addresses the schema accepts to \<open>onSubmit\<close>; resetting it empties its field.\<close>

definition EmailPrompt_onSubmit :: "'w env \<Rightarrow> string \<Rightarrow> (EmailPromptState, 'w, unit) page_task" where
  "EmailPrompt_onSubmit E email =
     try_catch
       (await (on_store (setEmail E email)) (\<lambda>_.
        await (set_local (\<lambda>l. l\<lparr>isEditing := False\<rparr>)) (\<lambda>_.
        await (set_local (\<lambda>l. l\<lparr>emailField := []\<rparr>)) (\<lambda>_.
        success_toast ''Email registered successfully!''))))
       (error_toast ''Failed to update email'')"

datatype EmailPromptEvent = EditEmail | EmailFieldChanged string | SubmitEmail

definition PromptHeader :: "'ev view" where
  "PromptHeader =
     Elem ''CardHeader'' [] [Elem ''CardTitle'' []
       [Elem ''div'' [] [Text ''Status: Restricted''], Elem ''Badge'' [] [Text ''Waitlist Active'']]]"

definition PromptFooter :: "'ev view" where
  "PromptFooter =
     Elem ''CardFooter'' [] [Elem ''div'' []
       [Elem ''div'' [] [Elem ''p'' [] [Text ''Swiss Data Protection'']],
        Elem ''div'' [] [Elem ''p'' [] [Text ''Switzerland-based Nodes'']]]]"

definition EmailPrompt :: "AppSlice \<Rightarrow> bool \<Rightarrow> EmailPromptState \<Rightarrow> EmailPromptEvent view" where
  "EmailPrompt s isSubmitting l =
     (if present (profileEmail s) \<and> \<not> isEditing l then
        Elem ''Card'' []
          [PromptHeader,
           Elem ''CardContent'' [] [Elem ''div'' []
             [Elem ''div'' []
               [Elem ''CardTitle'' [] [Text ''Email Registered''],
                Elem ''p'' [] [Text ''You're on the list! We'll be in touch soon.'']],
              Elem ''div'' []
               [Elem ''span'' [] [Text ''Signed up as: ''], Elem ''span'' [] [Text (the (profileEmail s))]],
              Elem ''Button'' [On ''click'' EditEmail] [Text ''Use a different email'']]],
           PromptFooter]
      else
        Elem ''Card'' []
          [PromptHeader,
           Elem ''CardContent'' []
             [Elem ''div'' []
               [Elem ''p'' [] [Text ''Enter your email to register with the waitlist:''],
                Elem ''div'' []
                 [Elem ''p'' [] [Text ''We'll use your email at most 3 times:''],
                  Elem ''ol'' []
                   [Elem ''li'' [] [Text ''To confirm your sign-up for the closed beta.''],
                    Elem ''li'' [] [Text ''To let you know when you're accepted.''],
                    Elem ''li'' [] [Text ''Once we launch, to ask if you're interested in more updates.'']]]],
              Elem ''form'' []
               [Elem ''FormItem'' []
                 [Elem ''FormLabel'' [] [Text ''Email Address''],
                  Elem ''Input'' [Attr ''placeholder'' ''you@example.com'', Attr ''value'' (emailField l),
                    OnText ''change'' EmailFieldChanged] [],
                  Elem ''FormMessage'' [] []],
                Elem ''LoadingButton'' [Flag ''isLoading'' isSubmitting, On ''submit'' SubmitEmail] [Text ''Register Email'']]],
           PromptFooter])"

text \<open>Asking for the verification email: the local state is \<open>isSendingVerificationEmail\<close>.\<close>

definition onSendVerificationEmailClicked :: "'w env \<Rightarrow> (bool, 'w, unit) page_task" where
  "onSendVerificationEmailClicked E =
     get_state (\<lambda>(_, s).
       case profile s of
         None \<Rightarrow> ret ()
       | Some p \<Rightarrow>
           if \<not> present (UserProfile_email p) \<or> UserProfile_emailVerified p then ret ()
           else
             await (set_local (\<lambda>_. True)) (\<lambda>_.
             try_finally
               (try_catch
                 (await (on_store (sendVerificationEmail E (the (UserProfile_email p)))) (\<lambda>_.
                  on_store (showSuccessToast ''Verification email sent'' ''Check your inbox.'')))
                 (error_toast ''Failed to send verification email''))
               (set_local (\<lambda>_. False))))"

definition EmailVerificationPrompt :: "AppSlice \<Rightarrow> bool \<Rightarrow> unit view" where
  "EmailVerificationPrompt s isSending =
     Elem ''div'' [] [Elem ''Alert'' []
       [Elem ''AlertTitle'' [] [Text ''Email Not Verified''],
        Elem ''AlertDescription'' []
         [Text ''Your email '', Elem ''span'' [] [Text (case profileEmail s of Some e \<Rightarrow> e | None \<Rightarrow> [])],
          Text ('' is not verified. Click the button to send a verification link to your '' @
            ''inbox (check spam if you don't see it).'')],
        Elem ''AlertAction'' []
         [Elem ''LoadingButton'' [On ''click'' (), Flag ''isLoading'' isSending] [Text ''Verify'']]]]"

record AccountRecoveryState =
  isOpen :: bool
  recoveryEmail :: string
  isSendingRecovery :: bool

definition AccountRecovery_onSubmit :: "'w env \<Rightarrow> (AccountRecoveryState, 'w, unit) page_task" where
  "AccountRecovery_onSubmit E =
     get_state (\<lambda>(l, _).
       if recoveryEmail l = [] then ret ()
       else
         await (set_local (\<lambda>l. l\<lparr>isSendingRecovery := True\<rparr>)) (\<lambda>_.
         try_finally
           (try_catch
             (await (on_store (sendRecoveryEmail E (recoveryEmail l))) (\<lambda>_.
              await (on_store (showSuccessToast ''Recovery email sent''
                ''If an account uses this email, a recovery link is on its way (check spam).'')) (\<lambda>_.
              await (set_local (\<lambda>l. l\<lparr>recoveryEmail := []\<rparr>)) (\<lambda>_.
              set_local (\<lambda>l. l\<lparr>isOpen := False\<rparr>)))))
             (error_toast ''Failed to send recovery email''))
           (set_local (\<lambda>l. l\<lparr>isSendingRecovery := False\<rparr>))))"

datatype AccountRecoveryEvent = OpenRecovery | RecoveryEmailChanged string | SendRecovery

definition AccountRecoveryPrompt :: "AccountRecoveryState \<Rightarrow> AccountRecoveryEvent view" where
  "AccountRecoveryPrompt l =
     (if \<not> isOpen l then
        Elem ''div'' [] [Elem ''Button'' [On ''click'' OpenRecovery] [Text ''Lost access to your Internet Identity?'']]
      else
        Elem ''Card'' [] [Elem ''CardContent'' []
          [Elem ''p'' [] [Text (''Enter the verified email on your account. We'll send a link to relink '' @
             ''a new Internet Identity.'')],
           Elem ''form'' [On ''submit'' SendRecovery]
             [Elem ''Input'' [Attr ''placeholder'' ''you@example.com'', Attr ''value'' (recoveryEmail l),
                OnText ''change'' RecoveryEmailChanged, Flag ''disabled'' (isSendingRecovery l)] [],
              Elem ''LoadingButton'' [Flag ''isLoading'' (isSendingRecovery l),
                Flag ''disabled'' (recoveryEmail l = [])] [Text ''Send link'']]]])"

definition onLoginClicked :: "'w env \<Rightarrow> event list \<Rightarrow> (unit, 'w, unit) page_task" where
  "onLoginClicked E es = try_catch (on_store (login E es)) (error_toast ''Login failed'')"

definition sign_up_button :: "bool \<Rightarrow> string \<Rightarrow> unit view" where
  "sign_up_button isAuthReady label =
     Elem ''Button'' [On ''click'' (), Flag ''disabled'' (\<not> isAuthReady)]
       [Elem ''WidthLock'' [Attr ''activeId'' (if isAuthReady then ''ready'' else ''waiting'')]
         [if isAuthReady then Elem ''span'' [] [Text label] else Elem ''LoaderIcon'' [] []]]"

definition SignUpPrompt :: "AppSlice \<Rightarrow> unit view" where
  "SignUpPrompt s =
     (let isAuthReady = (isAuthInitialized s \<and> \<not> isLoggingIn s) in
      Elem ''Card'' []
        [PromptHeader,
         Elem ''CardContent'' [] [Elem ''div'' []
           [sign_up_button isAuthReady ''Log In'', sign_up_button isAuthReady ''Sign Up for the Waitlist'']],
         PromptFooter])"

text \<open>Creating an account: the local state is \<open>isCreating\<close>.\<close>

definition onCreateClicked :: "'w env \<Rightarrow> (bool, 'w, unit) page_task" where
  "onCreateClicked E =
     await (set_local (\<lambda>_. True)) (\<lambda>_.
     try_finally
       (try_catch (on_store (createProfile E)) (error_toast ''Failed to create account''))
       (set_local (\<lambda>_. False)))"

definition OnboardingChoice :: "bool \<Rightarrow> unit view" where
  "OnboardingChoice isCreating =
     Elem ''div'' []
       [Elem ''Card'' [] [Elem ''CardContent'' []
         [Elem ''CardTitle'' [] [Text ''Welcome''],
          Elem ''p'' [] [Text ''This Internet Identity isn't linked to an account yet.''],
          Elem ''LoadingButton'' [Flag ''isLoading'' isCreating, On ''click'' ()] [Text ''Create a new account'']]],
        Elem ''AccountRecoveryPrompt'' [] []]"

definition ActivityPrompt :: "'ev view" where
  "ActivityPrompt =
     Elem ''Card'' []
       [PromptHeader,
        Elem ''CardContent'' []
         [Elem ''div'' []
           [Elem ''p'' [] [Text ''You're in!''],
            Elem ''p'' [] [Text ''You have access to the closed beta.'']],
          Elem ''NavLink'' [Attr ''to'' ''/canisters''] [Text ''Manage Your Canisters'']],
        PromptFooter]"

definition hasProfile :: "AppSlice \<Rightarrow> bool" where
  "hasProfile s \<longleftrightarrow> isAuthenticated s \<and> profile s \<noteq> None"

definition Home :: "AppSlice \<Rightarrow> 'ev view" where
  "Home s =
     Elem ''Container'' []
       (Elem ''div'' []
          [Elem ''H1'' [] [Text (if selectIsActive s then ''Console'' else ''Console Access Request'')],
           Elem ''p'' [] [Text ''Secure orchestration for Swiss-domiciled canisters'']] #
        given (\<not> isAuthenticated s) [Elem ''SignUpPrompt'' [] []] @
        given (\<not> isAuthenticated s) [Elem ''AccountRecoveryPrompt'' [] []] @
        given (isAuthenticated s \<and> \<not> hasProfile s) [Elem ''OnboardingChoice'' [] []] @
        given (hasProfile s \<and> present (profileEmail s) \<and>
            (case profile s of Some p \<Rightarrow> \<not> UserProfile_emailVerified p | None \<Rightarrow> False))
          [Elem ''EmailVerificationPrompt'' [] []] @
        given (hasProfile s \<and> \<not> selectIsActive s) [Elem ''EmailPrompt'' [] []] @
        given (hasProfile s \<and> selectIsActive s) [Elem ''ActivityPrompt'' [] []])"

section \<open>The terms and conditions\<close>

record TermsPageState = Page +
  isAccepting :: bool
  isDeclining :: bool

definition onDeclineTermsAndConditions :: "'w env \<Rightarrow> (TermsPageState, 'w, unit) page_task" where
  "onDeclineTermsAndConditions E =
     get_state (\<lambda>(_, s).
       case termsAndConditions s of
         None \<Rightarrow> throw (Error ''Cannot decline terms and conditions when none exist'')
       | Some t \<Rightarrow>
           await (set_local (\<lambda>l. l\<lparr>isDeclining := True\<rparr>)) (\<lambda>_.
           try_finally
             (try_catch
               (on_store (upsertTermsAndConditionsDecision E
                 \<lparr>UpsertTermsAndConditionsDecisionRequest_termsAndConditionsId = TermsAndConditions_id t,
                  UpsertTermsAndConditionsDecisionRequest_decisionType = Decision_Reject\<rparr>))
               (error_toast ''Failed to decline terms and conditions''))
             (await (navigate ''/'') (\<lambda>_. set_local (\<lambda>l. l\<lparr>isDeclining := False\<rparr>)))))"

definition onAcceptTermsAndConditions :: "'w env \<Rightarrow> (TermsPageState, 'w, unit) page_task" where
  "onAcceptTermsAndConditions E =
     get_state (\<lambda>(_, s).
       case termsAndConditions s of
         None \<Rightarrow> throw (Error ''Cannot accept terms and conditions when none exist'')
       | Some t \<Rightarrow>
           await (set_local (\<lambda>l. l\<lparr>isAccepting := True\<rparr>)) (\<lambda>_.
           try_finally
             (try_catch
               (await (on_store (upsertTermsAndConditionsDecision E
                  \<lparr>UpsertTermsAndConditionsDecisionRequest_termsAndConditionsId = TermsAndConditions_id t,
                   UpsertTermsAndConditionsDecisionRequest_decisionType = Decision_Accept\<rparr>)) (\<lambda>_.
                navigate ''/canisters''))
               (error_toast ''Failed to accept terms and conditions''))
             (set_local (\<lambda>l. l\<lparr>isAccepting := False\<rparr>))))"

datatype TermsPageEvent = DeclineTerms | AcceptTerms

definition TermsAndConditionsPage :: "Browser \<Rightarrow> AppSlice \<Rightarrow> TermsPageState \<Rightarrow> TermsPageEvent view" where
  "TermsAndConditionsPage B s l =
     Elem ''Container'' []
       [Elem ''H1'' [] [Text ''Terms and Conditions''],
        Elem ''div'' []
         [Elem ''p'' [] [Text ''Please read the terms and conditions carefully before accepting them.''],
          Elem ''p'' [] [Elem ''span'' [] [Text ''Effective from:''],
            Text (case termsAndConditions s of Some t \<Rightarrow> dayToLocale B (TermsAndConditions_createdAt t) | None \<Rightarrow> [])],
          Elem ''p'' [] [Elem ''span'' [] [Text ''Comment:''],
            Text (case termsAndConditions s of Some t \<Rightarrow> TermsAndConditions_comment t | None \<Rightarrow> [])]],
        Elem ''TermsAndConditionsContent''
          [Attr ''value'' (case termsAndConditions s of Some t \<Rightarrow> TermsAndConditions_content t | None \<Rightarrow> [])] [],
        Elem ''div'' []
         [Elem ''LoadingButton'' [Flag ''isLoading'' (isDeclining l), Flag ''disabled'' (isAccepting l \<or> isDeclining l),
            On ''click'' DeclineTerms] [Text ''Decline''],
          Elem ''LoadingButton'' [Flag ''isLoading'' (isAccepting l), Flag ''disabled'' (isAccepting l \<or> isDeclining l),
            On ''click'' AcceptTerms] [Text ''Accept'']]]"

section \<open>What the page of a verification link says\<close>

abbreviation alert_titles :: "'ev view \<Rightarrow> string list" where
  "alert_titles \<equiv> texts_of ''AlertTitle''"

lemmas verify_view = Verify_def sign_in_alert_def outcome_alert_def asks_sign_in_def present_def given_def

lemma verify_outcomes:
  assumes "\<not> isLoading l"
  shows "alert_titles (Verify s token l) =
    (if asks_sign_in s token l then [''Sign in to verify''] else []) @
    (if isSuccess l then [''Verification Successful''] else []) @
    (if present (error l) then [''Verification Failed''] else [])"
  using assms by (simp add: verify_view)

lemma verifyErrorMessage_not_Nil [simp]: "verifyErrorMessage err \<noteq> []"
  by (simp add: verifyErrorMessage_def split: js_error.split option.split RejectionReason.split)

lemma run_Verify_effect:
  assumes "present token" and "isAuthInitialized s" and "isAuthenticated s"
  shows "run (Verify_effect E token) (l, s) w =
    (case run (UserProfileApi_verifyMyEmail E (the token)) s w of
       (Inl err, s', w') \<Rightarrow> (Inr (), (l\<lparr>isLoading := False, error := Some (verifyErrorMessage err)\<rparr>, s'), w')
     | (Inr _, s', w') \<Rightarrow> (Inr (), (l\<lparr>isLoading := False, isSuccess := True\<rparr>, fst (snd (run setEmailVerified s' w'))), w'))"
  using assms
  by (cases l) (simp add: Verify_effect_def setEmailVerified_def run_simps split: prod.split sum.split)

text \<open>When a verification link was opened, and the authentication is known, the page ends up showing exactly one
  of the three outcomes: asking to sign in, success, or failure; success only if the backend accepted the token.\<close>

theorem verify_one_outcome:
  assumes "run (Verify_effect E token) (LinkPage_initial, s) w = (r, (l', s'), w')"
    and "\<not> present token \<or> isAuthInitialized s"
  shows "r = Inr () \<and> \<not> isLoading l' \<and> alert_titles (Verify s' token l') =
    [if \<not> present token then ''Verification Failed''
     else if \<not> isAuthenticated s then ''Sign in to verify''
     else case fst (run (UserProfileApi_verifyMyEmail E (the token)) s w) of
            Inl _ \<Rightarrow> ''Verification Failed'' | Inr _ \<Rightarrow> ''Verification Successful'']"
proof (cases "present token \<and> isAuthenticated s")
  case True
  then have auth: "present token" "isAuthInitialized s" "isAuthenticated s" using assms(2) by simp_all
  obtain ra sa wa where call: "run (UserProfileApi_verifyMyEmail E (the token)) s w = (ra, sa, wa)" by (metis prod_cases3)
  have sa: "sa = s" using call by (simp add: UserProfileApi_verifyMyEmail_def run_simps split: prod.splits sum.splits)
  show ?thesis
    using assms(1) call auth
    by (cases ra) (auto simp: run_Verify_effect verify_outcomes LinkPage_initial_def asks_sign_in_def sa
        present_def)
next
  case False
  then show ?thesis
    using assms
    by (cases "present token") (auto simp: Verify_effect_def run_simps LinkPage_initial_def verify_outcomes asks_sign_in_def
        present_def)
qed

theorem verify_one_outcome_witness:
  "alert_titles (Verify initialState None (LinkPage_initial\<lparr>isLoading := False, error := Some ''Missing verification token''\<rparr>)) =
     [''Verification Failed'']"
proof -
  have "run (Verify_effect offline None) (LinkPage_initial, initialState) 0 =
      (Inr (), (LinkPage_initial\<lparr>isLoading := False, error := Some ''Missing verification token''\<rparr>, initialState), 0)"
    by (simp add: Verify_effect_def present_def run_simps LinkPage_initial_def)
  from verify_one_outcome [OF this] show ?thesis by (simp add: present_def)
qed

text \<open>But an earlier failure is never taken back: when the link was opened with the wrong account, and the right
  account, signed in to afterwards on the same page, is accepted, the page reports both success and failure.\<close>

theorem verify_keeps_failure:
  assumes "run (Verify_effect E token) (l, s) w = (r, (l', s'), w')"
    and "present (error l)" and "present token" and "isAuthInitialized s" and "isAuthenticated s"
    and "fst (run (UserProfileApi_verifyMyEmail E (the token)) s w) = Inr ()"
  shows "alert_titles (Verify s' token l') = [''Verification Successful'', ''Verification Failed'']"
  using assms
  by (auto simp: run_Verify_effect verify_outcomes asks_sign_in_def split: prod.splits)

definition accepting_verification :: "nat env" where
  "accepting_verification =
     offline\<lparr>userProfileService := no_UserProfileService\<lparr>verify_my_email := answering (Ok ())\<rparr>\<rparr>"

theorem verify_keeps_failure_witness:
  "alert_titles (Verify admin_session (Some ''t'')
     \<lparr>isLoading = False, isSuccess = True, error = Some (verifyErrorMessage (ApiCallError ClientError [] (Some EmailMismatch)))\<rparr>) =
   [''Verification Successful'', ''Verification Failed'']"
proof -
  let ?l = "\<lparr>isLoading = False, isSuccess = False,
    error = Some (verifyErrorMessage (ApiCallError ClientError [] (Some EmailMismatch)))\<rparr>"
  have run: "run (Verify_effect accepting_verification (Some ''t'')) (?l, admin_session) 0 =
      (Inr (), (?l\<lparr>isSuccess := True\<rparr>, admin_session), 1)"
    by (simp add: run_Verify_effect present_def accepting_verification_def UserProfileApi_verifyMyEmail_def
        setEmailVerified_def answering_def mapRejectionResponse_def run_simps session_defs)
  have ok: "fst (run (UserProfileApi_verifyMyEmail accepting_verification ''t'') admin_session 0) = Inr ()"
    by (simp add: accepting_verification_def UserProfileApi_verifyMyEmail_def answering_def mapRejectionResponse_def run_simps)
  from verify_keeps_failure [OF run] ok show ?thesis
    by (simp add: present_def session_defs)
qed

end
