(* ===== verification/OrgPages.thy ===== *)
theory OrgPages
  imports UI CanisterStore Samples
begin

text \<open>
  The pages of an organization: creating one (\<open>routes/organizations/create-organization.tsx\<close>), its settings
  (\<open>organization-settings.tsx\<close>) with the cards for its plan, teams, projects, members and invitations
  (\<open>organization-billing-plan.tsx\<close> to \<open>organization-invitations.tsx\<close>), and the invitations one was sent
  (\<open>routes/invitations/my-invitations.tsx\<close>).
\<close>

section \<open>Creating an organization\<close>

text \<open>The pages of this theory know two kinds of forms: of a name, and of an invitation.\<close>

definition CreateOrganization_formSchema :: "string \<Rightarrow> string option" where
  "CreateOrganization_formSchema = name_schema"

record NamePageState = Page +
  nameForm :: "string Form"

definition CreateOrganization_onSubmit :: "'w env \<Rightarrow> string \<Rightarrow> (NamePageState, 'w, unit) page_task" where
  "CreateOrganization_onSubmit E name =
     try_catch
       (await (on_store (createOrganization E name)) (\<lambda>org.
        await (success_toast ''Organization created successfully!'') (\<lambda>_.
        navigate (''/organizations/'' @ Organization_id org @ ''/settings''))))
       (error_toast ''Failed to create organization'')"

datatype NameFormEvent = NameChanged string | NameSubmitted

definition CreateOrganization :: "bool \<Rightarrow> NamePageState \<Rightarrow> NameFormEvent view" where
  "CreateOrganization isSubmitting l =
     Elem ''Container'' [] [Elem ''Card'' []
       [Elem ''CardHeader'' [] [Elem ''CardTitle'' [] [Text ''Create Organization'']],
        Elem ''CardContent'' []
         [Elem ''form'' []
           [Elem ''FormItem'' []
             [Elem ''FormLabel'' [] [Text ''Organization Name''],
              Elem ''Input'' [Attr ''placeholder'' ''My Organization'', Attr ''value'' (form_values (nameForm l)),
                OnText ''change'' NameChanged] [],
              Elem ''FormMessage'' [] []],
            Elem ''LoadingButton'' [Flag ''isLoading'' isSubmitting, On ''submit'' NameSubmitted]
              [Text ''Create Organization'']]]]]"

section \<open>The settings of an organization\<close>

definition OrganizationSettings_formSchema :: "string \<Rightarrow> string option" where
  "OrganizationSettings_formSchema = name_schema"

record OrganizationSettingsState = Page +
  orgForm :: "string Form"
  orgMembersShown :: "OrgUser list"
  orgTeamsShown :: "OrgTeam list"
  orgProjectsShown :: "Project list"
  orgBillingPlan :: "OrgBillingPlan option"
  isDeletingOrg :: bool

definition OrganizationSettings_initial :: OrganizationSettingsState where
  "OrganizationSettings_initial =
     \<lparr>visits = [], orgForm = form_reset [], orgMembersShown = [], orgTeamsShown = [], orgProjectsShown = [],
      orgBillingPlan = None, isDeletingOrg = False\<rparr>"

text \<open>\<open>orgId ? orgMap.get(orgId) : undefined\<close>; the id is a parameter of the route.\<close>

definition the_organization :: "AppSlice \<Rightarrow> string option \<Rightarrow> Organization option" where
  "the_organization s orgId =
     (case orgId of None \<Rightarrow> None | Some i \<Rightarrow> if i = [] then None else js_map_get i (selectOrgMap s))"

definition refreshMembers :: "'w env \<Rightarrow> string \<Rightarrow> (OrganizationSettingsState, 'w, unit) page_task" where
  "refreshMembers E orgId =
     (if orgId = [] then ret ()
      else
        try_catch
          (await (on_store (loadOrgUsers E orgId)) (\<lambda>xs. set_local (\<lambda>l. l\<lparr>orgMembersShown := xs\<rparr>)))
          (error_toast ''Failed to load members''))"

definition refreshTeams :: "'w env \<Rightarrow> string \<Rightarrow> (OrganizationSettingsState, 'w, unit) page_task" where
  "refreshTeams E orgId =
     (if orgId = [] then ret ()
      else
        try_catch
          (await (on_store (loadOrgTeams E orgId)) (\<lambda>xs. set_local (\<lambda>l. l\<lparr>orgTeamsShown := xs\<rparr>)))
          (error_toast ''Failed to load teams''))"

definition refreshProjects :: "'w env \<Rightarrow> string \<Rightarrow> (OrganizationSettingsState, 'w, unit) page_task" where
  "refreshProjects E orgId =
     (if orgId = [] then ret ()
      else
        try_catch
          (await (on_store (loadOrgProjects E orgId)) (\<lambda>xs. set_local (\<lambda>l. l\<lparr>orgProjectsShown := xs\<rparr>)))
          (error_toast ''Failed to load projects''))"

definition refreshBillingPlan :: "'w env \<Rightarrow> string \<Rightarrow> (OrganizationSettingsState, 'w, unit) page_task" where
  "refreshBillingPlan E orgId =
     (if orgId = [] then ret ()
      else
        try_catch
          (await (on_store (loadOrgBillingPlan E orgId)) (\<lambda>plan. set_local (\<lambda>l. l\<lparr>orgBillingPlan := Some plan\<rparr>)))
          (error_toast ''Failed to load billing plan''))"

text \<open>The effect that runs when the page opens; none of the four waits for another.\<close>

definition OrganizationSettings_load :: "'w env \<Rightarrow> event list \<Rightarrow> string \<Rightarrow> (OrganizationSettingsState, 'w, unit) page_task" where
  "OrganizationSettings_load E es orgId =
     promise_all es [refreshMembers E orgId, refreshTeams E orgId, refreshProjects E orgId, refreshBillingPlan E orgId]"

text \<open>The effect that runs when the organization has changed.\<close>

definition OrganizationSettings_reset ::
    "Organization option \<Rightarrow> OrganizationSettingsState \<Rightarrow> OrganizationSettingsState" where
  "OrganizationSettings_reset org l =
     (case org of None \<Rightarrow> l | Some o' \<Rightarrow> l\<lparr>orgForm := form_reset (Organization_name o')\<rparr>)"

definition OrganizationSettings_onSubmit :: "'w env \<Rightarrow> string \<Rightarrow> string \<Rightarrow> (OrganizationSettingsState, 'w, unit) page_task" where
  "OrganizationSettings_onSubmit E orgId name =
     try_catch
       (await (on_store (updateOrganization E orgId name)) (\<lambda>_. success_toast ''Organization updated successfully!''))
       (error_toast ''Failed to update organization'')"

definition OrganizationSettings_onDelete :: "'w env \<Rightarrow> string \<Rightarrow> (OrganizationSettingsState, 'w, unit) page_task" where
  "OrganizationSettings_onDelete E orgId =
     await (set_local (\<lambda>l. l\<lparr>isDeletingOrg := True\<rparr>)) (\<lambda>_.
     try_finally
       (try_catch
         (await (on_store (deleteOrganization E orgId)) (\<lambda>_.
          await (success_toast ''Organization deleted successfully!'') (\<lambda>_.
          navigate ''/'')))
         (error_toast ''Failed to delete organization''))
       (set_local (\<lambda>l. l\<lparr>isDeletingOrg := False\<rparr>)))"

datatype OrganizationSettingsEvent = OrgNameChanged string | SaveOrganization | DeleteOrganization

definition OrganizationSettings ::
    "AppSlice \<Rightarrow> string option \<Rightarrow> bool \<Rightarrow> OrganizationSettingsState \<Rightarrow> OrganizationSettingsEvent view" where
  "OrganizationSettings s orgId isSubmitting l =
     (case the_organization s orgId of
        None \<Rightarrow> Elem ''Container'' [] [Elem ''p'' [] [Text ''Organization not found.'']]
      | Some org \<Rightarrow>
          let p = Organization_yourPermissions org in
          Elem ''Container'' [] [Elem ''div'' []
            ([Elem ''Card'' []
               [Elem ''CardHeader'' [] [Elem ''CardTitle'' [] [Text ''Organization Settings'']],
                Elem ''CardContent'' [] [Elem ''form'' []
                 [Elem ''FormItem'' []
                   [Elem ''FormLabel'' [] [Text ''Organization Name''],
                    Elem ''Input'' [Attr ''value'' (form_values (orgForm l)), OnText ''change'' OrgNameChanged,
                      Flag ''disabled'' (\<not> orgAdmin p)] [],
                    Elem ''FormMessage'' [] []],
                  Elem ''LoadingButton''
                    [Flag ''isLoading'' isSubmitting, Flag ''disabled'' (\<not> form_dirty (orgForm l) \<or> \<not> orgAdmin p),
                     On ''submit'' SaveOrganization] [Text ''Save Changes'']]]]] @
             (case orgBillingPlan l of
                None \<Rightarrow> []
              | Some plan \<Rightarrow> [Elem ''OrganizationBillingPlan'' [Attr ''orgId'' (the orgId)] []]) @
             [Elem ''OrganizationTeams'' [Attr ''orgId'' (the orgId), Flag ''canManageTeams'' (teamManage p)] [],
              Elem ''OrganizationProjects'' [Attr ''orgId'' (the orgId), Flag ''canCreateProject'' (projectCreate p)] [],
              Elem ''OrganizationMembers'' [Flag ''canSeeDetails'' (memberManage p)] [],
              Elem ''OrganizationInvitations'' [Attr ''orgId'' (the orgId)] []] @
             given (orgAdmin p)
               [Elem ''Card'' []
                 [Elem ''CardHeader'' [] [Elem ''CardTitle'' [] [Text ''Danger Zone'']],
                  Elem ''CardContent'' []
                   [Elem ''p'' [] [Text ''Delete this organization. All projects must be removed first.''],
                    Elem ''LoadingButton'' [Flag ''isLoading'' (isDeletingOrg l), On ''click'' DeleteOrganization]
                      [Text ''Delete Organization'']]]])])"

section \<open>The cards of the settings\<close>

definition member_email :: "string option \<Rightarrow> bool \<Rightarrow> 'ev view list" where
  "member_email email verified =
     (case email of None \<Rightarrow> [Elem ''span'' [] [Text ''(no email)'']] | Some e \<Rightarrow> [Text e]) @
     given (email \<noteq> None \<and> email \<noteq> Some [] \<and> \<not> verified) [Elem ''Badge'' [] [Text ''Unverified'']]"

definition OrganizationMembers :: "OrgUser list \<Rightarrow> bool \<Rightarrow> 'ev view" where
  "OrganizationMembers members canSeeDetails =
     Elem ''Card'' []
       [Elem ''CardHeader'' [] [Elem ''CardTitle'' [] [Text ''Members'']],
        Elem ''CardContent'' []
         [if length members = 0 then Elem ''p'' [] [Text ''No members yet.'']
          else
            Elem ''Table'' []
              [Elem ''TableHeader'' [] [Elem ''TableRow'' []
                 ([Elem ''TableHead'' [] [Text ''Email'']] @
                  given canSeeDetails [Elem ''TableHead'' [] [Text ''Teams'']] @
                  [Elem ''TableHead'' [] [Text ''User ID'']])],
               Elem ''TableBody'' [] (map (\<lambda>m.
                 Elem ''TableRow'' []
                   ([Elem ''TableCell'' [] [Elem ''span'' []
                       (member_email (OrgUser_email m) (OrgUser_emailVerified m) @
                        given (canSeeDetails \<and> OrgUser_isOrgAdmin m) [Elem ''Badge'' [] [Text ''Admin'']])]] @
                    given canSeeDetails
                      [Elem ''TableCell'' []
                        [if length (OrgUser_teams m) = 0 then Elem ''span'' [] [Text em_dash]
                         else Elem ''span'' [] (map (\<lambda>t. Elem ''Badge'' [] [Text (Team_name t)]) (OrgUser_teams m))]] @
                    [Elem ''TableCell'' [] [Text (OrgUser_id m)]])) members)]]]"

text \<open>An event of these cards is the path it navigates to.\<close>

definition OrganizationTeams :: "string \<Rightarrow> OrgTeam list \<Rightarrow> bool \<Rightarrow> string view" where
  "OrganizationTeams orgId xs canManageTeams =
     Elem ''Card'' []
       [Elem ''CardHeader'' [] [Elem ''CardTitle'' [] [Text ''Teams'']],
        Elem ''CardContent'' []
         ([Elem ''p'' [] [Text (if canManageTeams then ''Manage the teams in this organization.''
             else ''Teams in this organization.'')],
           if length xs = 0 then Elem ''p'' [] [Text ''No teams yet.'']
           else Elem ''ul'' [] (map (\<lambda>t.
             Elem ''li'' []
               (Elem ''span'' [] [Text (OrgTeam_name t)] #
                given canManageTeams
                  [Elem ''Button''
                     [On ''click'' (''/organizations/'' @ orgId @ ''/teams/'' @ OrgTeam_id t @ ''/settings'')]
                     [Text ''Manage'']])) xs)] @
          given canManageTeams
            [Elem ''Button'' [On ''click'' (''/organizations/'' @ orgId @ ''/teams'')] [Text ''Manage Teams'']])]"

definition OrganizationProjects :: "string \<Rightarrow> Project list \<Rightarrow> bool \<Rightarrow> string view" where
  "OrganizationProjects orgId xs canCreateProject =
     Elem ''Card'' []
       [Elem ''CardHeader'' [] [Elem ''CardTitle'' [] [Text ''Projects'']],
        Elem ''CardContent'' []
         ([Elem ''p'' [] [Text ''Projects in this organization.''],
           if length xs = 0 then Elem ''p'' [] [Text ''No projects yet.'']
           else Elem ''ul'' [] (map (\<lambda>p.
             Elem ''li'' []
               [Elem ''span'' [] [Text (Project_name p)],
                Elem ''Button''
                  [On ''click'' (''/organizations/'' @ orgId @ ''/projects/'' @ Project_id p @ ''/settings'')]
                  [Text ''Manage'']]) xs)] @
          given canCreateProject
            [Elem ''Button'' [On ''click'' (''/organizations/'' @ orgId @ ''/projects'')] [Text ''Manage Projects'']])]"

text \<open>The plan, with the usage of the organization in the current month.\<close>

record OrganizationBillingPlanState = Page +
  orgUsage :: "ProjectUsage option"
  isLoadingUsage :: bool

definition OrganizationBillingPlan_load ::
    "'w env \<Rightarrow> event list \<Rightarrow> string \<Rightarrow> (OrganizationBillingPlanState, 'w, unit) page_task" where
  "OrganizationBillingPlan_load E es orgId =
     await (set_local (\<lambda>l. l\<lparr>isLoadingUsage := True\<rparr>)) (\<lambda>_.
     try_finally
       (try_catch
         (await (on_store (loadOrgUsage E es orgId None)) (\<lambda>u. set_local (\<lambda>l. l\<lparr>orgUsage := Some u\<rparr>)))
         (error_toast ''Failed to load org usage:''))
       (set_local (\<lambda>l. l\<lparr>isLoadingUsage := False\<rparr>)))"

fun TIER_LABEL :: "PlanTier \<Rightarrow> string" where
  "TIER_LABEL PlanTier_Free = ''Free''"
| "TIER_LABEL PlanTier_Pro = ''Pro''"
| "TIER_LABEL PlanTier_Enterprise = ''Enterprise''"

definition over_limit :: "int \<Rightarrow> int \<Rightarrow> 'ev attr" where
  "over_limit used limit = Flag ''text-destructive'' (limit \<le> used)"

definition storage_row :: "Browser \<Rightarrow> OrgBillingPlan \<Rightarrow> ProjectUsage \<Rightarrow> 'ev view list" where
  "storage_row B plan usage =
     (case OrgBillingPlan_maxStorageBytes plan of
        None \<Rightarrow> []
      | Some limit \<Rightarrow>
          [Elem ''div'' []
            [Elem ''span'' [] [Text ''Storage Capacity''],
             Elem ''span'' [over_limit (ProjectUsage_memoryBytes usage) limit]
               [Text (formatBytes (floorLog1024 B) (nat (ProjectUsage_memoryBytes usage)) @ '' / '' @
                  formatBytes (floorLog1024 B) (nat limit))]]])"

definition OrganizationBillingPlan ::
    "Browser \<Rightarrow> OrgBillingPlan \<Rightarrow> OrganizationBillingPlanState \<Rightarrow> string view" where
  "OrganizationBillingPlan B plan l =
     Elem ''Card'' []
       [Elem ''CardHeader'' [] [Elem ''CardTitle'' [] [Text ''Billing Plan'']],
        Elem ''CardContent'' []
         ((if isLoadingUsage l then [Elem ''div'' [] [Elem ''Loader2'' [] []]]
           else
             case orgUsage l of
               None \<Rightarrow> []
             | Some usage \<Rightarrow>
                 [Elem ''div'' []
                   ([Elem ''h3'' [] [Text ''Plan Summary''],
                     Elem ''div'' []
                       [Elem ''span'' [] [Text ''Current plan''],
                        Elem ''span'' [] [Text (TIER_LABEL (OrgBillingPlan_tier plan))]],
                     Elem ''div'' []
                       [Elem ''span'' [] [Text ''Canisters''],
                        Elem ''span'' [over_limit (OrgBillingPlan_canistersUsed plan) (OrgBillingPlan_maxCanisters plan)]
                          [Text (bigint_text (OrgBillingPlan_canistersUsed plan) @ '' / '' @
                             bigint_text (OrgBillingPlan_maxCanisters plan))]]] @
                    storage_row B plan usage @
                    [Elem ''div'' []
                      [Elem ''h3'' [] [Text ''Usage Metrics''],
                       Elem ''p'' [] [Text (''Note: Some metrics are measured over time. For example, '' @ [CHR 0x22] @ ''Byte '' @
                         ''Seconds'' @ [CHR 0x22] @ '' represents the number of bytes stored multiplied by the '' @
                         ''duration they were stored (in seconds). '' @ [CHR 0x22] @ ''Percent Seconds'' @ [CHR 0x22] @
                         '' works similarly for resource allocation percentages over time.'')],
                       Elem ''UsageMetricsGrid'' [] []]])]) @
          given (OrgBillingPlan_tier plan = PlanTier_Free)
            [Elem ''Button'' [On ''click'' ''/billing''] [Text ''Upgrade Plan'']])]"

section \<open>Invitations\<close>

datatype InviteTargetKind = TargetKind_email | TargetKind_userId | TargetKind_principal

record InviteFormData =
  InviteFormData_kind :: InviteTargetKind
  InviteFormData_value :: string

definition inviteSchema :: "'w env \<Rightarrow> InviteFormData \<Rightarrow> InviteFormData option" where
  "inviteSchema E d =
     (let v = trim (InviteFormData_value d) in
      if length v < 1 then None
      else if InviteFormData_kind d = TargetKind_email \<and> CHR ''@'' \<notin> set v then None
      else if InviteFormData_kind d = TargetKind_principal \<and> (\<exists>err. fromText E v = Inl err) then None
      else Some (d\<lparr>InviteFormData_value := v\<rparr>))"

text \<open>\<open>s.charAt(0).toUpperCase() + s.slice(1)\<close>, used of the names of the statuses.\<close>

definition upper_char :: "char \<Rightarrow> char" where
  "upper_char c = (if is_lower c then char_of (of_char c - (32 :: nat)) else c)"

definition capitalize :: "string \<Rightarrow> string" where
  "capitalize s = map upper_char (take 1 s) @ drop 1 s"

definition formatRelativeExpiry :: "int \<Rightarrow> int \<Rightarrow> string" where
  "formatRelativeExpiry now expiresAtNs =
     (let diffMs = js_Number (bigint_div expiresAtNs 1000000) - now in
      if diffMs \<le> 0 then ''Expired''
      else
        let mins = nat diffMs div 60000 in
        if mins < 60 then ''In '' @ decimal mins @ ''m''
        else
          let hours = mins div 60 in
          if hours < 24 then ''In '' @ decimal hours @ ''h''
          else ''In '' @ decimal (hours div 24) @ ''d'')"

definition formatInviteTarget :: "'w env \<Rightarrow> InviteTarget \<Rightarrow> string" where
  "formatInviteTarget E target =
     (case target of
        InviteTarget_email email \<Rightarrow> email
      | InviteTarget_userId userId \<Rightarrow> userId
      | InviteTarget_principal p \<Rightarrow> toText E p)"

definition buildInviteTarget :: "'w env \<Rightarrow> InviteTargetKind \<Rightarrow> string \<Rightarrow> js_error + InviteTarget" where
  "buildInviteTarget E kind v =
     (case kind of
        TargetKind_email \<Rightarrow> Inr (InviteTarget_email v)
      | TargetKind_userId \<Rightarrow> Inr (InviteTarget_userId v)
      | TargetKind_principal \<Rightarrow> and_then (fromText E v) (\<lambda>p. Inr (InviteTarget_principal p)))"

text \<open>\<open>None\<close> is the filter that shows all.\<close>

record OrganizationInvitationsState =
  inviteForm :: "InviteFormData Form"
  orgInvites :: "OrgInvite list"
  revokingId :: "string option"
  inviteFilter :: "InviteStatus option"

definition blank_invite :: "InviteTargetKind \<Rightarrow> InviteFormData" where
  "blank_invite kind = \<lparr>InviteFormData_kind = kind, InviteFormData_value = []\<rparr>"

definition OrganizationInvitations_initial :: OrganizationInvitationsState where
  "OrganizationInvitations_initial =
     \<lparr>inviteForm = form_reset (blank_invite TargetKind_email), orgInvites = [], revokingId = None, inviteFilter = None\<rparr>"

definition filteredInvites :: "OrganizationInvitationsState \<Rightarrow> OrgInvite list" where
  "filteredInvites l =
     (case inviteFilter l of None \<Rightarrow> orgInvites l | Some st \<Rightarrow> filter (\<lambda>i. OrgInvite_status i = st) (orgInvites l))"

definition refreshInvites :: "'w env \<Rightarrow> string \<Rightarrow> (OrganizationInvitationsState, 'w, unit) page_task" where
  "refreshInvites E orgId =
     try_catch
       (await (on_store (listOrgInvites E orgId)) (\<lambda>xs. set_local (\<lambda>l. l\<lparr>orgInvites := xs\<rparr>)))
       (error_toast ''Failed to load invitations'')"

definition onInviteSubmit :: "'w env \<Rightarrow> string \<Rightarrow> InviteFormData \<Rightarrow> (OrganizationInvitationsState, 'w, unit) page_task" where
  "onInviteSubmit E orgId d =
     try_catch
       (await (lift_sum (buildInviteTarget E (InviteFormData_kind d) (InviteFormData_value d))) (\<lambda>target.
        await (on_store (createOrgInvite E
          \<lparr>CreateOrgInviteRequest_orgId = orgId, CreateOrgInviteRequest_target = target\<rparr>)) (\<lambda>_.
        await (success_toast ''Invitation created'') (\<lambda>_.
        await (set_local (\<lambda>l. l\<lparr>inviteForm := form_reset (blank_invite (InviteFormData_kind d))\<rparr>)) (\<lambda>_.
        refreshInvites E orgId)))))
       (error_toast ''Failed to create invitation'')"

definition onRevoke :: "'w env \<Rightarrow> string \<Rightarrow> string \<Rightarrow> (OrganizationInvitationsState, 'w, unit) page_task" where
  "onRevoke E orgId inviteId =
     await (set_local (\<lambda>l. l\<lparr>revokingId := Some inviteId\<rparr>)) (\<lambda>_.
     try_finally
       (try_catch
         (await (on_store (revokeOrgInvite E inviteId)) (\<lambda>_.
          await (success_toast ''Invitation revoked'') (\<lambda>_.
          refreshInvites E orgId)))
         (error_toast ''Failed to revoke invitation''))
       (set_local (\<lambda>l. l\<lparr>revokingId := None\<rparr>)))"

fun invite_status_text :: "InviteStatus \<Rightarrow> string" where
  "invite_status_text Invite_pending = ''pending''"
| "invite_status_text Invite_accepted = ''accepted''"
| "invite_status_text Invite_declined = ''declined''"
| "invite_status_text Invite_revoked = ''revoked''"

definition INVITE_FILTERS :: "InviteStatus option list" where
  "INVITE_FILTERS = [Some Invite_pending, Some Invite_accepted, Some Invite_declined, Some Invite_revoked, None]"

definition filter_text :: "InviteStatus option \<Rightarrow> string" where
  "filter_text f = (case f of None \<Rightarrow> ''all'' | Some st \<Rightarrow> invite_status_text st)"

datatype InvitationsEvent =
    KindChosen InviteTargetKind
  | TargetTyped string
  | SendInvitation
  | InviteFilterChosen "InviteStatus option"
  | RevokeInvite string

definition invite_row :: "'w env \<Rightarrow> int \<Rightarrow> OrganizationInvitationsState \<Rightarrow> OrgInvite \<Rightarrow> InvitationsEvent view" where
  "invite_row E now l invite =
     (let waiting = (OrgInvite_status invite = Invite_pending) in
      Elem ''TableRow'' []
        [Elem ''TableCell'' [] [Text (formatInviteTarget E (OrgInvite_target invite))],
         Elem ''TableCell'' []
           [Elem ''Badge'' [Attr ''variant'' (if waiting then ''default'' else ''outline'')]
             [Text (capitalize (invite_status_text (OrgInvite_status invite)))]],
         Elem ''TableCell'' []
           [Text (if waiting then formatRelativeExpiry now (OrgInvite_expiresAtNs invite) else ''-'')],
         Elem ''TableCell'' []
           (given waiting
             [Elem ''LoadingButton'' [Flag ''isLoading'' (revokingId l = Some (OrgInvite_id invite)),
                On ''click'' (RevokeInvite (OrgInvite_id invite))] [Text ''Revoke'']])])"

definition OrganizationInvitations_form :: "bool \<Rightarrow> OrganizationInvitationsState \<Rightarrow> InvitationsEvent view" where
  "OrganizationInvitations_form isSubmitting l =
     Elem ''form'' []
       [Elem ''FormItem'' []
         [Elem ''FormLabel'' [] [Text ''Target type''],
          Elem ''select'' []
           [Elem ''option'' [On ''select'' (KindChosen TargetKind_email)] [Text ''Email''],
            Elem ''option'' [On ''select'' (KindChosen TargetKind_userId)] [Text ''User ID''],
            Elem ''option'' [On ''select'' (KindChosen TargetKind_principal)] [Text ''Principal'']],
          Elem ''FormMessage'' [] []],
        Elem ''FormItem'' []
         [Elem ''FormLabel'' [] [Text ''Target''],
          Elem ''Input'' [Attr ''value'' (InviteFormData_value (form_values (inviteForm l))),
            OnText ''change'' TargetTyped] [],
          Elem ''FormMessage'' [] []],
        Elem ''LoadingButton'' [Flag ''isLoading'' isSubmitting, On ''submit'' SendInvitation] [Text ''Send invitation'']]"

definition OrganizationInvitations ::
    "'w env \<Rightarrow> int \<Rightarrow> bool \<Rightarrow> OrganizationInvitationsState \<Rightarrow> InvitationsEvent view" where
  "OrganizationInvitations E now isSubmitting l =
     Elem ''Card'' []
       [Elem ''CardHeader'' [] [Elem ''CardTitle'' [] [Text ''Invitations'']],
        Elem ''CardContent'' []
         [Elem ''p'' [] [Text (''Invite users by email, user ID, or principal. Invitations expire after '' @
            ''7 days. Target existence is never disclosed.'')],
          OrganizationInvitations_form isSubmitting l,
          Elem ''div'' [] (map (\<lambda>f.
            Elem ''Button'' [Attr ''variant'' (if inviteFilter l = f then ''default'' else ''outline''),
              On ''click'' (InviteFilterChosen f)] [Text (capitalize (filter_text f))]) INVITE_FILTERS),
          if length (filteredInvites l) = 0 then Elem ''p'' [] [Text ''No invitations in this filter.'']
          else
            Elem ''Table'' []
              [Elem ''TableHeader'' [] [Elem ''TableRow'' []
                 [Elem ''TableHead'' [] [Text ''Target''], Elem ''TableHead'' [] [Text ''Status''],
                  Elem ''TableHead'' [] [Text ''Expires''], Elem ''TableHead'' [] []]],
               Elem ''TableBody'' [] (map (invite_row E now l) (filteredInvites l))]]]"

section \<open>The invitations one was sent\<close>

text \<open>The local state is \<open>busyId\<close>.\<close>

definition onAccept :: "'w env \<Rightarrow> string \<Rightarrow> (string option, 'w, unit) page_task" where
  "onAccept E inviteId =
     await (set_local (\<lambda>_. Some inviteId)) (\<lambda>_.
     try_finally
       (try_catch
         (await (on_store (acceptOrgInvite E inviteId)) (\<lambda>_. success_toast ''Invitation accepted''))
         (error_toast ''Failed to accept invitation''))
       (set_local (\<lambda>_. None)))"

definition onDecline :: "'w env \<Rightarrow> string \<Rightarrow> (string option, 'w, unit) page_task" where
  "onDecline E inviteId =
     await (set_local (\<lambda>_. Some inviteId)) (\<lambda>_.
     try_finally
       (try_catch
         (await (on_store (declineOrgInvite E inviteId)) (\<lambda>_. success_toast ''Invitation declined''))
         (error_toast ''Failed to decline invitation''))
       (set_local (\<lambda>_. None)))"

datatype MyInvitationsEvent = AcceptInvite string | DeclineInvite string

definition MyInvitations :: "Browser \<Rightarrow> OrgInvite list \<Rightarrow> string option \<Rightarrow> MyInvitationsEvent view" where
  "MyInvitations B invites busyId =
     Elem ''Container'' [] [Elem ''div'' [] [Elem ''Card'' []
       [Elem ''CardHeader'' [] [Elem ''CardTitle'' [] [Text ''Your invitations'']],
        Elem ''CardContent'' []
         [if length invites = 0 then Elem ''p'' [] [Text ''You have no pending invitations.'']
          else Elem ''ul'' [] (map (\<lambda>invite.
            Elem ''li'' []
              [Elem ''div'' []
                [Elem ''p'' [] [Text (OrgInvite_orgName invite)],
                 Elem ''p'' [] [Text ''Expires '', Text (dateToLocale B (date_of_nanos (OrgInvite_expiresAtNs invite)))]],
               Elem ''div'' []
                [Elem ''LoadingButton'' [Flag ''isLoading'' (busyId = Some (OrgInvite_id invite)),
                   On ''click'' (DeclineInvite (OrgInvite_id invite))] [Text ''Decline''],
                 Elem ''LoadingButton'' [Flag ''isLoading'' (busyId = Some (OrgInvite_id invite)),
                   On ''click'' (AcceptInvite (OrgInvite_id invite))] [Text ''Accept'']]]) invites)]]]]"

section \<open>An invitation is for whom was typed\<close>

lemma run_refreshInvites_result: "fst (run (refreshInvites E orgId) (l, s) w) = Inr ()"
  by (auto simp: refreshInvites_def run_simps split: prod.splits sum.splits)


definition typed_email :: InviteFormData where
  "typed_email = \<lparr>InviteFormData_kind = TargetKind_email, InviteFormData_value = '' a@b ''\<rparr>"

lemma typed_email_trim: "trim (InviteFormData_value typed_email) = ''a@b''"
  by (simp add: typed_email_def trim_def trim_start_def trim_end_def is_space_def)


section \<open>The time left\<close>

text \<open>
  What an invitation that has not expired says of its remaining time is true and precise: a number of minutes
  below an hour, of hours below a day, and of days otherwise, rounded down.
\<close>

theorem formatRelativeExpiry_bounds:
  assumes "js_Number (bigint_div expiresAtNs 1000000) - now = int ms" and "0 < ms"
  shows "\<exists>n unit len. formatRelativeExpiry now expiresAtNs = ''In '' @ decimal n @ unit \<and>
    n * len \<le> ms \<and> ms < (n + 1) * len \<and>
    (unit = ''m'' \<and> len = 60000 \<and> n < 60 \<or> unit = ''h'' \<and> len = 60 * 60000 \<and> 1 \<le> n \<and> n < 24 \<or>
     unit = ''d'' \<and> len = 24 * 60 * 60000 \<and> 1 \<le> n)"
proof -
  have floor: "ms div len * len \<le> ms \<and> ms < (ms div len + 1) * len" if "0 < len" for len
    using that dividend_less_times_div [of len ms] by (simp add: mult.commute)
  let ?mins = "ms div 60000"
  have said: "formatRelativeExpiry now expiresAtNs =
      (if ?mins < 60 then ''In '' @ decimal ?mins @ ''m''
       else if ?mins div 60 < 24 then ''In '' @ decimal (?mins div 60) @ ''h''
       else ''In '' @ decimal (?mins div 60 div 24) @ ''d'')"
    using assms by (simp add: formatRelativeExpiry_def Let_def)
  have hours: "?mins div 60 = ms div (60 * 60000)" and days: "?mins div 60 div 24 = ms div (24 * 60 * 60000)"
    by (simp_all add: div_mult2_eq [symmetric])
  consider "?mins < 60" | "60 \<le> ?mins" "?mins div 60 < 24" | "24 \<le> ?mins div 60" by linarith
  then show ?thesis
  proof cases
    case 1
    then show ?thesis using floor [of 60000] said
      by (intro exI [of _ ?mins] exI [of _ "''m''"] exI [of _ 60000]) auto
  next
    case 2
    then have "1 \<le> ?mins div 60" by linarith
    with 2 show ?thesis using floor [of "60 * 60000"] said unfolding hours
      by (intro exI [of _ "ms div (60 * 60000)"] exI [of _ "''h''"] exI [of _ "60 * 60000"]) auto
  next
    case 3
    then have "1 \<le> ?mins div 60 div 24" "\<not> ?mins < 60" by linarith+
    with 3 show ?thesis using floor [of "24 * 60 * 60000"] said unfolding days
      by (intro exI [of _ "ms div (24 * 60 * 60000)"] exI [of _ "''d''"] exI [of _ "24 * 60 * 60000"]) auto
  qed
qed

theorem formatRelativeExpiry_bounds_witness:
  "\<exists>n unit. formatRelativeExpiry 0 (90 * 60 * 1000000000) = ''In '' @ decimal n @ unit"
proof -
  have "js_Number (bigint_div (90 * 60 * 1000000000) 1000000) - 0 = int 5400000"
    by (simp add: bigint_div_nonneg js_Number_exact)
  from formatRelativeExpiry_bounds [OF this] show ?thesis by auto
qed

section \<open>Only pending invitations are revoked\<close>

text \<open>The page offers to revoke an invitation exactly if it is shown, pending, and not being revoked already.\<close>

theorem revoke_offered:
  "RevokeInvite inviteId \<in> set (enabled (OrganizationInvitations E now isSubmitting l)) \<longleftrightarrow>
     (\<exists>invite \<in> set (filteredInvites l). OrgInvite_id invite = inviteId \<and> OrgInvite_status invite = Invite_pending) \<and>
     revokingId l \<noteq> Some inviteId"
  by (auto simp: OrganizationInvitations_def OrganizationInvitations_form_def invite_row_def Let_def given_def disabled_def)

end
