(* ===== verification/TeamPages.thy ===== *)
theory TeamPages
  imports OrgPages Editors
begin

text \<open>
  The pages of teams: their list (\<open>routes/organizations/teams/team-list.tsx\<close>), creating one
  (\<open>create-team.tsx\<close>), and the settings of one (\<open>team-settings.tsx\<close>), which uses the editor of permissions.
\<close>

section \<open>The teams of an organization\<close>

definition PERMISSION_CHIPS :: "((OrgPermissions \<Rightarrow> bool) \<times> string) list" where
  "PERMISSION_CHIPS =
     [(memberManage, ''Members''), (teamManage, ''Teams''), (projectCreate, ''Projects''), (billingManage, ''Billing'')]"

definition TeamPermissionChips :: "OrgPermissions \<Rightarrow> 'ev view" where
  "TeamPermissionChips permissions =
     (if orgAdmin permissions then Elem ''Badge'' [Attr ''variant'' ''default''] [Text ''Admin'']
      else
        let granted = filter (\<lambda>(key, label). key permissions) PERMISSION_CHIPS in
        if length granted = 0 then Elem ''Badge'' [Attr ''variant'' ''outline''] [Text ''No permissions'']
        else Elem ''Fragment'' [] (map (\<lambda>(key, label).
          Elem ''Badge'' [Attr ''variant'' ''secondary''] [Text label]) granted))"

record TeamListState = Page +
  listedTeams :: "OrgTeam list"
  isLoadingTeams :: bool

definition TeamList_load :: "'w env \<Rightarrow> string option \<Rightarrow> (TeamListState, 'w, unit) page_task" where
  "TeamList_load E orgId =
     (case orgId of
        None \<Rightarrow> ret ()
      | Some i \<Rightarrow>
          try_finally
            (try_catch
              (await (on_store (loadOrgTeams E i)) (\<lambda>xs. set_local (\<lambda>l. l\<lparr>listedTeams := xs\<rparr>)))
              (error_toast ''Failed to load teams''))
            (set_local (\<lambda>l. l\<lparr>isLoadingTeams := False\<rparr>)))"

text \<open>An event of the list is the path it navigates to.\<close>

definition TeamList :: "AppSlice \<Rightarrow> string option \<Rightarrow> TeamListState \<Rightarrow> string view" where
  "TeamList s orgId l =
     (case the_organization s orgId of
        None \<Rightarrow> Elem ''Container'' [] [Elem ''p'' [] [Text ''Organization not found.'']]
      | Some org \<Rightarrow>
          let i = the orgId; canManageTeams = teamManage (Organization_yourPermissions org) in
          Elem ''Container'' []
            [Breadcrumbs [(Organization_name org, Some (''/organizations/'' @ i @ ''/settings'')), (''Teams'', None)],
             Elem ''div'' [] [Elem ''Card'' []
               [Elem ''CardHeader'' []
                 (Elem ''CardTitle'' [] [Text ''Teams in '', Text (Organization_name org)] #
                  given canManageTeams
                    [Elem ''Button'' [On ''click'' (''/organizations/'' @ i @ ''/teams/new'')] [Text ''New Team'']]),
                Elem ''CardContent'' []
                 [if isLoadingTeams l then Elem ''p'' [] [Text ''Loading...'']
                  else if length (listedTeams l) = 0 then
                    Elem ''div'' []
                      (Elem ''p'' [] [Text ''No teams yet.''] #
                       given canManageTeams
                         [Elem ''Button'' [On ''click'' (''/organizations/'' @ i @ ''/teams/new'')]
                           [Text ''Create your first team'']])
                  else Elem ''ul'' [] (map (\<lambda>team.
                    Elem ''li'' [] [Elem ''button''
                      [On ''click'' (''/organizations/'' @ i @ ''/teams/'' @ OrgTeam_id team @ ''/settings'')]
                      [Elem ''span'' [] [Text (OrgTeam_name team)],
                       Elem ''div'' [] [TeamPermissionChips (OrgTeam_permissions team)]]]) (listedTeams l))]]]])"

section \<open>Creating a team\<close>

definition CreateTeam_formSchema :: "string \<Rightarrow> string option" where
  "CreateTeam_formSchema = name_schema"

definition CreateTeam_onSubmit :: "'w env \<Rightarrow> string \<Rightarrow> string \<Rightarrow> (NamePageState, 'w, unit) page_task" where
  "CreateTeam_onSubmit E orgId name =
     try_catch
       (await (on_store (createTeam E orgId name)) (\<lambda>team.
        await (success_toast ''Team created successfully!'') (\<lambda>_.
        navigate (''/organizations/'' @ orgId @ ''/teams/'' @ Team_id team @ ''/settings''))))
       (error_toast ''Failed to create team'')"

definition CreateTeam :: "AppSlice \<Rightarrow> string option \<Rightarrow> bool \<Rightarrow> NamePageState \<Rightarrow> NameFormEvent view" where
  "CreateTeam s orgId isSubmitting l =
     (case the_organization s orgId of
        None \<Rightarrow> Elem ''Container'' [] [Elem ''p'' [] [Text ''Organization not found.'']]
      | Some org \<Rightarrow>
          Elem ''Container'' []
            [Breadcrumbs
               [(Organization_name org, Some (''/organizations/'' @ the orgId @ ''/settings'')),
                (''Teams'', Some (''/organizations/'' @ the orgId @ ''/teams'')), (''New Team'', None)],
             Elem ''Card'' []
               [Elem ''CardHeader'' [] [Elem ''CardTitle'' [] [Text ''Create Team'']],
                Elem ''CardContent'' [] [Elem ''form'' []
                 [Elem ''FormItem'' []
                   [Elem ''FormLabel'' [] [Text ''Team Name''],
                    Elem ''Input'' [Attr ''placeholder'' ''My Team'', Attr ''value'' (form_values (nameForm l)),
                      OnText ''change'' NameChanged] [],
                    Elem ''FormMessage'' [] []],
                  Elem ''LoadingButton'' [Flag ''isLoading'' isSubmitting, On ''submit'' NameSubmitted]
                    [Text ''Create Team'']]]]])"

section \<open>The settings of a team\<close>

definition TeamSettings_formSchema :: "string \<Rightarrow> string option" where
  "TeamSettings_formSchema = name_schema"

record TeamSettingsState = Page +
  teamForm :: "string Form"
  orgMembers :: "OrgUser list"
  teamMembers :: "TeamUser list"
  orgTeam :: "OrgTeam option"
  selectedUserId :: string
  isAddingMember :: bool
  removingUserId :: "string option"
  isDeletingTeam :: bool

definition TeamSettings_initial :: TeamSettingsState where
  "TeamSettings_initial =
     \<lparr>visits = [], teamForm = form_reset [], orgMembers = [], teamMembers = [], orgTeam = None, selectedUserId = [],
      isAddingMember = False, removingUserId = None, isDeletingTeam = False\<rparr>"

definition the_team :: "AppSlice \<Rightarrow> string option \<Rightarrow> Team option" where
  "the_team s teamId =
     (case teamId of None \<Rightarrow> None | Some i \<Rightarrow> if i = [] then None else js_map_get i (selectTeamMap s))"

definition canTeamManage :: "AppSlice \<Rightarrow> string option \<Rightarrow> bool" where
  "canTeamManage s orgId =
     (case the_organization s orgId of Some org \<Rightarrow> teamManage (Organization_yourPermissions org) | None \<Rightarrow> False)"

definition canMemberManage :: "AppSlice \<Rightarrow> string option \<Rightarrow> bool" where
  "canMemberManage s orgId =
     (case the_organization s orgId of Some org \<Rightarrow> memberManage (Organization_yourPermissions org) | None \<Rightarrow> False)"

definition refreshOrgMembers :: "'w env \<Rightarrow> string \<Rightarrow> (TeamSettingsState, 'w, unit) page_task" where
  "refreshOrgMembers E orgId =
     (if orgId = [] then ret ()
      else
        try_catch
          (await (on_store (loadOrgUsers E orgId)) (\<lambda>xs. set_local (\<lambda>l. l\<lparr>orgMembers := xs\<rparr>)))
          (error_toast ''Failed to load org members''))"

definition refreshTeamMembers :: "'w env \<Rightarrow> string \<Rightarrow> (TeamSettingsState, 'w, unit) page_task" where
  "refreshTeamMembers E teamId =
     (if teamId = [] then ret ()
      else
        try_catch
          (await (on_store (loadTeamUsers E teamId)) (\<lambda>xs. set_local (\<lambda>l. l\<lparr>teamMembers := xs\<rparr>)))
          (error_toast ''Failed to load team members''))"

definition refreshOrgTeam :: "'w env \<Rightarrow> string \<Rightarrow> string \<Rightarrow> (TeamSettingsState, 'w, unit) page_task" where
  "refreshOrgTeam E orgId teamId =
     (if orgId = [] \<or> teamId = [] then ret ()
      else
        try_catch
          (await (on_store (loadOrgTeams E orgId)) (\<lambda>xs.
           set_local (\<lambda>l. l\<lparr>orgTeam := List.find (\<lambda>t. OrgTeam_id t = teamId) xs\<rparr>)))
          (error_toast ''Failed to load team permissions''))"

definition TeamSettings_load :: "'w env \<Rightarrow> event list \<Rightarrow> string \<Rightarrow> string \<Rightarrow> (TeamSettingsState, 'w, unit) page_task" where
  "TeamSettings_load E es orgId teamId =
     promise_all es [refreshOrgMembers E orgId, refreshTeamMembers E teamId, refreshOrgTeam E orgId teamId]"

definition teamMemberIds :: "TeamSettingsState \<Rightarrow> string set" where
  "teamMemberIds l = TeamUser_id ` set (teamMembers l)"

definition addableOrgMembers :: "TeamSettingsState \<Rightarrow> OrgUser list" where
  "addableOrgMembers l = filter (\<lambda>m. OrgUser_id m \<notin> teamMemberIds l) (orgMembers l)"

text \<open>The effect that runs when the team has changed.\<close>

definition TeamSettings_reset :: "Team option \<Rightarrow> TeamSettingsState \<Rightarrow> TeamSettingsState" where
  "TeamSettings_reset team l = (case team of None \<Rightarrow> l | Some t \<Rightarrow> l\<lparr>teamForm := form_reset (Team_name t)\<rparr>)"

definition TeamSettings_onSubmit :: "'w env \<Rightarrow> string \<Rightarrow> string \<Rightarrow> (TeamSettingsState, 'w, unit) page_task" where
  "TeamSettings_onSubmit E teamId name =
     try_catch
       (await (on_store (updateTeam E teamId name)) (\<lambda>_. success_toast ''Team updated successfully!''))
       (error_toast ''Failed to update team'')"

definition onAddMember :: "'w env \<Rightarrow> string \<Rightarrow> (TeamSettingsState, 'w, unit) page_task" where
  "onAddMember E teamId =
     get_state (\<lambda>(l, _).
       if selectedUserId l = [] then ret ()
       else
         await (set_local (\<lambda>l. l\<lparr>isAddingMember := True\<rparr>)) (\<lambda>_.
         try_finally
           (try_catch
             (await (on_store (addUserToTeam E teamId (selectedUserId l))) (\<lambda>_.
              await (success_toast ''Member added to team'') (\<lambda>_.
              await (set_local (\<lambda>l. l\<lparr>selectedUserId := []\<rparr>)) (\<lambda>_.
              refreshTeamMembers E teamId))))
             (error_toast ''Failed to add member''))
           (set_local (\<lambda>l. l\<lparr>isAddingMember := False\<rparr>))))"

definition onRemoveMember :: "'w env \<Rightarrow> string \<Rightarrow> string \<Rightarrow> (TeamSettingsState, 'w, unit) page_task" where
  "onRemoveMember E teamId userId =
     await (set_local (\<lambda>l. l\<lparr>removingUserId := Some userId\<rparr>)) (\<lambda>_.
     try_finally
       (try_catch
         (await (on_store (removeUserFromTeam E teamId userId)) (\<lambda>_.
          await (success_toast ''Member removed from team'') (\<lambda>_.
          refreshTeamMembers E teamId)))
         (error_toast ''Failed to remove member''))
       (set_local (\<lambda>l. l\<lparr>removingUserId := None\<rparr>)))"

definition onSavePermissions :: "'w env \<Rightarrow> string \<Rightarrow> OrgPermissions \<Rightarrow> (TeamSettingsState, 'w, unit) page_task" where
  "onSavePermissions E teamId permissions =
     await (on_store (updateTeamOrgPermissions E teamId permissions)) (\<lambda>updated.
     await (set_local (\<lambda>l. l\<lparr>orgTeam := Some updated\<rparr>)) (\<lambda>_.
     success_toast ''Permissions updated''))"

definition TeamSettings_onDelete :: "'w env \<Rightarrow> string \<Rightarrow> string \<Rightarrow> (TeamSettingsState, 'w, unit) page_task" where
  "TeamSettings_onDelete E orgId teamId =
     await (set_local (\<lambda>l. l\<lparr>isDeletingTeam := True\<rparr>)) (\<lambda>_.
     try_finally
       (try_catch
         (await (on_store (deleteTeam E teamId)) (\<lambda>_.
          await (success_toast ''Team deleted successfully!'') (\<lambda>_.
          navigate (''/organizations/'' @ orgId @ ''/settings''))))
         (error_toast ''Failed to delete team''))
       (set_local (\<lambda>l. l\<lparr>isDeletingTeam := False\<rparr>)))"

datatype TeamSettingsEvent =
    TeamNameChanged string
  | SaveTeam
  | RemoveMember string
  | MemberSelected string
  | AddMember
  | DeleteTeam

definition TeamSettings_name :: "bool \<Rightarrow> bool \<Rightarrow> TeamSettingsState \<Rightarrow> TeamSettingsEvent view" where
  "TeamSettings_name mayManage isSubmitting l =
     Elem ''Card'' []
       [Elem ''CardHeader'' [] [Elem ''CardTitle'' [] [Text ''Team Settings'']],
        Elem ''CardContent'' [] [Elem ''form'' []
         [Elem ''FormItem'' []
           [Elem ''FormLabel'' [] [Text ''Team Name''],
            Elem ''Input'' [Attr ''value'' (form_values (teamForm l)), OnText ''change'' TeamNameChanged,
              Flag ''disabled'' (\<not> mayManage)] [],
            Elem ''FormMessage'' [] []],
          Elem ''LoadingButton''
            [Flag ''isLoading'' isSubmitting, Flag ''disabled'' (\<not> form_dirty (teamForm l) \<or> \<not> mayManage),
             On ''submit'' SaveTeam] [Text ''Save Changes'']]]]"

definition TeamSettings_member :: "bool \<Rightarrow> TeamSettingsState \<Rightarrow> TeamUser \<Rightarrow> TeamSettingsEvent view" where
  "TeamSettings_member mayManageMembers l m =
     Elem ''TableRow'' []
       ([Elem ''TableCell'' [] (member_email (TeamUser_email m) (TeamUser_emailVerified m)),
         Elem ''TableCell'' [] [Text (TeamUser_id m)]] @
        given mayManageMembers
          [Elem ''TableCell'' []
            [Elem ''LoadingButton''
              [Flag ''isLoading'' (removingUserId l = Some (TeamUser_id m)), Flag ''disabled'' (removingUserId l \<noteq> None),
               On ''click'' (RemoveMember (TeamUser_id m))] [Text ''Remove'']]])"

definition TeamSettings_add :: "TeamSettingsState \<Rightarrow> TeamSettingsEvent view list" where
  "TeamSettings_add l =
     [Elem ''Separator'' [] [],
      Elem ''div'' []
       (Elem ''p'' [] [Text ''Add an existing organization member to this team.''] #
        (if length (addableOrgMembers l) = 0 then
           [Elem ''p'' [] [Text ''All organization members are already on this team.'']]
         else
           [Elem ''select'' [Attr ''value'' (selectedUserId l)]
              (Elem ''option'' [On ''select'' (MemberSelected [])] [Text ''Select a member...''] #
               map (\<lambda>m. Elem ''option'' [On ''select'' (MemberSelected (OrgUser_id m))]
                 [Text (case OrgUser_email m of Some e \<Rightarrow> e | None \<Rightarrow> OrgUser_id m)]) (addableOrgMembers l)),
            Elem ''LoadingButton''
              [Flag ''isLoading'' (isAddingMember l), Flag ''disabled'' (selectedUserId l = []), On ''click'' AddMember]
              [Text ''Add to Team'']]))]"

definition TeamSettings_members :: "bool \<Rightarrow> TeamSettingsState \<Rightarrow> TeamSettingsEvent view" where
  "TeamSettings_members mayManageMembers l =
     Elem ''Card'' []
       [Elem ''CardHeader'' [] [Elem ''CardTitle'' [] [Text ''Members'']],
        Elem ''CardContent'' []
         ((if length (teamMembers l) = 0 then Elem ''p'' [] [Text ''No members yet.'']
           else
             Elem ''Table'' []
               [Elem ''TableHeader'' [] [Elem ''TableRow'' []
                  ([Elem ''TableHead'' [] [Text ''Email''], Elem ''TableHead'' [] [Text ''User ID'']] @
                   given mayManageMembers [Elem ''TableHead'' [] [Text ''Actions'']])],
                Elem ''TableBody'' [] (map (TeamSettings_member mayManageMembers l) (teamMembers l))]) #
          given mayManageMembers (TeamSettings_add l))]"

definition TeamSettings :: "AppSlice \<Rightarrow> string option \<Rightarrow> string option \<Rightarrow> bool \<Rightarrow> TeamSettingsState \<Rightarrow> TeamSettingsEvent view" where
  "TeamSettings s orgId teamId isSubmitting l =
     (case (orgId, the_team s teamId) of
        (Some i, Some team) \<Rightarrow>
          Elem ''Container'' []
            [Breadcrumbs
               [(case the_organization s orgId of Some org \<Rightarrow> Organization_name org | None \<Rightarrow> ''Organization'',
                  Some (''/organizations/'' @ i @ ''/settings'')),
                (''Teams'', Some (''/organizations/'' @ i @ ''/teams'')), (Team_name team, None)],
             Elem ''div'' []
               ([TeamSettings_name (canTeamManage s orgId) isSubmitting l] @
                (case orgTeam l of
                   None \<Rightarrow> []
                 | Some t \<Rightarrow>
                     [Elem ''Card'' []
                       [Elem ''CardHeader'' [] [Elem ''CardTitle'' [] [Text ''Organization Permissions'']],
                        Elem ''CardContent'' []
                         [Elem ''p'' [] [Text ''Permissions this team grants on the organization.''],
                          Elem ''PermissionsEditor'' [Flag ''disabled'' (\<not> canTeamManage s orgId)] []]]]) @
                [TeamSettings_members (canMemberManage s orgId) l] @
                given (canTeamManage s orgId)
                  [Elem ''Card'' []
                    [Elem ''CardHeader'' [] [Elem ''CardTitle'' [] [Text ''Danger Zone'']],
                     Elem ''CardContent'' []
                      [Elem ''p'' [] [Text ''Delete this team. All projects must be removed first.''],
                       Elem ''LoadingButton'' [Flag ''isLoading'' (isDeletingTeam l), On ''click'' DeleteTeam]
                         [Text ''Delete Team'']]]])]
      | _ \<Rightarrow> Elem ''Container'' [] [Elem ''p'' [] [Text ''Team not found.'']])"

section \<open>What the settings of a team offer\<close>

text \<open>
  The settings offer to remove every member shown, and to add every member of the organization who is not one of
  them, and nobody else: to those who may manage members, and removal only while no other is under way. Saving a name
  and deleting the team are for those who may manage teams.
\<close>

theorem team_settings_offers:
  assumes "the_team s teamId = Some team" and "orgId = Some i"
    and "offers = set (enabled (TeamSettings s orgId teamId isSubmitting l))"
  shows "(RemoveMember u \<in> offers \<longleftrightarrow>
      canMemberManage s orgId \<and> removingUserId l = None \<and> u \<in> TeamUser_id ` set (teamMembers l)) \<and>
    (u \<noteq> [] \<longrightarrow> (MemberSelected u \<in> offers \<longleftrightarrow>
      canMemberManage s orgId \<and> u \<in> OrgUser_id ` set (orgMembers l) - TeamUser_id ` set (teamMembers l))) \<and>
    (SaveTeam \<in> offers \<longleftrightarrow> canTeamManage s orgId \<and> form_dirty (teamForm l)) \<and>
    (DeleteTeam \<in> offers \<longleftrightarrow> canTeamManage s orgId \<and> \<not> isDeletingTeam l)"
proof -
  have crumbs: "enabled (Breadcrumbs items) = []" for items :: "(string \<times> string option) list"
    by (auto simp: Breadcrumbs_def given_def disabled_def Let_def split: prod.split)
  have name: "set (enabled (TeamSettings_name b c l)) = (if form_dirty (teamForm l) \<and> b then {SaveTeam} else {})" for b c
    by (auto simp: TeamSettings_name_def disabled_def)
  have email: "concat (map enabled (member_email e v)) = []" for e v
    by (simp add: member_email_def given_def split: option.split)
  have member: "set (enabled (TeamSettings_member b l m)) =
      (if b \<and> removingUserId l = None then {RemoveMember (TeamUser_id m)} else {})" for b m
    by (simp add: TeamSettings_member_def email given_def disabled_def)
  have add: "(\<Union>v\<in>set (TeamSettings_add l). set (enabled v)) =
      (if addableOrgMembers l = [] then {}
       else insert (MemberSelected []) (MemberSelected ` OrgUser_id ` set (addableOrgMembers l)) \<union>
         (if selectedUserId l = [] then {} else {AddMember}))"
    by (auto simp: TeamSettings_add_def disabled_def)
  have members: "set (enabled (TeamSettings_members b l)) =
      (if b then
         (if removingUserId l = None then RemoveMember ` TeamUser_id ` set (teamMembers l) else {}) \<union>
         (\<Union>v\<in>set (TeamSettings_add l). set (enabled v))
       else {})" for b
    by (auto simp: TeamSettings_members_def member given_def disabled_def set_empty [symmetric] simp del: set_empty)
  have addable: "u \<in> OrgUser_id ` set (addableOrgMembers l) \<longleftrightarrow>
      u \<in> OrgUser_id ` set (orgMembers l) - TeamUser_id ` set (teamMembers l)"
    by (auto simp: addableOrgMembers_def teamMemberIds_def)
  have "offers = set (enabled (TeamSettings_name (canTeamManage s orgId) isSubmitting l)) \<union>
      set (enabled (TeamSettings_members (canMemberManage s orgId) l)) \<union>
      (if canTeamManage s orgId \<and> \<not> isDeletingTeam l then {DeleteTeam} else {})"
    unfolding assms(3) TeamSettings_def
    by (cases "orgTeam l"; cases "canTeamManage s orgId")
      (simp_all add: assms(1,2) crumbs disabled_def Un_ac)
  then show ?thesis using addable by (auto simp: name members add)
qed

definition team_session :: AppSlice where
  "team_session = user_session\<lparr>teams := [\<lparr>Team_id = ''t'', Team_name = ''T''\<rparr>]\<rparr>"

theorem team_settings_offers_witness:
  "DeleteTeam \<notin> set (enabled (TeamSettings team_session (Some ''o'') (Some ''t'') False TeamSettings_initial))"
proof -
  have "the_team team_session (Some ''t'') = Some \<lparr>Team_id = ''t'', Team_name = ''T''\<rparr>"
    by (simp add: the_team_def team_session_def selectTeamMap_def index_by_def js_map_get_def)
  moreover have "\<not> canTeamManage team_session (Some ''o'')"
    by (simp add: canTeamManage_def the_organization_def selectOrgMap_def index_by_def js_map_get_def team_session_def
        session_defs)
  ultimately show ?thesis using team_settings_offers [OF _ refl refl, of team_session "Some ''t''"] by blast
qed

section \<open>Saved permissions are the ones shown\<close>

text \<open>
  Saving in the editor of a team's permissions: if the backend answers with the permissions that were sent, the
  page shows them, the editor, reset to what the page shows, has nothing left to save, and no other part of the page
  changes; if the backend refuses, the page and the draft are as before and the user is told why.
\<close>

theorem saved_permissions_shown:
  assumes "run (PermissionsEditor_handleSave ''Failed to update permissions'' (onSavePermissions E teamId)) ((e, l), s) w =
      (r, ((e', l'), s'), w')"
    and "\<not> isSavingPermissions e"
  shows "r = Inr () \<and> e' = e \<and>
    (case run (updateTeamOrgPermissions E teamId (permissionsDraft e)) s w of
       (Inl err, s1, w1) \<Rightarrow>
         l' = l \<and> w' = w1 \<and> s' = s1\<lparr>toasts := toasts s1 @ [(''Failed to update permissions'', error_message err)]\<rparr>
     | (Inr updated, s1, w1) \<Rightarrow>
         l' = l\<lparr>orgTeam := Some updated\<rparr> \<and> w' = w1 \<and> s' = s1\<lparr>toasts := toasts s1 @ [(''Permissions updated'', [])]\<rparr> \<and>
         (OrgTeam_permissions updated = permissionsDraft e \<longrightarrow>
            reset_permissions (OrgTeam_permissions updated) e' = e' \<and>
            \<not> permissions_dirty fds (permissionsDraft e') (OrgTeam_permissions updated)))"
proof -
  obtain ra sa wa where call: "run (updateTeamOrgPermissions E teamId (permissionsDraft e)) s w = (ra, sa, wa)"
    by (metis prod_cases3)
  have same: "e\<lparr>isSavingPermissions := False\<rparr> = e" using assms(2) by simp
  show ?thesis
    using assms(1) call same
    by (cases ra)
      (auto simp: PermissionsEditor_handleSave_def onSavePermissions_def run_simps add_toast reset_permissions_def)
qed

theorem saved_permissions_shown_witness:
  "fst (fst (fst (snd (run (PermissionsEditor_handleSave ''Failed to update permissions'' (onSavePermissions offline ''t''))
     ((\<lparr>permissionsDraft = emptyOrgPermissions, isSavingPermissions = False\<rparr>, TeamSettings_initial), admin_session) 0)))) =
   \<lparr>permissionsDraft = emptyOrgPermissions, isSavingPermissions = False\<rparr>"
proof -
  let ?e = "\<lparr>permissionsDraft = emptyOrgPermissions, isSavingPermissions = False\<rparr>"
  obtain r e' l' s' w' where run:
    "run (PermissionsEditor_handleSave ''Failed to update permissions'' (onSavePermissions offline ''t''))
       ((?e, TeamSettings_initial), admin_session) 0 = (r, ((e', l'), s'), w')" by (metis prod.collapse)
  from saved_permissions_shown [OF run] have "e' = ?e" by simp
  with run show ?thesis by simp
qed

end
