(* ===== verification/ProjectPages.thy ===== *)
theory ProjectPages
  imports OrgPages Editors
begin

text \<open>
  The pages of projects: their list (\<open>routes/organizations/projects/project-list.tsx\<close>), creating one
  (\<open>create-project.tsx\<close>), and the settings of one (\<open>project-settings.tsx\<close>): its teams with their permissions, and
  its approval policies, one for each kind of operation.
\<close>

section \<open>The projects of an organization\<close>

record ProjectListState = Page +
  listedProjects :: "Project list"
  isLoadingProjects :: bool

definition ProjectList_load :: "'w env \<Rightarrow> string option \<Rightarrow> (ProjectListState, 'w, unit) page_task" where
  "ProjectList_load E orgId =
     (case orgId of
        None \<Rightarrow> ret ()
      | Some i \<Rightarrow>
          try_finally
            (try_catch
              (await (on_store (loadOrgProjects E i)) (\<lambda>xs. set_local (\<lambda>l. l\<lparr>listedProjects := xs\<rparr>)))
              (error_toast ''Failed to load projects''))
            (set_local (\<lambda>l. l\<lparr>isLoadingProjects := False\<rparr>)))"

text \<open>An event of the list is the path it navigates to.\<close>

definition ProjectList :: "AppSlice \<Rightarrow> string option \<Rightarrow> ProjectListState \<Rightarrow> string view" where
  "ProjectList s orgId l =
     (case the_organization s orgId of
        None \<Rightarrow> Elem ''Container'' [] [Elem ''p'' [] [Text ''Organization not found.'']]
      | Some org \<Rightarrow>
          let i = the orgId in
          Elem ''Container'' [] [Elem ''div'' []
            [Elem ''div'' []
              (Elem ''Button'' [On ''click'' (''/organizations/'' @ i @ ''/settings'')] [Text ''Back''] #
               given (projectCreate (Organization_yourPermissions org))
                 [Elem ''Button'' [On ''click'' (''/organizations/'' @ i @ ''/projects/new'')] [Text ''New Project'']]),
             Elem ''Card'' []
              [Elem ''CardHeader'' []
                [Elem ''CardTitle'' [] [Text ''Projects in '', Text (Organization_name org)]],
               Elem ''CardContent'' []
                [if isLoadingProjects l then Elem ''p'' [] [Text ''Loading...'']
                 else if length (listedProjects l) = 0 then Elem ''p'' [] [Text ''No projects found.'']
                 else Elem ''ul'' [] (map (\<lambda>project.
                   Elem ''li'' [] [Elem ''button''
                     [On ''click'' (''/organizations/'' @ i @ ''/projects/'' @ Project_id project @ ''/settings'')]
                     [Text (Project_name project)]]) (listedProjects l))]]]])"

section \<open>Creating a project\<close>

definition CreateProject_formSchema :: "string \<Rightarrow> string option" where
  "CreateProject_formSchema = name_schema"

definition CreateProject_onSubmit :: "'w env \<Rightarrow> string \<Rightarrow> string \<Rightarrow> (NamePageState, 'w, unit) page_task" where
  "CreateProject_onSubmit E orgId name =
     try_catch
       (await (on_store (createProject E orgId name)) (\<lambda>project.
        await (success_toast ''Project created successfully!'') (\<lambda>_.
        navigate (''/organizations/'' @ orgId @ ''/projects/'' @ Project_id project @ ''/settings''))))
       (error_toast ''Failed to create project'')"

definition CreateProject :: "AppSlice \<Rightarrow> string option \<Rightarrow> bool \<Rightarrow> NamePageState \<Rightarrow> NameFormEvent view" where
  "CreateProject s orgId isSubmitting l =
     (case the_organization s orgId of
        None \<Rightarrow> Elem ''Container'' [] [Elem ''p'' [] [Text ''Organization not found.'']]
      | Some org \<Rightarrow>
          Elem ''Container'' []
            [Elem ''div'' [] [Elem ''Button'' [Attr ''navigate'' (''/organizations/'' @ the orgId @ ''/projects'')] [Text ''Back'']],
             Elem ''Card'' []
               [Elem ''CardHeader'' [] [Elem ''CardTitle'' [] [Text ''Create Project'']],
                Elem ''CardContent'' [] [Elem ''form'' []
                 [Elem ''FormItem'' []
                   [Elem ''FormLabel'' [] [Text ''Project Name''],
                    Elem ''Input'' [Attr ''placeholder'' ''My Project'', Attr ''value'' (form_values (nameForm l)),
                      OnText ''change'' NameChanged] [],
                    Elem ''FormMessage'' [] []],
                  Elem ''LoadingButton'' [Flag ''isLoading'' isSubmitting, On ''submit'' NameSubmitted]
                    [Text ''Create Project'']]]]])"

section \<open>The settings of a project\<close>

definition ProjectSettings_formSchema :: "string \<Rightarrow> string option" where
  "ProjectSettings_formSchema = name_schema"

record ProjectSettingsState = Page +
  projectForm :: "string Form"
  orgTeams :: "OrgTeam list"
  projectTeams :: "ProjectTeam list"
  selectedTeamId :: string
  isAddingTeam :: bool
  removingTeamId :: "string option"
  isDeletingProject :: bool
  approvalPolicies :: "ApprovalPolicy list"

definition ProjectSettings_initial :: ProjectSettingsState where
  "ProjectSettings_initial =
     \<lparr>visits = [], projectForm = form_reset [], orgTeams = [], projectTeams = [], selectedTeamId = [],
      isAddingTeam = False, removingTeamId = None, isDeletingProject = False, approvalPolicies = []\<rparr>"

definition the_project :: "AppSlice \<Rightarrow> string option \<Rightarrow> Project option" where
  "the_project s projectId =
     (case projectId of None \<Rightarrow> None | Some i \<Rightarrow> if i = [] then None else js_map_get i (selectProjectMap s))"

definition refreshOrgTeams :: "'w env \<Rightarrow> string \<Rightarrow> (ProjectSettingsState, 'w, unit) page_task" where
  "refreshOrgTeams E orgId =
     (if orgId = [] then ret ()
      else
        try_catch
          (await (on_store (loadOrgTeams E orgId)) (\<lambda>xs. set_local (\<lambda>l. l\<lparr>orgTeams := xs\<rparr>)))
          (error_toast ''Failed to load org teams''))"

definition refreshProjectTeams :: "'w env \<Rightarrow> string \<Rightarrow> (ProjectSettingsState, 'w, unit) page_task" where
  "refreshProjectTeams E projectId =
     (if projectId = [] then ret ()
      else
        try_catch
          (await (on_store (loadProjectTeams E projectId)) (\<lambda>xs. set_local (\<lambda>l. l\<lparr>projectTeams := xs\<rparr>)))
          (error_toast ''Failed to load project teams''))"

definition refreshApprovalPolicies :: "'w env \<Rightarrow> string \<Rightarrow> (ProjectSettingsState, 'w, unit) page_task" where
  "refreshApprovalPolicies E projectId =
     (if projectId = [] then ret ()
      else
        try_catch
          (await (on_store (loadProjectApprovalPolicies E projectId)) (\<lambda>xs. set_local (\<lambda>l. l\<lparr>approvalPolicies := xs\<rparr>)))
          (error_toast ''Failed to load approval policies''))"

definition ProjectSettings_load :: "'w env \<Rightarrow> event list \<Rightarrow> string \<Rightarrow> string \<Rightarrow> (ProjectSettingsState, 'w, unit) page_task" where
  "ProjectSettings_load E es orgId projectId =
     promise_all es [refreshOrgTeams E orgId, refreshProjectTeams E projectId]"

definition canManageApprovalPolicy :: "Project option \<Rightarrow> bool" where
  "canManageApprovalPolicy project =
     (case project of Some p \<Rightarrow> approvalPolicyManage (Project_yourPermissions p) | None \<Rightarrow> False)"

text \<open>The effects that run when the permission to change policies, or the project, has changed.\<close>

definition ProjectSettings_loadPolicies ::
    "'w env \<Rightarrow> Project option \<Rightarrow> string \<Rightarrow> (ProjectSettingsState, 'w, unit) page_task" where
  "ProjectSettings_loadPolicies E project projectId =
     (if canManageApprovalPolicy project then refreshApprovalPolicies E projectId else ret ())"

definition ProjectSettings_reset :: "Project option \<Rightarrow> ProjectSettingsState \<Rightarrow> ProjectSettingsState" where
  "ProjectSettings_reset project l =
     (case project of None \<Rightarrow> l | Some p \<Rightarrow> l\<lparr>projectForm := form_reset (Project_name p)\<rparr>)"

definition projectTeamIds :: "ProjectSettingsState \<Rightarrow> string set" where
  "projectTeamIds l = ProjectTeam_id ` set (projectTeams l)"

definition addableOrgTeams :: "ProjectSettingsState \<Rightarrow> OrgTeam list" where
  "addableOrgTeams l = filter (\<lambda>t. OrgTeam_id t \<notin> projectTeamIds l) (orgTeams l)"

definition approvalPolicyMap :: "ProjectSettingsState \<Rightarrow> (ApprovalOperationType, ApprovalPolicy) js_map" where
  "approvalPolicyMap l = foldl (\<lambda>m p. js_map_set (ApprovalPolicy_operationType p) p m) [] (approvalPolicies l)"

definition ProjectSettings_onSubmit :: "'w env \<Rightarrow> string \<Rightarrow> string \<Rightarrow> (ProjectSettingsState, 'w, unit) page_task" where
  "ProjectSettings_onSubmit E projectId name =
     try_catch
       (await (on_store (updateProject E projectId name)) (\<lambda>_. success_toast ''Project updated successfully!''))
       (error_toast ''Failed to update project'')"

definition onAddTeam :: "'w env \<Rightarrow> string \<Rightarrow> (ProjectSettingsState, 'w, unit) page_task" where
  "onAddTeam E projectId =
     get_state (\<lambda>(l, _).
       if selectedTeamId l = [] then ret ()
       else
         await (set_local (\<lambda>l. l\<lparr>isAddingTeam := True\<rparr>)) (\<lambda>_.
         try_finally
           (try_catch
             (await (on_store (addTeamToProject E projectId (selectedTeamId l))) (\<lambda>_.
              await (success_toast ''Team added to project'') (\<lambda>_.
              await (set_local (\<lambda>l. l\<lparr>selectedTeamId := []\<rparr>)) (\<lambda>_.
              refreshProjectTeams E projectId))))
             (error_toast ''Failed to add team''))
           (set_local (\<lambda>l. l\<lparr>isAddingTeam := False\<rparr>))))"

definition onSaveTeamPermissions ::
    "'w env \<Rightarrow> string \<Rightarrow> string \<Rightarrow> ProjectPermissions \<Rightarrow> (ProjectSettingsState, 'w, unit) page_task" where
  "onSaveTeamPermissions E projectId teamId permissions =
     await (on_store (updateTeamProjectPermissions E projectId teamId permissions)) (\<lambda>updated.
     await (set_local (\<lambda>l. l\<lparr>projectTeams := replace_by ProjectTeam_id teamId (\<lambda>_. updated) (projectTeams l)\<rparr>)) (\<lambda>_.
     success_toast ''Permissions updated''))"

definition onRemoveTeam :: "'w env \<Rightarrow> string \<Rightarrow> string \<Rightarrow> (ProjectSettingsState, 'w, unit) page_task" where
  "onRemoveTeam E projectId teamId =
     await (set_local (\<lambda>l. l\<lparr>removingTeamId := Some teamId\<rparr>)) (\<lambda>_.
     try_finally
       (try_catch
         (await (on_store (removeTeamFromProject E projectId teamId)) (\<lambda>_.
          await (success_toast ''Team removed from project'') (\<lambda>_.
          refreshProjectTeams E projectId)))
         (error_toast ''Failed to remove team''))
       (set_local (\<lambda>l. l\<lparr>removingTeamId := None\<rparr>)))"

definition onSaveApprovalPolicy ::
    "'w env \<Rightarrow> string \<Rightarrow> ApprovalOperationType \<Rightarrow> ApprovalPolicyType \<Rightarrow> (ProjectSettingsState, 'w, ApprovalPolicy) page_task" where
  "onSaveApprovalPolicy E projectId operationType policyType =
     await (on_store (upsertApprovalPolicy E
       \<lparr>UpsertApprovalPolicyRequest_projectId = projectId,
        UpsertApprovalPolicyRequest_operationType = operationType,
        UpsertApprovalPolicyRequest_policyType = policyType\<rparr>)) (\<lambda>updated.
     await (set_local (\<lambda>l. l\<lparr>approvalPolicies :=
         filter (\<lambda>p. ApprovalPolicy_operationType p \<noteq> operationType) (approvalPolicies l) @ [updated]\<rparr>)) (\<lambda>_.
     await (success_toast ''Approval policy updated'') (\<lambda>_.
     ret updated)))"

definition ProjectSettings_onDelete :: "'w env \<Rightarrow> string \<Rightarrow> string \<Rightarrow> (ProjectSettingsState, 'w, unit) page_task" where
  "ProjectSettings_onDelete E orgId projectId =
     await (set_local (\<lambda>l. l\<lparr>isDeletingProject := True\<rparr>)) (\<lambda>_.
     try_finally
       (try_catch
         (await (on_store (deleteProject E projectId)) (\<lambda>_.
          await (success_toast ''Project deleted successfully!'') (\<lambda>_.
          navigate (''/organizations/'' @ orgId @ ''/settings''))))
         (error_toast ''Failed to delete project''))
       (set_local (\<lambda>l. l\<lparr>isDeletingProject := False\<rparr>)))"

text \<open>The policy the editor of an operation shows.\<close>

definition current_policy :: "ProjectSettingsState \<Rightarrow> ApprovalOperationType \<Rightarrow> ApprovalPolicyType" where
  "current_policy l op =
     (case js_map_get op (approvalPolicyMap l) of
        Some p \<Rightarrow> ApprovalPolicy_policyType p | None \<Rightarrow> DEFAULT_APPROVAL_POLICY_TYPE)"

datatype ProjectSettingsEvent =
    ProjectNameChanged string
  | BackToOrganization
  | SaveProject
  | RemoveTeam string
  | TeamSelected string
  | AddTeam
  | DeleteProject

definition ProjectSettings_name :: "bool \<Rightarrow> bool \<Rightarrow> ProjectSettingsState \<Rightarrow> ProjectSettingsEvent view" where
  "ProjectSettings_name canEditSettings isSubmitting l =
     Elem ''Card'' []
       [Elem ''CardHeader'' [] [Elem ''CardTitle'' [] [Text ''Project Settings'']],
        Elem ''CardContent'' [] [Elem ''form'' []
         [Elem ''FormItem'' []
           [Elem ''FormLabel'' [] [Text ''Project Name''],
            Elem ''Input'' [Attr ''value'' (form_values (projectForm l)), OnText ''change'' ProjectNameChanged,
              Flag ''disabled'' (\<not> canEditSettings)] [],
            Elem ''FormMessage'' [] []],
          Elem ''LoadingButton''
            [Flag ''isLoading'' isSubmitting, Flag ''disabled'' (\<not> form_dirty (projectForm l) \<or> \<not> canEditSettings),
             On ''submit'' SaveProject] [Text ''Save Changes'']]]]"

definition ProjectSettings_team ::
    "bool \<Rightarrow> ProjectSettingsState \<Rightarrow> nat \<Rightarrow> ProjectTeam \<Rightarrow> ProjectSettingsEvent view" where
  "ProjectSettings_team canProjectAdmin l idx t =
     Elem ''div'' []
       (given (idx > 0) [Elem ''Separator'' [] []] @
        [Elem ''div'' []
          (Elem ''p'' [] [Text (ProjectTeam_name t)] #
           given canProjectAdmin
             [Elem ''Button'' [Flag ''disabled'' (removingTeamId l = Some (ProjectTeam_id t)),
                On ''click'' (RemoveTeam (ProjectTeam_id t))] []]),
         Elem ''PermissionsEditor'' [Flag ''disabled'' (\<not> canProjectAdmin), Attr ''team'' (ProjectTeam_id t)] []])"

definition ProjectSettings_attach :: "ProjectSettingsState \<Rightarrow> ProjectSettingsEvent view list" where
  "ProjectSettings_attach l =
     [Elem ''Separator'' [] [],
      Elem ''div'' []
       (Elem ''p'' [] [Text ''Attach an existing team to this project.''] #
        (if length (addableOrgTeams l) = 0 then
           [Elem ''p'' [] [Text ''All teams in this organization are already attached.'']]
         else
           [Elem ''select'' [Attr ''value'' (selectedTeamId l)]
              (Elem ''option'' [On ''select'' (TeamSelected [])] [Text ''Select a team...''] #
               map (\<lambda>t. Elem ''option'' [On ''select'' (TeamSelected (OrgTeam_id t))] [Text (OrgTeam_name t)])
                 (addableOrgTeams l)),
            Elem ''LoadingButton''
              [Flag ''isLoading'' (isAddingTeam l), Flag ''disabled'' (selectedTeamId l = []), On ''click'' AddTeam]
              [Text ''Add Team'']]))]"

definition ProjectSettings_teams :: "bool \<Rightarrow> ProjectSettingsState \<Rightarrow> ProjectSettingsEvent view" where
  "ProjectSettings_teams canProjectAdmin l =
     Elem ''Card'' []
       [Elem ''CardHeader'' [] [Elem ''CardTitle'' [] [Text ''Teams'']],
        Elem ''CardContent'' []
         ((if length (projectTeams l) = 0 then Elem ''p'' [] [Text ''No teams attached yet.'']
           else Elem ''div'' [] (map (\<lambda>(idx, t). ProjectSettings_team canProjectAdmin l idx t) (enumerate 0 (projectTeams l)))) #
          given canProjectAdmin (ProjectSettings_attach l))]"

definition ProjectSettings_policies :: "ProjectSettingsState \<Rightarrow> ProjectSettingsEvent view" where
  "ProjectSettings_policies l =
     Elem ''Card'' []
       [Elem ''CardHeader'' [] [Elem ''CardTitle'' [] [Text ''Approval Policies'']],
        Elem ''CardContent'' []
         (Elem ''p'' [] [Text (''Choose how proposals are approved for each operation. Operations '' @
            ''without an explicit policy auto-approve by default.'')] #
          map (\<lambda>(idx, op). Elem ''div'' []
            (given (idx > 0) [Elem ''Separator'' [] []] @
             [Elem ''ApprovalPolicyEditor'' [Attr ''operationType'' (approvalOperationLabel op)] []]))
            (enumerate 0 APPROVAL_OPERATION_TYPES))]"

definition ProjectSettings ::
    "AppSlice \<Rightarrow> string option \<Rightarrow> string option \<Rightarrow> bool \<Rightarrow> ProjectSettingsState \<Rightarrow> ProjectSettingsEvent view" where
  "ProjectSettings s orgId projectId isSubmitting l =
     (case (orgId, the_project s projectId) of
        (Some i, Some project) \<Rightarrow>
          let p = Project_yourPermissions project in
          Elem ''Container'' [] [Elem ''div'' []
            ([Elem ''div'' [] [Elem ''Button'' [On ''click'' BackToOrganization] [Text ''Back'']],
              ProjectSettings_name (projectSettings p) isSubmitting l,
              ProjectSettings_teams (projectAdmin p) l] @
             given (canManageApprovalPolicy (Some project)) [ProjectSettings_policies l] @
             given (projectAdmin p)
               [Elem ''Card'' []
                 [Elem ''CardHeader'' [] [Elem ''CardTitle'' [] [Text ''Danger Zone'']],
                  Elem ''CardContent'' []
                   [Elem ''p'' [] [Text ''Delete this project. All canisters must be removed first.''],
                    Elem ''LoadingButton'' [Flag ''isLoading'' (isDeletingProject l), On ''click'' DeleteProject]
                      [Text ''Delete Project'']]]])]
      | _ \<Rightarrow> Elem ''Container'' [] [Elem ''p'' [] [Text ''Project not found.'']])"

section \<open>Policies\<close>

definition policies_for :: "ApprovalOperationType \<Rightarrow> ApprovalPolicy list \<Rightarrow> ApprovalPolicy list" where
  "policies_for op = filter (\<lambda>p. ApprovalPolicy_operationType p = op)"

lemma policies_lookup:
  "js_map_get op (foldl (\<lambda>m p. js_map_set (ApprovalPolicy_operationType p) p m) m0 ps) =
     (if policies_for op ps = [] then js_map_get op m0 else Some (last (policies_for op ps)))"
  by (induction ps rule: rev_induct) (auto simp: policies_for_def js_map_get_set)

lemma current_policy_last:
  "current_policy l op =
     (if policies_for op (approvalPolicies l) = [] then DEFAULT_APPROVAL_POLICY_TYPE
      else ApprovalPolicy_policyType (last (policies_for op (approvalPolicies l))))"
  by (simp add: current_policy_def approvalPolicyMap_def policies_lookup) (simp add: js_map_get_def)

lemma policies_for_replaced:
  "ApprovalPolicy_operationType p = op \<Longrightarrow>
     policies_for op' (filter (\<lambda>q. ApprovalPolicy_operationType q \<noteq> op) ps @ [p]) = (if op' = op then [p] else policies_for op' ps)"
  by (induction ps) (auto simp: policies_for_def)

text \<open>
  Saving in the editor of the policy of one operation. If the backend answers with the policy that was sent, the
  page shows that policy for the operation and for every other operation the one it showed before, and the editor,
  opened on what the page shows, has nothing to submit. If the backend refuses, the page and the draft stay as they
  were and the user is told why.
\<close>

theorem saved_policy_shown:
  assumes "run (ApprovalPolicyEditor_handleSave (onSaveApprovalPolicy E projectId op) (current_policy l op) locked)
      ((e, l), s) w = (r, ((e', l'), s'), w')"
    and "\<not> isSavingPolicy e" and "canSubmitPolicy (current_policy l op) locked e"
  defines "p \<equiv> policy_of_draft (policy_draft e)"
  shows "r = Inr () \<and> e' = e \<and>
    (case run (upsertApprovalPolicy E
        \<lparr>UpsertApprovalPolicyRequest_projectId = projectId, UpsertApprovalPolicyRequest_operationType = op,
         UpsertApprovalPolicyRequest_policyType = p\<rparr>) s w of
       (Inl err, s1, w1) \<Rightarrow>
         l' = l \<and> w' = w1 \<and> s' = s1\<lparr>toasts := toasts s1 @ [(''Failed to update approval policy'', error_message err)]\<rparr>
     | (Inr updated, s1, w1) \<Rightarrow>
         w' = w1 \<and> s' = s1\<lparr>toasts := toasts s1 @ [(''Approval policy updated'', [])]\<rparr> \<and>
         (ApprovalPolicy_operationType updated = op \<and> ApprovalPolicy_policyType updated = p \<longrightarrow>
            current_policy l' op = p \<and> (\<forall>op'. op' \<noteq> op \<longrightarrow> current_policy l' op' = current_policy l op') \<and>
            \<not> canSubmitPolicy (current_policy l' op) locked e'))"
proof -
  obtain ra sa wa where call: "run (upsertApprovalPolicy E
      \<lparr>UpsertApprovalPolicyRequest_projectId = projectId, UpsertApprovalPolicyRequest_operationType = op,
       UpsertApprovalPolicyRequest_policyType = p\<rparr>) s w = (ra, sa, wa)"
    by (metis prod_cases3)
  have same: "e\<lparr>isSavingPolicy := False\<rparr> = e" using assms(2) by simp
  have "run (ApprovalPolicyEditor_handleSave (onSaveApprovalPolicy E projectId op) (current_policy l op) locked) ((e, l), s) w =
      (Inr (), (case ra of
          Inl err \<Rightarrow> ((e, l), sa\<lparr>toasts := toasts sa @ [(''Failed to update approval policy'', error_message err)]\<rparr>)
        | Inr updated \<Rightarrow>
            ((e, l\<lparr>approvalPolicies := filter (\<lambda>q. ApprovalPolicy_operationType q \<noteq> op) (approvalPolicies l) @ [updated]\<rparr>),
             sa\<lparr>toasts := toasts sa @ [(''Approval policy updated'', [])]\<rparr>)), wa)"
    using assms(3) same call
    by (cases ra) (simp_all add: ApprovalPolicyEditor_handleSave_def onSaveApprovalPolicy_def run_simps p_def [symmetric] add_toast)
  moreover have "current_policy (l\<lparr>approvalPolicies := filter (\<lambda>q. ApprovalPolicy_operationType q \<noteq> op) (approvalPolicies l) @ [updated]\<rparr>) op' =
      (if op' = op then ApprovalPolicy_policyType updated else current_policy l op')"
    if "ApprovalPolicy_operationType updated = op" for updated op'
    using policies_for_replaced [OF that] by (simp add: current_policy_last)
  moreover have "\<not> canSubmitPolicy p locked e"
    using assms(3) unfolding p_def canSubmitPolicy_def policy_dirty_def policy_draft_def thresholdValid_def
    by (cases "draftKind e") (auto split: option.splits)
  ultimately show ?thesis
    using assms(1) call by (cases ra) (auto simp: p_def [symmetric])
qed

theorem saved_policy_shown_witness:
  "\<exists>s' w'. run (ApprovalPolicyEditor_handleSave (onSaveApprovalPolicy offline ''p'' Op_CreateCanister) AutoApprove False)
     ((\<lparr>draftKind = Draft_FixedQuorum, thresholdText = ''2'', isSavingPolicy = False\<rparr>, ProjectSettings_initial), admin_session) 0 =
   (Inr (), ((\<lparr>draftKind = Draft_FixedQuorum, thresholdText = ''2'', isSavingPolicy = False\<rparr>, ProjectSettings_initial), s'), w')"
proof -
  let ?e = "\<lparr>draftKind = Draft_FixedQuorum, thresholdText = ''2'', isSavingPolicy = False\<rparr>"
  have two: "parse_int ''2'' = Some 2"
  proof -
    have "decimal 2 = ''2''" by code_simp
    then show ?thesis using parse_int_decimal [of 2] by simp
  qed
  have current: "current_policy ProjectSettings_initial Op_CreateCanister = AutoApprove"
    by (simp add: current_policy_last policies_for_def ProjectSettings_initial_def DEFAULT_APPROVAL_POLICY_TYPE_def)
  have can: "canSubmitPolicy AutoApprove False ?e"
    by (simp add: canSubmitPolicy_def policy_dirty_def thresholdValid_def two)
  obtain r e' l' s' w' where run:
    "run (ApprovalPolicyEditor_handleSave (onSaveApprovalPolicy offline ''p'' Op_CreateCanister) AutoApprove False)
       ((?e, ProjectSettings_initial), admin_session) 0 = (r, ((e', l'), s'), w')" by (metis prod.collapse)
  have "\<exists>err s1 w1. run (upsertApprovalPolicy offline q) admin_session 0 = (Inl err, s1, w1)" for q
    by (simp add: upsertApprovalPolicy_def ApprovalPolicyApi_upsertApprovalPolicy_def run_simps offline_def no_ProposalService_def
        unreachable_def)
  then obtain err s1 w1 where call: "run (upsertApprovalPolicy offline
      \<lparr>UpsertApprovalPolicyRequest_projectId = ''p'', UpsertApprovalPolicyRequest_operationType = Op_CreateCanister,
       UpsertApprovalPolicyRequest_policyType = policy_of_draft (policy_draft ?e)\<rparr>) admin_session 0 = (Inl err, s1, w1)"
    by blast
  from saved_policy_shown [where l = ProjectSettings_initial and op = Op_CreateCanister, unfolded current, OF run _ can]
  have "r = Inr () \<and> e' = ?e \<and> l' = ProjectSettings_initial" by (simp only: call) simp
  with run show ?thesis by blast
qed

end
