(* ===== verification/AdminPages.thy ===== *)
theory AdminPages
  imports StaffPages CanisterDetail AuthStore
begin

text \<open>
  The remaining pages of the administration under \<open>routes/admin/\<close>: the tabs with their guards and the tables of
  canisters, organizations, trusted partners and terms, the download of the canisters as CSV, and the page of a
  user with the cards of his canisters; and the frame around them, \<open>components/layout/admin-layout.tsx\<close>.
\<close>

section \<open>The canisters as CSV (download-canisters-button.tsx)\<close>

text \<open>\<open>Array.prototype.join\<close>.\<close>

fun js_join :: "string \<Rightarrow> string list \<Rightarrow> string" where
  "js_join sep [] = []"
| "js_join sep [x] = x"
| "js_join sep (x # y # xs) = x @ sep @ js_join sep (y # xs)"

definition csv_newline :: string where
  "csv_newline = [CHR 0x0A]"

definition quote :: string where
  "quote = [CHR 0x22]"

definition escapeCsv :: "string \<Rightarrow> string" where
  "escapeCsv val =
     (if CHR '','' \<in> set val \<or> CHR 0x22 \<in> set val \<or> CHR 0x0A \<in> set val then
        quote @ replace_all quote (quote @ quote) val @ quote
      else val)"

definition csv_line :: "AdminCanisterRow \<Rightarrow> string" where
  "csv_line r =
     js_join '',''
       [escapeCsv (CanisterWithOwner_principal r),
        if tracked r then ''tracked'' else ''untracked'',
        escapeCsv (CanisterWithOwner_userId r),
        escapeCsv (case CanisterWithOwner_email r of Some e \<Rightarrow> e | None \<Rightarrow> []),
        if tracked r then (if CanisterWithOwner_emailVerified r then ''true'' else ''false'') else []]"

definition buildCsv :: "AdminCanisterRow list \<Rightarrow> string" where
  "buildCsv rows =
     js_join csv_newline (''Canister Principal,Tracked,User ID,Email,Email Verified'' # map csv_line rows)"

text \<open>
  The browser saves a file under a name, which may throw: \<open>saveFile\<close>, a parameter. \<open>onClick\<close> is named after its
  component.
\<close>

definition DownloadCanistersButton_onClick ::
    "(string \<Rightarrow> string \<Rightarrow> js_error + unit) \<Rightarrow> AdminCanisterRow list \<Rightarrow> ('l, 'w, unit) page_task" where
  "DownloadCanistersButton_onClick saveFile rows =
     try_catch (lift_sum (saveFile ''canisters.csv'' (buildCsv rows)))
       (error_toast ''Failed to build canister export'')"

datatype AdminTableEvent =
    DownloadClicked
  | LoadMoreClicked
  | ToggleExpanded string

definition DownloadCanistersButton :: "AdminCanisterRow list \<Rightarrow> AdminTableEvent view" where
  "DownloadCanistersButton rows =
     (let dis = (length rows = 0) in
      Elem ''Button''
        ([Flag ''disabled'' dis, On ''click'' DownloadClicked] @
         (if dis then [Attr ''title'' ''No canisters to export.''] else []))
        [Text ''Download CSV''])"

section \<open>The tables\<close>

definition CanistersTable_row :: "AdminPrivacyState \<Rightarrow> AdminCanisterRow \<Rightarrow> 'ev view" where
  "CanistersTable_row privacy c =
     Elem ''TableRow'' []
       [Elem ''TableCell'' [] [Elem ''span'' [] [Text (CanisterWithOwner_principal c)]],
        Elem ''TableCell'' []
         [if tracked c then
            Elem ''span'' []
              (AdminEmail privacy ''None provided'' (CanisterWithOwner_email c) #
               given (CanisterWithOwner_email c \<noteq> None \<and> CanisterWithOwner_email c \<noteq> Some [] \<and>
                      CanisterWithOwner_emailVerified c)
                 [Elem ''BadgeCheckIcon'' [] []])
          else Elem ''span'' [] [Text ''--'']],
        Elem ''TableCell'' []
         [Elem ''Badge'' [Attr ''variant'' (if tracked c then ''secondary'' else ''outline'')]
           [Text (if tracked c then ''Tracked'' else ''Untracked'')]]]"

definition CanistersTable :: "AdminPrivacyState \<Rightarrow> AppSlice \<Rightarrow> AdminTableEvent view" where
  "CanistersTable privacy s =
     (let rows = (case adminCanisters s of Some rs \<Rightarrow> rs | None \<Rightarrow> []) in
      if isAdminCanistersLoading s \<and> adminCanisters s = None then Elem ''p'' [] [Text ''Loading canisters...'']
      else if adminCanisters s = Some [] then Elem ''p'' [] [Text ''No canisters found.'']
      else
        Elem ''div'' []
          [Elem ''div'' []
            [Elem ''p'' [] [Text (decimal (length rows) @ '' canisters on the subnet, '' @
               bigint_text (adminUntrackedCount s) @ '' not registered in the console.'')],
             DownloadCanistersButton rows],
           Elem ''Table'' []
            [Elem ''TableHeader'' [] [Elem ''TableRow'' []
               [Elem ''TableHead'' [] [Text ''Canister''], Elem ''TableHead'' [] [Text ''Owner''],
                Elem ''TableHead'' [] [Text ''Status'']]],
             Elem ''TableBody'' [] (map (CanistersTable_row privacy) rows)]])"

fun tierVariant :: "PlanTier \<Rightarrow> string" where
  "tierVariant PlanTier_Pro = ''default''"
| "tierVariant PlanTier_Enterprise = ''outline''"
| "tierVariant PlanTier_Free = ''secondary''"

text \<open>The table of organizations has the one local state \<open>isLoadingMore\<close>.\<close>

definition OrganizationsTable_onLoadMore :: "'w env \<Rightarrow> (bool, 'w, unit) page_task" where
  "OrganizationsTable_onLoadMore E =
     await (set_local (\<lambda>_. True)) (\<lambda>_.
     try_finally
       (try_catch (on_store (loadMoreAdminOrgs E)) (error_toast ''Failed to load more organizations''))
       (set_local (\<lambda>_. False)))"

definition OrganizationsTable_row :: "AdminOrganization \<Rightarrow> 'ev view" where
  "OrganizationsTable_row org =
     Elem ''TableRow'' []
       [Elem ''TableCell'' []
         [Elem ''div'' [] [Elem ''span'' [] [Text (AdminOrganization_name org)],
                           Elem ''span'' [] [Text (AdminOrganization_id org)]]],
        Elem ''TableCell'' [] [Text (bigint_text (AdminOrganization_memberCount org))],
        Elem ''TableCell'' []
         [Elem ''Badge'' [Attr ''variant'' (tierVariant (AdminOrganization_tier org))]
           [Text (tier_text (AdminOrganization_tier org))]],
        Elem ''TableCell'' []
         [Elem ''SetOrgPlanButton'' [Attr ''orgId'' (AdminOrganization_id org),
            Attr ''currentTier'' (tier_text (AdminOrganization_tier org))] []]]"

definition OrganizationsTable :: "AppSlice \<Rightarrow> bool \<Rightarrow> AdminTableEvent view" where
  "OrganizationsTable s isLoadingMore =
     (if adminOrgs s = Some [] then Elem ''p'' [] [Text ''No organizations yet.'']
      else
        Elem ''div'' []
          (Elem ''Table'' []
            [Elem ''TableHeader'' [] [Elem ''TableRow'' []
               [Elem ''TableHead'' [] [Text ''Organization''], Elem ''TableHead'' [] [Text ''Members''],
                Elem ''TableHead'' [] [Text ''Plan''], Elem ''TableHead'' [] []]],
             Elem ''TableBody'' []
               (map OrganizationsTable_row (case adminOrgs s of Some os \<Rightarrow> os | None \<Rightarrow> []))] #
           given (adminOrgsNextCursor s \<noteq> None)
            [Elem ''div'' []
              [Elem ''Button'' [On ''click'' LoadMoreClicked, Flag ''disabled'' isLoadingMore]
                [Text (if isLoadingMore then ''Loading...'' else ''Load more'')]]]))"

definition OverviewTab :: "AppSlice \<Rightarrow> 'ev view" where
  "OverviewTab s =
     (let stat = (\<lambda>label val. Elem ''Card'' [] [Elem ''CardHeader'' []
            [Elem ''CardDescription'' [] [Text label],
             Elem ''CardTitle'' [] [Text (bigint_text (case userStats s of Some st \<Rightarrow> val st | None \<Rightarrow> 0))]]])
      in Elem ''div'' []
        [stat ''Total Users'' GetUserStatsResponse_total,
         stat ''Active Users'' GetUserStatsResponse_active,
         stat ''Inactive Users'' GetUserStatsResponse_inactive])"

definition TrustedPartnerTable :: "AppSlice \<Rightarrow> 'ev view" where
  "TrustedPartnerTable s =
     Elem ''Table'' []
       [Elem ''TableHeader'' [] [Elem ''TableRow'' []
          [Elem ''TableHead'' [] [Text ''#''], Elem ''TableHead'' [] [Text ''Name''],
           Elem ''TableHead'' [] [Text ''Principal'']]],
        Elem ''TableBody'' [] (map (\<lambda>partner.
          Elem ''TableRow'' []
            [Elem ''TableCell'' [] [Text (TrustedPartner_id partner)],
             Elem ''TableCell'' [] [Text (TrustedPartner_name partner)],
             Elem ''TableCell'' [] [Text (TrustedPartner_principal partner)]])
          (case trustedPartners s of Some ps \<Rightarrow> ps | None \<Rightarrow> []))]"

section \<open>Trusted partners\<close>

text \<open>
  A form submits only what its schema accepts. Whether a text is that of a principal is decided by the schema of
  a library, \<open>PrincipalTextSchema\<close>: the parameter \<open>isPrincipalText\<close>.
\<close>

definition TrustedPartner_formSchema ::
    "(string \<Rightarrow> bool) \<Rightarrow> CreateTrustedPartnerRequest \<Rightarrow> CreateTrustedPartnerRequest option" where
  "TrustedPartner_formSchema isPrincipalText d =
     (if CreateTrustedPartnerRequest_name d \<noteq> [] \<and> isPrincipalText (CreateTrustedPartnerRequest_principal d)
      then Some d else None)"

definition blank_partner :: CreateTrustedPartnerRequest where
  "blank_partner = \<lparr>CreateTrustedPartnerRequest_principal = [], CreateTrustedPartnerRequest_name = []\<rparr>"

definition TrustedPartnerForm_onSubmit ::
    "'w env \<Rightarrow> CreateTrustedPartnerRequest \<Rightarrow> (CreateTrustedPartnerRequest Form, 'w, unit) page_task" where
  "TrustedPartnerForm_onSubmit E d =
     try_catch
       (await (on_store (createTrustedPartner E d)) (\<lambda>_.
        await (set_local (\<lambda>_. form_reset blank_partner)) (\<lambda>_.
        success_toast ''Trusted partner added successfully!'')))
       (error_toast ''Failed to create trusted partner'')"

datatype TrustedPartnerFormEvent = PartnerNameChanged string | PartnerPrincipalChanged string | PartnerSubmitted

definition TrustedPartnerForm :: "bool \<Rightarrow> CreateTrustedPartnerRequest Form \<Rightarrow> TrustedPartnerFormEvent view" where
  "TrustedPartnerForm isSubmitting f =
     Elem ''Card'' []
       [Elem ''CardHeader'' [] [Elem ''CardTitle'' [] [Text ''Add Trusted Partner'']],
        Elem ''CardContent'' [] [Elem ''form'' []
         [Elem ''FormItem'' []
           [Elem ''FormLabel'' [] [Text ''Partner Name''],
            Elem ''Input'' [Attr ''placeholder'' ''Trustworthy Partner AG'',
              Attr ''value'' (CreateTrustedPartnerRequest_name (form_values f)), OnText ''change'' PartnerNameChanged] [],
            Elem ''FormMessage'' [] []],
          Elem ''FormItem'' []
           [Elem ''FormLabel'' [] [Text ''Partner Principal''],
            Elem ''Input''
             [Attr ''placeholder'' ''esnbu-tvlmz-llrn2-clxkp-q6746-hx6o5-ln6li-om2lt-dzree-muoij-sqe'',
              Attr ''value'' (CreateTrustedPartnerRequest_principal (form_values f)),
              OnText ''change'' PartnerPrincipalChanged] [],
            Elem ''FormMessage'' [] []],
          Elem ''LoadingButton'' [Flag ''isLoading'' isSubmitting, On ''submit'' PartnerSubmitted] [Text ''Add Partner'']]]]"

section \<open>Terms and conditions\<close>

text \<open>
  What the sanitizer and the Markdown library make of a text is a parameter: \<open>toSafeHtml\<close>.
\<close>

definition TermsAndConditionsContent :: "(string \<Rightarrow> string) \<Rightarrow> string \<Rightarrow> 'ev view" where
  "TermsAndConditionsContent toSafeHtml val =
     Elem ''div'' [Attr ''dangerouslySetInnerHTML'' (toSafeHtml val)] []"

definition TermsAndConditionsCurrent :: "Browser \<Rightarrow> (string \<Rightarrow> string) \<Rightarrow> AppSlice \<Rightarrow> 'ev view" where
  "TermsAndConditionsCurrent B toSafeHtml s =
     Elem ''Card'' []
       [Elem ''CardHeader'' []
         (Elem ''CardTitle'' [] [Text ''Current Terms and Conditions''] #
          given (termsAndConditions s \<noteq> None) [Elem ''Link'' [Attr ''to'' ''/terms-and-conditions''] [Text ''Open page'']]),
        Elem ''CardContent'' []
         (case termsAndConditions s of
            Some t \<Rightarrow>
              [Elem ''p'' [] [Elem ''span'' [] [Text ''Effective from:''],
                 Text (dayToLocale B (TermsAndConditions_createdAt t))],
               Elem ''p'' [] [Elem ''span'' [] [Text ''Comment:''], Text (TermsAndConditions_comment t)],
               TermsAndConditionsContent toSafeHtml (TermsAndConditions_content t)]
          | None \<Rightarrow> [Elem ''p'' [] [Text ''No terms and conditions have been published yet.'']])]"

text \<open>The table has the one local state \<open>expandedId\<close>.\<close>

definition toggle_expanded :: "string \<Rightarrow> string option \<Rightarrow> string option" where
  "toggle_expanded itemId expandedId = (if expandedId = Some itemId then None else Some itemId)"

definition TermsAndConditionsTable_item ::
    "Browser \<Rightarrow> (string \<Rightarrow> string) \<Rightarrow> string option \<Rightarrow> TermsAndConditionsListItem \<Rightarrow> AdminTableEvent view list" where
  "TermsAndConditionsTable_item B toSafeHtml expandedId item =
     (let isExpanded = (expandedId = Some (TermsAndConditionsListItem_id item)) in
      Elem ''TableRow'' []
        [Elem ''TableCell'' [] [Text (dayToLocale B (TermsAndConditionsListItem_createdAt item))],
         Elem ''TableCell'' [] [Text (TermsAndConditionsListItem_comment item)],
         Elem ''TableCell'' [] [Text (TermsAndConditionsListItem_createdBy item)],
         Elem ''TableCell'' []
          [Elem ''Button'' [On ''click'' (ToggleExpanded (TermsAndConditionsListItem_id item))]
            [Text (if isExpanded then ''Hide'' else ''View'')]]] #
      given isExpanded
        [Elem ''TableRow'' [] [Elem ''TableCell'' []
          [TermsAndConditionsContent toSafeHtml (TermsAndConditionsListItem_content item)]]])"

definition TermsAndConditionsTable ::
    "Browser \<Rightarrow> (string \<Rightarrow> string) \<Rightarrow> AppSlice \<Rightarrow> string option \<Rightarrow> AdminTableEvent view" where
  "TermsAndConditionsTable B toSafeHtml s expandedId =
     (case termsAndConditionsHistory s of
        Some (h # hs) \<Rightarrow>
          Elem ''Table'' []
            [Elem ''TableHeader'' [] [Elem ''TableRow'' []
               [Elem ''TableHead'' [] [Text ''Effective from''], Elem ''TableHead'' [] [Text ''Comment''],
                Elem ''TableHead'' [] [Text ''Created by''], Elem ''TableHead'' [] []]],
             Elem ''TableBody'' [] (concat (map (TermsAndConditionsTable_item B toSafeHtml expandedId) (h # hs)))]
      | _ \<Rightarrow> Elem ''p'' [] [Text ''No terms and conditions have been published yet.''])"

definition TermsAndConditions_formSchema ::
    "CreateTermsAndConditionsRequest \<Rightarrow> CreateTermsAndConditionsRequest option" where
  "TermsAndConditions_formSchema d =
     (if CreateTermsAndConditionsRequest_content d \<noteq> [] \<and> CreateTermsAndConditionsRequest_comment d \<noteq> []
      then Some d else None)"

record TermsFormState =
  termsForm :: "CreateTermsAndConditionsRequest Form"
  isPreviewing :: bool

definition blank_terms :: CreateTermsAndConditionsRequest where
  "blank_terms = \<lparr>CreateTermsAndConditionsRequest_content = [], CreateTermsAndConditionsRequest_comment = []\<rparr>"

definition TermsAndConditionsForm_onSubmit ::
    "'w env \<Rightarrow> CreateTermsAndConditionsRequest \<Rightarrow> (TermsFormState, 'w, unit) page_task" where
  "TermsAndConditionsForm_onSubmit E d =
     try_catch
       (await (on_store (createTermsAndConditions E d)) (\<lambda>_.
        await (set_local (\<lambda>l. l\<lparr>termsForm := form_reset blank_terms\<rparr>)) (\<lambda>_.
        await (set_local (\<lambda>l. l\<lparr>isPreviewing := False\<rparr>)) (\<lambda>_.
        success_toast ''Terms and conditions created successfully!''))))
       (error_toast ''Failed to create terms and conditions'')"

datatype TermsFormEvent = TermsCommentChanged string | TermsContentChanged string | PreviewToggled | TermsSubmitted

definition TermsAndConditionsForm :: "(string \<Rightarrow> string) \<Rightarrow> bool \<Rightarrow> TermsFormState \<Rightarrow> TermsFormEvent view" where
  "TermsAndConditionsForm toSafeHtml isSubmitting l =
     (let previewContent = CreateTermsAndConditionsRequest_content (form_values (termsForm l)) in
      Elem ''Card'' []
        [Elem ''CardHeader'' [] [Elem ''CardTitle'' [] [Text ''Create Terms and Conditions'']],
         Elem ''CardContent'' [] [Elem ''form'' []
          [Elem ''FormItem'' []
            [Elem ''FormLabel'' [] [Text ''Comment''],
             Elem ''Input'' [Attr ''placeholder'' ''Enter a comment'',
               Attr ''value'' (CreateTermsAndConditionsRequest_comment (form_values (termsForm l))),
               OnText ''change'' TermsCommentChanged] [],
             Elem ''FormMessage'' [] []],
           Elem ''FormItem'' []
            [Elem ''div'' []
              [Elem ''FormLabel'' [] [Text ''Content''],
               Elem ''Button'' [On ''click'' PreviewToggled, Flag ''disabled'' (previewContent = [])]
                 [Text (if isPreviewing l then ''Edit'' else ''Preview'')]],
             (if isPreviewing l then TermsAndConditionsContent toSafeHtml previewContent
              else Elem ''Textarea'' [Attr ''placeholder'' ''Enter terms and conditions content (markdown)'',
                Attr ''value'' previewContent, OnText ''change'' TermsContentChanged] []),
             Elem ''FormMessage'' [] []],
           Elem ''LoadingButton'' [Flag ''isLoading'' isSubmitting, On ''submit'' TermsSubmitted]
             [Text ''Create Terms & Conditions'']]]])"

section \<open>A user and his canisters\<close>

text \<open>
  The page of a user reads his canisters and reads them again when one of the cards changed one. A card has the one
  local state \<open>isActionLoading\<close> next to that of the page.
\<close>

record UserDetailState =
  userCanisters :: "Canister list option"
  isLoadingCanisters :: bool

definition UserDetail_initial :: UserDetailState where
  "UserDetail_initial = \<lparr>userCanisters = None, isLoadingCanisters = True\<rparr>"

definition fetchCanisters :: "'w env \<Rightarrow> string option \<Rightarrow> (UserDetailState, 'w, unit) page_task" where
  "fetchCanisters E userId =
     (case userId of
        None \<Rightarrow> ret ()
      | Some uid \<Rightarrow>
          if uid = [] then ret ()
          else
            try_catch
              (await (on_store (CanisterApi_listUserCanisters E \<lparr>ApiListUserCanistersRequest_user_id = uid\<rparr>)) (\<lambda>res.
               set_local (\<lambda>l. l\<lparr>userCanisters := Some (ListUserCanistersResponse_canisters res)\<rparr>)))
              (error_toast ''Failed to fetch user canisters''))"

definition UserDetail_load :: "'w env \<Rightarrow> string option \<Rightarrow> (UserDetailState, 'w, unit) page_task" where
  "UserDetail_load E userId =
     await (set_local (\<lambda>l. l\<lparr>isLoadingCanisters := True\<rparr>)) (\<lambda>_.
     try_finally (fetchCanisters E userId) (set_local (\<lambda>l. l\<lparr>isLoadingCanisters := False\<rparr>)))"

type_synonym ('l, 'w) card_task = "(bool \<times> 'l, 'w, unit) page_task"

definition card_busy :: "bool \<Rightarrow> ('l, 'w) card_task" where
  "card_busy b = set_local (\<lambda>(_, l). (b, l))"

definition handleStart :: "'w env \<Rightarrow> ('l, 'w, unit) page_task \<Rightarrow> Canister \<Rightarrow> ('l, 'w) card_task" where
  "handleStart E onStatusChange canister =
     try_finally
       (try_catch
         (await (card_busy True) (\<lambda>_.
          await (on_store (ManagementCanisterApi_startCanister E
            \<lparr>StartCanisterRequest_canisterId = Canister_principal canister\<rparr>)) (\<lambda>_.
          await (on_page onStatusChange) (\<lambda>_.
          success_toast ''Canister started successfully''))))
         (error_toast ''Failed to start canister''))
       (card_busy False)"

definition handleStop :: "'w env \<Rightarrow> ('l, 'w, unit) page_task \<Rightarrow> Canister \<Rightarrow> ('l, 'w) card_task" where
  "handleStop E onStatusChange canister =
     try_finally
       (try_catch
         (await (card_busy True) (\<lambda>_.
          await (on_store (ManagementCanisterApi_stopCanister E
            \<lparr>StopCanisterRequest_canisterId = Canister_principal canister\<rparr>)) (\<lambda>_.
          await (on_page onStatusChange) (\<lambda>_.
          success_toast ''Canister stopped successfully''))))
         (error_toast ''Failed to stop canister''))
       (card_busy False)"

definition handleDelete :: "'w env \<Rightarrow> ('l, 'w, unit) page_task \<Rightarrow> Canister \<Rightarrow> ('l, 'w) card_task" where
  "handleDelete E onStatusChange canister =
     try_finally
       (try_catch
         (await (card_busy True) (\<lambda>_.
          await (on_store (ManagementCanisterApi_deleteCanister E
            \<lparr>DeleteCanisterRequest_canisterId = Canister_principal canister\<rparr>)) (\<lambda>_.
          await (on_page onStatusChange) (\<lambda>_.
          success_toast ''Canister deleted successfully''))))
         (error_toast ''Failed to delete canister''))
       (card_busy False)"

datatype CardEvent = StartClicked | StopClicked | DeleteClicked

definition canister_info :: "Canister \<Rightarrow> CanisterInfo option" where
  "canister_info canister = (case Canister_state canister of Accessible info \<Rightarrow> Some info | _ \<Rightarrow> None)"

definition UserCanisterCard_actions :: "CanisterInfo \<Rightarrow> bool \<Rightarrow> CardEvent view" where
  "UserCanisterCard_actions info isActionLoading =
     Elem ''CardAction'' []
       (given (CanisterInfo_status info = Stopped)
          [Elem ''LoadingButton'' [On ''click'' StartClicked, Flag ''isLoading'' isActionLoading] [Text ''Start''],
           Elem ''LoadingButton'' [On ''click'' DeleteClicked, Flag ''isLoading'' isActionLoading] [Text ''Delete'']] @
        given (CanisterInfo_status info = Running)
          [Elem ''LoadingButton'' [On ''click'' StopClicked, Flag ''isLoading'' isActionLoading] [Text ''Stop'']] @
        [Elem ''Badge'' [Attr ''variant'' (statusBadgeVariant (CanisterInfo_status info))]
          [Text (canister_status_text (CanisterInfo_status info))]])"

text \<open>The three quantities of a canister, which the cards of other pages show too.\<close>

definition canister_quantities :: "Browser \<Rightarrow> CanisterInfo \<Rightarrow> 'ev view" where
  "canister_quantities B info =
     Elem ''CardContent'' [] [Elem ''div'' []
       [Elem ''div'' [] [Elem ''div'' [] [Text ''Cycles''],
          Elem ''div'' [] [Text (cycles_text (CanisterInfo_cycles info))]],
        Elem ''div'' [] [Elem ''div'' [] [Text ''Memory''],
          Elem ''div'' [] [Text (bytes_text B (CanisterInfo_memorySize info))]],
        Elem ''div'' [] [Elem ''div'' [] [Text ''Burn / day''],
          Elem ''div'' [] [Text (cycles_text (CanisterInfo_idleCyclesBurnedPerDay info))]]]]"

definition UserCanisterCard :: "Browser \<Rightarrow> Canister \<Rightarrow> bool \<Rightarrow> CardEvent view" where
  "UserCanisterCard B canister isActionLoading =
     Elem ''Card'' []
       (Elem ''CardHeader'' []
         ([Elem ''CardTitle'' [] [Text ''Canister''],
           Elem ''CardDescription'' [] [Text (Canister_principal canister)]] @
          (case canister_info canister of Some info \<Rightarrow> [UserCanisterCard_actions info isActionLoading] | None \<Rightarrow> []) @
          given (Canister_state canister = Deleted)
            [Elem ''CardAction'' [] [Elem ''Badge'' [Attr ''variant'' ''destructive''] [Text ''Deleted'']]] @
          (case Canister_deletedAt canister of
             Some t \<Rightarrow> [Elem ''CardDescription'' []
               [Text (''Removed by user on '' @ formatTimestamp (dateToLocale B) t)]]
           | None \<Rightarrow> [])) #
        (case canister_info canister of Some info \<Rightarrow> [canister_quantities B info] | None \<Rightarrow> []))"

definition detail_user :: "AppSlice \<Rightarrow> string option \<Rightarrow> UserProfile option" where
  "detail_user s userId =
     (case users s of None \<Rightarrow> None | Some us \<Rightarrow> List.find (\<lambda>u. Some (UserProfile_id u) = userId) us)"

text \<open>\<open>breadcrumbEmail ?? userId ?? 'User'\<close>, where the address is masked if the switch says so.\<close>

definition breadcrumb_label :: "AdminPrivacyState \<Rightarrow> AppSlice \<Rightarrow> string option \<Rightarrow> string" where
  "breadcrumb_label privacy s userId =
     (case (case detail_user s userId of Some u \<Rightarrow> UserProfile_email u | None \<Rightarrow> None) of
        Some e \<Rightarrow> if censorEmails privacy then maskEmail e else e
      | None \<Rightarrow> case userId of Some uid \<Rightarrow> uid | None \<Rightarrow> ''User'')"

definition UserDetail_profile :: "AdminPrivacyState \<Rightarrow> UserProfile \<Rightarrow> 'ev view" where
  "UserDetail_profile privacy user =
     Elem ''Card'' []
       [Elem ''CardHeader'' [] [Elem ''div'' []
          [Elem ''div'' [] [Elem ''CardDescription'' [] [Text ''Principal''],
             Elem ''CardTitle'' [] [Text (UserProfile_id user)]],
           Elem ''UserStatusToggle'' [Attr ''user'' (UserProfile_id user)] []]],
        Elem ''CardContent'' []
         [Elem ''div'' []
           [Elem ''p'' [] [Text ''Email''],
            Elem ''div'' []
             (AdminEmail privacy ''None provided'' (UserProfile_email user) #
              given (email_text user \<noteq> []) [verified_badge (UserProfile_emailVerified user)])],
          Elem ''div'' [] [Elem ''p'' [] [Text ''Status''], Elem ''div'' [] [UserStatusBadge user]],
          Elem ''div'' []
           [Elem ''p'' [] [Text ''Role''],
            Elem ''div'' [] [Elem ''Badge'' [Attr ''variant'' (if UserProfile_isAdmin user then ''default'' else ''secondary'')]
              [Text (if UserProfile_isAdmin user then ''Admin'' else ''User'')]]]]]"

definition UserDetail :: "AdminPrivacyState \<Rightarrow> AppSlice \<Rightarrow> string option \<Rightarrow> UserDetailState \<Rightarrow> 'ev view" where
  "UserDetail privacy s userId l =
     Elem ''Container'' []
       ([Breadcrumbs [(''Admin'', Some ''/admin''), (''Users'', Some ''/admin/users''),
           (breadcrumb_label privacy s userId, None)],
         Elem ''H1'' [] [Text ''User'']] @
        (case detail_user s userId of
           None \<Rightarrow> [Elem ''p'' [] [Text ''User not found.'']]
         | Some user \<Rightarrow>
             [UserDetail_profile privacy user,
              Elem ''section'' []
               [Elem ''h2'' [] [Text ''Linked principals''],
                Elem ''p'' [] [Text (''Every principal that authenticates as this user. Staff with Manage'' @ [CHR 0xA0] @
                   ''users can link a recovery principal or revoke a compromised one. The user's last remaining principal '' @
                   ''cannot be unlinked.'')],
                Elem ''div'' [] [Elem ''UserLinkedPrincipals'' [Attr ''userId'' (UserProfile_id user)] []]],
              Elem ''section'' []
               [Elem ''h2'' [] [Text ''Canisters''],
                Elem ''div'' []
                 [if isLoadingCanisters l then Elem ''div'' [] [Elem ''LoadingSpinner'' [] []]
                  else
                    case userCanisters l of
                      Some (c # cs) \<Rightarrow> Elem ''div'' [] (map (\<lambda>c. Elem ''UserCanisterCard''
                        [Attr ''canister'' (Canister_id c)] []) (c # cs))
                    | _ \<Rightarrow> Elem ''p'' [] [Text ''This user has no canisters.'']]]]))"

section \<open>Tabs and their guards\<close>

text \<open>
  A tab is where its guard sends the user, if anywhere, and what it shows. The effect of the tab of canisters reads
  them once.
\<close>

definition UsersTab :: "AppSlice \<Rightarrow> string \<Rightarrow> string option \<times> unit view" where
  "UsersTab s pathname = (useRequireAdminCapability (selectCanManageUsers s) s pathname, Elem ''UserTable'' [] [])"

definition OrganizationsTab :: "AppSlice \<Rightarrow> string \<Rightarrow> string option \<times> unit view" where
  "OrganizationsTab s pathname =
     (useRequireAdminCapability (selectCanReadAllOrgs s) s pathname, Elem ''OrganizationsTable'' [] [])"

definition CanistersTab :: "AppSlice \<Rightarrow> string \<Rightarrow> string option \<times> unit view" where
  "CanistersTab s pathname =
     (useRequireAdminCapability (selectCanReadAllOrgs s) s pathname, Elem ''CanistersTable'' [] [])"

definition CanistersTab_load :: "'w env \<Rightarrow> nat \<Rightarrow> (unit, 'w, unit) page_task" where
  "CanistersTab_load E fuel =
     get_state (\<lambda>(_, s).
       if isAdminCanistersInitialized s then ret ()
       else try_catch (on_store (initializeAdminCanisters E fuel)) (error_toast ''Failed to load canisters''))"

definition TrustedPartnersTab :: "AppSlice \<Rightarrow> string \<Rightarrow> string option \<times> unit view" where
  "TrustedPartnersTab s pathname =
     (useRequireAdminCapability (selectIsAdmin s) s pathname,
      Elem ''Fragment'' [] [Elem ''TrustedPartnerTable'' [] [], Elem ''TrustedPartnerForm'' [] []])"

definition TermsAndConditionsTab :: "AppSlice \<Rightarrow> string \<Rightarrow> string option \<times> unit view" where
  "TermsAndConditionsTab s pathname =
     (useRequireAdminCapability (selectIsAdmin s) s pathname,
      Elem ''Fragment'' [] [Elem ''TermsAndConditionsCurrent'' [] [], Elem ''TermsAndConditionsTable'' [] [],
        Elem ''TermsAndConditionsForm'' [] []])"

definition StaffTab :: "AppSlice \<Rightarrow> string \<Rightarrow> string option \<times> unit view" where
  "StaffTab s pathname =
     (useRequireAdminCapability (selectIsAdmin s) s pathname,
      Elem ''Fragment'' [] [Elem ''StaffTable'' [] [], Elem ''StaffForm'' [] []])"

record AdminTab =
  AdminTab_to :: string
  AdminTab_label :: string
  AdminTab_visible :: bool

definition all_admin_tabs :: "AppSlice \<Rightarrow> AdminTab list" where
  "all_admin_tabs s =
       [\<lparr>AdminTab_to = ''/admin'', AdminTab_label = ''Overview'', AdminTab_visible = True\<rparr>,
        \<lparr>AdminTab_to = ''/admin/users'', AdminTab_label = ''Users'', AdminTab_visible = selectCanManageUsers s\<rparr>,
        \<lparr>AdminTab_to = ''/admin/organizations'', AdminTab_label = ''Organizations'',
         AdminTab_visible = selectCanReadAllOrgs s\<rparr>,
        \<lparr>AdminTab_to = ''/admin/canisters'', AdminTab_label = ''Canisters'',
         AdminTab_visible = selectCanReadAllOrgs s\<rparr>,
        \<lparr>AdminTab_to = ''/admin/trusted-partners'', AdminTab_label = ''Trusted Partners'',
         AdminTab_visible = selectIsAdmin s\<rparr>,
        \<lparr>AdminTab_to = ''/admin/terms-and-conditions'', AdminTab_label = ''Terms & Conditions'',
         AdminTab_visible = selectIsAdmin s\<rparr>,
        \<lparr>AdminTab_to = ''/admin/staff'', AdminTab_label = ''Staff Permissions'',
         AdminTab_visible = selectIsAdmin s\<rparr>]"

definition admin_tabs :: "AppSlice \<Rightarrow> AdminTab list" where
  "admin_tabs s = filter AdminTab_visible (all_admin_tabs s)"

definition AdminLayout :: "AdminPrivacyState \<Rightarrow> AppSlice \<Rightarrow> unit view" where
  "AdminLayout privacy s =
     Elem ''Container'' []
       [Elem ''div'' []
         [Elem ''H1'' [] [Text ''Admin''],
          Elem ''Button'' [On ''click'' (), Flag ''aria-pressed'' (\<not> censorEmails privacy)]
            [Elem (if censorEmails privacy then ''EyeOffIcon'' else ''EyeIcon'') [] [],
             Text (if censorEmails privacy then ''Emails hidden'' else ''Emails shown'')]],
        Elem ''nav'' [] (map (\<lambda>tab. Elem ''NavLink'' [Attr ''to'' (AdminTab_to tab)] [Text (AdminTab_label tab)])
          (admin_tabs s)),
        Elem ''div'' [] [Elem ''Outlet'' [] []]]"

section \<open>The CSV file can be read back\<close>

text \<open>
  A reader of CSV files in the usual notation (RFC 4180, with line feeds): the cell and the cells read so far, and
  whether a quote is open.
\<close>

fun csv_read :: "bool \<Rightarrow> string \<Rightarrow> string list \<Rightarrow> string \<Rightarrow> string list list" where
  "csv_read quoted cell cells [] = [cells @ [cell]]"
| "csv_read False cell cells (c # s) =
     (if c = CHR 0x22 then csv_read True cell cells s
      else if c = CHR '','' then csv_read False [] (cells @ [cell]) s
      else if c = CHR 0x0A then (cells @ [cell]) # csv_read False [] [] s
      else csv_read False (cell @ [c]) cells s)"
| "csv_read True cell cells (c # s) =
     (if c = CHR 0x22 then
        (case s of
           d # s' \<Rightarrow> if d = CHR 0x22 then csv_read True (cell @ [CHR 0x22]) cells s' else csv_read False cell cells s
         | [] \<Rightarrow> csv_read False cell cells s)
      else csv_read True (cell @ [c]) cells s)"

definition csv_ends :: "string \<Rightarrow> bool" where
  "csv_ends s \<longleftrightarrow> s = [] \<or> hd s = CHR '','' \<or> hd s = CHR 0x0A"

lemma csv_read_plain:
  "CHR '','' \<notin> set v \<Longrightarrow> CHR 0x22 \<notin> set v \<Longrightarrow> CHR 0x0A \<notin> set v \<Longrightarrow>
     csv_read False cell cells (v @ rest) = csv_read False (cell @ v) cells rest"
  by (induction v arbitrary: cell) auto

lemma csv_read_quoted:
  "csv_ends rest \<Longrightarrow>
     csv_read True cell cells (subst1 CHR 0x22 (quote @ quote) v @ CHR 0x22 # rest) =
     csv_read False (cell @ v) cells rest"
proof (induction v arbitrary: cell)
  case Nil
  then show ?case by (cases rest) (auto simp: subst1_def csv_ends_def)
next
  case (Cons c v)
  have step: "subst1 CHR 0x22 (quote @ quote) (c # v) =
      (if c = CHR 0x22 then [CHR 0x22, CHR 0x22] else [c]) @ subst1 CHR 0x22 (quote @ quote) v"
    by (simp add: subst1_def quote_def)
  show ?case using Cons.IH [OF Cons.prems] by (simp add: step)
qed

lemma csv_read_cell:
  "csv_ends rest \<Longrightarrow> csv_read False [] cells (escapeCsv v @ rest) = csv_read False v cells rest"
  using csv_read_plain [of v "[]" cells rest] csv_read_quoted [of rest "[]" cells v]
  by (simp add: escapeCsv_def quote_def replace_all_char)

lemma csv_read_cells:
  assumes "rest = [] \<or> hd rest = CHR 0x0A"
  shows "vs \<noteq> [] \<Longrightarrow> csv_read False [] cells (js_join '','' (map escapeCsv vs) @ rest) =
    csv_read False (last vs) (cells @ butlast vs) rest"
proof (induction vs arbitrary: cells rule: induct_list012)
  case (2 v)
  have "csv_ends rest" using assms by (auto simp: csv_ends_def)
  then show ?case by (simp add: csv_read_cell)
next
  case (3 v v' vs)
  have "csv_read False [] cells (escapeCsv v @ CHR '','' # (js_join '','' (map escapeCsv (v' # vs)) @ rest)) =
      csv_read False [] (cells @ [v]) (js_join '','' (map escapeCsv (v' # vs)) @ rest)"
    by (simp add: csv_read_cell csv_ends_def)
  also have "... = csv_read False (last (v' # vs)) ((cells @ [v]) @ butlast (v' # vs)) rest"
    by (rule 3) simp
  finally show ?case by simp
qed simp

lemma csv_read_lines:
  "list_all (\<lambda>vs. vs \<noteq> []) rows \<Longrightarrow> rows \<noteq> [] \<Longrightarrow>
     csv_read False [] [] (js_join csv_newline (map (\<lambda>vs. js_join '','' (map escapeCsv vs)) rows)) = rows"
proof (induction rows rule: induct_list012)
  case (2 vs)
  then show ?case using csv_read_cells [of "[]" vs "[]"] by simp
next
  case (3 vs vs' rows)
  then show ?case
    using csv_read_cells [of "csv_newline @ js_join csv_newline (map (\<lambda>vs. js_join '','' (map escapeCsv vs)) (vs' # rows))" vs "[]"]
    by (simp add: csv_newline_def)
qed simp

definition csv_cells :: "AdminCanisterRow \<Rightarrow> string list" where
  "csv_cells r =
     [CanisterWithOwner_principal r, if tracked r then ''tracked'' else ''untracked'', CanisterWithOwner_userId r,
      case CanisterWithOwner_email r of Some e \<Rightarrow> e | None \<Rightarrow> [],
      if tracked r then (if CanisterWithOwner_emailVerified r then ''true'' else ''false'') else []]"

lemma csv_line_cells: "csv_line r = js_join '','' (map escapeCsv (csv_cells r))"
  by (simp add: csv_line_def csv_cells_def escapeCsv_def)

text \<open>C38: Whatever names, addresses and ids contain, a reader of CSV files gets from the downloaded file the header
  and one record per canister, with its five values.\<close>

theorem csv_roundtrip:
  "csv_read False [] [] (buildCsv rows) =
     [''Canister Principal'', ''Tracked'', ''User ID'', ''Email'', ''Email Verified''] # map csv_cells rows"
proof -
  let ?header = "[''Canister Principal'', ''Tracked'', ''User ID'', ''Email'', ''Email Verified'']"
  have "map csv_line rows = map (\<lambda>vs. js_join '','' (map escapeCsv vs)) (map csv_cells rows)"
    by (simp add: csv_line_cells)
  then have "buildCsv rows = js_join csv_newline (map (\<lambda>vs. js_join '','' (map escapeCsv vs)) (?header # map csv_cells rows))"
    by (simp only: buildCsv_def list.map) (simp add: escapeCsv_def)
  moreover have "list_all (\<lambda>vs. vs \<noteq> []) (?header # map csv_cells rows)"
    by (simp add: list_all_iff csv_cells_def)
  ultimately show ?thesis by (simp only: csv_read_lines list.distinct simp_thms)
qed

section \<open>What the cards offer and report\<close>

lemma enabled_quantities [simp]: "enabled (canister_quantities B info) = []"
  by (simp add: canister_quantities_def disabled_def)

text \<open>The card of a canister offers to start or delete it exactly if it is stopped, and to stop it exactly if it
  is running, and nothing while one of its actions is under way or if the canister is not accessible.\<close>

theorem card_offers:
  "ev \<in> set (enabled (UserCanisterCard B c busy)) \<longleftrightarrow>
     \<not> busy \<and> (\<exists>info. Canister_state c = Accessible info \<and>
       CanisterInfo_status info = (if ev = StopClicked then Running else Stopped))"
proof (cases "Canister_state c")
  case (Accessible info)
  then show ?thesis
    by (cases "CanisterInfo_status info"; cases ev; cases busy)
      (auto simp: UserCanisterCard_def UserCanisterCard_actions_def canister_info_def given_def disabled_def
        split: option.splits)
qed (auto simp: UserCanisterCard_def canister_info_def given_def disabled_def split: option.splits)

lemma run_fetchCanisters:
  assumes "uid \<noteq> []"
  shows "run (fetchCanisters E (Some uid)) (l, s) w =
    (case run (CanisterApi_listUserCanisters E \<lparr>ApiListUserCanistersRequest_user_id = uid\<rparr>) s w of
       (Inl err, s', w') \<Rightarrow>
         (Inr (), (l, s'\<lparr>toasts := toasts s' @ [(''Failed to fetch user canisters'', error_message err)]\<rparr>), w')
     | (Inr res, s', w') \<Rightarrow> (Inr (), (l\<lparr>userCanisters := Some (ListUserCanistersResponse_canisters res)\<rparr>, s'), w'))"
  using assms by (simp add: fetchCanisters_def run_simps add_toast split: prod.split sum.split)

text \<open>
  Stopping a canister from its card ends with the card idle and one message: that it failed, and then nothing
  else has changed; or that it was stopped, and then the page shows the canisters as they were read after it, unless
  reading them failed, which is reported too.
\<close>

theorem stop_reported:
  assumes "uid \<noteq> []"
  shows "run (handleStop E (fetchCanisters E (Some uid)) c) ((b, l), s) w =
    (case run (ManagementCanisterApi_stopCanister E \<lparr>StopCanisterRequest_canisterId = Canister_principal c\<rparr>) s w of
       (Inl err, s1, w1) \<Rightarrow>
         (Inr (), ((False, l), s1\<lparr>toasts := toasts s1 @ [(''Failed to stop canister'', error_message err)]\<rparr>), w1)
     | (Inr _, s1, w1) \<Rightarrow>
        (case run (CanisterApi_listUserCanisters E \<lparr>ApiListUserCanistersRequest_user_id = uid\<rparr>) s1 w1 of
           (Inl err, s2, w2) \<Rightarrow> (Inr (), ((False, l), s2\<lparr>toasts := toasts s2 @
             [(''Failed to fetch user canisters'', error_message err), (''Canister stopped successfully'', [])]\<rparr>), w2)
         | (Inr res, s2, w2) \<Rightarrow>
             (Inr (), ((False, l\<lparr>userCanisters := Some (ListUserCanistersResponse_canisters res)\<rparr>),
               s2\<lparr>toasts := toasts s2 @ [(''Canister stopped successfully'', [])]\<rparr>), w2)))"
  by (simp add: handleStop_def card_busy_def run_simps run_fetchCanisters [OF assms] add_toast
      split: prod.split sum.split)

theorem stop_reported_witness:
  "fst (run (handleStop offline (fetchCanisters offline (Some ''u'')) renamed_canister) ((False, UserDetail_initial), admin_session) 0) = Inr ()"
  using stop_reported [of "''u''" offline renamed_canister False UserDetail_initial admin_session 0]
  by (simp split: prod.splits sum.splits)

section \<open>The tabs shown are those one is let into\<close>

text \<open>The guards of the tabs, by the path the router shows the tab at.\<close>

definition admin_guards :: "AppSlice \<Rightarrow> string \<Rightarrow> (string \<times> string option) list" where
  "admin_guards s pathname =
     [(''/admin/users'', fst (UsersTab s pathname)),
      (''/admin/organizations'', fst (OrganizationsTab s pathname)),
      (''/admin/canisters'', fst (CanistersTab s pathname)),
      (''/admin/trusted-partners'', fst (TrustedPartnersTab s pathname)),
      (''/admin/terms-and-conditions'', fst (TermsAndConditionsTab s pathname)),
      (''/admin/staff'', fst (StaffTab s pathname))]"

text \<open>Once the profile is known, the frame of the administration links to a tab exactly if the guard of the tab
  lets the user stay there.\<close>

theorem admin_tabs_match_guards:
  assumes "isProfileInitialized s" and "(path, guard) \<in> set (admin_guards s path)"
  shows "path \<in> AdminTab_to ` set (admin_tabs s) \<longleftrightarrow> guard = None"
proof -
  have shown: "path \<in> AdminTab_to ` set (admin_tabs s) \<longleftrightarrow>
      (\<exists>tab \<in> set (all_admin_tabs s). AdminTab_to tab = path \<and> AdminTab_visible tab)"
    by (auto simp: admin_tabs_def)
  have "path = ''/admin/users'' \<and> (guard = None \<longleftrightarrow> selectCanManageUsers s) \<or>
      path = ''/admin/organizations'' \<and> (guard = None \<longleftrightarrow> selectCanReadAllOrgs s) \<or>
      path = ''/admin/canisters'' \<and> (guard = None \<longleftrightarrow> selectCanReadAllOrgs s) \<or>
      path = ''/admin/trusted-partners'' \<and> (guard = None \<longleftrightarrow> selectIsAdmin s) \<or>
      path = ''/admin/terms-and-conditions'' \<and> (guard = None \<longleftrightarrow> selectIsAdmin s) \<or>
      path = ''/admin/staff'' \<and> (guard = None \<longleftrightarrow> selectIsAdmin s)"
    using assms unfolding admin_guards_def UsersTab_def OrganizationsTab_def CanistersTab_def TrustedPartnersTab_def
      TermsAndConditionsTab_def StaffTab_def useRequireAdminCapability_def returnTo_def
    by (simp, elim disjE) (simp_all split: if_splits)
  then show ?thesis
    unfolding shown by (elim disjE conjE) (simp_all add: all_admin_tabs_def)
qed

theorem admin_tabs_match_guards_witness:
  "''/admin/staff'' \<in> AdminTab_to ` set (admin_tabs (admin_session\<lparr>isProfileInitialized := True\<rparr>))"
proof -
  let ?s = "admin_session\<lparr>isProfileInitialized := True\<rparr>"
  have "(''/admin/staff'', None) \<in> set (admin_guards ?s ''/admin/staff'')"
    by (simp add: admin_guards_def StaffTab_def useRequireAdminCapability_def session_defs selectIsAdmin_def)
  from admin_tabs_match_guards [OF _ this] show ?thesis by simp
qed

end
