(* ===== verification/CanisterPages.thy ===== *)
theory CanisterPages
  imports CanisterDetail ProjectExport AdminPages
begin

text \<open>
  The page with the canisters of a project, \<open>routes/canisters/canisters.tsx\<close>: the grid of cards, whose names can be
  edited (\<open>canister-grid.tsx\<close>, \<open>canister-grid-entry.tsx\<close>), the button that creates one
  (\<open>create-canister-button.tsx\<close>), the export (\<open>download-project-button.tsx\<close>), what is shown while the canisters are
  loading (\<open>canister-skeleton.tsx\<close>), and the form that adds a controller (\<open>add-controller-form.tsx\<close>).
\<close>

section \<open>Editing a name in place\<close>

record EditableNameState =
  isEditingName :: bool
  nameDraft :: string
  isSavingName :: bool

definition EditableCanisterName_initial :: "Canister \<Rightarrow> EditableNameState" where
  "EditableCanisterName_initial canister =
     \<lparr>isEditingName = False, nameDraft = canister_name canister, isSavingName = False\<rparr>"

definition startEditing :: "Canister \<Rightarrow> EditableNameState \<Rightarrow> EditableNameState" where
  "startEditing canister l = l\<lparr>nameDraft := canister_name canister, isEditingName := True\<rparr>"

definition EditableCanisterName_onSave ::
    "'w env \<Rightarrow> Canister \<Rightarrow> string \<Rightarrow> (EditableNameState, 'w, unit) page_task" where
  "EditableCanisterName_onSave E canister projectId =
     get_state (\<lambda>(l, _).
       let trimmed = trim (nameDraft l);
           next_name = (if length trimmed > 0 then Some trimmed else None)
       in if next_name = Canister_name canister then set_local (\<lambda>l. l\<lparr>isEditingName := False\<rparr>)
          else
            await (set_local (\<lambda>l. l\<lparr>isSavingName := True\<rparr>)) (\<lambda>_.
            try_finally
              (try_catch
                (await (on_store (updateCanisterName E (Canister_id canister) projectId next_name)) (\<lambda>_.
                 await (success_toast (if next_name \<noteq> None then ''Canister name updated'' else ''Canister name cleared'')) (\<lambda>_.
                 set_local (\<lambda>l. l\<lparr>isEditingName := False\<rparr>))))
                (error_toast ''Failed to update canister name''))
              (set_local (\<lambda>l. l\<lparr>isSavingName := False\<rparr>))))"

text \<open>The field reacts to two keys; others are left to the browser.\<close>

datatype EditableNameEvent =
    EditNameClicked | NameDraftChanged string | SaveNameClicked | CancelNameClicked | KeyDown string

definition EditableCanisterName_handle ::
    "'w env \<Rightarrow> Canister \<Rightarrow> string \<Rightarrow> EditableNameEvent \<Rightarrow> (EditableNameState, 'w, unit) page_task" where
  "EditableCanisterName_handle E canister projectId ev =
     (case ev of
        EditNameClicked \<Rightarrow> set_local (startEditing canister)
      | NameDraftChanged v \<Rightarrow> set_local (\<lambda>l. l\<lparr>nameDraft := v\<rparr>)
      | SaveNameClicked \<Rightarrow> EditableCanisterName_onSave E canister projectId
      | CancelNameClicked \<Rightarrow> set_local (\<lambda>l. l\<lparr>isEditingName := False\<rparr>)
      | KeyDown key \<Rightarrow>
          if key = ''Enter'' then EditableCanisterName_onSave E canister projectId
          else if key = ''Escape'' then set_local (\<lambda>l. l\<lparr>isEditingName := False\<rparr>)
          else ret ())"

definition EditableCanisterName :: "Canister \<Rightarrow> EditableNameState \<Rightarrow> EditableNameEvent view" where
  "EditableCanisterName canister l =
     (if isEditingName l then
        Elem ''div'' []
          [Elem ''Input'' [Attr ''value'' (nameDraft l), Attr ''placeholder'' ''Unnamed canister'', Attr ''maxLength'' ''100'',
             Flag ''disabled'' (isSavingName l), OnText ''change'' NameDraftChanged, OnText ''keyDown'' KeyDown] [],
           Elem ''Button'' [Flag ''disabled'' (isSavingName l), On ''click'' SaveNameClicked]
             [Elem (if isSavingName l then ''LoaderIcon'' else ''Check'') [] []],
           Elem ''Button'' [Flag ''disabled'' (isSavingName l), On ''click'' CancelNameClicked] []]
      else
        Elem ''div'' []
          [Elem ''CardTitle'' [] [Text (case Canister_name canister of Some n \<Rightarrow> n | None \<Rightarrow> ''Canister'')],
           Elem ''Button'' [On ''click'' EditNameClicked] []])"

section \<open>The cards\<close>

text \<open>\<open>exportSlug\<close>: an empty name is no name.\<close>

definition exportSlug :: "Canister \<Rightarrow> string option" where
  "exportSlug canister =
     (if canister_name canister \<noteq> [] then Some (slugifyCanisterName (canister_name canister)) else None)"

definition CanisterGridEntry_header :: "bool \<Rightarrow> Canister \<Rightarrow> 'ev view" where
  "CanisterGridEntry_header canEdit canister =
     Elem ''CardHeader'' []
       ([if canEdit \<and> Canister_state canister \<noteq> Deleted then
           Elem ''EditableCanisterName'' [Attr ''canister'' (Canister_id canister)] []
         else Elem ''CardTitle'' [] [Text (case Canister_name canister of Some n \<Rightarrow> n | None \<Rightarrow> ''Canister'')],
         Elem ''CardDescription'' [] [Text (Canister_principal canister)]] @
        (case exportSlug canister of
           Some slug \<Rightarrow> given (Some slug \<noteq> Canister_name canister)
             [Elem ''CardDescription'' [Attr ''title'' ''Folder name used by the project export'']
               [Text (''src/'' @ slug @ ''/'')]]
         | None \<Rightarrow> []) @
        (case canister_info canister of
           Some info \<Rightarrow> [Elem ''CardAction'' [] [Elem ''Badge'' [Attr ''variant'' (statusBadgeVariant (CanisterInfo_status info))]
             [Text (canister_status_text (CanisterInfo_status info))]]]
         | None \<Rightarrow> []) @
        given (Canister_state canister = Deleted)
          [Elem ''CardAction'' [] [Elem ''Badge'' [Attr ''variant'' ''destructive''] [Text ''Deleted'']]])"

definition CanisterGridEntry :: "Browser \<Rightarrow> string \<Rightarrow> bool \<Rightarrow> Canister \<Rightarrow> 'ev view" where
  "CanisterGridEntry B projectId canEdit canister =
     Elem ''Fragment'' []
       ([Elem ''Card'' []
          (CanisterGridEntry_header canEdit canister #
           (case canister_info canister of Some info \<Rightarrow> [canister_quantities B info] | None \<Rightarrow> []) @
           [Elem ''CardFooter'' []
             [Elem ''Link'' [Attr ''to'' (''/projects/'' @ projectId @ ''/canisters/'' @ Canister_id canister)]
               [Text ''View details'']]])] @
        given (Canister_state canister = Inaccessible)
          [Elem ''AddMissingCanisterControllerCta'' [Attr ''canisterId'' (Canister_principal canister)] []] @
        given (Canister_state canister = Deleted)
          [Elem ''DeletedCanisterCta'' [Attr ''canisterRecordId'' (Canister_id canister),
             Attr ''canisterPrincipal'' (Canister_principal canister)] []])"

definition CanisterGrid :: "Browser \<Rightarrow> string \<Rightarrow> Canister list \<Rightarrow> bool \<Rightarrow> 'ev view" where
  "CanisterGrid B projectId cs canEdit = Elem ''div'' [] (map (CanisterGridEntry B projectId canEdit) cs)"

definition CanisterSkeleton :: "'ev view" where
  "CanisterSkeleton =
     Elem ''Card'' []
       [Elem ''CardHeader'' [] [Elem ''CardTitle'' [] [Text ''Canister''], Elem ''Skeleton'' [] []],
        Elem ''CardContent'' []
         [Elem ''CardTitle'' [] [Text ''Controllers''],
          Elem ''ItemGroup'' []
           [Elem ''ItemSeparator'' [] [], Elem ''Item'' [] [Elem ''ItemContent'' [] [Elem ''Skeleton'' [] []]],
            Elem ''ItemSeparator'' [] [], Elem ''Item'' [] [Elem ''ItemContent'' [] [Elem ''Skeleton'' [] []]],
            Elem ''ItemSeparator'' [] []]],
        Elem ''CardFooter'' [] [Elem ''div'' []
         [Elem ''div'' [] [Text ''Controller Principal''],
          Elem ''div'' [] [Elem ''Skeleton'' [] [], Elem ''Skeleton'' [] []]]]]"

section \<open>Creating, exporting, adding a controller\<close>

record CanisterPageState = Page +
  isCreating :: bool

definition onCreateCanisterClicked :: "'w env \<Rightarrow> string \<Rightarrow> (CanisterPageState, 'w, unit) page_task" where
  "onCreateCanisterClicked E projectId =
     await (set_local (\<lambda>l. l\<lparr>isCreating := True\<rparr>)) (\<lambda>_.
     try_finally
       (try_catch
         (await (on_store (createCanister E projectId)) (\<lambda>outcome.
            case outcome of
              pendingApproval proposalId \<Rightarrow>
                await (on_store (showSuccessToast ''Proposal submitted'' ''Awaiting approvals before the canister is created.''))
                  (\<lambda>_. navigate (''/projects/'' @ projectId @ ''/proposals/'' @ proposalId))
            | executed \<Rightarrow> ret ()))
         (error_toast ''Failed to create canister''))
       (set_local (\<lambda>l. l\<lparr>isCreating := False\<rparr>)))"

datatype CanistersEvent = CreateCanisterClicked | DownloadProjectClicked

definition CreateCanisterButton :: "bool \<Rightarrow> CanistersEvent view" where
  "CreateCanisterButton creating =
     Elem ''LoadingButton'' [Flag ''isLoading'' creating, On ''click'' CreateCanisterClicked] [Text ''Create Canister'']"

text \<open>
  The archive is made of the files by a library and saved by the browser, both of which may throw: \<open>saveArchive\<close>, a
  parameter, gets the name and the files.
\<close>

definition DownloadProjectButton_onClick ::
    "(string \<times> string) list \<Rightarrow> (string \<Rightarrow> (string, string) js_map \<Rightarrow> js_error + unit) \<Rightarrow> string \<Rightarrow> string \<Rightarrow>
     Canister list \<Rightarrow> ('l, 'w, unit) page_task" where
  "DownloadProjectButton_onClick templateFiles saveArchive projectId projectName cs =
     try_catch
       (await (lift_sum (buildProjectZip templateFiles projectName cs)) (\<lambda>files.
        lift_sum (saveArchive (slugifyProjectName projectName @ ''-'' @ take 8 projectId @ ''.zip'') files)))
       (error_toast ''Failed to build project export'')"

definition DownloadProjectButton :: "Canister list \<Rightarrow> CanistersEvent view" where
  "DownloadProjectButton cs =
     (let dis = (length cs = 0) in
      Elem ''Button''
        ([Flag ''disabled'' dis, On ''click'' DownloadProjectClicked] @
         (if dis then [Attr ''title'' ''No canisters to export.''] else []))
        [Text ''Download project''])"

text \<open>The schema of the form is that of a library, as in the form for trusted partners.\<close>

definition AddController_formSchema :: "(string \<Rightarrow> bool) \<Rightarrow> string \<Rightarrow> string option" where
  "AddController_formSchema isPrincipalText p = (if isPrincipalText p then Some p else None)"

record AddControllerState = Page +
  controllerForm :: "string Form"

definition AddControllerForm_onSubmit ::
    "'w env \<Rightarrow> string \<Rightarrow> string \<Rightarrow> string \<Rightarrow> (AddControllerState, 'w, unit) page_task" where
  "AddControllerForm_onSubmit E canisterId projectId p =
     try_catch
       (await (on_store (addController E canisterId p projectId)) (\<lambda>outcome.
        await (set_local (\<lambda>l. l\<lparr>controllerForm := form_reset []\<rparr>)) (\<lambda>_.
          case outcome of
            pendingApproval proposalId \<Rightarrow>
              await (on_store (showSuccessToast ''Proposal submitted'' ''Awaiting approvals before the controller is added.''))
                (\<lambda>_. navigate (''/projects/'' @ projectId @ ''/proposals/'' @ proposalId))
          | executed \<Rightarrow> success_toast ''Controller added successfully!'')))
       (error_toast ''Failed to add controller to canister'')"

datatype AddControllerEvent = ControllerChanged string | ControllerSubmitted

definition AddControllerForm :: "bool \<Rightarrow> AddControllerState \<Rightarrow> AddControllerEvent view" where
  "AddControllerForm isSubmitting l =
     Elem ''form'' []
       [Elem ''FormItem'' []
         [Elem ''FormLabel'' [] [Text ''Controller Principal''],
          Elem ''Input'' [Attr ''placeholder'' ''esnbu-tvlmz-llrn2-clxkp-q6746-hx6o5-ln6li-om2lt-dzree-muoij-sqe'',
            Attr ''value'' (form_values (controllerForm l)), OnText ''change'' ControllerChanged] [],
          Elem ''FormMessage'' [] []],
        Elem ''LoadingButton'' [Flag ''isLoading'' isSubmitting, On ''submit'' ControllerSubmitted] [Text ''Add Controller'']]"

section \<open>The page\<close>

text \<open>The effect that runs when the project changes: nobody waits for its outcome.\<close>

definition Canisters_load :: "'w env \<Rightarrow> string \<Rightarrow> (CanisterPageState, 'w, unit) page_task" where
  "Canisters_load E projectId = on_store (initializeCanisters E projectId)"

definition page_project :: "AppSlice \<Rightarrow> string \<Rightarrow> Project option" where
  "page_project s projectId = js_map_get projectId (selectProjectMap s)"

definition page_organization :: "AppSlice \<Rightarrow> Project option \<Rightarrow> Organization option" where
  "page_organization s project = Option.bind project (\<lambda>p. js_map_get (Project_orgId p) (selectOrgMap s))"

definition projectCanisters :: "AppSlice \<Rightarrow> string \<Rightarrow> Canister list option" where
  "projectCanisters s projectId = Option.bind (canisters s) (js_map_get projectId)"

definition Canisters :: "Browser \<Rightarrow> AppSlice \<Rightarrow> string \<Rightarrow> CanisterPageState \<Rightarrow> CanistersEvent view" where
  "Canisters B s projectId l =
     (let project = page_project s projectId;
          mayManage = (case project of Some p \<Rightarrow> canisterManage (Project_yourPermissions p) | None \<Rightarrow> False)
      in Elem ''Fragment'' []
        [Breadcrumbs
          ((case page_organization s project of
              Some org \<Rightarrow> [(Organization_name org, Some (''/organizations/'' @ Organization_id org @ ''/settings''))]
            | None \<Rightarrow> []) @
           [(case project of Some p \<Rightarrow> Project_name p | None \<Rightarrow> ''Project'', None)]),
         Elem ''H1'' [] [Text ''Canisters''],
         (case projectCanisters s projectId of
            None \<Rightarrow> CanisterSkeleton
          | Some cs \<Rightarrow>
              if isCanistersLoading s then CanisterSkeleton
              else
                Elem ''Fragment'' []
                  [CanisterGrid B projectId cs mayManage,
                   Elem ''div'' []
                    (given mayManage [CreateCanisterButton (isCreating l)] @
                     given (project \<noteq> None) [DownloadProjectButton cs])])])"

section \<open>The name that is saved\<close>

text \<open>
  Leaving the editor of a name by saving sends the trimmed draft, or that there is no name where the draft is
  blank, if that is a change, and nothing otherwise. If it is accepted the editor closes; if it is refused it stays
  open with the draft and the user is told why. It is never left busy.
\<close>

theorem name_saved:
  assumes "\<not> isSavingName l"
  defines "next_name \<equiv> if trim (nameDraft l) = [] then None else Some (trim (nameDraft l))"
  shows "run (EditableCanisterName_onSave E c projectId) (l, s) w =
    (if next_name = Canister_name c then (Inr (), (l\<lparr>isEditingName := False\<rparr>, s), w)
     else
       case run (updateCanisterName E (Canister_id c) projectId next_name) s w of
         (Inl err, s', w') \<Rightarrow>
           (Inr (), (l, s'\<lparr>toasts := toasts s' @ [(''Failed to update canister name'', error_message err)]\<rparr>), w')
       | (Inr _, s', w') \<Rightarrow>
           (Inr (), (l\<lparr>isEditingName := False\<rparr>, s'\<lparr>toasts := toasts s' @
             [(if next_name = None then ''Canister name cleared'' else ''Canister name updated'', [])]\<rparr>), w'))"
proof -
  have idle: "l\<lparr>isSavingName := False\<rparr> = l" "l\<lparr>isEditingName := False, isSavingName := False\<rparr> = l\<lparr>isEditingName := False\<rparr>"
    using assms(1) by (cases l; simp)+
  show ?thesis
    by (cases "trim (nameDraft l) = []")
      (auto simp: EditableCanisterName_onSave_def run_simps Let_def next_name_def idle add_toast
        split: prod.split sum.split)
qed

theorem name_saved_witness:
  "run (EditableCanisterName_onSave offline renamed_canister ''p1'') (\<lparr>isEditingName = True, nameDraft = '' web '', isSavingName = False\<rparr>, admin_session) 0 =
    (Inr (), (\<lparr>isEditingName = False, nameDraft = '' web '', isSavingName = False\<rparr>, admin_session), 0)"
proof -
  let ?l = "\<lparr>isEditingName = True, nameDraft = '' web '', isSavingName = False\<rparr>"
  have trim: "trim (nameDraft ?l) = ''web''"
    by (simp add: trim_def trim_start_def trim_end_def is_space_def)
  show ?thesis
    using name_saved [of ?l offline renamed_canister "''p1''" admin_session 0] trim
    by (simp add: renamed_canister_def)
qed

section \<open>A canister that was created and reported as failed\<close>

text \<open>
  Creating a canister reads the canisters again afterwards, and reports the failure of that as one of the
  creation: the canister was created, or the proposal made, but the user is told that it failed, is not shown the
  proposal, and can click again.
\<close>

theorem created_but_reported_failed:
  assumes "run (CanisterApi_createCanister E projectId) s w = (Inr outcome, s1, w1)"
    and "run (refreshCanisters E projectId) s1 w1 = (Inl err, s2, w2)"
  shows "run (onCreateCanisterClicked E projectId) (l, s) w =
      (Inr (), (l\<lparr>isCreating := False\<rparr>,
         s2\<lparr>toasts := toasts s2 @ [(''Failed to create canister'', error_message err)]\<rparr>), w2) \<and>
    CreateCanisterClicked \<in> set (enabled (CreateCanisterButton (isCreating (l\<lparr>isCreating := False\<rparr>))))"
  using assms
  by (cases l) (simp add: onCreateCanisterClicked_def createCanister_def run_simps add_toast CreateCanisterButton_def
      disabled_def)

definition creating_backend :: "nat env" where
  "creating_backend = offline\<lparr>proposalService := no_ProposalService\<lparr>create_proposal := answering (Ok
     \<lparr>ApiProposal_id = ''r1'', ApiProposal_project_id = ''p1'', ApiProposal_proposer_id = ''u1'',
      ApiProposal_status = [ApiStatus_Executed], ApiProposal_operation = [], ApiProposal_created_at_nanos = [],
      ApiProposal_updated_at_nanos = []\<rparr>)\<rparr>\<rparr>"

theorem created_but_reported_failed_witness:
  "toasts (snd (fst (snd (run (onCreateCanisterClicked creating_backend ''p1'') (\<lparr>visits = [], isCreating = False\<rparr>, admin_session) 0)))) =
     [(''Failed to create canister'', ''offline'')]"
proof -
  have created: "run (CanisterApi_createCanister creating_backend ''p1'') admin_session 0 = (Inr executed, admin_session, 1)"
    by (simp add: CanisterApi_createCanister_def run_simps creating_backend_def answering_def proposal_outcome_def
        readProposalOutcome_def)
  have refresh: "run (refreshCanisters creating_backend ''p1'') admin_session 1 =
      (Inl (LibraryError ''offline''), admin_session, 2)"
    by (simp add: refreshCanisters_def CanisterApi_listMyCanisters_def run_simps creating_backend_def offline_def
        no_CanisterService_def unreachable_def session_defs)
  show ?thesis
    using created_but_reported_failed [OF created refresh, of "\<lparr>visits = [], isCreating = False\<rparr>"]
    by (simp add: session_defs)
qed

section \<open>A project that cannot be read\<close>

text \<open>
  When the canisters of a project cannot be read for the first time, nothing tells the user: the page shows its
  placeholder as while loading, and no message.
\<close>

theorem failed_load_silent:
  assumes "run (Canisters_load E projectId) (l, s) w = (Inl err, (l', s'), w')"
  shows "toasts s' = toasts s \<and> l' = l \<and> projectCanisters s' projectId = None \<and>
    enabled (Canisters B s' projectId l') = []"
proof -
  obtain r s1 w1 where ini: "run (initializeCanisters E projectId) s w = (r, s1, w1)" by (metis prod_cases3)
  with assms have r: "r = Inl err" "s1 = s'" "l' = l" "w1 = w'" by (simp_all add: Canisters_load_def run_simps)
  have "toasts s' = toasts s \<and> canisters s' = canisters s \<and>
      \<not> (case canisters s of Some m \<Rightarrow> js_map_has projectId m | None \<Rightarrow> False)"
    using ini unfolding r
    by (auto simp: initializeCanisters_def refreshCanisters_def run_simps CanisterApi_listMyCanisters_def
        split: if_splits prod.splits sum.splits)
  then have "toasts s' = toasts s" and none: "projectCanisters s' projectId = None"
    by (auto simp: projectCanisters_def js_map_has_def js_map_get_def map_of_eq_None_iff split: option.splits)
  moreover have "enabled (Canisters B s' projectId l') = []"
    by (simp add: Canisters_def none CanisterSkeleton_def Let_def disabled_def)
  ultimately show ?thesis by (simp add: r)
qed

theorem failed_load_silent_witness:
  "enabled (Canisters B (fst (snd (run (initializeCanisters offline ''p1'') admin_session 0))) ''p1'' \<lparr>visits = [], isCreating = False\<rparr>) = []"
proof -
  let ?l = "\<lparr>visits = [], isCreating = False\<rparr> :: CanisterPageState"
  have "run (Canisters_load offline ''p1'') (?l, admin_session) 0 =
      (Inl (LibraryError ''offline''), (?l, admin_session\<lparr>isCanistersInitialized := True\<rparr>), 1)"
    by (simp add: Canisters_load_def initializeCanisters_def refreshCanisters_def CanisterApi_listMyCanisters_def run_simps
        offline_def no_CanisterService_def unreachable_def session_defs)
  from failed_load_silent [OF this] show ?thesis
    by (simp add: initializeCanisters_def refreshCanisters_def CanisterApi_listMyCanisters_def run_simps
        offline_def no_CanisterService_def unreachable_def session_defs)
qed

end
