(* ===== verification/MetricsChart.thy ===== *)
theory MetricsChart
  imports UI MetricsProxy
begin

text \<open>
  The chart of a canister's metrics, \<open>routes/canisters/canister-metrics-chart.tsx\<close>: which request an effect makes and
  what becomes of its answer when the user has chosen something else meanwhile, and the picture: a path, ticks and
  their labels. Coordinates and values are rational numbers, that is, the arithmetic of doubles is taken to be exact.
\<close>

section \<open>What can be chosen\<close>

record MetricOption =
  MetricOption_slug :: MetricSlug
  MetricOption_label :: string

definition METRIC_OPTIONS :: "MetricOption list" where
  "METRIC_OPTIONS =
     [\<lparr>MetricOption_slug = Memory_bytes, MetricOption_label = ''Memory''\<rparr>,
      \<lparr>MetricOption_slug = Compute_time_seconds, MetricOption_label = ''Compute Time''\<rparr>,
      \<lparr>MetricOption_slug = Burned_cycles, MetricOption_label = ''Burned Cycles''\<rparr>]"

record RangeOption =
  RangeOption_label :: string
  durationMs :: int
  RangeOption_step :: string

definition RANGE_OPTIONS :: "RangeOption list" where
  "RANGE_OPTIONS =
     [\<lparr>RangeOption_label = ''1h'', durationMs = 60 * 60 * 1000, RangeOption_step = ''1m''\<rparr>,
      \<lparr>RangeOption_label = ''6h'', durationMs = 6 * 60 * 60 * 1000, RangeOption_step = ''5m''\<rparr>,
      \<lparr>RangeOption_label = ''24h'', durationMs = 24 * 60 * 60 * 1000, RangeOption_step = ''15m''\<rparr>,
      \<lparr>RangeOption_label = ''7d'', durationMs = 7 * 24 * 60 * 60 * 1000, RangeOption_step = ''1h''\<rparr>]"

section \<open>Requests and answers\<close>

record ChartState =
  chartMetric :: MetricSlug
  chartRange :: RangeOption
  chartData :: "MetricRange option"
  isChartLoading :: bool
  isUnavailable :: bool

definition CanisterMetricsChart_initial :: ChartState where
  "CanisterMetricsChart_initial =
     \<lparr>chartMetric = Memory_bytes, chartRange = RANGE_OPTIONS ! 0, chartData = None, isChartLoading = False,
      isUnavailable = False\<rparr>"

text \<open>The request the effect makes at the time \<open>at_time\<close>, and the state it leaves until the answer comes.\<close>

definition chart_query :: "string \<Rightarrow> int \<Rightarrow> ChartState \<Rightarrow> QueryRangeArgs" where
  "chart_query canisterPrincipal at_time l =
     \<lparr>QueryRangeArgs_canisterId = canisterPrincipal, QueryRangeArgs_metric = chartMetric l,
      QueryRangeArgs_from = Date (at_time - durationMs (chartRange l)), QueryRangeArgs_to = Date at_time,
      QueryRangeArgs_step = RangeOption_step (chartRange l)\<rparr>"

definition chart_waits :: "ChartState \<Rightarrow> ChartState" where
  "chart_waits l = l\<lparr>isChartLoading := True, chartData := None, isUnavailable := False\<rparr>"

text \<open>
  What the request comes to; \<open>AbortError\<close> is the error of a request that was aborted. \<open>aborted\<close> is whether the
  effect that made it has been cleaned up, because one of its dependencies has changed since.
\<close>

datatype chart_answer = Answered MetricRange | Failed js_error | AbortError

definition chart_settles :: "bool \<Rightarrow> chart_answer \<Rightarrow> ChartState \<Rightarrow> ChartState" where
  "chart_settles aborted ans l =
     (if aborted then l
      else case ans of
        Answered res \<Rightarrow> l\<lparr>chartData := Some res, isChartLoading := False\<rparr>
      | AbortError \<Rightarrow> l
      | Failed err \<Rightarrow> l\<lparr>isUnavailable := True, isChartLoading := False\<rparr>)"

datatype ChartEvent = RangeSelected RangeOption | MetricSelected MetricSlug

fun chart_select :: "ChartEvent \<Rightarrow> ChartState \<Rightarrow> ChartState" where
  "chart_select (RangeSelected opt) l = l\<lparr>chartRange := opt\<rparr>"
| "chart_select (MetricSelected slug) l = l\<lparr>chartMetric := slug\<rparr>"

text \<open>
  The life of the chart: the user chooses, the identity changes, and requests are answered, in any order. The runs
  of the effect are numbered; all but the latest have been aborted. \<open>asked\<close> holds the requests that were not yet
  answered, \<open>shownFor\<close> the request whose answer is shown. Without an identity the effect makes no request.
\<close>

record ChartRun =
  chart :: ChartState
  chartIdentity :: "Identity option"
  latest :: nat
  asked :: "(nat \<times> QueryRangeArgs) list"
  shownFor :: "QueryRangeArgs option"

definition run_effect :: "string \<Rightarrow> int \<Rightarrow> ChartRun \<Rightarrow> ChartRun" where
  "run_effect canisterPrincipal at_time c =
     (case chartIdentity c of
        None \<Rightarrow> c\<lparr>latest := Suc (latest c)\<rparr>
      | Some i \<Rightarrow>
          c\<lparr>latest := Suc (latest c), chart := chart_waits (chart c),
            asked := asked c @ [(Suc (latest c), chart_query canisterPrincipal at_time (chart c))]\<rparr>)"

text \<open>React runs the effect again only if a dependency has changed: choosing what is chosen changes nothing.\<close>

inductive chart_step :: "string \<Rightarrow> ChartRun \<Rightarrow> ChartRun \<Rightarrow> bool" for canisterPrincipal where
  chooses: "chart_select ev (chart c) \<noteq> chart c \<Longrightarrow>
    chart_step canisterPrincipal c (run_effect canisterPrincipal at_time (c\<lparr>chart := chart_select ev (chart c)\<rparr>))"
| identifies: "i \<noteq> chartIdentity c \<Longrightarrow>
    chart_step canisterPrincipal c (run_effect canisterPrincipal at_time (c\<lparr>chartIdentity := i\<rparr>))"
| answers: "(n, args) \<in> set (asked c) \<Longrightarrow> (n = latest c \<longrightarrow> ans \<noteq> AbortError) \<Longrightarrow>
    chart_step canisterPrincipal c (c\<lparr>chart := chart_settles (n \<noteq> latest c) ans (chart c),
      asked := removeAll (n, args) (asked c),
      shownFor := (case ans of Answered res \<Rightarrow> if n = latest c then Some args else shownFor c | _ \<Rightarrow> shownFor c)\<rparr>)"

definition mounted :: "string \<Rightarrow> int \<Rightarrow> Identity option \<Rightarrow> ChartRun" where
  "mounted canisterPrincipal at_time i =
     run_effect canisterPrincipal at_time
       \<lparr>chart = CanisterMetricsChart_initial, chartIdentity = i, latest = 0, asked = [], shownFor = None\<rparr>"

definition CanisterMetricsChart :: "'ev view \<Rightarrow> ChartState \<Rightarrow> (ChartEvent \<Rightarrow> 'ev) \<Rightarrow> 'ev view" where
  "CanisterMetricsChart sparkline l event =
     Elem ''Card'' []
       [Elem ''CardHeader'' [] [Elem ''CardTitle'' [] [Elem ''div'' []
          [Elem ''span'' [] [Text ''Metrics''],
           Elem ''div'' [] (map (\<lambda>opt.
             Elem ''Button''
               [Attr ''variant'' (if RangeOption_label opt = RangeOption_label (chartRange l) then ''default'' else ''outline''),
                On ''click'' (event (RangeSelected opt))] [Text (RangeOption_label opt)]) RANGE_OPTIONS)]]],
        Elem ''CardContent'' []
         [Elem ''div'' [] (map (\<lambda>opt.
            Elem ''Button''
              [Attr ''variant'' (if MetricOption_slug opt = chartMetric l then ''default'' else ''outline''),
               On ''click'' (event (MetricSelected (MetricOption_slug opt)))] [Text (MetricOption_label opt)])
            METRIC_OPTIONS),
          sparkline]]"

section \<open>The picture\<close>

definition CHART_WIDTH :: rat where
  "CHART_WIDTH = 600"

definition CHART_HEIGHT :: rat where
  "CHART_HEIGHT = 180"

record Padding =
  padTop :: rat
  padRight :: rat
  padBottom :: rat
  padLeft :: rat

definition PADDING :: Padding where
  "PADDING = \<lparr>padTop = 8, padRight = 8, padBottom = 22, padLeft = 56\<rparr>"

definition innerW :: rat where
  "innerW = CHART_WIDTH - padLeft PADDING - padRight PADDING"

definition innerH :: rat where
  "innerH = CHART_HEIGHT - padTop PADDING - padBottom PADDING"

definition point_x :: "MetricPoint \<Rightarrow> rat" where
  "point_x p = of_int (getTime (MetricPoint_ts p))"

text \<open>The least and the largest of numbers there is at least one of: what the loop that starts with infinities finds.\<close>

definition least :: "rat list \<Rightarrow> rat" where
  "least xs = foldl min (hd xs) (tl xs)"

definition largest :: "rat list \<Rightarrow> rat" where
  "largest xs = foldl max (hd xs) (tl xs)"

record Computed =
  xMin :: rat
  xMax :: rat
  yLow :: rat
  yHigh :: rat

text \<open>\<open>(yMax - yMin) * 0.1 || 1\<close>: zero is falsy.\<close>

definition y_pad :: "rat \<Rightarrow> rat \<Rightarrow> rat" where
  "y_pad yMin yMax = (let pad = (yMax - yMin) / 10 in if pad = 0 then 1 else pad)"

definition chart_computed :: "MetricRange option \<Rightarrow> Computed option" where
  "chart_computed d =
     (case d of
        None \<Rightarrow> None
      | Some series \<Rightarrow>
          let points = MetricRange_points series in
          if length points = 0 then None
          else
            let xs = map point_x points; ys = map MetricPoint_value points;
                yMin = least ys; yMax = largest ys; yPad = y_pad yMin yMax
            in Some \<lparr>xMin = least xs, xMax = largest xs, yLow = yMin - yPad, yHigh = yMax + yPad\<rparr>)"

definition chart_sx :: "Computed \<Rightarrow> rat \<Rightarrow> rat" where
  "chart_sx k x =
     padLeft PADDING + (if xMax k = xMin k then innerW / 2 else (x - xMin k) / (xMax k - xMin k) * innerW)"

definition chart_sy :: "Computed \<Rightarrow> rat \<Rightarrow> rat" where
  "chart_sy k y =
     padTop PADDING + (if yHigh k = yLow k then innerH / 2 else (yHigh k - y) / (yHigh k - yLow k) * innerH)"

text \<open>The path: \<open>M\<close> for the first point and \<open>L\<close> for the others, with their coordinates.\<close>

definition chart_path :: "Computed \<Rightarrow> MetricPoint list \<Rightarrow> (char \<times> rat \<times> rat) list" where
  "chart_path k points =
     map (\<lambda>(i, p). (if i = 0 then CHR ''M'' else CHR ''L'', chart_sx k (point_x p), chart_sy k (MetricPoint_value p)))
       (enumerate 0 points)"

section \<open>Labels\<close>

text \<open>\<open>x.toFixed(d)\<close>: the sign, and the digits of the integer nearest to the magnitude, the larger of two.\<close>

definition rat_toFixed :: "nat \<Rightarrow> rat \<Rightarrow> string" where
  "rat_toFixed d x =
     (if x < 0 then ''-'' else []) @ with_point d (nat \<lfloor>\<bar>x\<bar> * 10 ^ d + 1 / 2\<rfloor>)"

definition formatCyclesShort :: "rat \<Rightarrow> string" where
  "formatCyclesShort v =
     (if \<bar>v\<bar> \<ge> 1000000000000 then rat_toFixed 1 (v / 1000000000000) @ ''T''
      else if \<bar>v\<bar> \<ge> 1000000000 then rat_toFixed 1 (v / 1000000000) @ ''B''
      else if \<bar>v\<bar> \<ge> 1000000 then rat_toFixed 1 (v / 1000000) @ ''M''
      else rat_toFixed 0 v)"

definition BYTE_UNITS_SHORT :: "string list" where
  "BYTE_UNITS_SHORT = [''B'', ''KB'', ''MB'', ''GB'', ''TB'']"

function byte_scale :: "rat \<Rightarrow> nat \<Rightarrow> rat \<times> nat" where
  "byte_scale n i = (if n \<ge> 1024 \<and> i < length BYTE_UNITS_SHORT - 1 then byte_scale (n / 1024) (i + 1) else (n, i))"
  by pat_completeness auto
termination
  by (relation "measure (\<lambda>(n, i). length BYTE_UNITS_SHORT - i)") auto

declare byte_scale.simps [simp del]

definition formatBytesShort :: "rat \<Rightarrow> string" where
  "formatBytesShort v =
     (let (n, i) = byte_scale \<bar>v\<bar> 0
      in rat_toFixed (if n < 10 \<and> i > 0 then 1 else 0) n @ BYTE_UNITS_SHORT ! i)"

definition formatAxisValue :: "rat \<Rightarrow> string \<Rightarrow> string" where
  "formatAxisValue v unit =
     (if unit = ''bytes'' then formatBytesShort v
      else if unit = ''cycles'' then formatCyclesShort v
      else if \<bar>v\<bar> \<ge> 1000000 then rat_toFixed 1 (v / 1000000) @ ''M''
      else if \<bar>v\<bar> \<ge> 1000 then rat_toFixed 1 (v / 1000) @ ''k''
      else rat_toFixed 0 v)"

text \<open>
  What the chart leaves to the browser: the day of a time, times and days as it writes them in its time zone and
  language, and the decimal notation of a number that need not be integral.
\<close>

record ChartBrowser =
  today :: Date
  localDay :: "Date \<Rightarrow> int \<times> int \<times> int"
  hourMinute :: "Date \<Rightarrow> string"
  monthDay :: "Date \<Rightarrow> string"
  numberText :: "rat \<Rightarrow> string"

definition formatAxisTime :: "ChartBrowser \<Rightarrow> Date \<Rightarrow> string" where
  "formatAxisTime C t = (if localDay C t = localDay C (today C) then hourMinute C t else monthDay C t)"

definition y_ticks :: "Computed \<Rightarrow> rat list" where
  "y_ticks k = [yLow k, (yLow k + yHigh k) / 2, yHigh k]"

definition x_ticks :: "Computed \<Rightarrow> Date list" where
  "x_ticks k = map date_of_ms [xMin k, (xMin k + xMax k) / 2, xMax k]"

definition tick_labels :: "MetricRange \<Rightarrow> Computed \<Rightarrow> string list" where
  "tick_labels series k = map (\<lambda>v. formatAxisValue v (MetricRange_unit series)) (y_ticks k)"

definition path_text :: "(rat \<Rightarrow> string) \<Rightarrow> (char \<times> rat \<times> rat) list \<Rightarrow> string" where
  "path_text show segments =
     concat (map (\<lambda>(i, c, x, y). (if i = 0 then [] else '' '') @ [c] @ '' '' @ show x @ '' '' @ show y)
       (enumerate 0 segments))"

definition chart_tick :: "ChartBrowser \<Rightarrow> MetricRange \<Rightarrow> Computed \<Rightarrow> rat \<Rightarrow> 'ev view" where
  "chart_tick C series k v =
     (let y = chart_sy k v in
      Elem ''g'' []
        [Elem ''line'' [Attr ''x1'' (numberText C (padLeft PADDING)), Attr ''x2'' (numberText C (CHART_WIDTH - padRight PADDING)),
           Attr ''y1'' (numberText C y), Attr ''y2'' (numberText C y)] [],
         Elem ''text'' [Attr ''x'' (numberText C (padLeft PADDING - 6)), Attr ''y'' (numberText C y)]
           [Text (formatAxisValue v (MetricRange_unit series))]])"

definition time_tick :: "ChartBrowser \<Rightarrow> nat \<times> Date \<Rightarrow> 'ev view" where
  "time_tick C = (\<lambda>(i, t).
     Elem ''text''
       [Attr ''x'' (numberText C
          (if i = 0 then padLeft PADDING
           else if i = 2 then CHART_WIDTH - padRight PADDING
           else padLeft PADDING + (CHART_WIDTH - padLeft PADDING - padRight PADDING) / 2)),
        Attr ''y'' (numberText C (CHART_HEIGHT - 6)),
        Attr ''textAnchor'' (if i = 0 then ''start'' else if i = 2 then ''end'' else ''middle'')]
       [Text (formatAxisTime C t)])"

definition MetricSparkline :: "ChartBrowser \<Rightarrow> ChartState \<Rightarrow> 'ev view" where
  "MetricSparkline C l =
     (if isChartLoading l then Elem ''div'' [] [Text ''Loading...'']
      else if isUnavailable l then Elem ''div'' [] [Text ''Metrics are not available right now.'']
      else
        case (chartData l, chart_computed (chartData l)) of
          (Some series, Some k) \<Rightarrow>
            Elem ''div'' []
              [Elem ''svg'' [Attr ''viewBox'' (''0 0 '' @ numberText C CHART_WIDTH @ '' '' @ numberText C CHART_HEIGHT)]
                (map (chart_tick C series k) (y_ticks k) @
                 map (time_tick C) (enumerate 0 (x_ticks k)) @
                 [Elem ''path'' [Attr ''d'' (path_text (numberText C) (chart_path k (MetricRange_points series)))] []]),
               Elem ''p'' [] [Text (MetricRange_description series)]]
        | _ \<Rightarrow> Elem ''div'' [] [Text ''No data.''])"

section \<open>The picture stays in its frame\<close>

lemma least_le: "x \<in> set xs \<Longrightarrow> least xs \<le> x"
proof -
  have "foldl min a ys \<le> a \<and> (\<forall>y \<in> set ys. foldl min a ys \<le> y)" for a :: rat and ys
  proof (induction ys arbitrary: a)
    case (Cons y ys)
    from Cons.IH [of "min a y"] show ?case by (auto intro: order_trans)
  qed simp
  then show "x \<in> set xs \<Longrightarrow> least xs \<le> x" by (cases xs) (auto simp: least_def)
qed

lemma le_largest: "x \<in> set xs \<Longrightarrow> x \<le> largest xs"
proof -
  have "a \<le> foldl max a ys \<and> (\<forall>y \<in> set ys. y \<le> foldl max a ys)" for a :: rat and ys
  proof (induction ys arbitrary: a)
    case (Cons y ys)
    from Cons.IH [of "max a y"] show ?case by (auto intro: order_trans)
  qed simp
  then show "x \<in> set xs \<Longrightarrow> x \<le> largest xs" by (cases xs) (auto simp: largest_def)
qed

lemma y_pad_pos: "yMin \<le> yMax \<Longrightarrow> 0 < y_pad yMin yMax"
  by (auto simp: y_pad_def Let_def)

lemma scaled_between:
  assumes "a \<le> x" and "x \<le> b" and "0 \<le> w"
  shows "0 \<le> (x - a) / (b - a) * w \<and> (x - a) / (b - a) * w \<le> (w :: rat)"
proof (cases "a = b")
  case False
  with assms have "0 < b - a" by simp
  then have "0 \<le> (x - a) / (b - a)" and "(x - a) / (b - a) \<le> 1" using assms by simp_all
  then show ?thesis using mult_nonneg_nonneg [OF _ assms(3)] mult_right_mono [OF _ assms(3), of "(x - a) / (b - a)" 1]
    by (simp del: times_divide_eq_left)
qed (use assms in simp)

lemma flipped_between:
  "a \<le> x \<Longrightarrow> x \<le> b \<Longrightarrow> 0 \<le> w \<Longrightarrow> 0 \<le> (b - x) / (b - a) * w \<and> (b - x) / (b - a) * w \<le> (w :: rat)"
  using scaled_between [of "- b" "- x" "- a" w] by simp


definition two_points :: MetricRange where
  "two_points =
     \<lparr>MetricRange_canisterId = ''a'', MetricRange_metric = Memory_bytes, MetricRange_unit = ''bytes'',
      MetricRange_description = ''Memory'',
      MetricRange_points = [\<lparr>MetricPoint_ts = Date 0, MetricPoint_value = 0\<rparr>, \<lparr>MetricPoint_ts = Date 60000, MetricPoint_value = 0\<rparr>]\<rparr>"

definition two_points_computed :: Computed where
  "two_points_computed = \<lparr>xMin = 0, xMax = 60000, yLow = - 1, yHigh = 1\<rparr>"

lemma computed_two_points: "chart_computed (Some two_points) = Some two_points_computed"
  by (simp add: chart_computed_def two_points_def two_points_computed_def least_def largest_def y_pad_def point_x_def
      Let_def)


section \<open>The labels of negative values\<close>

text \<open>
  The labels of an axis in bytes lose the sign: below and above zero they are the same. A series of zeros is
  drawn between -1 and 1 and labelled 1B, 0B, 1B from bottom to top. Labels in cycles keep the sign.
\<close>

theorem byte_labels_lose_sign:
  "formatAxisValue (- v) ''bytes'' = formatAxisValue v ''bytes'' \<and>
   tick_labels two_points two_points_computed = [''1B'', ''0B'', ''1B''] \<and>
   chart_computed (Some two_points) = Some two_points_computed \<and>
   map (\<lambda>v. formatAxisValue v ''cycles'') (y_ticks two_points_computed) = [''-1'', ''0'', ''1'']"
proof (intro conjI)
  have floor: "\<lfloor>3 / 2 :: rat\<rfloor> = 1" by (simp add: floor_eq_iff)
  have decimals: "decimal 0 = ''0''" "decimal (Suc 0) = ''1''" by code_simp+
  show "formatAxisValue (- v) ''bytes'' = formatAxisValue v ''bytes''"
    by (simp add: formatAxisValue_def formatBytesShort_def)
  show "tick_labels two_points two_points_computed = [''1B'', ''0B'', ''1B'']"
    using floor decimals by (simp add: tick_labels_def y_ticks_def two_points_def two_points_computed_def formatAxisValue_def
        formatBytesShort_def byte_scale.simps BYTE_UNITS_SHORT_def rat_toFixed_def with_point_def)
  show "map (\<lambda>v. formatAxisValue v ''cycles'') (y_ticks two_points_computed) = [''-1'', ''0'', ''1'']"
    using floor decimals by (simp add: y_ticks_def two_points_computed_def formatAxisValue_def formatCyclesShort_def rat_toFixed_def
        with_point_def)
qed (rule computed_two_points)

section \<open>The chart shows what is chosen\<close>

text \<open>
  What holds of a chart: a request of the latest run is for what is chosen; the chart is loading exactly while it is
  not answered, and otherwise shows its answer or that there is none.
\<close>

definition requests_numbered :: "ChartRun \<Rightarrow> bool" where
  "requests_numbered c \<longleftrightarrow> (\<forall>(n, args) \<in> set (asked c). n \<le> latest c) \<and> distinct (map fst (asked c))"

definition chart_ok :: "string \<Rightarrow> ChartRun \<Rightarrow> bool" where
  "chart_ok canisterPrincipal c \<longleftrightarrow> requests_numbered c \<and>
     (\<forall>args. (latest c, args) \<in> set (asked c) \<longrightarrow>
        chartIdentity c \<noteq> None \<and> (\<exists>t. args = chart_query canisterPrincipal t (chart c))) \<and>
     (chartIdentity c \<noteq> None \<longrightarrow>
        (isChartLoading (chart c) \<longleftrightarrow> (\<exists>args. (latest c, args) \<in> set (asked c))) \<and>
        (isChartLoading (chart c) \<longrightarrow> chartData (chart c) = None \<and> \<not> isUnavailable (chart c)) \<and>
        (\<not> isChartLoading (chart c) \<longrightarrow> (chartData (chart c) = None \<longleftrightarrow> isUnavailable (chart c))) \<and>
        (chartData (chart c) \<noteq> None \<longrightarrow> (\<exists>t. shownFor c = Some (chart_query canisterPrincipal t (chart c)))))"

lemma chart_query_shown [simp]:
  "chart_query p t (chartData_update f l) = chart_query p t l"
  "chart_query p t (isChartLoading_update g l) = chart_query p t l"
  "chart_query p t (isUnavailable_update g l) = chart_query p t l"
  by (simp_all add: chart_query_def)

lemma chart_ok_effect: "requests_numbered c \<Longrightarrow> chart_ok p (run_effect p t c)"
  by (cases "chartIdentity c")
    (force simp: chart_ok_def requests_numbered_def run_effect_def chart_waits_def chart_query_def)+

lemma numbered_settles:
  "requests_numbered c \<Longrightarrow> requests_numbered (c\<lparr>chart := l, asked := removeAll x (asked c), shownFor := q\<rparr>)"
  by (auto simp: requests_numbered_def distinct_map inj_on_def distinct_removeAll)

lemma chart_ok_step:
  assumes "chart_step p c c'" and "chart_ok p c"
  shows "chart_ok p c'"
  using assms(1)
proof cases
  case (chooses ev t)
  have "requests_numbered (c\<lparr>chart := chart_select ev (chart c)\<rparr>)" using assms(2) by (simp add: requests_numbered_def chart_ok_def)
  then show ?thesis unfolding chooses(1) by (rule chart_ok_effect)
next
  case (identifies i t)
  have "requests_numbered (c\<lparr>chartIdentity := i\<rparr>)" using assms(2) by (simp add: requests_numbered_def chart_ok_def)
  then show ?thesis unfolding identifies(1) by (rule chart_ok_effect)
next
  case (answers n args ans)
  have num: "requests_numbered c'" using assms(2) unfolding answers(1) by (intro numbered_settles) (simp add: chart_ok_def)
  show ?thesis
  proof (cases "n = latest c")
    case True
    have "inj_on fst (set (asked c))" using assms(2) by (simp add: chart_ok_def requests_numbered_def distinct_map)
    then have alone: "(latest c, args') \<in> set (removeAll (latest c, args) (asked c)) \<longleftrightarrow> False" for args'
      using answers(2) unfolding True by (auto dest: inj_onD [of fst _ "(latest c, args')" "(latest c, args)"])
    have asked: "(latest c, args) \<in> set (asked c)" using answers(2) True by simp
    then have here: "chartIdentity c \<noteq> None" "\<exists>t. args = chart_query p t (chart c)" "isChartLoading (chart c)"
        "chartData (chart c) = None" "\<not> isUnavailable (chart c)"
      using assms(2) unfolding chart_ok_def by blast+
    show ?thesis
      using num answers(3) True here
      by (cases ans) (simp_all add: chart_ok_def answers(1) alone chart_settles_def del: set_removeAll)
  next
    case False
    then show ?thesis
      using num answers(1) assms(2)
      by (auto simp: chart_ok_def chart_settles_def split: chart_answer.splits)
  qed
qed


definition chart_failed :: "string \<Rightarrow> ChartRun" where
  "chart_failed p =
     (let c = mounted p 0 (Some AnonymousIdentity) in
      c\<lparr>chart := chart_settles False (Failed (Error ''offline'')) (chart c), asked := []\<rparr>)"


end
