(* ===== verification/Dashboard.thy ===== *)
theory Dashboard
  imports CanisterDetail OrgPages OrgEdits CanisterLaws MetricsChart
begin

text \<open>
  The dashboard (\<open>routes/dashboard/dashboard.tsx\<close>), the overview of plans and usage (\<open>routes/billing/billing.tsx\<close>), and
  the route that leads to the canisters of the first project
  (\<open>routes/redirect-to-project-canisters/redirect-to-project-canisters.tsx\<close>).
\<close>

section \<open>The dashboard\<close>

definition defaultProjectId :: "AppSlice \<Rightarrow> string option" where
  "defaultProjectId s = (case projects s of [] \<Rightarrow> None | p # ps \<Rightarrow> Some (Project_id p))"

text \<open>\<open>billingPlansByOrg\<close> is a \<open>Map\<close>. A failure to load the plans is not shown.\<close>

definition plans_by_org :: "MyOrgBillingPlan list \<Rightarrow> (string, MyOrgBillingPlan) js_map" where
  "plans_by_org plans = foldl (\<lambda>m plan. js_map_set (MyOrgBillingPlan_orgId plan) plan m) [] plans"

type_synonym DashboardState = "(string, MyOrgBillingPlan) js_map"

definition Dashboard_loadCanisters :: "'w env \<Rightarrow> (DashboardState, 'w, unit) page_task" where
  "Dashboard_loadCanisters E =
     get_state (\<lambda>(_, s).
       case defaultProjectId s of None \<Rightarrow> ret () | Some projectId \<Rightarrow> on_store (initializeCanisters E projectId))"

definition Dashboard_loadPlans :: "'w env \<Rightarrow> (DashboardState, 'w, unit) page_task" where
  "Dashboard_loadPlans E =
     try_catch
       (await (on_store (loadMyOrgBillingPlans E)) (\<lambda>plans. set_local (\<lambda>_. plans_by_org plans)))
       (\<lambda>_. ret ())"

definition defaultCanisters :: "AppSlice \<Rightarrow> Canister list" where
  "defaultCanisters s =
     (case defaultProjectId s of
        None \<Rightarrow> []
      | Some projectId \<Rightarrow>
          (case Option.bind (canisters s) (js_map_get projectId) of Some cs \<Rightarrow> cs | None \<Rightarrow> []))"

record CanisterStats =
  stats_total :: nat
  stats_withInfo :: nat
  stats_running :: nat
  stats_stopping :: nat
  stats_stopped :: nat
  stats_cycles :: int
  stats_idleBurn :: int
  stats_memory :: int

definition no_stats :: "nat \<Rightarrow> CanisterStats" where
  "no_stats n = \<lparr>stats_total = n, stats_withInfo = 0, stats_running = 0, stats_stopping = 0, stats_stopped = 0,
     stats_cycles = 0, stats_idleBurn = 0, stats_memory = 0\<rparr>"

definition add_canister :: "CanisterStats \<Rightarrow> Canister \<Rightarrow> CanisterStats" where
  "add_canister st canister =
     (case Canister_state canister of
        Accessible info \<Rightarrow>
          (let st = st\<lparr>stats_withInfo := stats_withInfo st + 1, stats_cycles := stats_cycles st + CanisterInfo_cycles info,
                 stats_idleBurn := stats_idleBurn st + CanisterInfo_idleCyclesBurnedPerDay info,
                 stats_memory := stats_memory st + CanisterInfo_memorySize info\<rparr>
           in case CanisterInfo_status info of
                Running \<Rightarrow> st\<lparr>stats_running := stats_running st + 1\<rparr>
              | Stopping \<Rightarrow> st\<lparr>stats_stopping := stats_stopping st + 1\<rparr>
              | Stopped \<Rightarrow> st\<lparr>stats_stopped := stats_stopped st + 1\<rparr>)
      | _ \<Rightarrow> st)"

definition canisterStats :: "Canister list \<Rightarrow> CanisterStats" where
  "canisterStats cs = foldl add_canister (no_stats (length cs)) cs"

text \<open>The quotient of two doubles, taken to be exact; it is finite where the divisor is not zero.\<close>

definition daysOfRuntime :: "CanisterStats \<Rightarrow> rat option" where
  "daysOfRuntime st =
     (if stats_idleBurn st = 0 then None
      else Some (of_int (js_Number (stats_cycles st)) / of_int (js_Number (stats_idleBurn st))))"

definition Dashboard_canisters :: "Browser \<Rightarrow> CanisterStats \<Rightarrow> 'ev view" where
  "Dashboard_canisters B st =
     Elem ''Card'' []
       [Elem ''CardHeader'' [] [Elem ''CardTitle'' [] [Text ''Canisters'']],
        Elem ''CardContent'' []
         (if stats_withInfo st = 0 then [Elem ''p'' [] [Text ''No canister metrics available yet.'']]
          else
            [StatRow ''Running'' (decimal (stats_running st) @ '' / '' @ decimal (stats_withInfo st))] @
            given (stats_stopping st > 0) [StatRow ''Stopping'' (decimal (stats_stopping st))] @
            given (stats_stopped st > 0) [StatRow ''Stopped'' (decimal (stats_stopped st))] @
            [StatRow ''Total Cycles'' (cycles_text (stats_cycles st)),
             StatRow ''Idle Burn / Day'' (cycles_text (stats_idleBurn st))] @
            (case daysOfRuntime st of
               Some days \<Rightarrow> [StatRow ''Idle Runtime'' (''~'' @ rat_toFixed 0 days @ '' days'')]
             | None \<Rightarrow> []) @
            [StatRow ''Memory'' (bytes_text B (stats_memory st))])]"

definition Dashboard_org :: "DashboardState \<Rightarrow> OrgWithProjects \<Rightarrow> 'ev view" where
  "Dashboard_org plans org =
     Elem ''li'' []
       [Elem ''Link'' [Attr ''to'' (''/organizations/'' @ OrgWithProjects_id org @ ''/settings'')]
          [Text (OrgWithProjects_name org)],
        Elem ''span'' []
         (Elem ''span'' []
           [Text (decimal (length (OrgWithProjects_projects org)) @ '' '' @
              (if length (OrgWithProjects_projects org) = 1 then ''project'' else ''projects''))] #
          (case js_map_get (OrgWithProjects_id org) plans of
             Some plan \<Rightarrow>
               [Elem ''span'' [over_limit (MyOrgBillingPlan_canistersUsed plan) (MyOrgBillingPlan_maxCanisters plan)]
                 [Text (bigint_text (MyOrgBillingPlan_canistersUsed plan) @ '' / '' @
                    bigint_text (MyOrgBillingPlan_maxCanisters plan) @ '' canisters'')]]
           | None \<Rightarrow> []))]"

definition Dashboard_footprint :: "AppSlice \<Rightarrow> CanisterStats \<Rightarrow> 'ev view" where
  "Dashboard_footprint s st =
     Elem ''Card'' []
       [Elem ''CardHeader'' [] [Elem ''CardTitle'' [] [Text ''Footprint'']],
        Elem ''CardContent'' []
         [StatRow ''Organizations'' (decimal (length (organizations s))),
          StatRow ''Projects'' (decimal (length (projects s))),
          StatRow ''Teams'' (decimal (length (teams s))),
          StatRow ''Canisters'' (decimal (stats_total st))]]"

definition Dashboard_orgs :: "AppSlice \<Rightarrow> DashboardState \<Rightarrow> 'ev view" where
  "Dashboard_orgs s plans =
     Elem ''Card'' []
       [Elem ''CardHeader'' [] [Elem ''CardTitle'' [] [Text ''Organizations'']],
        Elem ''CardContent'' []
         [if length (selectOrgsWithProjects s) = 0 then
            Elem ''p'' [] [Text ''You don't belong to any organizations yet.'']
          else Elem ''ul'' [] (map (Dashboard_org plans) (selectOrgsWithProjects s))]]"

definition Dashboard :: "Browser \<Rightarrow> AppSlice \<Rightarrow> DashboardState \<Rightarrow> 'ev view" where
  "Dashboard B s plans =
     (let st = canisterStats (defaultCanisters s) in
      Elem ''Container'' []
        [Elem ''H1'' [] [Text ''Dashboard''],
         Elem ''Alert'' []
          [Elem ''AlertTitle'' [] [Text ''Work in progress''],
           Elem ''AlertDescription'' []
            [Text (''This is an early view of your workspace. Richer metrics, activity, and '' @
               ''team insights are on the way.'')]],
         Elem ''div'' [] [Dashboard_footprint s st, Dashboard_canisters B st, Dashboard_orgs s plans]])"

section \<open>The way to the first project\<close>

definition RedirectToCanisters :: "(Page, 'w, unit) page_task" where
  "RedirectToCanisters =
     get_state (\<lambda>(_, s).
       case defaultProjectId s of
         Some projectId \<Rightarrow> navigate (''/projects/'' @ projectId @ ''/canisters'')
       | None \<Rightarrow> ret ())"

section \<open>Plans and usage\<close>

text \<open>
  An organization of the list. \<open>projectUsages\<close> is an object by the ids of projects; a project that could not be read
  is there with \<open>null\<close>.
\<close>

record OrgBillingState =
  isExpanded :: bool
  billedProjects :: "Project list option"
  projectUsages :: "string \<rightharpoonup> ProjectUsage option"
  isFetchingUsage :: bool
  totalOrgUsage :: "ProjectUsage option"

definition OrgBillingListItem_initial :: OrgBillingState where
  "OrgBillingListItem_initial =
     \<lparr>isExpanded = False, billedProjects = None, projectUsages = Map.empty, isFetchingUsage = False, totalOrgUsage = None\<rparr>"

text \<open>The request for one project: it reports a failure and goes on. What it adds to the object is added when it ends.\<close>

definition usage_of_project :: "'w env \<Rightarrow> Project \<Rightarrow> ('w, string \<times> ProjectUsage option) store_task" where
  "usage_of_project E project =
     try_catch
       (await (loadProjectUsage E (Project_id project) None) (\<lambda>res.
          ret (Project_id project, Some (GetUsageResponse_project res))))
       (\<lambda>err. await (showErrorToast (''Failed to load usage for project '' @ Project_id project) err) (\<lambda>_.
          ret (Project_id project, None)))"

definition add_project_usage ::
    "js_error + string \<times> ProjectUsage option \<Rightarrow> (string \<rightharpoonup> ProjectUsage option) \<Rightarrow> (string \<rightharpoonup> ProjectUsage option)" where
  "add_project_usage r m = (case r of Inr (projectId, u) \<Rightarrow> m(projectId \<mapsto> u) | Inl _ \<Rightarrow> m)"

text \<open>\<open>es\<close> and \<open>es'\<close> are the schedules of the requests for the projects, of the organization's usage and its own.\<close>

definition fetchUsage :: "'w env \<Rightarrow> event list \<Rightarrow> event list \<Rightarrow> string \<Rightarrow> (OrgBillingState, 'w, unit) page_task" where
  "fetchUsage E es es' orgId =
     await (set_local (\<lambda>l. l\<lparr>isFetchingUsage := True\<rparr>)) (\<lambda>_.
     try_finally
       (try_catch
         (await (on_store (promise_all2 (loadOrgProjects E orgId) (loadOrgUsage E es orgId None))) (\<lambda>(projs, orgUsage).
          await (set_local (\<lambda>l. l\<lparr>billedProjects := Some projs\<rparr>)) (\<lambda>_.
          await (set_local (\<lambda>l. l\<lparr>totalOrgUsage := Some orgUsage\<rparr>)) (\<lambda>_.
          await (on_store (concurrently add_project_usage es' (map (usage_of_project E) projs) Map.empty)) (\<lambda>usages.
          set_local (\<lambda>l. l\<lparr>projectUsages := usages\<rparr>))))))
         (error_toast ''Failed to load org projects:''))
       (set_local (\<lambda>l. l\<lparr>isFetchingUsage := False\<rparr>)))"

text \<open>The effect that runs when the item is opened or closed.\<close>

definition OrgBillingListItem_effect ::
    "'w env \<Rightarrow> event list \<Rightarrow> event list \<Rightarrow> string \<Rightarrow> (OrgBillingState, 'w, unit) page_task" where
  "OrgBillingListItem_effect E es es' orgId =
     get_state (\<lambda>(l, _).
       if isExpanded l \<and> billedProjects l = None \<and> \<not> isFetchingUsage l then fetchUsage E es es' orgId else ret ())"

text \<open>A click anywhere on the head of an item opens or closes it; the event carries the organization.\<close>

definition OrgBillingListItem_toggle :: "OrgBillingState \<Rightarrow> OrgBillingState" where
  "OrgBillingListItem_toggle l = l\<lparr>isExpanded := \<not> isExpanded l\<rparr>"

definition OrgBillingListItem_head ::
    "Browser \<Rightarrow> AppSlice \<Rightarrow> MyOrgBillingPlan \<Rightarrow> OrgBillingState \<Rightarrow> string view" where
  "OrgBillingListItem_head B s plan l =
     Elem ''div'' [On ''click'' (MyOrgBillingPlan_orgId plan)]
       [Elem ''div'' []
         [Elem ''Button'' [] [Elem (if isExpanded l then ''ChevronDown'' else ''ChevronRight'') [] []],
          Elem ''div'' []
           [Elem ''div'' [] [Text (case js_map_get (MyOrgBillingPlan_orgId plan) (selectOrgMap s) of
               Some org \<Rightarrow> Organization_name org | None \<Rightarrow> MyOrgBillingPlan_orgId plan)],
            Elem ''div'' [] [Text (TIER_LABEL (MyOrgBillingPlan_tier plan) @ '' plan'')]]],
        Elem ''div'' []
         ((case (totalOrgUsage l, MyOrgBillingPlan_maxStorageBytes plan) of
             (Some u, Some limit) \<Rightarrow>
               [Elem ''div'' []
                 [Elem ''div'' [] [Text ''Memory''],
                  Elem ''span'' [over_limit (ProjectUsage_memoryBytes u) limit]
                   [Text (bytes_text B (ProjectUsage_memoryBytes u) @ '' / '' @ bytes_text B limit)]]]
           | _ \<Rightarrow> []) @
          [Elem ''div'' []
            [Elem ''div'' [] [Text ''Canisters''],
             Elem ''span'' [over_limit (MyOrgBillingPlan_canistersUsed plan) (MyOrgBillingPlan_maxCanisters plan)]
              [Text (bigint_text (MyOrgBillingPlan_canistersUsed plan) @ '' / '' @
                 bigint_text (MyOrgBillingPlan_maxCanisters plan))]]])]"

definition shown_usage :: "OrgBillingState \<Rightarrow> Project \<Rightarrow> ProjectUsage option" where
  "shown_usage l proj = (case projectUsages l (Project_id proj) of Some u \<Rightarrow> u | None \<Rightarrow> None)"

definition OrgBillingListItem_project :: "Browser \<Rightarrow> OrgBillingState \<Rightarrow> Project \<Rightarrow> string view" where
  "OrgBillingListItem_project B l proj =
     Elem ''div'' []
       [Elem ''div'' []
         [Elem ''span'' [] [Text (Project_name proj)],
          Elem ''span'' [] [Text ((case shown_usage l proj of
              Some u \<Rightarrow> bytes_text B (ProjectUsage_memoryBytes u) | None \<Rightarrow> ''-'') @ '' stored'')]],
        (case shown_usage l proj of
           Some u \<Rightarrow> Elem ''div'' [] [UsageMetricsGrid B u]
         | None \<Rightarrow> Elem ''div'' [] [Text ''Usage data not available''])]"

definition OrgBillingListItem ::
    "Browser \<Rightarrow> AppSlice \<Rightarrow> MyOrgBillingPlan \<Rightarrow> OrgBillingState \<Rightarrow> string view" where
  "OrgBillingListItem B s plan l =
     Elem ''div'' []
       (OrgBillingListItem_head B s plan l #
        given (isExpanded l)
          [Elem ''div'' []
            (case billedProjects l of
               None \<Rightarrow> given (isFetchingUsage l) [Elem ''div'' [] [Elem ''Loader2'' [] []]]
             | Some [] \<Rightarrow> [Elem ''div'' [] [Text ''No projects found.'']]
             | Some ps \<Rightarrow> [Elem ''div'' [] [Elem ''div'' [] (map (OrgBillingListItem_project B l) ps)]])])"

text \<open>The page has the plans as its local state; after a failure they stay absent and the page says it is loading.\<close>

definition Billing_load :: "'w env \<Rightarrow> (MyOrgBillingPlan list option, 'w, unit) page_task" where
  "Billing_load E =
     try_catch
       (await (on_store (loadMyOrgBillingPlans E)) (\<lambda>p. set_local (\<lambda>_. Some p)))
       (error_toast ''Failed to load billing plans'')"

definition Billing :: "MyOrgBillingPlan list option \<Rightarrow> 'ev view" where
  "Billing plans =
     Elem ''Container'' []
       [Elem ''H1'' [] [Text ''Billing''],
        Elem ''Alert'' []
         [Elem ''AlertTitle'' [] [Text ''Purchase flow coming soon''],
          Elem ''AlertDescription'' []
           [Text (''Plan upgrades and invoices will be available here. For now you can '' @
              ''review your organizations' current plans and usage below.'')]],
        Elem ''Card'' []
         [Elem ''CardHeader'' [] [Elem ''CardTitle'' [] [Text ''Your organizations'']],
          Elem ''CardContent'' []
           [case plans of
              None \<Rightarrow> Elem ''p'' [] [Text ''Loading...'']
            | Some [] \<Rightarrow> Elem ''p'' [] [Text ''You don't belong to any organizations yet.'']
            | Some ps \<Rightarrow> Elem ''div'' [] (map (\<lambda>plan.
                Elem ''OrgBillingListItem'' [Attr ''plan'' (MyOrgBillingPlan_orgId plan)] []) ps)]]]"

section \<open>What the dashboard counts\<close>

definition accessible_infos :: "Canister list \<Rightarrow> CanisterInfo list" where
  "accessible_infos cs = concat (map (\<lambda>c. case Canister_state c of Accessible info \<Rightarrow> [info] | _ \<Rightarrow> []) cs)"

definition with_status :: "CanisterStatus \<Rightarrow> CanisterInfo list \<Rightarrow> nat" where
  "with_status st infos = length (filter (\<lambda>info. CanisterInfo_status info = st) infos)"

lemma add_canister_sum:
  "foldl add_canister st cs =
     (let infos = accessible_infos cs in
      \<lparr>stats_total = stats_total st, stats_withInfo = stats_withInfo st + length infos,
       stats_running = stats_running st + with_status Running infos,
       stats_stopping = stats_stopping st + with_status Stopping infos,
       stats_stopped = stats_stopped st + with_status Stopped infos,
       stats_cycles = stats_cycles st + sum_list (map CanisterInfo_cycles infos),
       stats_idleBurn = stats_idleBurn st + sum_list (map CanisterInfo_idleCyclesBurnedPerDay infos),
       stats_memory = stats_memory st + sum_list (map CanisterInfo_memorySize infos)\<rparr>)"
proof (induction cs arbitrary: st)
  case Nil
  then show ?case by (simp add: accessible_infos_def with_status_def)
next
  case (Cons c cs)
  have infos: "accessible_infos (c # cs) =
      (case Canister_state c of Accessible info \<Rightarrow> [info] | _ \<Rightarrow> []) @ accessible_infos cs"
    by (simp add: accessible_infos_def)
  show ?case
    unfolding foldl_Cons Cons.IH infos
    by (simp add: add_canister_def with_status_def Let_def split: CanisterState.split CanisterStatus.split)
qed

lemma statuses_partition: "with_status Running infos + with_status Stopping infos + with_status Stopped infos = length infos"
proof (induction infos)
  case (Cons info infos)
  then show ?case by (cases "CanisterInfo_status info") (simp_all add: with_status_def)
qed (simp add: with_status_def)

text \<open>
  The dashboard counts every canister once and every accessible one under exactly one status, and adds up their
  cycles, their consumption and their memory.
\<close>

theorem canisterStats_counts:
  "canisterStats cs =
     (let infos = accessible_infos cs in
      \<lparr>stats_total = length cs, stats_withInfo = length infos, stats_running = with_status Running infos,
       stats_stopping = with_status Stopping infos, stats_stopped = with_status Stopped infos,
       stats_cycles = sum_list (map CanisterInfo_cycles infos),
       stats_idleBurn = sum_list (map CanisterInfo_idleCyclesBurnedPerDay infos),
       stats_memory = sum_list (map CanisterInfo_memorySize infos)\<rparr>) \<and>
   stats_running (canisterStats cs) + stats_stopping (canisterStats cs) + stats_stopped (canisterStats cs) =
     stats_withInfo (canisterStats cs)"
  using statuses_partition [of "accessible_infos cs"] by (simp add: canisterStats_def add_canister_sum no_stats_def Let_def)

section \<open>Organizations without projects\<close>

text \<open>
  The dashboard lists an organization only by its projects: it says that one does not belong to any organization
  exactly if there is no project or no organization, also while it counts organizations above.
\<close>

theorem dashboard_omits_organizations:
  "''You don't belong to any organizations yet.'' \<in> set (texts_of ''p'' (Dashboard_orgs s plans :: 'ev view)) \<longleftrightarrow>
     organizations s = [] \<or> projects s = []"
proof -
  have firsts: "firsts ks = [] \<longleftrightarrow> ks = []" for ks :: "string list"
    using set_firsts [of ks] by (metis set_empty)
  have orgs: "selectOrgsWithProjects s = [] \<longleftrightarrow> organizations s = [] \<or> projects s = []"
    by (simp add: orgs_with_projects firsts)
  have rows: "texts_of ''p'' (Elem ''ul'' [] (map (Dashboard_org plans) xs) :: 'ev view) = []" for xs
    by (auto simp: Dashboard_org_def split: option.splits)
  show ?thesis
    using rows by (simp add: Dashboard_orgs_def orgs)
qed

section \<open>The usage of the projects\<close>

lemma steps_usage_of_project:
  assumes "steady (get_usage (canisterService E))"
  shows "steps but_toast_order (usage_of_project E p)
    (Inr (Project_id p, case project_usage E None i w p of Inl _ \<Rightarrow> None | Inr u \<Rightarrow> Some u))
    (usage_effect p (project_usage E None i w p))"
proof -
  let ?m = "get_usage (canisterService E)" and ?f = "mapGetUsageResponse E"
  let ?q = "mapGetUsageRequest \<lparr>GetUsageRequest_projectId = Project_id p, GetUsageRequest_billingMonth = None\<rparr>"
  have same: "reply ?f (snd (?m j ?q u)) = reply ?f (snd (?m i ?q w))" for j u
    using assms by (metis steady_def)
  note call = steps_call_map [where f = ?f and m = ?m and q = ?q and r = "reply ?f (snd (?m i ?q w))"
      and v = but_toast_order, OF same]
  note defs = usage_of_project_def loadProjectUsage_def UsageApi_getUsage_def project_usage_def usage_effect_def
  show ?thesis
  proof (cases "reply ?f (snd (?m i ?q w))")
    case (Inl e)
    let ?h = "\<lambda>err. await (showErrorToast (''Failed to load usage for project '' @ Project_id p) err) (\<lambda>_. ret (Project_id p, None))"
    have toast: "steps but_toast_order (?h e) (Inr (Project_id p, None)) [\<lambda>(s, ts). (s :: AppSlice, add_mset (usage_toast p e) ts)]"
      unfolding showErrorToast_def
      by (rule steps_set_then_ret) (simp add: but_toast_order_def usage_toast_def)
    have "steps but_toast_order (await (call_map ?m ?q ?f) (\<lambda>u. ret (Project_id p, Some (GetUsageResponse_project u)))) (Inl e) []"
      by (rule steps_await_error) (use Inl call in simp)
    from steps_try_catch_error [where h = ?h, OF this toast] show ?thesis
      using Inl by (simp add: defs)
  next
    case (Inr u)
    have "steps but_toast_order (call_map ?m ?q ?f) (Inr u) []" using Inr call by simp
    from steps_await [OF this, of "\<lambda>u. ret (Project_id p, Some (GetUsageResponse_project u))", OF steps_ret]
    have "steps but_toast_order (await (call_map ?m ?q ?f) (\<lambda>u. ret (Project_id p, Some (GetUsageResponse_project u))))
        (Inr (Project_id p, Some (GetUsageResponse_project u))) []" by simp
    from steps_try_catch [OF this] show ?thesis
      using Inr by (simp add: defs)
  qed
qed

definition project_shown :: "'w env \<Rightarrow> Identity \<Rightarrow> 'w \<Rightarrow> Project \<Rightarrow> ProjectUsage option" where
  "project_shown E i w p = (case project_usage E None i w p of Inl _ \<Rightarrow> None | Inr u \<Rightarrow> Some u)"

lemma project_shown_same:
  "Project_id p = Project_id q \<Longrightarrow> project_shown E i w p = project_shown E i w q"
  by (simp add: project_shown_def project_usage_def)

lemma fold_usages:
  "p \<in> set ps \<Longrightarrow>
     fold add_project_usage (map (\<lambda>p. Inr (Project_id p, project_shown E i w p)) ps) m (Project_id p) =
     Some (project_shown E i w p)"
proof (induction ps arbitrary: m rule: rev_induct)
  case (snoc q ps)
  then show ?case using project_shown_same [of q p] by (auto simp: add_project_usage_def)
qed simp

lemma run_usages:
  assumes "steady (get_usage (canisterService E))"
    and "run (concurrently add_project_usage es (map (usage_of_project E) ps) Map.empty) s w = (r, s', w')"
  shows "\<exists>m. r = Inr m \<and> (\<forall>p \<in> set ps. m (Project_id p) = Some (project_shown E i v p)) \<and>
    but_toast_order s' = (s\<lparr>toasts := []\<rparr>, mset (toasts s @ usage_failures E None i v ps))"
proof -
  let ?use = "project_usage E None i v"
  let ?plan = "map (\<lambda>p. (Inr (Project_id p, project_shown E i v p) :: js_error + _, usage_effect p (?use p))) ps"
  have steps: "list_all2 (\<lambda>t (r, hs). steps but_toast_order t r hs) (map (usage_of_project E) ps) ?plan"
    by (simp add: list_all2_conv_all_nth project_shown_def steps_usage_of_project [OF assms(1)])
  have "commute f g" if "f \<in> set (usage_effect p r)" and "g \<in> set (usage_effect q r')" for f g p q r r'
    using that by (auto simp: commute_def usage_effect_def split: sum.splits)
  then have apart: "apart (map snd ?plan)" by (auto simp: apart_def)
  have comm: "commute (add_project_usage r) (add_project_usage q)" if "r \<in> fst ` set ?plan" and "q \<in> fst ` set ?plan" for r q
  proof -
    from that obtain p' q' where "r = Inr (Project_id p', project_shown E i v p')" "q = Inr (Project_id q', project_shown E i v q')"
      by auto
    then show ?thesis using project_shown_same [of p' q' E i v]
      by (cases "Project_id p' = Project_id q'") (simp_all add: commute_def add_project_usage_def fun_upd_twist)
  qed
  have ends: "r = Inr (fold add_project_usage (map fst ?plan) Map.empty) \<and>
      but_toast_order s' = apply_all (concat (map snd ?plan)) (but_toast_order s)"
    by (rule run_concurrently_steps [OF steps _ apart assms(2)]) (rule comm)
  have all: "apply_all (concat (map (\<lambda>p. usage_effect p (?use p)) ps)) (t, m) =
      (t, m + mset (usage_failures E None i v ps))" for t m
    by (induction ps arbitrary: m) (auto simp: usage_effect_def usage_failures_def split: sum.splits)
  show ?thesis
    using ends by (simp add: but_toast_order_def comp_def fold_usages all [unfolded comp_def])
qed



end
