(* ===== verification/Layout.thy ===== *)
theory Layout
  imports AdminPages Dashboard LinkedIdentities
begin

text \<open>
  What surrounds the pages: the routes (\<open>router.tsx\<close>), the application and its environment (\<open>app.tsx\<close>, \<open>env.tsx\<close>), the
  header, the menus and the sidebar (\<open>components/layout/\<close>, \<open>components/ui/sidebar.tsx\<close>), and the theme
  (\<open>components/theme-provider.tsx\<close>, \<open>components/mode-toggle.tsx\<close>). The router is a package: of it the model has what
  it documents of patterns, that a segment of a pattern stands for itself in any case, or for any segment where it
  is named with a colon, and that the elements of the enclosing routes are shown around a page.
\<close>

section \<open>Routes (router.tsx)\<close>

datatype route = Route (route_path: "string option") (route_element: string) (route_children: "route list")

text \<open>An index route is the page of the path it stands in, and has none of its own.\<close>

definition page :: "string \<Rightarrow> string \<Rightarrow> route" where
  "page path element = Route (Some path) element []"

definition index :: "string \<Rightarrow> route" where
  "index element = Route None element []"

definition public_routes :: "route list" where
  "public_routes =
     [index ''Home'',
      page ''terms-and-conditions'' ''TermsAndConditions'',
      page ''verify'' ''Verify'',
      page ''recover'' ''Recover'']"

definition protected_routes :: "route list" where
  "protected_routes =
     [page ''canisters'' ''RedirectToProjectCanisters'',
      page ''dashboard'' ''Dashboard'',
      page ''billing'' ''Billing'',
      page ''organizations/new'' ''CreateOrganization'',
      page ''organizations/:orgId/settings'' ''OrganizationSettings'',
      page ''organizations/:orgId/teams'' ''TeamList'',
      page ''organizations/:orgId/teams/new'' ''CreateTeam'',
      page ''organizations/:orgId/teams/:teamId/settings'' ''TeamSettings'',
      page ''organizations/:orgId/projects'' ''ProjectList'',
      page ''organizations/:orgId/projects/new'' ''CreateProject'',
      page ''organizations/:orgId/projects/:projectId/settings'' ''ProjectSettings'',
      page ''invitations'' ''MyInvitations'',
      page ''account/identities'' ''LinkedIdentities'',
      Route (Some ''projects/:projectId'') ''ProjectLayout''
        [page ''canisters'' ''Canisters'',
         page ''canisters/:canisterId'' ''CanisterDetail'',
         page ''proposals'' ''ProposalList'',
         page ''proposals/:proposalId'' ''ProposalDetail'']]"

definition admin_routes :: "route list" where
  "admin_routes =
     [Route (Some ''admin'') ''AdminLayout''
        [index ''OverviewTab'',
         page ''users'' ''UsersTab'',
         page ''trusted-partners'' ''TrustedPartnersTab'',
         page ''terms-and-conditions'' ''TermsAndConditionsTab'',
         page ''staff'' ''StaffTab'',
         page ''organizations'' ''OrganizationsTab'',
         page ''canisters'' ''CanistersTab''],
      page ''admin/users/:userId'' ''UserDetail'']"

definition Router :: "route list" where
  "Router =
     [Route None ''DefaultLayout''
        (public_routes @
         [Route None ''ProtectedRoute'' protected_routes,
          Route None ''AdminRoute'' admin_routes])]"

text \<open>
  The segments of a path: a path starts with a slash, a pattern does not, and slashes at the end do not count. The
  pages of a table, each with the pattern of its path and the elements around it, the outermost first.
\<close>

fun cut :: "string \<Rightarrow> string list" where
  "cut [] = [[]]"
| "cut (c # cs) =
     (if c = CHR ''/'' then [] # cut cs else case cut cs of [] \<Rightarrow> [[c]] | seg # segs \<Rightarrow> (c # seg) # segs)"

definition segments :: "string \<Rightarrow> string list" where
  "segments path = rev (dropWhile (\<lambda>seg. seg = []) (rev (tl (cut path))))"

definition pattern_segments :: "string option \<Rightarrow> string list" where
  "pattern_segments path = (case path of None \<Rightarrow> [] | Some p \<Rightarrow> segments (CHR ''/'' # p))"

fun pages :: "string list \<Rightarrow> string list \<Rightarrow> route \<Rightarrow> (string list \<times> string list) list" where
  "pages around prefix (Route path element children) =
     (if children = [] then [(prefix @ pattern_segments path, around @ [element])]
      else concat (map (pages (around @ [element]) (prefix @ pattern_segments path)) children))"

definition routes :: "(string list \<times> string list) list" where
  "routes = concat (map (pages [] []) Router)"

text \<open>What a pattern says of the segments of a path: whether they match, and the values of its parameters.\<close>

definition to_lower :: "char \<Rightarrow> char" where
  "to_lower c = (if of_char c \<ge> (65 :: nat) \<and> of_char c \<le> (90 :: nat) then char_of (of_char c + 32 :: nat) else c)"

definition lowercase :: "string \<Rightarrow> string" where
  "lowercase s = map to_lower s"

fun match :: "string list \<Rightarrow> string list \<Rightarrow> (string \<times> string) list option" where
  "match [] [] = Some []"
| "match (pat # pats) (seg # segs) =
     (if seg = [] then None
      else if hd pat = CHR '':'' then map_option ((#) (tl pat, seg)) (match pats segs)
      else if lowercase pat = lowercase seg then match pats segs
      else None)"
| "match _ _ = None"

definition route_shows :: "string \<Rightarrow> string list \<Rightarrow> (string \<times> string) list \<Rightarrow> bool" where
  "route_shows path elements params \<longleftrightarrow>
     (\<exists>pat. (pat, elements) \<in> set routes \<and> match pat (segments path) = Some params)"


text \<open>Two patterns no path can match together.\<close>

fun patterns_apart :: "string list \<Rightarrow> string list \<Rightarrow> bool" where
  "patterns_apart [] [] = False"
| "patterns_apart (p # ps) (q # qs) =
     (hd p \<noteq> CHR '':'' \<and> hd q \<noteq> CHR '':'' \<and> lowercase p \<noteq> lowercase q \<or> patterns_apart ps qs)"
| "patterns_apart [] (q # qs) = True"
| "patterns_apart (p # ps) [] = True"

lemma match_Nil: "match pats [] = Some a \<Longrightarrow> pats = []"
  by (cases pats) simp_all

lemma apart_match: "patterns_apart p q \<Longrightarrow> match p segs = Some a \<Longrightarrow> match q segs = None"
proof (induction p q arbitrary: segs a rule: patterns_apart.induct)
  case (2 p ps q qs)
  then obtain seg rest where segs: "segs = seg # rest" by (cases segs) auto
  with "2.prems"(2) obtain b where b: "match ps rest = Some b" and ne: "seg \<noteq> []"
    by (simp split: if_splits) blast
  show ?case
  proof (cases "patterns_apart ps qs")
    case True
    with "2.IH" b have "match qs rest = None" by blast
    with segs show ?thesis by simp
  next
    case False
    with "2.prems" segs ne show ?thesis by (simp split: if_splits)
  qed
next
  case (3 q qs)
  then show ?case by (cases segs) simp_all
next
  case (4 p ps)
  then show ?case by (cases segs) simp_all
qed simp


text \<open>The table, written out, and the words of its patterns.\<close>

lemma routes_table: "routes =
    [
     ([], [''DefaultLayout'', ''Home'']),
     ([''terms-and-conditions''], [''DefaultLayout'', ''TermsAndConditions'']),
     ([''verify''], [''DefaultLayout'', ''Verify'']),
     ([''recover''], [''DefaultLayout'', ''Recover'']),
     ([''canisters''], [''DefaultLayout'', ''ProtectedRoute'', ''RedirectToProjectCanisters'']),
     ([''dashboard''], [''DefaultLayout'', ''ProtectedRoute'', ''Dashboard'']),
     ([''billing''], [''DefaultLayout'', ''ProtectedRoute'', ''Billing'']),
     ([''organizations'', ''new''], [''DefaultLayout'', ''ProtectedRoute'', ''CreateOrganization'']),
     ([''organizations'', '':orgId'', ''settings''], [''DefaultLayout'', ''ProtectedRoute'', ''OrganizationSettings'']),
     ([''organizations'', '':orgId'', ''teams''], [''DefaultLayout'', ''ProtectedRoute'', ''TeamList'']),
     ([''organizations'', '':orgId'', ''teams'', ''new''], [''DefaultLayout'', ''ProtectedRoute'', ''CreateTeam'']),
     ([''organizations'', '':orgId'', ''teams'', '':teamId'', ''settings''], [''DefaultLayout'', ''ProtectedRoute'', ''TeamSettings'']),
     ([''organizations'', '':orgId'', ''projects''], [''DefaultLayout'', ''ProtectedRoute'', ''ProjectList'']),
     ([''organizations'', '':orgId'', ''projects'', ''new''], [''DefaultLayout'', ''ProtectedRoute'', ''CreateProject'']),
     ([''organizations'', '':orgId'', ''projects'', '':projectId'', ''settings''], [''DefaultLayout'', ''ProtectedRoute'', ''ProjectSettings'']),
     ([''invitations''], [''DefaultLayout'', ''ProtectedRoute'', ''MyInvitations'']),
     ([''account'', ''identities''], [''DefaultLayout'', ''ProtectedRoute'', ''LinkedIdentities'']),
     ([''projects'', '':projectId'', ''canisters''], [''DefaultLayout'', ''ProtectedRoute'', ''ProjectLayout'', ''Canisters'']),
     ([''projects'', '':projectId'', ''canisters'', '':canisterId''], [''DefaultLayout'', ''ProtectedRoute'', ''ProjectLayout'', ''CanisterDetail'']),
     ([''projects'', '':projectId'', ''proposals''], [''DefaultLayout'', ''ProtectedRoute'', ''ProjectLayout'', ''ProposalList'']),
     ([''projects'', '':projectId'', ''proposals'', '':proposalId''], [''DefaultLayout'', ''ProtectedRoute'', ''ProjectLayout'', ''ProposalDetail'']),
     ([''admin''], [''DefaultLayout'', ''AdminRoute'', ''AdminLayout'', ''OverviewTab'']),
     ([''admin'', ''users''], [''DefaultLayout'', ''AdminRoute'', ''AdminLayout'', ''UsersTab'']),
     ([''admin'', ''trusted-partners''], [''DefaultLayout'', ''AdminRoute'', ''AdminLayout'', ''TrustedPartnersTab'']),
     ([''admin'', ''terms-and-conditions''], [''DefaultLayout'', ''AdminRoute'', ''AdminLayout'', ''TermsAndConditionsTab'']),
     ([''admin'', ''staff''], [''DefaultLayout'', ''AdminRoute'', ''AdminLayout'', ''StaffTab'']),
     ([''admin'', ''organizations''], [''DefaultLayout'', ''AdminRoute'', ''AdminLayout'', ''OrganizationsTab'']),
     ([''admin'', ''canisters''], [''DefaultLayout'', ''AdminRoute'', ''AdminLayout'', ''CanistersTab'']),
     ([''admin'', ''users'', '':userId''], [''DefaultLayout'', ''AdminRoute'', ''UserDetail''])]"
  by (simp add: routes_def Router_def public_routes_def protected_routes_def admin_routes_def page_def index_def
      pattern_segments_def segments_def)

lemma lower_words:
  "lowercase ''account'' = ''account''"
  "lowercase ''admin'' = ''admin''"
  "lowercase ''billing'' = ''billing''"
  "lowercase ''canisters'' = ''canisters''"
  "lowercase ''dashboard'' = ''dashboard''"
  "lowercase ''identities'' = ''identities''"
  "lowercase ''invitations'' = ''invitations''"
  "lowercase ''new'' = ''new''"
  "lowercase ''organizations'' = ''organizations''"
  "lowercase ''projects'' = ''projects''"
  "lowercase ''proposals'' = ''proposals''"
  "lowercase ''recover'' = ''recover''"
  "lowercase ''settings'' = ''settings''"
  "lowercase ''staff'' = ''staff''"
  "lowercase ''teams'' = ''teams''"
  "lowercase ''terms-and-conditions'' = ''terms-and-conditions''"
  "lowercase ''trusted-partners'' = ''trusted-partners''"
  "lowercase ''users'' = ''users''"
  "lowercase ''verify'' = ''verify''"
  by (simp_all add: lowercase_def to_lower_def)

lemma routes_apart: "sorted_wrt (\<lambda>r r'. patterns_apart (fst r) (fst r')) routes"
  by (simp only: routes_table lower_words sorted_wrt.simps set_simps ball_simps patterns_apart.simps fst_conv, simp add: lower_words)

lemma apart_sym: "patterns_apart p q \<longleftrightarrow> patterns_apart q p"
  by (induction p q rule: patterns_apart.induct) auto

lemma routes_differ:
  assumes "(p, e) \<in> set routes" and "(p', e') \<in> set routes" and "(p', e') \<noteq> (p, e)"
  shows "patterns_apart p p'"
proof -
  obtain i j where i: "i < length routes" "routes ! i = (p, e)" and j: "j < length routes" "routes ! j = (p', e')"
    using assms(1,2) by (auto simp: in_set_conv_nth)
  with assms(3) have "i < j \<or> j < i" by (metis nat_neq_iff)
  with i j routes_apart show ?thesis
    unfolding sorted_wrt_iff_nth_less by (metis apart_sym fst_conv)
qed

lemma match_head:
  assumes "match p segs = Some a"
  shows "segs = [] \<longleftrightarrow> p = []" and "p \<noteq> [] \<Longrightarrow> hd (hd p) \<noteq> CHR '':'' \<Longrightarrow> lowercase (hd segs) = lowercase (hd p)"
  using assms by (cases p; cases segs; simp split: if_splits)+

text \<open>The words a frame is told by.\<close>

lemma route_frames:
  assumes "(p, e) \<in> set routes"
  shows "p \<noteq> [] \<Longrightarrow> hd (hd p) \<noteq> CHR '':''"
    and "''AdminRoute'' \<in> set e \<longleftrightarrow> p \<noteq> [] \<and> lowercase (hd p) = ''admin''"
    and "''AdminRoute'' \<notin> set e \<Longrightarrow> ''ProtectedRoute'' \<in> set e \<or> last e \<in> {''Home'', ''TermsAndConditions'', ''Verify'', ''Recover''}"
proof -
  have 1: "list_all (\<lambda>(p, e). p \<noteq> [] \<longrightarrow> hd (hd p) \<noteq> CHR '':'') routes"
    by (simp add: routes_table)
  have 2: "list_all (\<lambda>(p, e). ''AdminRoute'' \<in> set e \<longleftrightarrow> p \<noteq> [] \<and> lowercase (hd p) = ''admin'') routes"
    by (simp add: routes_table lower_words)
  have 3: "list_all (\<lambda>(p, e). ''AdminRoute'' \<in> set e \<or> ''ProtectedRoute'' \<in> set e \<or>
      last e \<in> {''Home'', ''TermsAndConditions'', ''Verify'', ''Recover''}) routes"
    by (simp add: routes_table)
  note list_all_iff [THEN iffD1, THEN bspec, OF _ assms]
  from this [OF 1] this [OF 2] this [OF 3]
  show "p \<noteq> [] \<Longrightarrow> hd (hd p) \<noteq> CHR '':''"
    and "''AdminRoute'' \<in> set e \<longleftrightarrow> p \<noteq> [] \<and> lowercase (hd p) = ''admin''"
    and "''AdminRoute'' \<notin> set e \<Longrightarrow> ''ProtectedRoute'' \<in> set e \<or> last e \<in> {''Home'', ''TermsAndConditions'', ''Verify'', ''Recover''}"
    by auto
qed




section \<open>Environment and application (env.tsx, app.tsx, default-layout.tsx)\<close>

text \<open>The variables the build puts into \<open>import.meta.env\<close>; a variable that is missing or empty stops the application.\<close>

definition getEnvVar :: "(string \<Rightarrow> string option) \<Rightarrow> string \<Rightarrow> js_error + string" where
  "getEnvVar env name =
     (case env name of
        Some v \<Rightarrow> if length v = 0 then Inl (Error (''Environment variable '' @ name @ '' is not set'')) else Inr v
      | None \<Rightarrow> Inl (Error (''Environment variable '' @ name @ '' is not set'')))"

definition IS_LOCAL :: "string \<Rightarrow> bool" where
  "IS_LOCAL network \<longleftrightarrow> network = ''local''"

definition IS_TEST :: "string \<Rightarrow> bool" where
  "IS_TEST network \<longleftrightarrow> network = ''test''"

definition ENVIRONMENT_BANNER :: "string \<Rightarrow> string option" where
  "ENVIRONMENT_BANNER network =
     (if IS_LOCAL network then Some ''Local'' else if IS_TEST network then Some ''Staging'' else None)"

definition IDENTITY_PROVIDER :: "string \<Rightarrow> string" where
  "IDENTITY_PROVIDER network = (if IS_LOCAL network then ''http://id.ai.localhost:4943'' else ''https://id.ai'')"

definition SHOULD_FETCH_ROOT_KEY :: "string \<Rightarrow> bool" where
  "SHOULD_FETCH_ROOT_KEY network \<longleftrightarrow> IS_LOCAL network"

definition DERIVATION_ORIGIN :: "string \<Rightarrow> string option" where
  "DERIVATION_ORIGIN network =
     (if IS_LOCAL network then None
      else if IS_TEST network then Some ''https://staging-console.subnet.ch''
      else Some ''https://console.subnet.ch'')"

text \<open>
  The effect of the application calls \<open>initializeAuth\<close> without waiting for it. An asynchronous function does not
  throw, it returns a promise that is rejected, so that the \<open>catch\<close> around the call is never entered and nobody sees
  how the promise settles.
\<close>

definition App_effect :: "'w env \<Rightarrow> event list \<Rightarrow> ('w, unit) store_task" where
  "App_effect E es = bind_task (initializeAuth E es) (\<lambda>_. ret ())"

definition initializing :: "AppSlice \<Rightarrow> bool" where
  "initializing s \<longleftrightarrow> \<not> isProfileInitialized s \<or> isProfileLoading s"

section \<open>Where the user is\<close>

text \<open>
  The route's parameters, where the path has them. The project that counts as the active one is the one of the path,
  or else the first of the store; the sidebar, the project selector and the switcher each compute it.
\<close>

definition activeProjectId :: "string option \<Rightarrow> AppSlice \<Rightarrow> string option" where
  "activeProjectId projectIdParam s = (case projectIdParam of Some i \<Rightarrow> Some i | None \<Rightarrow> defaultProjectId s)"

definition activeProject :: "string option \<Rightarrow> AppSlice \<Rightarrow> Project option" where
  "activeProject projectIdParam s =
     Option.bind (activeProjectId projectIdParam s) (\<lambda>i. js_map_get i (selectProjectMap s))"

definition project_organization :: "AppSlice \<Rightarrow> Project option \<Rightarrow> Organization option" where
  "project_organization s p = Option.bind p (\<lambda>p. js_map_get (Project_orgId p) (selectOrgMap s))"

section \<open>Menus (org-switcher.tsx, project-selector.tsx, header-menu.tsx)\<close>

datatype LayoutEvent =
    PrincipalClicked
  | UserIdClicked
  | LogoutClicked
  | ThemeChosen string
  | ToggleSidebarClicked

text \<open>An item that leads somewhere, and one that is the current choice.\<close>

definition menu_link :: "string \<Rightarrow> string \<Rightarrow> 'ev view list \<Rightarrow> 'ev view" where
  "menu_link item path label = Elem item [Attr ''to'' path] label"

definition menu_choice :: "bool \<Rightarrow> string \<Rightarrow> string \<Rightarrow> 'ev view" where
  "menu_choice isActive path label =
     Elem ''DropdownMenuItem'' (Flag ''disabled'' isActive # (if isActive then [] else [Attr ''to'' path])) [Text label]"

definition switcher_organization :: "string option \<Rightarrow> string option \<Rightarrow> AppSlice \<Rightarrow> Organization option" where
  "switcher_organization orgIdParam projectIdParam s =
     (case orgIdParam of
        Some i \<Rightarrow> js_map_get i (selectOrgMap s)
      | None \<Rightarrow> project_organization s (activeProject projectIdParam s))"

text \<open>\<open>org.projects[0]?.id\<close> in a template: the text of \<open>undefined\<close> where there is no project.\<close>

definition first_project_text :: "OrgWithProjects \<Rightarrow> string" where
  "first_project_text org =
     (case OrgWithProjects_projects org of [] \<Rightarrow> ''undefined'' | p # ps \<Rightarrow> Project_id p)"

definition OrgSwitcher :: "string option \<Rightarrow> string option \<Rightarrow> AppSlice \<Rightarrow> 'ev view list" where
  "OrgSwitcher orgIdParam projectIdParam s =
     (let orgsWithProjects = selectOrgsWithProjects s;
          activeOrganization = switcher_organization orgIdParam projectIdParam s
      in if length orgsWithProjects = 0 then []
         else
           [Elem ''DropdownMenu'' []
             [Elem ''DropdownMenuTrigger'' []
                [Text (case activeOrganization of Some org \<Rightarrow> Organization_name org | None \<Rightarrow> ''Select organization'')],
              Elem ''DropdownMenuContent'' []
               [Elem ''DropdownMenuGroup'' []
                 (Elem ''DropdownMenuLabel'' [] [Text ''Switch Organization''] #
                  map (\<lambda>org.
                    menu_choice (activeOrganization \<noteq> None \<and> OrgWithProjects_id org = Organization_id (the activeOrganization))
                      (''/projects/'' @ first_project_text org @ ''/canisters'') (OrgWithProjects_name org))
                    orgsWithProjects),
                Elem ''DropdownMenuSeparator'' [] [],
                Elem ''DropdownMenuGroup'' []
                 (menu_link ''DropdownMenuItem'' ''/organizations/new'' [Text ''Create Organization''] #
                  (case activeOrganization of
                     Some org \<Rightarrow>
                       [menu_link ''DropdownMenuItem'' (''/organizations/'' @ Organization_id org @ ''/settings'') [Text ''Settings'']]
                   | None \<Rightarrow> []))]]])"

definition activeOrgProjects :: "AppSlice \<Rightarrow> Organization \<Rightarrow> Project list" where
  "activeOrgProjects s org =
     (case List.find (\<lambda>o'. OrgWithProjects_id o' = Organization_id org) (selectOrgsWithProjects s) of
        Some o' \<Rightarrow> OrgWithProjects_projects o' | None \<Rightarrow> [])"


definition ProjectSelector :: "bool \<Rightarrow> string option \<Rightarrow> AppSlice \<Rightarrow> 'ev view list" where
  "ProjectSelector isMobile projectIdParam s =
     (case activeProject projectIdParam s of
        None \<Rightarrow> []
      | Some project \<Rightarrow>
          (case project_organization s (Some project) of
             None \<Rightarrow> []
           | Some org \<Rightarrow>
               [Elem ''DropdownMenu'' []
                 [Elem ''DropdownMenuTrigger'' [] [Text (Project_name project)],
                  Elem ''DropdownMenuContent'' [Attr ''side'' (if isMobile then ''bottom'' else ''right'')]
                   ([Elem ''DropdownMenuGroup'' []
                      [menu_link ''DropdownMenuItem'' (''/projects/'' @ Project_id project @ ''/canisters'') [Text ''Open Canisters'']],
                     Elem ''DropdownMenuSeparator'' [] []] @
                    given (length (activeOrgProjects s org) > 1)
                      [Elem ''DropdownMenuGroup'' []
                        (Elem ''DropdownMenuLabel'' [] [Text ''Switch Project''] #
                         map (\<lambda>p. menu_choice (Project_id p = Project_id project)
                             (''/projects/'' @ Project_id p @ ''/canisters'') (Project_name p))
                           (activeOrgProjects s org)),
                       Elem ''DropdownMenuSeparator'' [] []] @
                    [Elem ''DropdownMenuGroup'' []
                      [menu_link ''DropdownMenuItem'' (''/organizations/'' @ Organization_id org @ ''/projects/new'')
                         [Text ''Create Project''],
                       menu_link ''DropdownMenuItem''
                         (''/organizations/'' @ Organization_id org @ ''/projects/'' @ Project_id project @ ''/settings'')
                         [Text ''Project Settings'']]])]]))"

text \<open>The principal of an identity; the anonymous one has one byte, 4.\<close>

definition getPrincipal :: "Identity \<Rightarrow> principal" where
  "getPrincipal i = (case i of DelegationIdentity p \<Rightarrow> p | AnonymousIdentity \<Rightarrow> Principal [4])"

definition menu_principal :: "'w env \<Rightarrow> AppSlice \<Rightarrow> string option" where
  "menu_principal E s = map_option (\<lambda>i. toText E (getPrincipal i)) (identity s)"

definition menu_userId :: "AppSlice \<Rightarrow> string option" where
  "menu_userId s = map_option UserProfile_id (profile s)"

text \<open>A failure of the clipboard is not caught: the promise of the handler is rejected, and nobody waits for it.\<close>

definition copy_text :: "'w clipboard \<Rightarrow> string option \<Rightarrow> string \<Rightarrow> ('w, unit) store_task" where
  "copy_text writeText v message =
     (case v of
        None \<Rightarrow> ret ()
      | Some t \<Rightarrow> if t = [] then ret () else await (remote (writeText t)) (\<lambda>_. showSuccessToast message []))"

definition onPrincipalClicked :: "'w env \<Rightarrow> 'w clipboard \<Rightarrow> ('w, unit) store_task" where
  "onPrincipalClicked E writeText =
     get_state (\<lambda>s. copy_text writeText (menu_principal E s) ''Principal copied to clipboard!'')"

definition onUserIdClicked :: "'w clipboard \<Rightarrow> ('w, unit) store_task" where
  "onUserIdClicked writeText =
     get_state (\<lambda>s. copy_text writeText (menu_userId s) ''User ID copied to clipboard!'')"

definition onLogoutClicked :: "'w env \<Rightarrow> ('w, unit) store_task" where
  "onLogoutClicked E = try_catch (logout E) (showErrorToast ''Logout failed'')"

definition HeaderMenu :: "'w env \<Rightarrow> AppSlice \<Rightarrow> LayoutEvent view" where
  "HeaderMenu E s =
     Elem ''DropdownMenu'' []
       [Elem ''DropdownMenuContent'' []
         ([Elem ''DropdownMenuGroup'' []
            [Elem ''DropdownMenuLabel'' [] [Text ''Your Principal''],
             Elem ''DropdownMenuItem'' [On ''click'' PrincipalClicked]
               [Elem ''p'' [] (case menu_principal E s of Some p \<Rightarrow> [Text p] | None \<Rightarrow> [])]]] @
          (case menu_userId s of
             Some u \<Rightarrow> given (u \<noteq> [])
               [Elem ''DropdownMenuGroup'' []
                 [Elem ''DropdownMenuLabel'' [] [Text ''Your User ID''],
                  Elem ''DropdownMenuItem'' [On ''click'' UserIdClicked] [Elem ''p'' [] [Text u]]]]
           | None \<Rightarrow> []) @
          [Elem ''DropdownMenuSeparator'' [] [],
           Elem ''DropdownMenuGroup'' []
             (given (selectCanAccessAdmin s) [menu_link ''DropdownMenuItem'' ''/admin'' [Text ''Admin'']] @
              given (selectIsActive s)
                [menu_link ''DropdownMenuItem'' ''/invitations''
                  [Text ''Invitations'',
                   if length (myInvites s) > 0 then Elem ''span'' [] [Text (decimal (length (myInvites s)))]
                   else Elem ''MailIcon'' [] []]] @
              given (selectIsActive s)
                [menu_link ''DropdownMenuItem'' ''/account/identities'' [Text ''Linked identities'']] @
              given (selectIsActive s \<and> \<not> selectIsAdmin s \<and> isNotNil (termsAndConditions s))
                [menu_link ''DropdownMenuItem'' ''/terms-and-conditions'' [Text ''Terms and Conditions'']] @
              [Elem ''DropdownMenuItem'' [On ''click'' LogoutClicked] [Text ''Log Out'']])])]"

section \<open>Theme (theme-provider.tsx, mode-toggle.tsx)\<close>

text \<open>
  What the theme is kept in: the state of the provider, the browser's storage under the key \<open>ui-theme\<close>, and the
  classes of the document's root. A stored text counts as a theme unchecked.
\<close>

record ThemeState =
  theme :: string
  stored :: "string option"
  rootClasses :: "string list"

definition ThemeProvider_initial :: "string \<Rightarrow> string option \<Rightarrow> string list \<Rightarrow> ThemeState" where
  "ThemeProvider_initial defaultTheme kept classes =
     \<lparr>theme = (case kept of Some t \<Rightarrow> t | None \<Rightarrow> defaultTheme), stored = kept, rootClasses = classes\<rparr>"

text \<open>\<open>classList.add\<close>: a token that is empty or has white space is refused, and one that is there already is kept.\<close>

definition classList_add :: "string \<Rightarrow> string list \<Rightarrow> js_error + string list" where
  "classList_add token classes =
     (if token = [] then Inl (LibraryError ''SyntaxError'')
      else if \<exists>c \<in> set token. is_space c then Inl (LibraryError ''InvalidCharacterError'')
      else Inr (if token \<in> set classes then classes else classes @ [token]))"

definition ThemeProvider_effect :: "bool \<Rightarrow> ThemeState \<Rightarrow> ThemeState \<times> (js_error + unit)" where
  "ThemeProvider_effect prefersDark st =
     (let cleared = filter (\<lambda>c. c \<noteq> ''light'' \<and> c \<noteq> ''dark'') (rootClasses st);
          token = (if theme st = ''system'' then (if prefersDark then ''dark'' else ''light'') else theme st)
      in case classList_add token cleared of
           Inl err \<Rightarrow> (st\<lparr>rootClasses := cleared\<rparr>, Inl err)
         | Inr classes \<Rightarrow> (st\<lparr>rootClasses := classes\<rparr>, Inr ()))"

text \<open>\<open>setTheme\<close>: the browser may refuse to store the choice, and then it is not taken. The effect runs when the theme changes.\<close>

definition ThemeProvider_setTheme ::
    "(string \<Rightarrow> js_error + unit) \<Rightarrow> bool \<Rightarrow> string \<Rightarrow> ThemeState \<Rightarrow> ThemeState \<times> (js_error + unit)" where
  "ThemeProvider_setTheme setItem prefersDark t st =
     (case setItem t of
        Inl err \<Rightarrow> (st, Inl err)
      | Inr _ \<Rightarrow>
          (let st' = st\<lparr>stored := Some t, theme := t\<rparr>
           in if t = theme st then (st', Inr ()) else ThemeProvider_effect prefersDark st'))"

definition ModeToggle :: "LayoutEvent view" where
  "ModeToggle =
     Elem ''DropdownMenu'' []
       [Elem ''DropdownMenuContent'' []
         [Elem ''DropdownMenuItem'' [On ''click'' (ThemeChosen ''light'')] [Text ''Light''],
          Elem ''DropdownMenuItem'' [On ''click'' (ThemeChosen ''dark'')] [Text ''Dark''],
          Elem ''DropdownMenuItem'' [On ''click'' (ThemeChosen ''system'')] [Text ''System'']]]"


section \<open>Sidebar (sidebar.tsx, use-mobile.ts)\<close>

text \<open>The width of the window, from the time the effect has read it.\<close>

definition useIsMobile :: "nat option \<Rightarrow> bool" where
  "useIsMobile innerWidth = (case innerWidth of Some w \<Rightarrow> w < 768 | None \<Rightarrow> False)"

text \<open>
  The provider's props: an owner may control the sidebar through \<open>open\<close> and \<open>onOpenChange\<close>, whose calls are kept. The
  cookie is the last that was written.
\<close>

record SidebarProps =
  defaultOpen :: bool
  openProp :: "bool option"
  hasOnOpenChange :: bool

record SidebarState =
  internalOpen :: bool
  openMobile :: bool
  reportedOpen :: "bool list"
  sidebarCookie :: "string option"

definition SidebarProvider_initial :: "SidebarProps \<Rightarrow> SidebarState" where
  "SidebarProvider_initial props =
     \<lparr>internalOpen = defaultOpen props, openMobile = False, reportedOpen = [], sidebarCookie = None\<rparr>"

definition sidebar_open :: "SidebarProps \<Rightarrow> SidebarState \<Rightarrow> bool" where
  "sidebar_open props st = (case openProp props of Some b \<Rightarrow> b | None \<Rightarrow> internalOpen st)"

definition sidebar_setOpen :: "SidebarProps \<Rightarrow> (bool \<Rightarrow> bool) \<Rightarrow> SidebarState \<Rightarrow> SidebarState" where
  "sidebar_setOpen props f st =
     (let openState = f (sidebar_open props st);
          st' = (if hasOnOpenChange props then st\<lparr>reportedOpen := reportedOpen st @ [openState]\<rparr>
                 else st\<lparr>internalOpen := openState\<rparr>)
      in st'\<lparr>sidebarCookie := Some (''sidebar_state='' @ (if openState then ''true'' else ''false'') @
           ''; path=/; max-age='' @ decimal (60 * 60 * 24 * 7))\<rparr>)"

definition toggleSidebar :: "SidebarProps \<Rightarrow> bool \<Rightarrow> SidebarState \<Rightarrow> SidebarState" where
  "toggleSidebar props isMobile st =
     (if isMobile then st\<lparr>openMobile := \<not> openMobile st\<rparr> else sidebar_setOpen props Not st)"

definition sidebar_handleKeyDown :: "SidebarProps \<Rightarrow> bool \<Rightarrow> string \<Rightarrow> bool \<Rightarrow> bool \<Rightarrow> SidebarState \<Rightarrow> SidebarState" where
  "sidebar_handleKeyDown props isMobile key metaKey ctrlKey st =
     (if key = ''b'' \<and> (metaKey \<or> ctrlKey) then toggleSidebar props isMobile st else st)"

definition sidebar_state :: "SidebarProps \<Rightarrow> SidebarState \<Rightarrow> string" where
  "sidebar_state props st = (if sidebar_open props st then ''expanded'' else ''collapsed'')"

definition Sidebar :: "SidebarProps \<Rightarrow> bool \<Rightarrow> SidebarState \<Rightarrow> string \<Rightarrow> 'ev view list \<Rightarrow> 'ev view" where
  "Sidebar props isMobile st collapsible children =
     (if collapsible = ''none'' then Elem ''div'' [] children
      else if isMobile then
        Elem ''Sheet'' [Flag ''open'' (openMobile st)]
          [Elem ''SheetContent'' []
            [Elem ''SheetHeader'' []
              [Elem ''SheetTitle'' [] [Text ''Sidebar''],
               Elem ''SheetDescription'' [] [Text ''Displays the mobile sidebar.'']],
             Elem ''div'' [] children]]
      else
        Elem ''div''
          [Attr ''data-state'' (sidebar_state props st),
           Attr ''data-collapsible'' (if sidebar_state props st = ''collapsed'' then collapsible else [])]
          [Elem ''div'' [] [], Elem ''div'' [] [Elem ''div'' [] children]])"

definition SidebarTrigger :: "LayoutEvent view" where
  "SidebarTrigger = Elem ''Button'' [On ''click'' ToggleSidebarClicked] [Elem ''span'' [] [Text ''Toggle Sidebar'']]"

definition SidebarRail :: "LayoutEvent view" where
  "SidebarRail = Elem ''button'' [On ''click'' ToggleSidebarClicked] []"

definition SidebarMenuButton ::
    "SidebarProps \<Rightarrow> bool \<Rightarrow> SidebarState \<Rightarrow> string option \<Rightarrow> 'ev attr list \<Rightarrow> 'ev view list \<Rightarrow> 'ev view" where
  "SidebarMenuButton props isMobile st tooltip as children =
     (let comp = Elem ''SidebarMenuButton'' as children in
      case tooltip of
        None \<Rightarrow> comp
      | Some t \<Rightarrow>
          if t = [] then comp
          else Elem ''Tooltip'' []
            [comp, Elem ''TooltipContent'' [Flag ''hidden'' (sidebar_state props st \<noteq> ''collapsed'' \<or> isMobile)] [Text t]])"

section \<open>The frame (app-sidebar.tsx, header.tsx, default-layout.tsx)\<close>

definition staticNavItems :: "(string \<times> string) list" where
  "staticNavItems = [(''/dashboard'', ''Dashboard''), (''/billing'', ''Billing'')]"

definition app_props :: SidebarProps where
  "app_props = \<lparr>defaultOpen = True, openProp = None, hasOnOpenChange = False\<rparr>"

definition nav_item :: "bool \<Rightarrow> SidebarState \<Rightarrow> string \<Rightarrow> string \<Rightarrow> 'ev view" where
  "nav_item isMobile st path label =
     Elem ''SidebarMenuItem'' []
       [SidebarMenuButton app_props isMobile st (Some label) [Attr ''to'' path] [Elem ''span'' [] [Text label]]]"

definition AppSidebar :: "bool \<Rightarrow> SidebarState \<Rightarrow> string option \<Rightarrow> AppSlice \<Rightarrow> 'ev view" where
  "AppSidebar isMobile st projectIdParam s =
     (let activeOrgId = map_option Project_orgId (activeProject projectIdParam s) in
      Sidebar app_props isMobile st ''icon''
        [Elem ''SidebarHeader'' [] (ProjectSelector isMobile projectIdParam s),
         Elem ''SidebarContent'' []
          [Elem ''SidebarMenu'' []
            (map (\<lambda>(path, label). nav_item isMobile st path label) staticNavItems @
             (case activeProjectId projectIdParam s of
                Some i \<Rightarrow> given (i \<noteq> []) [nav_item isMobile st (''/projects/'' @ i @ ''/proposals'') ''Proposals'']
              | None \<Rightarrow> []) @
             (case activeOrgId of
                Some i \<Rightarrow> given (i \<noteq> []) [nav_item isMobile st (''/organizations/'' @ i @ ''/teams'') ''Teams'']
              | None \<Rightarrow> []))],
         Elem ''SidebarFooter'' [] []])"

definition Header :: "'w env \<Rightarrow> string \<Rightarrow> string option \<Rightarrow> string option \<Rightarrow> AppSlice \<Rightarrow> LayoutEvent view" where
  "Header E network orgIdParam projectIdParam s =
     Elem ''header'' []
       ([menu_link ''NavLink'' ''/'' [Elem ''Logo'' [] []]] @
        (case ENVIRONMENT_BANNER network of Some label \<Rightarrow> [Elem ''span'' [] [Text label]] | None \<Rightarrow> []) @
        (if isAuthenticated s \<and> selectIsActive s then OrgSwitcher orgIdParam projectIdParam s else []) @
        [Elem ''NavigationMenuList'' []
          ([Elem ''a''
              [Attr ''href'' ''https://docs.google.com/document/d/1CRA_jWHF2rwCXqWUaarbZJE7UF5YHOFbzkuAgRciIXU/edit?usp=sharing'']
              [Text ''Developer Guide''],
            ModeToggle] @
           given (isAuthenticated s) [HeaderMenu E s])])"

definition DefaultLayout ::
    "'w env \<Rightarrow> string \<Rightarrow> bool \<Rightarrow> SidebarState \<Rightarrow> string option \<Rightarrow> string option \<Rightarrow> AppSlice \<Rightarrow> LayoutEvent view \<Rightarrow>
     LayoutEvent view" where
  "DefaultLayout E network isMobile st orgIdParam projectIdParam s outlet =
     (if initializing s then
        Elem ''Fragment'' [] [Elem ''Toaster'' [] [], Elem ''LoadingSpinner'' [Attr ''message'' ''Initializing...''] []]
      else
        Elem ''Fragment'' []
          [Elem ''Toaster'' [] [],
           Elem ''div'' []
            [Header E network orgIdParam projectIdParam s,
             Elem ''div'' []
              (if isAuthenticated s \<and> selectIsActive s then
                 [AppSidebar isMobile st projectIdParam s, Elem ''SidebarInset'' [] [outlet]]
               else [outlet])]])"

text \<open>What a route's element shows of its guard: where it sends the user, and otherwise the page inside it.\<close>

definition ProtectedRoute :: "AppSlice \<Rightarrow> string \<Rightarrow> 'ev view \<Rightarrow> string option \<times> 'ev view" where
  "ProtectedRoute s pathname outlet = (useRequireAuth s pathname, outlet)"

definition AdminRoute :: "AppSlice \<Rightarrow> string \<Rightarrow> 'ev view \<Rightarrow> string option \<times> 'ev view" where
  "AdminRoute s pathname outlet = (useRequireAdminAuth s pathname, outlet)"

definition ProjectLayout :: "'ev view \<Rightarrow> 'ev view" where
  "ProjectLayout outlet = Elem ''Container'' [] [outlet]"


section \<open>A failed start\<close>

text \<open>
  C40: If the client of the identity provider cannot be created, the application is not told and the user is not
  told: nothing but the flag of the authentication changes, no message is shown, and the frame shows the spinner it
  has shown since it was opened, whatever the route.
\<close>

theorem startup_failure_silent:
  assumes "AuthClient_create E w = (w', Inl msg)" and "initializing s"
  shows "run (App_effect E es) s w = (Inr (), s\<lparr>isAuthInitialized := True\<rparr>, w') \<and>
    DefaultLayout E network isMobile st orgIdParam projectIdParam (s\<lparr>isAuthInitialized := True\<rparr>) outlet =
      Elem ''Fragment'' [] [Elem ''Toaster'' [] [], Elem ''LoadingSpinner'' [Attr ''message'' ''Initializing...''] []]"
  using assms by (simp_all add: App_effect_def initializeAuth_def run_simps DefaultLayout_def initializing_def)

section \<open>The theme\<close>

definition shown_theme :: "bool \<Rightarrow> string \<Rightarrow> string" where
  "shown_theme prefersDark t = (if t = ''system'' then (if prefersDark then ''dark'' else ''light'') else t)"

definition theme_shown :: "bool \<Rightarrow> ThemeState \<Rightarrow> bool" where
  "theme_shown prefersDark st \<longleftrightarrow>
     filter (\<lambda>c. c = ''light'' \<or> c = ''dark'') (rootClasses st) = [shown_theme prefersDark (theme st)]"

lemma themes_are_tokens [simp]: "\<not> is_space (CHR ''l'')" "\<not> is_space (CHR ''i'')" "\<not> is_space (CHR ''g'')"
  "\<not> is_space (CHR ''h'')" "\<not> is_space (CHR ''t'')" "\<not> is_space (CHR ''d'')" "\<not> is_space (CHR ''a'')"
  "\<not> is_space (CHR ''r'')" "\<not> is_space (CHR ''k'')"
  by (simp_all add: is_space_def)

definition themes :: "string set" where
  "themes = {''light'', ''dark'', ''system''}"

lemma classList_add_theme:
  assumes "theme st \<in> themes"
  shows "classList_add (shown_theme prefersDark (theme st)) (filter (\<lambda>c. c \<noteq> ''light'' \<and> c \<noteq> ''dark'') cs) =
    Inr (filter (\<lambda>c. c \<noteq> ''light'' \<and> c \<noteq> ''dark'') cs @ [shown_theme prefersDark (theme st)])"
  using assms by (auto simp: themes_def shown_theme_def classList_add_def)

lemma ThemeProvider_effect_theme:
  assumes "theme st \<in> themes"
  shows "ThemeProvider_effect prefersDark st =
    (st\<lparr>rootClasses := filter (\<lambda>c. c \<noteq> ''light'' \<and> c \<noteq> ''dark'') (rootClasses st) @ [shown_theme prefersDark (theme st)]\<rparr>, Inr ())"
  using classList_add_theme [OF assms] by (simp add: ThemeProvider_effect_def shown_theme_def Let_def)

lemma light_dark_exclusive: "filter (\<lambda>c. c \<noteq> ''light'' \<and> c \<noteq> ''dark'' \<and> (c = ''light'' \<or> c = ''dark'')) cs = []"
  by (induction cs) auto

lemma shown_theme_light_dark:
  "t \<in> themes \<Longrightarrow> shown_theme prefersDark t = ''light'' \<or> shown_theme prefersDark t = ''dark''"
  by (auto simp: themes_def shown_theme_def)

lemma effect_shows:
  assumes "theme st \<in> themes"
  shows "theme_shown prefersDark (fst (ThemeProvider_effect prefersDark st))"
  using shown_theme_light_dark [OF assms]
  by (auto simp: ThemeProvider_effect_theme [OF assms] theme_shown_def light_dark_exclusive)

text \<open>What the toggle offers, and a session: the page is opened, and then the user makes choices.\<close>

lemma ModeToggle_offers: "enabled ModeToggle = map ThemeChosen [''light'', ''dark'', ''system'']"
  by (simp add: ModeToggle_def disabled_def)

definition theme_session ::
    "(string \<Rightarrow> js_error + unit) \<Rightarrow> bool \<Rightarrow> string option \<Rightarrow> string list \<Rightarrow> string list \<Rightarrow> ThemeState" where
  "theme_session setItem prefersDark kept classes choices =
     foldl (\<lambda>st t. fst (ThemeProvider_setTheme setItem prefersDark t st))
       (fst (ThemeProvider_effect prefersDark (ThemeProvider_initial ''system'' kept classes))) choices"

text \<open>
  Whatever choices are made at the toggle after the page was opened, also where the browser refuses to store
  some, the root has exactly one of the classes \<open>light\<close> and \<open>dark\<close>, that of the theme, the other classes are as they
  were, and a page that is opened anew starts with the theme this one has.
\<close>

theorem theme_kept:
  fixes setItem :: "string \<Rightarrow> js_error + unit" and prefersDark :: bool and classes :: "string list"
  assumes "kept = None \<or> the kept \<in> themes" and "map ThemeChosen choices \<in> lists (set (enabled ModeToggle))"
  defines "st \<equiv> theme_session setItem prefersDark kept classes choices"
  shows "theme_shown prefersDark st \<and>
    filter (\<lambda>c. c \<noteq> ''light'' \<and> c \<noteq> ''dark'') (rootClasses st) = filter (\<lambda>c. c \<noteq> ''light'' \<and> c \<noteq> ''dark'') classes \<and>
    theme (ThemeProvider_initial ''system'' (stored st) []) = theme st"
proof -
  let ?other = "filter (\<lambda>c. c \<noteq> ''light'' \<and> c \<noteq> ''dark'')"
  define good where "good st \<longleftrightarrow> theme st \<in> themes \<and> theme_shown prefersDark st \<and> ?other (rootClasses st) = ?other classes \<and>
      (case stored st of Some t \<Rightarrow> t | None \<Rightarrow> ''system'') = theme st" for st
  have effect: "good (fst (ThemeProvider_effect prefersDark u))"
    if "theme u \<in> themes" "?other (rootClasses u) = ?other classes" "(case stored u of Some t \<Rightarrow> t | None \<Rightarrow> ''system'') = theme u" for u
    using that effect_shows [OF that(1), of prefersDark] shown_theme_light_dark [OF that(1), of prefersDark]
    by (auto simp: good_def ThemeProvider_effect_theme [OF that(1)])
  have "good (foldl (\<lambda>st t. fst (ThemeProvider_setTheme setItem prefersDark t st)) u ts)"
    if "good u" "set ts \<subseteq> themes" for u ts
    using that
  proof (induction ts arbitrary: u)
    case (Cons t ts)
    then have "good (fst (ThemeProvider_setTheme setItem prefersDark t u))"
      using effect [of "u\<lparr>stored := Some t, theme := t\<rparr>"]
      by (auto simp: ThemeProvider_setTheme_def good_def theme_shown_def Let_def split: sum.split)
    with Cons show ?case by simp
  qed simp
  moreover have "good (fst (ThemeProvider_effect prefersDark (ThemeProvider_initial ''system'' kept classes)))"
    using assms(1) by (cases kept; intro effect) (auto simp: ThemeProvider_initial_def themes_def)
  moreover have "set choices \<subseteq> themes"
    using assms(2) by (auto simp: ModeToggle_offers themes_def)
  ultimately have "good st" by (simp add: st_def theme_session_def)
  then show ?thesis
    by (auto simp: good_def ThemeProvider_initial_def)
qed

theorem theme_kept_witness:
  "theme_shown True (theme_session (\<lambda>_. Inr ()) True None [''antialiased''] [''light'', ''system''])"
  by (rule theme_kept [THEN conjunct1]) (simp_all add: ModeToggle_offers)

theorem startup_failure_silent_witness:
  "let E = offline\<lparr>AuthClient_create := \<lambda>w. (w, Inl ''IndexedDB is not available'')\<rparr> in
   run (App_effect E []) initialState 0 = (Inr (), initialState\<lparr>isAuthInitialized := True\<rparr>, 0)"
  using startup_failure_silent [of "offline\<lparr>AuthClient_create := \<lambda>w. (w, Inl ''IndexedDB is not available'')\<rparr>" 0 0
      "''IndexedDB is not available''" initialState "[]"]
  by (simp add: initializing_def initialState_def)


section \<open>Every link leads to a page\<close>

text \<open>Where the links of a view lead.\<close>

fun attr_links :: "'ev attr \<Rightarrow> string list" where
  "attr_links (Attr k v) = (if k = ''to'' then [v] else [])"
| "attr_links _ = []"

fun links :: "'ev view \<Rightarrow> string list" where
  "links (Text s) = []"
| "links (Elem k as vs) = concat (map attr_links as) @ concat (map links vs)"

text \<open>An id that can stand in a path, and what it becomes there.\<close>

definition segment :: "string \<Rightarrow> bool" where
  "segment i \<longleftrightarrow> i \<noteq> [] \<and> CHR ''/'' \<notin> set i"

lemma cut_segment: "CHR ''/'' \<notin> set a \<Longrightarrow> cut a = [a]"
  by (induction a) auto

lemma cut_append: "CHR ''/'' \<notin> set a \<Longrightarrow> cut (a @ CHR ''/'' # b) = a # cut b"
  by (induction a) auto

lemma projects_path:
  assumes "segment i"
  shows "segments (''/projects/'' @ i @ ''/canisters'') = [''projects'', i, ''canisters'']"
    and "segments (''/projects/'' @ i @ ''/proposals'') = [''projects'', i, ''proposals'']"
  using assms by (simp_all add: segments_def segment_def cut_append)

lemma organizations_path:
  assumes "segment i"
  shows "segments (''/organizations/'' @ i @ ''/settings'') = [''organizations'', i, ''settings'']"
    and "segments (''/organizations/'' @ i @ ''/teams'') = [''organizations'', i, ''teams'']"
    and "segments (''/organizations/'' @ i @ ''/projects/new'') = [''organizations'', i, ''projects'', ''new'']"
    and "segment j \<Longrightarrow> segments (''/organizations/'' @ i @ ''/projects/'' @ j @ ''/settings'') =
      [''organizations'', i, ''projects'', j, ''settings'']"
  using assms by (simp_all add: segments_def segment_def cut_append)

text \<open>A page and its parameters, by the last of its elements.\<close>

definition leads :: "string \<Rightarrow> string \<Rightarrow> (string \<times> string) list \<Rightarrow> bool" where
  "leads path element params \<longleftrightarrow> (\<exists>elements. route_shows path elements params \<and> last elements = element)"

lemma leadsI:
  "segments path = segs \<Longrightarrow> list_ex (\<lambda>(pat, elements). match pat segs = Some params \<and> last elements = element) routes \<Longrightarrow>
     leads path element params"
  by (auto simp: leads_def route_shows_def list_ex_iff)

lemma leads_static:
  shows "leads ''/'' ''Home'' []" and "leads ''/terms-and-conditions'' ''TermsAndConditions'' []"
    and "leads ''/dashboard'' ''Dashboard'' []" and "leads ''/billing'' ''Billing'' []"
    and "leads ''/organizations/new'' ''CreateOrganization'' []" and "leads ''/invitations'' ''MyInvitations'' []"
    and "leads ''/account/identities'' ''LinkedIdentities'' []" and "leads ''/admin'' ''OverviewTab'' []"
  by (rule leadsI, simp add: segments_def, simp add: routes_table lower_words)+

lemma leads_project:
  assumes "segment i"
  shows "leads (''/projects/'' @ i @ ''/canisters'') ''Canisters'' [(''projectId'', i)]"
    and "leads (''/projects/'' @ i @ ''/proposals'') ''ProposalList'' [(''projectId'', i)]"
  by (rule leadsI [OF projects_path(1) [OF assms]], use assms in \<open>simp add: routes_table lower_words segment_def\<close>)
    (rule leadsI [OF projects_path(2) [OF assms]], use assms in \<open>simp add: routes_table lower_words segment_def\<close>)

lemma leads_organization:
  assumes "segment i"
  shows "leads (''/organizations/'' @ i @ ''/settings'') ''OrganizationSettings'' [(''orgId'', i)]"
    and "leads (''/organizations/'' @ i @ ''/teams'') ''TeamList'' [(''orgId'', i)]"
    and "leads (''/organizations/'' @ i @ ''/projects/new'') ''CreateProject'' [(''orgId'', i)]"
    and "segment j \<Longrightarrow> leads (''/organizations/'' @ i @ ''/projects/'' @ j @ ''/settings'') ''ProjectSettings'' [(''orgId'', i), (''projectId'', j)]"
proof -
  note simps = routes_table lower_words segment_def
  show "leads (''/organizations/'' @ i @ ''/settings'') ''OrganizationSettings'' [(''orgId'', i)]"
    by (rule leadsI [OF organizations_path(1) [OF assms]]) (use assms in \<open>simp add: simps\<close>)
  show "leads (''/organizations/'' @ i @ ''/teams'') ''TeamList'' [(''orgId'', i)]"
    by (rule leadsI [OF organizations_path(2) [OF assms]]) (use assms in \<open>simp add: simps\<close>)
  show "leads (''/organizations/'' @ i @ ''/projects/new'') ''CreateProject'' [(''orgId'', i)]"
    by (rule leadsI [OF organizations_path(3) [OF assms]]) (use assms in \<open>simp add: simps\<close>)
  show "leads (''/organizations/'' @ i @ ''/projects/'' @ j @ ''/settings'') ''ProjectSettings'' [(''orgId'', i), (''projectId'', j)]"
    if "segment j"
    by (rule leadsI [OF organizations_path(4) [OF assms that]]) (use assms that in \<open>simp add: simps\<close>)
qed

text \<open>The links of the parts of the frame.\<close>

lemma links_menu [simp]:
  "links (menu_link item path label) = path # concat (map links label)"
  "links (menu_choice isActive path name) = (if isActive then [] else [path])"
  "links (nav_item isMobile st path name) = [path]"
  by (simp_all add: menu_link_def menu_choice_def nav_item_def SidebarMenuButton_def Let_def)

lemma find_SomeD: "List.find P xs = Some x \<Longrightarrow> x \<in> set xs \<and> P x"
  by (induction xs) (auto split: if_splits)

lemma found_project:
  "activeProject projectIdParam s = Some p \<Longrightarrow> p \<in> set (projects s) \<and> activeProjectId projectIdParam s = Some (Project_id p)"
  by (auto simp: activeProject_def selectProjectMap_def index_by_lookup bind_eq_Some_conv dest: find_SomeD)

lemma found_organization:
  "js_map_get i (selectOrgMap s) = Some org \<Longrightarrow> org \<in> set (organizations s) \<and> Organization_id org = i"
  by (auto simp: selectOrgMap_def index_by_lookup dest: find_SomeD)

lemma found_group:
  assumes "org \<in> set (selectOrgsWithProjects s)"
  shows "\<exists>p \<in> set (projects s). first_project_text org = Project_id p \<and> Project_orgId p = OrgWithProjects_id org"
proof -
  from assms obtain k where org: "org = project_groups (selectOrgMap s) (projects s) k" and k: "k \<in> Project_orgId ` set (projects s)"
    by (auto simp: orgs_with_projects split: if_splits)
  let ?ps = "filter (\<lambda>p. Project_orgId p = k) (projects s)"
  from k have "?ps \<noteq> []" by (auto simp: filter_empty_conv)
  then obtain p ps where ps: "?ps = p # ps" by (cases ?ps) auto
  then have "p \<in> set ?ps" by simp
  then have "p \<in> set (projects s)" "Project_orgId p = k" by simp_all
  moreover have "first_project_text org = Project_id p" "OrgWithProjects_id org = k"
    using ps by (simp_all add: org project_groups_def first_project_text_def)
  ultimately show ?thesis by metis
qed

lemma group_projects:
  "org \<in> set (selectOrgsWithProjects s) \<Longrightarrow> set (OrgWithProjects_projects org) \<subseteq> set (projects s)"
  by (auto simp: orgs_with_projects project_groups_def split: if_splits)

definition canisters_link :: "AppSlice \<Rightarrow> string \<Rightarrow> bool" where
  "canisters_link s path \<longleftrightarrow> (\<exists>p \<in> set (projects s). path = ''/projects/'' @ Project_id p @ ''/canisters'')"

lemma links_OrgSwitcher:
  assumes "v \<in> set (OrgSwitcher orgIdParam projectIdParam s)" and "path \<in> set (links v)"
  shows "canisters_link s path \<or> path = ''/organizations/new'' \<or>
    (\<exists>org \<in> set (organizations s). path = ''/organizations/'' @ Organization_id org @ ''/settings'')"
proof -
  have active: "org \<in> set (organizations s)" if "switcher_organization orgIdParam projectIdParam s = Some org" for org
    using that found_organization by (auto simp: switcher_organization_def project_organization_def bind_eq_Some_conv split: option.splits)
  from assms consider
      org where "org \<in> set (selectOrgsWithProjects s)" "path = ''/projects/'' @ first_project_text org @ ''/canisters''"
    | "path = ''/organizations/new''"
    | org where "switcher_organization orgIdParam projectIdParam s = Some org"
        "path = ''/organizations/'' @ Organization_id org @ ''/settings''"
    by (auto simp: OrgSwitcher_def Let_def split: if_splits option.splits)
  then show ?thesis
  proof cases
    case 1
    with found_group show ?thesis by (fastforce simp: canisters_link_def)
  next
    case 3
    with active show ?thesis by blast
  qed simp
qed

lemma links_ProjectSelector:
  assumes "v \<in> set (ProjectSelector isMobile projectIdParam s)" and "path \<in> set (links v)"
  shows "canisters_link s path \<or>
    (\<exists>org \<in> set (organizations s). path = ''/organizations/'' @ Organization_id org @ ''/projects/new'' \<or>
      (\<exists>p \<in> set (projects s). path = ''/organizations/'' @ Organization_id org @ ''/projects/'' @ Project_id p @ ''/settings''))"
proof -
  from assms obtain p org where p: "activeProject projectIdParam s = Some p" and org: "project_organization s (Some p) = Some org"
    by (cases "activeProject projectIdParam s"; cases "project_organization s (activeProject projectIdParam s)")
      (simp_all add: ProjectSelector_def)
  have in_p: "p \<in> set (projects s)" and in_org: "org \<in> set (organizations s)"
    using found_project [OF p] found_organization org by (auto simp: project_organization_def)
  have all: "q \<in> set (projects s)" if "q \<in> set (activeOrgProjects s org)" for q
  proof (cases "List.find (\<lambda>o'. OrgWithProjects_id o' = Organization_id org) (selectOrgsWithProjects s)")
    case (Some g)
    with find_SomeD [OF Some] group_projects that show ?thesis by (auto simp: activeOrgProjects_def)
  qed (use that in \<open>simp add: activeOrgProjects_def\<close>)
  from assms p org consider "path = ''/projects/'' @ Project_id p @ ''/canisters''"
    | q where "q \<in> set (activeOrgProjects s org)" "path = ''/projects/'' @ Project_id q @ ''/canisters''"
    | "path = ''/organizations/'' @ Organization_id org @ ''/projects/new''"
    | "path = ''/organizations/'' @ Organization_id org @ ''/projects/'' @ Project_id p @ ''/settings''"
    by (auto simp: ProjectSelector_def given_def split: if_splits)
  then show ?thesis
    using in_p in_org all by cases (auto simp: canisters_link_def)
qed


lemma links_HeaderMenu:
  "path \<in> set (links (HeaderMenu E s)) \<Longrightarrow>
     path \<in> {''/admin'', ''/invitations'', ''/account/identities'', ''/terms-and-conditions''}"
  by (auto simp: HeaderMenu_def given_def split: option.splits if_splits)

lemma links_Header:
  assumes "path \<in> set (links (Header E network orgIdParam projectIdParam s))"
  shows "path = ''/'' \<or> path \<in> set (links (HeaderMenu E s)) \<or>
    (\<exists>v \<in> set (OrgSwitcher orgIdParam projectIdParam s :: LayoutEvent view list). path \<in> set (links v))"
  using assms by (auto simp: Header_def ModeToggle_def given_def split: option.splits if_splits)

lemma links_Sidebar: "set (links (Sidebar props isMobile st ''icon'' children)) = (\<Union>v \<in> set children. set (links v))"
  by (auto simp: Sidebar_def)

lemma links_AppSidebar:
  assumes "path \<in> set (links (AppSidebar isMobile st projectIdParam s :: LayoutEvent view))"
  shows "path = ''/dashboard'' \<or> path = ''/billing'' \<or>
    (\<exists>v \<in> set (ProjectSelector isMobile projectIdParam s :: LayoutEvent view list). path \<in> set (links v)) \<or>
    (\<exists>i. activeProjectId projectIdParam s = Some i \<and> path = ''/projects/'' @ i @ ''/proposals'') \<or>
    (\<exists>p \<in> set (projects s). path = ''/organizations/'' @ Project_orgId p @ ''/teams'')"
  using assms found_project
  by (auto simp: AppSidebar_def links_Sidebar staticNavItems_def given_def Let_def split: option.splits if_splits)

text \<open>What the router can know of a parameter of a link: it is the id of something the store holds, or that of the path one is at.\<close>

definition known_param :: "string option \<Rightarrow> AppSlice \<Rightarrow> string \<times> string \<Rightarrow> bool" where
  "known_param projectIdParam s kv \<longleftrightarrow>
     (case kv of (k, v) \<Rightarrow>
        k = ''projectId'' \<and> (v \<in> Project_id ` set (projects s) \<or> projectIdParam = Some v) \<or>
        k = ''orgId'' \<and> (v \<in> Organization_id ` set (organizations s) \<or> v \<in> Project_orgId ` set (projects s)))"

definition layout_pages :: "string set" where
  "layout_pages =
     {''Home'', ''TermsAndConditions'', ''Dashboard'', ''Billing'', ''CreateOrganization'', ''MyInvitations'',
      ''LinkedIdentities'', ''OverviewTab'', ''Canisters'', ''ProposalList'', ''OrganizationSettings'', ''TeamList'',
      ''CreateProject'', ''ProjectSettings''}"

text \<open>
  C35: Every link the frame shows, in the header, its menus and the sidebar, in whatever state and on whatever route,
  leads to a page of the router, and the parameters of the page are ids of projects and organizations of the store, or
  the id of the project one is at; provided that ids are not empty and have no slash.
\<close>

theorem layout_links_lead:
  assumes ids: "\<forall>p \<in> set (projects s). segment (Project_id p) \<and> segment (Project_orgId p)"
      "\<forall>org \<in> set (organizations s). segment (Organization_id org)" "\<forall>i. projectIdParam = Some i \<longrightarrow> segment i"
    and link: "path \<in> set (links (DefaultLayout E network isMobile st orgIdParam projectIdParam s (Elem ''Outlet'' [] [])))"
  shows "\<exists>element \<in> layout_pages. \<exists>params. leads path element params \<and> (\<forall>kv \<in> set params. known_param projectIdParam s kv)"
proof -
  define good where "good path \<longleftrightarrow> (\<exists>element \<in> layout_pages. \<exists>params. leads path element params \<and>
    (\<forall>kv \<in> set params. known_param projectIdParam s kv))" for path
  have goodI: "leads path element params \<Longrightarrow> element \<in> layout_pages \<Longrightarrow>
      (\<forall>kv \<in> set params. known_param projectIdParam s kv) \<Longrightarrow> good path" for path element params
    unfolding good_def by blast
  note page [simp] = layout_pages_def and known [simp] = known_param_def
  have statics: "good ''/''" "good ''/terms-and-conditions''" "good ''/dashboard''" "good ''/billing''"
      "good ''/organizations/new''" "good ''/invitations''" "good ''/account/identities''" "good ''/admin''"
    by (rule goodI, rule leads_static, simp, simp)+
  have canisters: "good path" if link: "canisters_link s path" for path
  proof -
    from link obtain p where p: "p \<in> set (projects s)" "path = ''/projects/'' @ Project_id p @ ''/canisters''"
      by (auto simp: canisters_link_def)
    with ids(1) have "segment (Project_id p)" by blast
    from leads_project(1) [OF this] show ?thesis unfolding p(2) by (rule goodI) (use p(1) in simp_all)
  qed
  have proposals: "good (''/projects/'' @ i @ ''/proposals'')" if i: "activeProjectId projectIdParam s = Some i" for i
  proof -
    have "segment i \<and> (i \<in> Project_id ` set (projects s) \<or> projectIdParam = Some i)"
      using i ids by (auto simp: activeProjectId_def defaultProjectId_def split: option.splits list.splits)
    then show ?thesis by (intro goodI [OF leads_project(2)]) simp_all
  qed
  have organization: "good (''/organizations/'' @ Organization_id org @ ''/settings'')"
      "good (''/organizations/'' @ Organization_id org @ ''/projects/new'')"
      "p \<in> set (projects s) \<Longrightarrow> good (''/organizations/'' @ Organization_id org @ ''/projects/'' @ Project_id p @ ''/settings'')"
    if org: "org \<in> set (organizations s)" for org p
  proof -
    have i: "segment (Organization_id org)" using org ids(2) by blast
    show "good (''/organizations/'' @ Organization_id org @ ''/settings'')"
      by (rule goodI [OF leads_organization(1) [OF i]]) (use org in simp_all)
    show "good (''/organizations/'' @ Organization_id org @ ''/projects/new'')"
      by (rule goodI [OF leads_organization(3) [OF i]]) (use org in simp_all)
    assume p: "p \<in> set (projects s)"
    with ids(1) have "segment (Project_id p)" by blast
    from leads_organization(4) [OF i this]
    show "good (''/organizations/'' @ Organization_id org @ ''/projects/'' @ Project_id p @ ''/settings'')"
      by (rule goodI) (use org p in simp_all)
  qed
  have teams: "good (''/organizations/'' @ Project_orgId p @ ''/teams'')" if p: "p \<in> set (projects s)" for p
  proof -
    from p ids(1) have "segment (Project_orgId p)" by blast
    from leads_organization(2) [OF this] show ?thesis by (rule goodI) (use p in simp_all)
  qed
  from link have "path \<in> set (links (Header E network orgIdParam projectIdParam s)) \<or>
      path \<in> set (links (AppSidebar isMobile st projectIdParam s :: LayoutEvent view))"
    by (auto simp: DefaultLayout_def split: if_splits)
  then have "good path"
  proof
    assume "path \<in> set (links (Header E network orgIdParam projectIdParam s))"
    from links_Header [OF this] show ?thesis
      using statics canisters organization by (elim disjE bexE) (auto dest!: links_HeaderMenu links_OrgSwitcher simp del: page known)
  next
    assume "path \<in> set (links (AppSidebar isMobile st projectIdParam s :: LayoutEvent view))"
    from links_AppSidebar [OF this] show ?thesis
      using statics canisters proposals teams organization by (elim disjE bexE exE) (auto dest!: links_ProjectSelector simp del: page known)
  qed
  then show ?thesis by (simp add: good_def)
qed

theorem layout_links_lead_witness:
  "\<exists>element \<in> layout_pages. \<exists>params. leads ''/invitations'' element params \<and>
     (\<forall>kv \<in> set params. known_param None user_session kv)"
proof -
  have active: "selectIsActive user_session" "isAuthenticated user_session" "\<not> initializing user_session"
    by (simp_all add: session_defs selectIsActive_def initializing_def)
  have link: "''/invitations'' \<in> set (links (DefaultLayout offline ''local'' False (SidebarProvider_initial app_props) None None
      user_session (Elem ''Outlet'' [] [])))"
    by (simp add: active DefaultLayout_def Header_def HeaderMenu_def)
  have empty: "projects user_session = []" "organizations user_session = []"
    by (simp_all add: session_defs)
  show ?thesis
    by (rule layout_links_lead [OF _ _ _ link]) (simp_all add: empty)
qed


section \<open>Two active organizations\<close>

text \<open>
  On a page of an organization that is not of a project, the header names the organization of the page, while the
  sidebar is that of the first project: it leads to the teams of the organization of that project, and not to those of
  the organization one is at.
\<close>

theorem sidebar_of_other_organization:
  assumes "js_map_get i (selectOrgMap s) = Some org" and "selectOrgsWithProjects s \<noteq> []"
    and "projects s = p # ps" and "Project_orgId p \<noteq> i" and "Project_orgId p \<noteq> []"
    and "distinct (map Project_id (projects s))"
  shows "Organization_name org \<in> set (concat (map (texts_of ''DropdownMenuTrigger'')
      (OrgSwitcher (Some i) None s :: LayoutEvent view list))) \<and>
    ''/organizations/'' @ Project_orgId p @ ''/teams'' \<in> set (links (AppSidebar isMobile st None s :: LayoutEvent view)) \<and>
    ''/organizations/'' @ i @ ''/teams'' \<notin> set (links (AppSidebar isMobile st None s :: LayoutEvent view))"
proof -
  have find: "List.find (\<lambda>x. Project_id x = Project_id p) (rev (projects s)) = Some p"
  proof (cases "List.find (\<lambda>x. Project_id x = Project_id p) (rev (projects s))")
    case None
    then show ?thesis using assms(3) by (auto simp: find_None_iff)
  next
    case (Some q)
    with find_SomeD [OF Some] assms(3,6) show ?thesis by (auto simp: image_iff)
  qed
  then have active: "activeProject None s = Some p"
    using assms(3) by (simp add: activeProject_def activeProjectId_def defaultProjectId_def selectProjectMap_def index_by_lookup)
  have selector: "''/organizations/'' @ i @ ''/teams'' \<notin> set (links v)"
    if "v \<in> set (ProjectSelector isMobile None s)" for v :: "LayoutEvent view"
  proof
    assume "''/organizations/'' @ i @ ''/teams'' \<in> set (links v)"
    from links_ProjectSelector [OF that this]
    show False by (auto simp: canisters_link_def dest: arg_cong [of _ _ rev] simp flip: append_assoc)
  qed
  have named: "Organization_name org \<in> set (concat (map (texts_of ''DropdownMenuTrigger'') (OrgSwitcher (Some i) None s :: LayoutEvent view list)))"
    using assms(1,2) by (simp add: OrgSwitcher_def Let_def switcher_organization_def)
  have sidebar: "set (links (AppSidebar isMobile st None s :: LayoutEvent view)) =
      (\<Union>v \<in> set (ProjectSelector isMobile None s :: LayoutEvent view list). set (links v)) \<union>
      {''/dashboard'', ''/billing'', ''/organizations/'' @ Project_orgId p @ ''/teams''} \<union>
      (if Project_id p = [] then {} else {''/projects/'' @ Project_id p @ ''/proposals''})"
    using active assms(3,5) by (auto simp: AppSidebar_def links_Sidebar staticNavItems_def activeProjectId_def
        defaultProjectId_def given_def)
  show ?thesis
    unfolding sidebar using named selector assms(4) by auto
qed

theorem sidebar_of_other_organization_witness:
  "let org = (\<lambda>i name. \<lparr>Organization_id = i, Organization_name = name, Organization_yourPermissions = emptyOrgPermissions\<rparr>);
       s = user_session\<lparr>organizations := [org ''o1'' ''One'', org ''o2'' ''Two''],
         projects := [\<lparr>Project_id = ''p1'', Project_orgId = ''o1'', Project_name = ''P'', Project_yourPermissions = emptyProjectPermissions\<rparr>]\<rparr>
   in ''/organizations/o1/teams'' \<in> set (links (AppSidebar False (SidebarProvider_initial app_props) None s :: LayoutEvent view))"
  (is "let org = ?org; s = ?s org in ?P s")
proof -
  have get: "js_map_get ''o2'' (selectOrgMap (?s ?org)) = Some (?org ''o2'' ''Two'')"
    by (simp add: selectOrgMap_def index_by_lookup)
  have "selectOrgsWithProjects (?s ?org) \<noteq> []"
    by (simp add: orgs_with_projects firsts_def)
  from sidebar_of_other_organization [OF get this, of _ "[]" False "SidebarProvider_initial app_props"]
  show ?thesis by (simp add: Let_def)
qed

section \<open>Who can open the sidebar\<close>

text \<open>What happens to the sidebar: a key, a click on a control of the frame, the dismissal of the sheet it is on a narrow screen.\<close>

datatype SidebarEvent = KeyDown string bool bool | Clicked LayoutEvent | SheetClosed

definition sidebar_handle :: "bool \<Rightarrow> SidebarState \<Rightarrow> SidebarEvent \<Rightarrow> SidebarState" where
  "sidebar_handle isMobile st ev =
     (case ev of
        KeyDown key metaKey ctrlKey \<Rightarrow> sidebar_handleKeyDown app_props isMobile key metaKey ctrlKey st
      | Clicked ToggleSidebarClicked \<Rightarrow> toggleSidebar app_props isMobile st
      | Clicked _ \<Rightarrow> st
      | SheetClosed \<Rightarrow> st\<lparr>openMobile := False\<rparr>)"

definition offered :: "bool \<Rightarrow> SidebarEvent \<Rightarrow> bool" where
  "offered isMobile ev \<longleftrightarrow>
     (case ev of
        Clicked e \<Rightarrow> (\<exists>(E :: nat env) network st orgIdParam projectIdParam s.
          e \<in> set (enabled (DefaultLayout E network isMobile st orgIdParam projectIdParam s (Elem ''Outlet'' [] []))))
      | _ \<Rightarrow> True)"

definition shortcut :: "SidebarEvent \<Rightarrow> bool" where
  "shortcut ev \<longleftrightarrow> (case ev of KeyDown key metaKey ctrlKey \<Rightarrow> key = ''b'' \<and> (metaKey \<or> ctrlKey) | _ \<Rightarrow> False)"

lemma enabled_menu [simp]:
  "enabled (menu_link item path label) = concat (map enabled label)"
  "enabled (menu_choice isActive path name) = []"
  "enabled (nav_item isMobile st path name) = []"
  by (simp_all add: menu_link_def menu_choice_def nav_item_def SidebarMenuButton_def disabled_def Let_def)

lemma enabled_selector [simp]:
  "v \<in> set (ProjectSelector isMobile projectIdParam s) \<Longrightarrow> enabled v = []"
  by (auto simp: ProjectSelector_def given_def split: option.splits if_splits)

lemma enabled_switcher [simp]:
  "v \<in> set (OrgSwitcher orgIdParam projectIdParam s) \<Longrightarrow> enabled v = []"
  by (auto simp: OrgSwitcher_def Let_def split: option.splits if_splits)

lemma enabled_AppSidebar [simp]: "enabled (AppSidebar isMobile st projectIdParam s) = []"
  by (auto simp: AppSidebar_def Sidebar_def staticNavItems_def given_def Let_def disabled_def split: option.splits)

lemma no_toggle_in_frame:
  "ToggleSidebarClicked \<notin> set (enabled (DefaultLayout E network isMobile st orgIdParam projectIdParam s (Elem ''Outlet'' [] [])))"
proof -
  have "enabled (HeaderMenu E s) =
      PrincipalClicked # (case menu_userId s of Some u \<Rightarrow> if u = [] then [] else [UserIdClicked] | None \<Rightarrow> []) @ [LogoutClicked]"
    by (cases "menu_userId s"; cases "menu_principal E s") (simp_all add: HeaderMenu_def given_def disabled_def)
  then have menu: "ToggleSidebarClicked \<notin> set (enabled (HeaderMenu E s))"
    by (simp split: option.split)
  then have "ToggleSidebarClicked \<notin> set (enabled (Header E network orgIdParam projectIdParam s))"
    by (auto simp: Header_def ModeToggle_def disabled_def given_def split: option.splits if_splits)
  then show ?thesis
    by (simp add: DefaultLayout_def disabled_def)
qed

text \<open>
  Nothing the frame shows opens or closes the sidebar: without the keyboard shortcut it stays as it was when the page
  was opened, expanded on a wide screen, and on a narrow screen a sheet that is closed, so that its links cannot be reached;
  and no cookie is written.
\<close>

theorem sidebar_needs_keyboard:
  assumes "\<forall>ev \<in> set evs. offered isMobile ev \<and> \<not> shortcut ev"
  shows "foldl (sidebar_handle isMobile) (SidebarProvider_initial app_props) evs = SidebarProvider_initial app_props"
  using assms
proof (induction evs)
  case (Cons ev evs)
  have "sidebar_handle isMobile (SidebarProvider_initial app_props) ev = SidebarProvider_initial app_props"
  proof (cases ev)
    case (KeyDown key metaKey ctrlKey)
    with Cons.prems show ?thesis by (auto simp: sidebar_handle_def shortcut_def sidebar_handleKeyDown_def)
  next
    case (Clicked e)
    with Cons.prems have "e \<noteq> ToggleSidebarClicked" by (auto simp: offered_def no_toggle_in_frame)
    with Clicked show ?thesis by (cases e) (simp_all add: sidebar_handle_def)
  next
    case SheetClosed
    then show ?thesis by (simp add: sidebar_handle_def SidebarProvider_initial_def)
  qed
  with Cons show ?case by simp
qed simp

theorem sidebar_needs_keyboard_witness:
  "foldl (sidebar_handle True) (SidebarProvider_initial app_props) [KeyDown ''b'' False False, SheetClosed] =
    SidebarProvider_initial app_props"
  by (rule sidebar_needs_keyboard) (simp add: offered_def shortcut_def)

section \<open>The administration\<close>

text \<open>
  Once the profile is known, the menu links to the administration exactly if the guard of the administration lets the
  user in, from wherever he comes.
\<close>

theorem admin_link_opens:
  assumes "isProfileInitialized s"
  shows "''/admin'' \<in> set (links (HeaderMenu E s)) \<longleftrightarrow> useRequireAdminAuth s ''/admin'' = None"
  using assms by (auto simp: HeaderMenu_def useRequireAdminAuth_def returnTo_def given_def split: option.splits)

theorem admin_link_opens_witness:
  "''/admin'' \<in> set (links (HeaderMenu offline admin_session)) \<longleftrightarrow> useRequireAdminAuth admin_session ''/admin'' = None"
  by (rule admin_link_opens) (simp add: session_defs)


end
