(* ===== verification/PocketIcServer.thy ===== *)
theory PocketIcServer
  imports JsBase ApiError "HOL-Library.Sublist"
begin

text \<open>
  The server the integration tests run their canisters on, \<open>src/test-utils/src/pocket-ic-server.ts\<close>: the pinned binary
  is taken from a cache directory or downloaded into it, started, and waited for until it reports its port. Several
  test suites may do so at once, and each may be killed at any point. What the host is asked for are parameters: the
  network, the hash, the decompression. The effects of a run on the file system are listed, so that what the disk holds
  can be stated for every interleaving of the runs of several processes, each cut off anywhere.
\<close>

section \<open>Downloading\<close>

text \<open>An answer to \<open>get\<close>: its status, its \<open>location\<close> header, and its body, which may fail on the way.\<close>

record Response =
  statusCode :: nat
  location :: "string option"
  body :: "string + string"

type_synonym 'w http_get = "string \<Rightarrow> 'w \<Rightarrow> 'w \<times> (string + Response)"

function download :: "'w http_get \<Rightarrow> string \<Rightarrow> nat \<Rightarrow> 'w \<Rightarrow> 'w \<times> (js_error + string)" where
  "download get url redirects w =
     (if redirects > 5 then (w, Inl (Error (''Too many redirects fetching '' @ url)))
      else
        case get url w of
          (w', Inl msg) \<Rightarrow> (w', Inl (LibraryError msg))
        | (w', Inr res) \<Rightarrow>
            (case location res of
               Some target \<Rightarrow>
                 if statusCode res \<ge> 300 \<and> statusCode res < 400 \<and> target \<noteq> [] then download get target (redirects + 1) w'
                 else if statusCode res \<noteq> 200 then (w', Inl (Error (''GET '' @ url @ '' returned '' @ decimal (statusCode res))))
                 else (w', case body res of Inl msg \<Rightarrow> Inl (LibraryError msg) | Inr b \<Rightarrow> Inr b)
             | None \<Rightarrow>
                 if statusCode res \<noteq> 200 then (w', Inl (Error (''GET '' @ url @ '' returned '' @ decimal (statusCode res))))
                 else (w', case body res of Inl msg \<Rightarrow> Inl (LibraryError msg) | Inr b \<Rightarrow> Inr b)))"
  by pat_completeness auto
termination by (relation "measure (\<lambda>(_, _, redirects, _). 6 - redirects)") auto

declare download.simps [simp del]

section \<open>The binary in the cache\<close>

definition SERVER_VERSION :: string where
  "SERVER_VERSION = ''14.0.0''"

record Asset =
  asset :: string
  sha256 :: string

definition ASSETS :: "string \<Rightarrow> Asset option" where
  "ASSETS = map_of
     [(''darwin-arm64'', \<lparr>asset = ''pocket-ic-arm64-darwin.gz'',
         sha256 = ''bf9b05bfc663856d9b5e02ed72792c34d66b85be048cb12bb286a9e842744628''\<rparr>),
      (''linux-arm64'', \<lparr>asset = ''pocket-ic-arm64-linux.gz'',
         sha256 = ''60624a206ab5132a17550c901472d1462eac1fd9c735b756222be676ba707760''\<rparr>),
      (''darwin-x64'', \<lparr>asset = ''pocket-ic-x86_64-darwin.gz'',
         sha256 = ''9b0b8cc8196934aa2b87aa912567ba5cc8e92ece39b10f52983c963b8e259d4c''\<rparr>),
      (''linux-x64'', \<lparr>asset = ''pocket-ic-x86_64-linux.gz'',
         sha256 = ''292c0b7fb7066c19de57bb731281f664f6af1ece0ef1462274000075b0ae8a2b''\<rparr>)]"

text \<open>
  What a process does to the file system: a stream that is opened makes an empty file, each chunk is appended, and a
  renamed file takes the place of the one it is renamed to.
\<close>

datatype FsOp =
    Mkdir string
  | Open string
  | Append string string
  | Chmod string
  | Rename string string

type_synonym files = "string \<rightharpoonup> string"

fun fs_apply :: "FsOp \<Rightarrow> files \<Rightarrow> files" where
  "fs_apply (Mkdir d) fs = fs"
| "fs_apply (Open p) fs = fs(p \<mapsto> [])"
| "fs_apply (Append p chunk) fs = (case fs p of Some c \<Rightarrow> fs(p \<mapsto> c @ chunk) | None \<Rightarrow> fs)"
| "fs_apply (Chmod p) fs = fs"
| "fs_apply (Rename p q) fs = (case fs p of Some c \<Rightarrow> (fs(q \<mapsto> c))(p := None) | None \<Rightarrow> fs)"

text \<open>The host: its name, its temporary directory, an override, the hash, and a decompression that gives chunks and may fail.\<close>

record 'w Host =
  platformKey :: string
  tmpdir :: string
  POCKET_IC_BIN :: "string option"
  httpGet :: "'w http_get"
  digest :: "string \<Rightarrow> string"
  gunzip :: "string \<Rightarrow> string list \<times> bool"

definition cacheDir :: "'w Host \<Rightarrow> string" where
  "cacheDir H = tmpdir H @ ''/ssn-pocket-ic-'' @ SERVER_VERSION"

definition binPath :: "'w Host \<Rightarrow> string" where
  "binPath H = cacheDir H @ ''/pocket-ic''"

definition tmp_path :: "'w Host \<Rightarrow> nat \<Rightarrow> string" where
  "tmp_path H pid = binPath H @ ''.'' @ decimal pid @ ''.tmp''"

definition asset_url :: "Asset \<Rightarrow> string" where
  "asset_url entry =
     ''https://github.com/dfinity/pocketic/releases/download/'' @ SERVER_VERSION @ ''/'' @ asset entry"

definition gunzipTo :: "'w Host \<Rightarrow> string \<Rightarrow> string \<Rightarrow> FsOp list \<times> (js_error + unit)" where
  "gunzipTo H gz dest =
     (case gunzip H gz of (chunks, complete) \<Rightarrow>
        (Mkdir (cacheDir H) # Open dest # map (Append dest) chunks,
         if complete then Inr () else Inl (LibraryError ''unexpected end of file'')))"

text \<open>\<open>resolveBinary\<close> by the process \<open>pid\<close>, where \<open>exists\<close> is what it finds of the files it asks for: what it does, and how it ends.\<close>

definition fetch_binary :: "'w Host \<Rightarrow> nat \<Rightarrow> 'w \<Rightarrow> FsOp list \<times> 'w \<times> (js_error + string)" where
  "fetch_binary H pid w =
     (case ASSETS (platformKey H) of
        None \<Rightarrow> ([], w, Inl (Error (''No pinned pocket-ic-server '' @ SERVER_VERSION @ '' for platform '' @ platformKey H @ ''.'')))
      | Some entry \<Rightarrow>
          (case download (httpGet H) (asset_url entry) 0 w of
             (w', Inl err) \<Rightarrow> ([Mkdir (cacheDir H)], w', Inl err)
           | (w', Inr gz) \<Rightarrow>
               if digest H gz \<noteq> sha256 entry then
                 ([Mkdir (cacheDir H)], w',
                  Inl (Error (''pocket-ic-server '' @ SERVER_VERSION @ '' '' @ asset entry @ '' hash mismatch: expected '' @
                    sha256 entry @ '', got '' @ digest H gz)))
               else
                 let (ops, r) = gunzipTo H gz (tmp_path H pid) in
                 case r of
                   Inl err \<Rightarrow> (Mkdir (cacheDir H) # ops, w', Inl err)
                 | Inr _ \<Rightarrow>
                     (Mkdir (cacheDir H) # ops @ [Chmod (tmp_path H pid), Rename (tmp_path H pid) (binPath H)], w',
                      Inr (binPath H))))"

definition resolveBinary ::
    "'w Host \<Rightarrow> nat \<Rightarrow> (string \<Rightarrow> bool) \<Rightarrow> 'w \<Rightarrow> FsOp list \<times> 'w \<times> (js_error + string)" where
  "resolveBinary H pid exists w =
     (let override = (case POCKET_IC_BIN H of Some p \<Rightarrow> p | None \<Rightarrow> []) in
      if override \<noteq> [] then
        ([], w, if exists override then Inr override
                else Inl (Error (''POCKET_IC_BIN points at a missing file: '' @ override)))
      else if ASSETS (platformKey H) \<noteq> None \<and> exists (binPath H) then ([], w, Inr (binPath H))
      else fetch_binary H pid w)"

section \<open>Waiting for the port\<close>

text \<open>
  What one round of the loop sees: the clock, whether the server has exited, and the contents of the file it writes its
  port to. The result says whether the server was killed.
\<close>

record Probe =
  clock :: nat
  exitCode :: "int option"
  portText :: "string option"

definition PORT_POLL_TIMEOUT_MS :: nat where
  "PORT_POLL_TIMEOUT_MS = 30000"

definition PORT_POLL_INTERVAL_MS :: nat where
  "PORT_POLL_INTERVAL_MS = 100"

partial_function (option) pollPort :: "(nat \<Rightarrow> Probe) \<Rightarrow> nat \<Rightarrow> nat \<Rightarrow> (nat \<times> bool \<times> (js_error + string)) option" where
  "pollPort probe deadline i =
     (if clock (probe i) < deadline then
        (case exitCode (probe i) of
           Some code \<Rightarrow> Some (i, False, Inl (Error (''pocket-ic-server exited early with code '' @
             (if 0 \<le> code then decimal (nat code) else ''-'' @ decimal (nat (- code))))))
         | None \<Rightarrow>
             (case portText (probe i) of
                Some raw \<Rightarrow> if trim raw \<noteq> [] then Some (i, False, Inr (trim raw)) else pollPort probe deadline (i + 1)
              | None \<Rightarrow> pollPort probe deadline (i + 1)))
      else Some (i, True, Inl (Error (''pocket-ic-server did not report a port within '' @ decimal PORT_POLL_TIMEOUT_MS @ ''ms''))))"

text \<open>
  \<open>startPocketIcServer\<close>: the arguments the server is started with, and the address it is reached at. \<open>stop\<close> resolves when
  the server exits after it was called; a server that had exited before is not heard of again.
\<close>

definition server_args :: "string \<Rightarrow> string list" where
  "server_args portFile = [''--port-file'', portFile, ''--ttl'', decimal (60 * 60)]"

definition startPocketIcServer ::
    "'w Host \<Rightarrow> nat \<Rightarrow> (string \<Rightarrow> bool) \<Rightarrow> nat \<Rightarrow> (nat \<Rightarrow> Probe) \<Rightarrow> 'w \<Rightarrow> (FsOp list \<times> 'w \<times> (js_error + string)) option" where
  "startPocketIcServer H pid exists started probe w =
     (case resolveBinary H pid exists w of
        (ops, w', Inl err) \<Rightarrow> Some (ops, w', Inl err)
      | (ops, w', Inr bin) \<Rightarrow>
          map_option (\<lambda>(_, _, r). (ops, w', case r of Inl err \<Rightarrow> Inl err | Inr port \<Rightarrow> Inr (''http://127.0.0.1:'' @ port)))
            (pollPort probe (started + PORT_POLL_TIMEOUT_MS) 0))"

definition server_stop :: "bool \<Rightarrow> unit option" where
  "server_stop hasExited = (if hasExited then None else Some ())"

section \<open>A download ends\<close>

text \<open>The network with a log of the addresses it was asked for.\<close>

definition logged :: "'w http_get \<Rightarrow> ('w \<times> string list) http_get" where
  "logged get url wl = (case get url (fst wl) of (w', r) \<Rightarrow> ((w', snd wl @ [url]), r))"

definition is_redirect :: "Response \<Rightarrow> bool" where
  "is_redirect res \<longleftrightarrow> (\<exists>target. location res = Some target \<and> statusCode res \<ge> 300 \<and> statusCode res < 400 \<and> target \<noteq> [])"

lemma download_redirected:
  assumes "redirects \<le> 5" "get url w = (w', Inr res)" "is_redirect res"
  shows "download get url redirects w = download get (the (location res)) (redirects + 1) w'"
  using assms by (subst download.simps) (auto simp: is_redirect_def)

lemma download_here:
  assumes "redirects \<le> 5" "get url w = (w', Inr res)" "\<not> is_redirect res"
  shows "download get url redirects w =
    (w', if statusCode res = 200 then (case body res of Inl msg \<Rightarrow> Inl (LibraryError msg) | Inr b \<Rightarrow> Inr b)
         else Inl (Error (''GET '' @ url @ '' returned '' @ decimal (statusCode res))))"
  using assms by (subst download.simps) (auto simp: is_redirect_def split: option.splits)

lemma logged_download:
  "download (logged get) url redirects (w, log) = ((w', log'), r) \<Longrightarrow>
    length log' \<le> length log + (6 - redirects) \<and> take (length log) log' = log \<and>
    (\<forall>b. r = Inr b \<longrightarrow> log' \<noteq> [] \<and> (\<exists>w1 res. get (last log') w1 = (w', Inr res) \<and> statusCode res = 200 \<and> body res = Inr b))"
proof (induction "6 - redirects" arbitrary: redirects url w log)
  case 0
  then have "redirects > 5" by simp
  with 0 show ?case by (auto simp: download.simps)
next
  case (Suc n)
  then have le: "redirects \<le> 5" and n: "n = 6 - (redirects + 1)" by auto
  obtain w1 a where get: "get url w = (w1, a)" by (cases "get url w")
  then have lg: "logged get url (w, log) = ((w1, log @ [url]), a)" by (simp add: logged_def)
  show ?case
  proof (cases a)
    case (Inl msg)
    with Suc.prems le lg show ?thesis by (subst (asm) download.simps) auto
  next
    case (Inr res)
    note lg = lg [unfolded Inr]
    show ?thesis
    proof (cases "is_redirect res")
      case True
      from Suc.hyps(1) [OF n] Suc.prems [unfolded download_redirected [where get = "logged get", OF le lg True]]
      have ih: "length log' \<le> length (log @ [url]) + (6 - (redirects + 1))" "take (length (log @ [url])) log' = log @ [url]"
        "\<forall>b. r = Inr b \<longrightarrow> log' \<noteq> [] \<and> (\<exists>w1 res. get (last log') w1 = (w', Inr res) \<and> statusCode res = 200 \<and> body res = Inr b)"
        by blast+
      from ih(2) have "take (length log) (take (length log + 1) log') = take (length log) (log @ [url])" by simp
      then have "take (length log) log' = log" by (simp add: min_def)
      with ih le show ?thesis by simp
    next
      case False
      from Suc.prems [unfolded download_here [where get = "logged get", OF le lg False]] get Inr le show ?thesis
        by (auto split: if_splits sum.splits) blast+
    qed
  qed
qed

section \<open>The cache, whatever the processes do\<close>

text \<open>What a run of \<open>resolveBinary\<close> may do: it writes only the temporary file named after its process, and renames only that one.\<close>

definition own_op :: "'w Host \<Rightarrow> nat \<Rightarrow> FsOp \<Rightarrow> bool" where
  "own_op H pid oper =
     (case oper of
        Mkdir d \<Rightarrow> True
      | Open p \<Rightarrow> p = tmp_path H pid
      | Append p chunk \<Rightarrow> p = tmp_path H pid
      | Chmod p \<Rightarrow> p = tmp_path H pid
      | Rename p q \<Rightarrow> p = tmp_path H pid \<and> q = binPath H)"

lemma tmp_path_inj [simp]: "tmp_path H pid = tmp_path H pid' \<longleftrightarrow> pid = pid'"
  by (simp add: tmp_path_def)

lemma tmp_not_bin [simp]: "tmp_path H pid \<noteq> binPath H" "binPath H \<noteq> tmp_path H pid"
  by (simp_all add: tmp_path_def)

lemma own_op_elsewhere:
  assumes "own_op H pid oper" "p \<noteq> tmp_path H pid" "p \<noteq> binPath H"
  shows "fs_apply oper fs p = fs p"
  using assms by (cases oper) (auto simp: own_op_def split: option.splits)

lemma own_op_local:
  assumes "own_op H pid oper" "fs (tmp_path H pid) = fs' (tmp_path H pid)"
  shows "fs_apply oper fs (tmp_path H pid) = fs_apply oper fs' (tmp_path H pid)"
  using assms by (cases oper) (auto simp: own_op_def split: option.splits)

lemma own_op_bin:
  assumes "own_op H pid oper" "fs_apply oper fs (binPath H) \<noteq> fs (binPath H)"
  shows "oper = Rename (tmp_path H pid) (binPath H)" "fs_apply oper fs (binPath H) = fs (tmp_path H pid)"
  using assms by (cases oper; auto simp: own_op_def split: option.splits)+

lemma fold_append:
  "fs p = Some c \<Longrightarrow> fold fs_apply (map (Append p) chunks) fs p = Some (c @ concat chunks)"
  by (induction chunks arbitrary: fs c) auto

definition fetched_ops :: "'w Host \<Rightarrow> nat \<Rightarrow> string list \<Rightarrow> FsOp list" where
  "fetched_ops H pid chunks =
     Mkdir (cacheDir H) # Mkdir (cacheDir H) # Open (tmp_path H pid) # map (Append (tmp_path H pid)) chunks"

text \<open>The three ways a run goes: nothing is written, the decompression breaks off, or all of a verified asset is written and renamed.\<close>

lemma resolveBinary_ops:
  assumes "resolveBinary H pid exists w = (ops, w', r)"
  obtains (none) "ops = [] \<or> ops = [Mkdir (cacheDir H)]"
  | (broken) chunks where "ops = fetched_ops H pid chunks" "isl r"
  | (fetched) entry gz where "ASSETS (platformKey H) = Some entry" "digest H gz = sha256 entry" "snd (gunzip H gz)"
      "ops = fetched_ops H pid (fst (gunzip H gz)) @ [Chmod (tmp_path H pid), Rename (tmp_path H pid) (binPath H)]"
      "r = Inr (binPath H)"
  using assms
  by (auto simp: resolveBinary_def fetch_binary_def gunzipTo_def fetched_ops_def Let_def
      split: if_splits option.splits prod.splits sum.splits)

lemma resolveBinary_own:
  assumes "oper \<in> set (fst (resolveBinary H pid exists w))"
  shows "own_op H pid oper"
proof -
  obtain ops w' r where run: "resolveBinary H pid exists w = (ops, w', r)" by (metis prod_cases3)
  from run show ?thesis
  proof (cases rule: resolveBinary_ops)
  qed (use assms run in \<open>auto simp: fetched_ops_def own_op_def\<close>)
qed

lemma up_to_last:
  assumes "xs @ [x] = p @ y # ys" "y \<notin> set xs"
  shows "p = xs"
  using assms by (cases ys rule: rev_cases) auto

lemma resolveBinary_rename:
  assumes "prefix (p @ [Rename a b]) (fst (resolveBinary H pid exists w))"
  shows "\<exists>entry gz. ASSETS (platformKey H) = Some entry \<and> digest H gz = sha256 entry \<and> snd (gunzip H gz) \<and>
    fold fs_apply p fs (tmp_path H pid) = Some (concat (fst (gunzip H gz)))"
proof -
  obtain ops w' r where run: "resolveBinary H pid exists w = (ops, w', r)" by (metis prod_cases3)
  with assms have pre: "prefix (p @ [Rename a b]) ops" by simp
  then have mem: "Rename a b \<in> set ops" by (auto simp: prefix_def)
  from run show ?thesis
  proof (cases rule: resolveBinary_ops)
    case none
    with mem show ?thesis by auto
  next
    case (broken chunks)
    with mem show ?thesis by (auto simp: fetched_ops_def)
  next
    case (fetched entry gz)
    let ?f = "fetched_ops H pid (fst (gunzip H gz)) @ [Chmod (tmp_path H pid)]"
    from pre obtain rest where "ops = p @ Rename a b # rest" by (auto simp: prefix_def)
    with fetched have eq: "?f @ [Rename (tmp_path H pid) (binPath H)] = p @ Rename a b # rest" by simp
    have "Rename a b \<notin> set ?f" by (auto simp: fetched_ops_def)
    with eq have "p = ?f" by (rule up_to_last)
    then have "fold fs_apply p fs (tmp_path H pid) = Some (concat (fst (gunzip H gz)))"
      by (simp add: fetched_ops_def fold_append)
    with fetched show ?thesis by blast
  qed
qed

text \<open>Processes at work: which of them does what, in the order it happens.\<close>

definition ops_of :: "nat \<Rightarrow> (nat \<times> FsOp) list \<Rightarrow> FsOp list" where
  "ops_of pid evs = map snd (filter (\<lambda>e. fst e = pid) evs)"

definition disk_after :: "(nat \<times> FsOp) list \<Rightarrow> files \<Rightarrow> files" where
  "disk_after evs fs = fold (\<lambda>e. fs_apply (snd e)) evs fs"

lemma ops_of_simps [simp]:
  "ops_of pid [] = []"
  "ops_of pid (evs @ [(q, oper)]) = (if q = pid then ops_of pid evs @ [oper] else ops_of pid evs)"
  by (simp_all add: ops_of_def)

lemma disk_after_simps [simp]:
  "disk_after [] fs = fs"
  "disk_after (evs @ [(q, oper)]) fs = fs_apply oper (disk_after evs fs)"
  by (simp_all add: disk_after_def)

lemma disk_of_process:
  assumes "\<forall>(q, oper) \<in> set evs. own_op H q oper"
  shows "disk_after evs fs (tmp_path H pid) = fold fs_apply (ops_of pid evs) fs (tmp_path H pid)"
  using assms
proof (induction evs rule: rev_induct)
  case (snoc e evs)
  obtain q oper where e: "e = (q, oper)" by (cases e)
  from snoc have own: "own_op H q oper" and ih: "disk_after evs fs (tmp_path H pid) = fold fs_apply (ops_of pid evs) fs (tmp_path H pid)"
    by (auto simp: e)
  show ?case
  proof (cases "q = pid")
    case True
    with own have "own_op H pid oper" by simp
    from own_op_local [where fs = "disk_after evs fs" and fs' = "fold fs_apply (ops_of pid evs) fs", OF this ih] True
    show ?thesis by (simp add: e)
  next
    case False
    with own ih show ?thesis by (simp add: e own_op_elsewhere [of H q])
  qed
qed simp

definition verified_binary :: "'w Host \<Rightarrow> string \<Rightarrow> bool" where
  "verified_binary H c \<longleftrightarrow> (\<exists>entry gz. ASSETS (platformKey H) = Some entry \<and> digest H gz = sha256 entry \<and>
     snd (gunzip H gz) \<and> c = concat (fst (gunzip H gz)))"

text \<open>
  C33: Several processes start the server at once, each interrupted anywhere: the cached binary is absent or all of an asset with the
  pinned hash, whatever half-written temporary files earlier runs left behind.
\<close>

theorem cached_binary_verified:
  assumes runs: "\<forall>pid. \<exists>exists w. prefix (ops_of pid evs) (fst (resolveBinary H pid exists w))"
    and start: "fs (binPath H) = None"
    and found: "disk_after evs fs (binPath H) = Some c"
  shows "verified_binary H c"
  using runs found
proof (induction evs arbitrary: c rule: rev_induct)
  case Nil
  with start show ?case by simp
next
  case (snoc e evs)
  obtain q oper where e: "e = (q, oper)" by (cases e)
  have runs': "\<forall>pid. \<exists>exists w. prefix (ops_of pid evs) (fst (resolveBinary H pid exists w))"
  proof
    fix pid
    from snoc.prems(1) obtain exists w where "prefix (ops_of pid (evs @ [e])) (fst (resolveBinary H pid exists w))"
      by blast
    then show "\<exists>exists w. prefix (ops_of pid evs) (fst (resolveBinary H pid exists w))"
      by (auto simp: e split: if_splits dest: append_prefixD)
  qed
  have owned: "\<forall>(q, oper) \<in> set (evs @ [e]). own_op H q oper"
  proof clarify
    fix q' oper' assume "(q', oper') \<in> set (evs @ [e])"
    then have "oper' \<in> set (ops_of q' (evs @ [e]))" by (force simp: ops_of_def)
    moreover obtain exists w where "prefix (ops_of q' (evs @ [e])) (fst (resolveBinary H q' exists w))"
      using snoc.prems(1) by blast
    ultimately show "own_op H q' oper'" by (meson resolveBinary_own set_mono_prefix subsetD)
  qed
  show ?case
  proof (cases "disk_after (evs @ [e]) fs (binPath H) = disk_after evs fs (binPath H)")
    case True
    with snoc.IH [OF runs'] snoc.prems(2) show ?thesis by simp
  next
    case False
    with owned have oper: "oper = Rename (tmp_path H q) (binPath H)"
      and c: "disk_after (evs @ [e]) fs (binPath H) = disk_after evs fs (tmp_path H q)"
      using own_op_bin [of H q oper "disk_after evs fs"] by (auto simp: e)
    from snoc.prems(1) obtain exists w where "prefix (ops_of q evs @ [oper]) (fst (resolveBinary H q exists w))"
      by (metis (full_types) e ops_of_simps(2))
    from resolveBinary_rename [OF this [unfolded oper], of fs] c snoc.prems(2)
      disk_of_process [of evs H fs q] owned
    show ?thesis by (auto simp: verified_binary_def)
  qed
qed

section \<open>Witnesses and examples\<close>

text \<open>A host whose network has the pinned asset behind one redirect, and whose hash and decompression know only that asset.\<close>

definition pinned_host :: "unit Host" where
  "pinned_host = \<lparr>platformKey = ''linux-x64'', tmpdir = ''/tmp'', POCKET_IC_BIN = None,
     httpGet = (\<lambda>url w. (w, Inr (if url = ''https://cdn/pocket-ic.gz''
        then \<lparr>statusCode = 200, location = None, body = Inr ''gz''\<rparr>
        else \<lparr>statusCode = 302, location = Some ''https://cdn/pocket-ic.gz'', body = Inr []\<rparr>))),
     digest = (\<lambda>gz. if gz = ''gz'' then ''292c0b7fb7066c19de57bb731281f664f6af1ece0ef1462274000075b0ae8a2b'' else []),
     gunzip = (\<lambda>gz. ([''bi'', ''nary''], gz = ''gz''))\<rparr>"

definition two_runs :: "(nat \<times> FsOp) list" where
  "two_runs = (let tmp = (\<lambda>pid. ''/tmp/ssn-pocket-ic-14.0.0/pocket-ic.'' @ decimal pid @ ''.tmp'');
                   dir = ''/tmp/ssn-pocket-ic-14.0.0'' in
     [(7, Mkdir dir), (8, Mkdir dir), (8, Mkdir dir), (8, Open (tmp 8)), (7, Mkdir dir), (8, Append (tmp 8) ''bi''),
      (7, Open (tmp 7)), (7, Append (tmp 7) ''bi''), (8, Append (tmp 8) ''nary''), (8, Chmod (tmp 8)),
      (8, Rename (tmp 8) (dir @ ''/pocket-ic''))])"

lemma pinned_run:
  "fst (resolveBinary pinned_host pid (\<lambda>_. False) ()) =
     fetched_ops pinned_host pid [''bi'', ''nary''] @
       [Chmod (tmp_path pinned_host pid), Rename (tmp_path pinned_host pid) (binPath pinned_host)]"
  by (simp add: resolveBinary_def fetch_binary_def pinned_host_def ASSETS_def download.simps asset_url_def
      gunzipTo_def fetched_ops_def tmp_path_def binPath_def cacheDir_def SERVER_VERSION_def)

lemma two_runs_prefix:
  "prefix (ops_of pid two_runs) (fst (resolveBinary pinned_host pid (\<lambda>_. False) ()))"
  unfolding pinned_run
  by (simp add: two_runs_def ops_of_def Let_def fetched_ops_def tmp_path_def binPath_def cacheDir_def
      SERVER_VERSION_def) (simp add: pinned_host_def)

lemma two_runs_disk:
  "disk_after two_runs Map.empty (binPath pinned_host) = Some ''binary''"
  by (simp add: two_runs_def disk_after_def Let_def binPath_def cacheDir_def SERVER_VERSION_def pinned_host_def)

lemma cached_binary_verified_witness: "verified_binary pinned_host ''binary''"
  by (rule cached_binary_verified [OF _ _ two_runs_disk]) (use two_runs_prefix in blast, simp)

section \<open>The port is reported in time, or the server is gone\<close>

lemma pollPort_from:
  assumes tick: "\<And>i. clock (probe i) + PORT_POLL_INTERVAL_MS \<le> clock (probe (Suc i))"
    and "deadline \<le> clock (probe i) + n * PORT_POLL_INTERVAL_MS"
  shows "\<exists>j killed r. pollPort probe deadline i = Some (j, killed, r) \<and> j \<le> i + n \<and>
    (case r of Inr port \<Rightarrow> \<not> killed \<and> exitCode (probe j) = None \<and> port \<noteq> [] \<and> (\<exists>raw. portText (probe j) = Some raw \<and> port = trim raw)
             | Inl _ \<Rightarrow> killed \<or> exitCode (probe j) \<noteq> None)"
  using assms(2)
proof (induction n arbitrary: i)
  case 0
  then show ?case by (subst pollPort.simps) auto
next
  case (Suc n)
  from Suc.prems tick [of i] have "deadline \<le> clock (probe (i + 1)) + n * PORT_POLL_INTERVAL_MS" by simp
  from Suc.IH [OF this] show ?case
    by (subst pollPort.simps) (force split: option.split)
qed

theorem pollPort_settles:
  assumes "\<And>i. clock (probe i) + PORT_POLL_INTERVAL_MS \<le> clock (probe (Suc i))" "started \<le> clock (probe 0)"
  shows "\<exists>j killed r. pollPort probe (started + PORT_POLL_TIMEOUT_MS) 0 = Some (j, killed, r) \<and> j \<le> 300 \<and>
    (case r of Inr port \<Rightarrow> \<not> killed \<and> exitCode (probe j) = None \<and> port \<noteq> [] \<and> (\<exists>raw. portText (probe j) = Some raw \<and> port = trim raw)
             | Inl _ \<Rightarrow> killed \<or> exitCode (probe j) \<noteq> None)"
proof -
  have "started + PORT_POLL_TIMEOUT_MS \<le> clock (probe 0) + 300 * PORT_POLL_INTERVAL_MS"
    using assms(2) by (simp add: PORT_POLL_TIMEOUT_MS_def PORT_POLL_INTERVAL_MS_def)
  from pollPort_from [OF assms(1) this] show ?thesis by simp
qed

definition slow_server :: "nat \<Rightarrow> Probe" where
  "slow_server i = \<lparr>clock = 500 + 120 * i, exitCode = None, portText = (if i < 3 then None else Some ''4943'')\<rparr>"

lemma pollPort_settles_witness:
  "\<exists>j killed r. pollPort slow_server (490 + PORT_POLL_TIMEOUT_MS) 0 = Some (j, killed, r) \<and> j \<le> 300 \<and>
    (case r of Inr port \<Rightarrow> \<not> killed \<and> exitCode (slow_server j) = None \<and> port \<noteq> [] \<and>
                 (\<exists>raw. portText (slow_server j) = Some raw \<and> port = trim raw)
             | Inl _ \<Rightarrow> killed \<or> exitCode (slow_server j) \<noteq> None)"
  by (rule pollPort_settles) (simp_all add: slow_server_def PORT_POLL_INTERVAL_MS_def)

section \<open>Starting the server\<close>

theorem startPocketIcServer_ends:
  assumes "\<And>i. clock (probe i) + PORT_POLL_INTERVAL_MS \<le> clock (probe (Suc i))" "started \<le> clock (probe 0)"
  shows "\<exists>ops w' r. startPocketIcServer H pid exists started probe w = Some (ops, w', r) \<and>
    (\<forall>url. r = Inr url \<longrightarrow> (\<exists>j raw. j \<le> 300 \<and> exitCode (probe j) = None \<and> portText (probe j) = Some raw \<and> trim raw \<noteq> [] \<and>
       url = ''http://127.0.0.1:'' @ trim raw))"
proof -
  obtain ops w' r where run: "resolveBinary H pid exists w = (ops, w', r)" by (metis prod_cases3)
  have "started + PORT_POLL_TIMEOUT_MS \<le> clock (probe 0) + 300 * PORT_POLL_INTERVAL_MS"
    using assms(2) by (simp add: PORT_POLL_TIMEOUT_MS_def PORT_POLL_INTERVAL_MS_def)
  from pollPort_from [OF assms(1) this] obtain j killed q where
    "pollPort probe (started + PORT_POLL_TIMEOUT_MS) 0 = Some (j, killed, q)" "j \<le> 300"
    "case q of Inr port \<Rightarrow> \<not> killed \<and> exitCode (probe j) = None \<and> port \<noteq> [] \<and> (\<exists>raw. portText (probe j) = Some raw \<and> port = trim raw)
             | Inl _ \<Rightarrow> killed \<or> exitCode (probe j) \<noteq> None"
    by auto
  then show ?thesis
    by (cases r; cases q) (auto simp: startPocketIcServer_def run)
qed

end
