(* ===== verification/TestUtils.thy ===== *)
theory TestUtils
  imports ApiError "HOL-Library.Word"
begin

text \<open>
  The helpers of the integration tests, \<open>src/test-utils/src\<close>: consecutive canister ids (\<open>canister-id.ts\<close>), the answers a
  test expects (\<open>error.ts\<close>), times (\<open>time.ts\<close>) and the operations of the test driver (\<open>test-driver.ts\<close>). A principal is its
  bytes; the replica the driver talks to is a parameter.
\<close>

unbundle bit_operations_syntax

section \<open>Canister ids\<close>

type_synonym bytes = "8 word list"

text \<open>A \<open>DataView\<close> reads and writes eight bytes, the most significant first; reading past the end throws.\<close>

fun getBigUint64 :: "bytes \<Rightarrow> js_error + 64 word" where
  "getBigUint64 (b0 # b1 # b2 # b3 # b4 # b5 # b6 # b7 # _) =
     Inr (push_bit 56 (ucast b0) OR push_bit 48 (ucast b1) OR push_bit 40 (ucast b2) OR push_bit 32 (ucast b3) OR
       push_bit 24 (ucast b4) OR push_bit 16 (ucast b5) OR push_bit 8 (ucast b6) OR ucast b7)"
| "getBigUint64 _ = Inl (LibraryError ''Offset is outside the bounds of the DataView'')"

definition setBigUint64 :: "64 word \<Rightarrow> bytes" where
  "setBigUint64 w = map (\<lambda>k. ucast (drop_bit k w)) [56, 48, 40, 32, 24, 16, 8, 0]"

text \<open>\<open>nextU64\<close> is a \<open>bigint\<close>, of which the view keeps 64 bits.\<close>

definition incrementCanisterId :: "bytes \<Rightarrow> int \<Rightarrow> js_error + bytes" where
  "incrementCanisterId canisterId steps =
     (case getBigUint64 canisterId of
        Inl err \<Rightarrow> Inl err
      | Inr currentU64 \<Rightarrow> Inr (setBigUint64 (word_of_int (uint currentU64 + steps)) @ [0x01, 0x01]))"

lemma eight_bytes:
  assumes "8 \<le> length bs"
  obtains b0 b1 b2 b3 b4 b5 b6 b7 rest where "bs = b0 # b1 # b2 # b3 # b4 # b5 # b6 # b7 # rest"
  using assms by (auto simp: numeral_eq_Suc Suc_le_length_iff)

lemma getBigUint64_ok: "(\<exists>w. getBigUint64 bs = Inr w) \<longleftrightarrow> 8 \<le> length bs"
proof
  assume "8 \<le> length bs"
  then show "\<exists>w. getBigUint64 bs = Inr w" by (rule eight_bytes) auto
qed (induction bs rule: getBigUint64.induct; simp)

lemma byte_cases:
  assumes "n < (64::nat)"
  shows "n < 8 \<or> (8 \<le> n \<and> n < 16) \<or> (16 \<le> n \<and> n < 24) \<or> (24 \<le> n \<and> n < 32) \<or> (32 \<le> n \<and> n < 40) \<or> (40 \<le> n \<and> n < 48) \<or>
    (48 \<le> n \<and> n < 56) \<or> 56 \<le> n"
  using assms by linarith

lemma below_byte: "n - k < (b::nat) \<longleftrightarrow> 0 < b \<and> n < b + k"
  by arith

lemma get_set [simp]: "getBigUint64 (setBigUint64 w @ rest) = Inr w"
proof -
  let ?r = "(push_bit 56 (ucast (ucast (drop_bit 56 w) :: 8 word)) :: 64 word) OR push_bit 48 (ucast (ucast (drop_bit 48 w) :: 8 word)) OR
    push_bit 40 (ucast (ucast (drop_bit 40 w) :: 8 word)) OR push_bit 32 (ucast (ucast (drop_bit 32 w) :: 8 word)) OR
    push_bit 24 (ucast (ucast (drop_bit 24 w) :: 8 word)) OR push_bit 16 (ucast (ucast (drop_bit 16 w) :: 8 word)) OR
    push_bit 8 (ucast (ucast (drop_bit 8 w) :: 8 word)) OR ucast (ucast w :: 8 word)"
  have "?r = w"
  proof (rule bit_word_eqI)
    fix n :: nat
    assume n: "n < LENGTH(64)"
    then have "n < 64" by simp
    from byte_cases [OF this] this show "bit ?r n = bit w n"
      by (elim disjE) (simp_all add: bit_simps below_byte)
  qed
  then show ?thesis by (simp add: setBigUint64_def)
qed

lemma byte_of:
  assumes "\<And>n. n < 8 \<Longrightarrow> bit w (k + n) = bit b n"
  shows "ucast (drop_bit k (w :: 64 word)) = (b :: 8 word)"
  by (rule bit_word_eqI) (use assms in \<open>auto simp: bit_simps dest: bit_imp_le_length\<close>)

lemma set_get: "getBigUint64 bs = Inr w \<Longrightarrow> setBigUint64 w = take 8 bs"
proof -
  assume get: "getBigUint64 bs = Inr w"
  then have "8 \<le> length bs" using getBigUint64_ok by blast
  then obtain b0 b1 b2 b3 b4 b5 b6 b7 rest where bs: "bs = b0 # b1 # b2 # b3 # b4 # b5 # b6 # b7 # rest"
    by (rule eight_bytes)
  with get have w: "w = push_bit 56 (ucast b0) OR push_bit 48 (ucast b1) OR push_bit 40 (ucast b2) OR push_bit 32 (ucast b3) OR
       push_bit 24 (ucast b4) OR push_bit 16 (ucast b5) OR push_bit 8 (ucast b6) OR ucast b7" by simp
  have "ucast (drop_bit 56 w) = b0" "ucast (drop_bit 48 w) = b1" "ucast (drop_bit 40 w) = b2" "ucast (drop_bit 32 w) = b3"
    "ucast (drop_bit 24 w) = b4" "ucast (drop_bit 16 w) = b5" "ucast (drop_bit 8 w) = b6" "ucast (drop_bit 0 w) = b7"
    by (rule byte_of; auto simp: w bit_simps dest: bit_imp_le_length)+
  then show ?thesis by (simp add: setBigUint64_def bs)
qed

lemma incrementCanisterId_adds:
  "incrementCanisterId c n = Inr d \<longleftrightarrow> (\<exists>w. getBigUint64 c = Inr w \<and> d = setBigUint64 (w + word_of_int n) @ [0x01, 0x01])"
  by (auto simp: incrementCanisterId_def wi_hom_add [symmetric] split: sum.splits)

lemma increment_of_set [simp]:
  "incrementCanisterId (setBigUint64 w @ rest) n = Inr (setBigUint64 (w + word_of_int n) @ [0x01, 0x01])"
  by (auto simp: incrementCanisterId_adds)

lemma setBigUint64_inj [simp]: "setBigUint64 v = setBigUint64 w \<longleftrightarrow> v = w"
  by (metis get_set sum.inject(2))

text \<open>
  Counting on is counting once, also past the largest 64-bit number, where it goes on from 0; a count of multiples of
  \<open>2 ^ 64\<close>, and only such a one, leads canonical to an id with the two bytes every canister id ends with.
\<close>

theorem incrementCanisterId_composes:
  assumes "incrementCanisterId c m = Inr d"
  shows "incrementCanisterId d n = incrementCanisterId c (m + n)"
    and "length c = 10 \<Longrightarrow> drop 8 c = [0x01, 0x01] \<Longrightarrow> incrementCanisterId d (- m) = Inr c"
    and "length c = 10 \<Longrightarrow> drop 8 c = [0x01, 0x01] \<Longrightarrow> d = c \<longleftrightarrow> 2 ^ 64 dvd m"
proof -
  from assms obtain w where w: "getBigUint64 c = Inr w" and d: "d = setBigUint64 (w + word_of_int m) @ [0x01, 0x01]"
    by (auto simp: incrementCanisterId_adds)
  have counted: "incrementCanisterId c k = Inr (setBigUint64 (w + word_of_int k) @ [0x01, 0x01])" for k
    using w by (simp add: incrementCanisterId_adds)
  show "incrementCanisterId d n = incrementCanisterId c (m + n)"
    unfolding counted d increment_of_set by (simp add: wi_hom_add [symmetric] add.assoc)
  assume c: "length c = 10" "drop 8 c = [0x01, 0x01]"
  then have canonical: "c = setBigUint64 w @ [0x01, 0x01]"
    by (metis append_take_drop_id set_get w)
  show "incrementCanisterId d (- m) = Inr c"
    unfolding d increment_of_set canonical by (simp add: wi_hom_neg [symmetric])
  show "d = c \<longleftrightarrow> 2 ^ 64 dvd m"
    unfolding d canonical by (simp add: word_of_int_eq_0_iff)
qed

section \<open>The ranges of canister ids of a subnet\<close>

definition range_end :: "int \<Rightarrow> bytes \<Rightarrow> js_error + bytes" where
  "range_end rangeSize start = incrementCanisterId start (max 0 (rangeSize - 1))"

definition getSubnetCanisterRanges :: "bytes list list \<Rightarrow> int \<Rightarrow> js_error + (bytes \<times> bytes) list" where
  "getSubnetCanisterRanges subnets rangeSize =
     (case subnets of
        [] \<Rightarrow> Inl (Error ''An application subnet was not created by pocket ic'')
      | canisterRanges # _ \<Rightarrow> map_throwing (\<lambda>start. map_sum id (Pair start) (range_end rangeSize start)) canisterRanges)"

text \<open>
  A range of \<open>n\<close> ids, from its start to its end, has \<open>n\<close> of them, each reached by counting from the start; a range of
  none has one.
\<close>

theorem range_end_counts:
  assumes start: "getBigUint64 start = Inr w" and size: "0 < rangeSize" "rangeSize \<le> 2 ^ 64"
  shows "range_end rangeSize start = incrementCanisterId start (rangeSize - 1)"
    and "card ((\<lambda>i. incrementCanisterId start i) ` {0..<rangeSize}) = nat rangeSize"
proof -
  show "range_end rangeSize start = incrementCanisterId start (rangeSize - 1)"
    using size by (simp add: range_end_def)
  have counted: "incrementCanisterId start k = Inr (setBigUint64 (w + word_of_int k) @ [0x01, 0x01])" for k
    using start by (simp add: incrementCanisterId_adds)
  have "inj_on (\<lambda>i. incrementCanisterId start i) {0..<rangeSize}"
  proof (rule inj_onI)
    fix i j
    assume i: "i \<in> {0..<rangeSize}" and j: "j \<in> {0..<rangeSize}" and "incrementCanisterId start i = incrementCanisterId start j"
    then have "word_of_int i = (word_of_int j :: 64 word)" by (simp add: counted)
    then have "i mod 2 ^ 64 = j mod 2 ^ 64" by (simp add: word_of_int_eq_iff take_bit_eq_mod)
    with i j size show "i = j" by simp
  qed
  then show "card ((\<lambda>i. incrementCanisterId start i) ` {0..<rangeSize}) = nat rangeSize"
    by (simp add: card_image)
qed

lemma empty_range_has_one: "range_end 0 start = range_end 1 start"
  by (simp add: range_end_def)

section \<open>Expected answers (error.ts) and times (time.ts)\<close>

definition extractErrResponse :: "('a, 'err) response \<Rightarrow> js_error + 'err" where
  "extractErrResponse response = (case response of Err err \<Rightarrow> Inr err | Ok _ \<Rightarrow> Inl (Error ''Expected `err` response''))"

definition extractOkResponse :: "('a, 'err) response \<Rightarrow> js_error + 'a" where
  "extractOkResponse response = (case response of Ok x \<Rightarrow> Inr x | Err _ \<Rightarrow> Inl (Error ''Expected `ok` response''))"

lemma extract_exclusive: "isl (extractErrResponse response) \<longleftrightarrow> \<not> isl (extractOkResponse response)"
  by (cases response) (simp_all add: extractErrResponse_def extractOkResponse_def)

text \<open>The tests agree with the client: what the client hands on is what a test extracts.\<close>

lemma extractOkResponse_mapOkResponse:
  "extractOkResponse response = Inr x \<longleftrightarrow> mapOkResponse response = Inr x"
  by (cases response) (simp_all add: extractOkResponse_def)

definition minutesToMilliseconds :: "int \<Rightarrow> int" where
  "minutesToMilliseconds minutes = minutes * 60 * 1000"

definition hoursToMilliseconds :: "int \<Rightarrow> int" where
  "hoursToMilliseconds hours = minutesToMilliseconds (hours * 60)"

definition millisecondsToNanoseconds :: "int \<Rightarrow> int" where
  "millisecondsToNanoseconds milliseconds = milliseconds * 1000000"

section \<open>The test driver\<close>

text \<open>The replica of the tests: the calls of the driver, each of which may be rejected. \<open>'p\<close> are its principals.\<close>

record ('w, 'p) Replica =
  pic_createCanister :: "'p \<Rightarrow> 'w \<Rightarrow> 'w \<times> (js_error + 'p)"
  pic_updateControllers :: "'p \<Rightarrow> 'p \<Rightarrow> 'p list \<Rightarrow> 'w \<Rightarrow> 'w \<times> (js_error + unit)"
  generateRandomPrincipal :: "'w \<Rightarrow> 'w \<times> 'p"
  controllerPrincipal :: 'p

fun createCanisters_from :: "('w, 'p) Replica \<Rightarrow> nat \<Rightarrow> 'p list \<Rightarrow> 'w \<Rightarrow> 'w \<times> (js_error + 'p list)" where
  "createCanisters_from R 0 canisterIds w = (w, Inr canisterIds)"
| "createCanisters_from R (Suc n) canisterIds w =
     (case pic_createCanister R (controllerPrincipal R) w of
        (w', Inl err) \<Rightarrow> (w', Inl err)
      | (w', Inr canisterId) \<Rightarrow> createCanisters_from R n (canisterIds @ [canisterId]) w')"

definition createCanisters :: "('w, 'p) Replica \<Rightarrow> int \<Rightarrow> 'w \<Rightarrow> 'w \<times> (js_error + 'p list)" where
  "createCanisters R numCanisters = createCanisters_from R (nat numCanisters) []"

fun createControllerChanges_from ::
    "('w, 'p) Replica \<Rightarrow> 'p \<Rightarrow> 'p list \<Rightarrow> nat \<Rightarrow> 'w \<Rightarrow> 'w \<times> (js_error + unit)" where
  "createControllerChanges_from R canisterId controllers 0 w = (w, Inr ())"
| "createControllerChanges_from R canisterId controllers (Suc n) w =
     (case generateRandomPrincipal R w of
        (w', additionalController) \<Rightarrow>
          (case pic_updateControllers R canisterId (controllerPrincipal R) (controllers @ [additionalController]) w' of
             (w'', Inl err) \<Rightarrow> (w'', Inl err)
           | (w'', Inr _) \<Rightarrow> createControllerChanges_from R canisterId controllers n w''))"

definition createControllerChanges ::
    "('w, 'p) Replica \<Rightarrow> 'p \<Rightarrow> int \<Rightarrow> 'p list option \<Rightarrow> 'w \<Rightarrow> 'w \<times> (js_error + unit)" where
  "createControllerChanges R canisterId numChanges controllers =
     createControllerChanges_from R canisterId
       (case controllers of Some cs \<Rightarrow> cs | None \<Rightarrow> [controllerPrincipal R]) (nat numChanges)"

lemma createCanisters_from_count:
  "createCanisters_from R n ids w = (w', Inr ids') \<Longrightarrow> \<exists>new. ids' = ids @ new \<and> length new = n"
proof (induction n arbitrary: ids w)
  case (Suc n)
  then obtain w1 c where "createCanisters_from R n (ids @ [c]) w1 = (w', Inr ids')"
    by (auto split: prod.splits sum.splits)
  from Suc.IH [OF this] show ?case by auto
qed simp

theorem createCanisters_count:
  "createCanisters R n w = (w', Inr ids) \<Longrightarrow> length ids = nat n"
  unfolding createCanisters_def by (drule createCanisters_from_count) auto

text \<open>
  Each change replaces the controllers of the one before, so that however many changes are made, a canister ends with
  the given controllers and one more, which is drawn last. The replica here keeps what it was told.
\<close>

definition keeping_replica :: "(nat \<times> nat list, nat) Replica" where
  "keeping_replica = \<lparr>pic_createCanister = (\<lambda>_ w. ((fst w + 1, snd w), Inr (fst w))),
     pic_updateControllers = (\<lambda>_ _ cs w. ((fst w, cs), Inr ())),
     generateRandomPrincipal = (\<lambda>w. ((fst w + 1, snd w), fst w)), controllerPrincipal = 0\<rparr>"

lemma changes_replace:
  "createControllerChanges_from keeping_replica c cs (Suc n) (k, old) = ((k + Suc n, cs @ [k + n]), Inr ())"
proof (induction n arbitrary: k old)
  case (Suc n)
  have "createControllerChanges_from keeping_replica c cs (Suc (Suc n)) (k, old) =
    createControllerChanges_from keeping_replica c cs (Suc n) (Suc k, cs @ [k])"
    by (subst createControllerChanges_from.simps) (simp add: keeping_replica_def del: createControllerChanges_from.simps)
  then show ?case by (simp add: Suc.IH del: createControllerChanges_from.simps)
qed (simp add: keeping_replica_def)

end
